(* ===== verification/Prelude.thy ===== *)
theory Prelude
  imports Complex_Main "HOL-Library.Word" "HOL-Library.State_Monad" "HOL-Library.Monad_Syntax"
begin

text \<open>
  Shared vocabulary of the development: the byte and identifier types, the errors of the
  JavaScript runtime, the few pieces of the JavaScript standard library the client uses
  (decimal rendering of a size, typed-array views), collections of rewrite rules, and the
  generic lemmas on lists, maps and state-monad programs the components share.
\<close>

section \<open>Types\<close>

type_synonym byte = "8 word"
type_synonym client_id = "32 word"
type_synonym bytes = "byte list"

text \<open>
  The errors the runtime itself throws here: a typed-array view outside its buffer, and a method
  call on \<open>null\<close>.
\<close>

datatype js_error = RangeError | TypeError

text \<open>
  What a promise is rejected with: an \<open>Error\<close> with its message, a plain string, or some other
  object such as an event, carried as its text.
\<close>

datatype thrown = JsError string | JsString string | JsObject string

section \<open>Collections of facts\<close>

named_theorems run_simps \<open>evaluation of state-monad programs\<close>
named_theorems page_simps \<open>evaluation of the demo page's handlers\<close>
named_theorems store_simps \<open>evaluation of the client store's operations\<close>
named_theorems proxy_simps \<open>evaluation of the proxy hub's operations\<close>

named_theorems msg_defs \<open>definitions of the generated message builders\<close>

section \<open>State-monad programs\<close>

declare State_Monad.run_state_bind [simp del]

lemma run_bind [run_simps, simp]:
  "run_state (x \<bind> f) s = run_state (f (fst (run_state x s))) (snd (run_state x s))"
  by (cases x) (simp add: State_Monad.bind_def split: prod.splits)

lemma run_return [run_simps, simp]: "run_state (State_Monad.return a) s = (a, s)"
  by (simp add: State_Monad.return_def)

lemma run_modify [run_simps, simp]: "run_state (State (\<lambda>s. (a s, f s))) s = (a s, f s)"
  by simp

section \<open>JavaScript standard library\<close>

text \<open>\<open>String(n)\<close> of a non-negative integer, as template literals render it.\<close>

definition js_digit :: "nat \<Rightarrow> char" where
  "js_digit d = char_of (48 + d)"

fun js_nat_string :: "nat \<Rightarrow> string" where
  "js_nat_string n =
     (if n < 10 then [js_digit n] else js_nat_string (n div 10) @ [js_digit (n mod 10)])"

declare js_nat_string.simps [simp del]

text \<open>
  \<open>new Uint8Array(buffer, byteOffset, length)\<close>: a view of a part of an array buffer. The
  constructor throws a \<open>RangeError\<close> when the part does not lie inside the buffer.
\<close>

definition uint8_view :: "bytes \<Rightarrow> int \<Rightarrow> int \<Rightarrow> js_error + bytes" where
  "uint8_view buf off len =
     (if 0 \<le> off \<and> 0 \<le> len \<and> off + len \<le> int (length buf)
      then Inr (take (nat len) (drop (nat off) buf)) else Inl RangeError)"

section \<open>Lists\<close>

lemma take_drop_append:
  assumes "length xs = n" and "length ys = k"
  shows "take k (drop n (xs @ ys @ zs)) = ys"
  using assms by simp

lemma length_concat_chunks:
  assumes "\<And>i. i < n \<Longrightarrow> length (f i) = k"
  shows "length (concat (map f [0..<n])) = k * n"
  using assms by (induction n) auto

lemma nth_concat_chunks:
  assumes "\<And>i. i < n \<Longrightarrow> length (f i) = k" and "i < n" and "j < k"
  shows "concat (map f [0..<n]) ! (k * i + j) = f i ! j"
  using assms
proof (induction n)
  case 0
  then show ?case by simp
next
  case (Suc n)
  have len: "length (concat (map f [0..<n])) = k * n"
    by (rule length_concat_chunks) (simp add: Suc.prems(1))
  show ?case
  proof (cases "i < n")
    case True
    have "k * i + j < k * Suc i" using Suc.prems(3) by simp
    also have "\<dots> \<le> k * n" using True by (intro mult_le_mono2) simp
    finally have "k * i + j < k * n" .
    then show ?thesis using Suc True by (simp add: nth_append len)
  next
    case False
    then have "i = n" using Suc.prems by simp
    then show ?thesis using Suc.prems(3) by (simp add: nth_append len)
  qed
qed

lemma distinct_filter_le1: "distinct (map f xs) \<Longrightarrow> length (filter (\<lambda>x. f x = k) xs) \<le> 1"
proof (induction xs)
  case (Cons x xs)
  show ?case
  proof (cases "f x = k")
    case True
    then have "filter (\<lambda>x. f x = k) xs = []" using Cons.prems by (auto simp: filter_empty_conv image_iff)
    then show ?thesis using True by simp
  qed (use Cons in simp)
qed simp

end
