(* ===== verification/Flatbuffers.thy ===== *)
theory Flatbuffers
  imports Prelude
begin

text \<open>
  The interface of the \<open>flatbuffers\<close> package. The package is not part of the repository, so
  its two classes are parameters of the model: \<open>ByteBuffer\<close> is a record of read operations on
  an abstract buffer type, \<open>Builder\<close> a record of state-monad operations on an abstract
  builder state. The locale \<open>flatbuffers\<close> states the documented behaviour the generated
  message classes rely on: a builder accumulates strings, vectors and tables and hands out
  offsets for them, and a buffer over the finished bytes reads back, through the virtual table
  of each object, exactly the fields that were added. Every law is conditional on the builder
  being in the right mode and on the finished buffer staying below two gigabytes, the limit of
  the format's 32-bit offsets.
\<close>

section \<open>The two classes as parameters\<close>

text \<open>\<open>'bb\<close>: buffer objects; \<open>'f\<close>: floating-point numbers as JavaScript holds them.\<close>

record ('bb, 'f) fb_reader =
  newByteBuffer :: "bytes \<Rightarrow> 'bb"
  readInt8 :: "'bb \<Rightarrow> int \<Rightarrow> int"
  readUint8 :: "'bb \<Rightarrow> int \<Rightarrow> int"
  readInt32 :: "'bb \<Rightarrow> int \<Rightarrow> int"
  readUint32 :: "'bb \<Rightarrow> int \<Rightarrow> int"
  readFloat32 :: "'bb \<Rightarrow> int \<Rightarrow> 'f"
  position :: "'bb \<Rightarrow> int"
  setPosition :: "'bb \<Rightarrow> int \<Rightarrow> 'bb"
  fb_offset :: "'bb \<Rightarrow> int \<Rightarrow> int \<Rightarrow> int"
  fb_union :: "'bb \<Rightarrow> int \<Rightarrow> int"
  fb_string :: "'bb \<Rightarrow> int \<Rightarrow> string"
  fb_vector :: "'bb \<Rightarrow> int \<Rightarrow> int"
  fb_vector_len :: "'bb \<Rightarrow> int \<Rightarrow> int"
  fb_buffer :: "'bb \<Rightarrow> bytes"
  fb_byteOffset :: "'bb \<Rightarrow> int"

record ('s, 'f) fb_builder =
  newBuilder :: "int \<Rightarrow> 's"
  startObject :: "int \<Rightarrow> ('s, unit) state"
  addFieldInt8 :: "int \<Rightarrow> int \<Rightarrow> int \<Rightarrow> ('s, unit) state"
  addFieldInt32 :: "int \<Rightarrow> int \<Rightarrow> int \<Rightarrow> ('s, unit) state"
  addFieldFloat32 :: "int \<Rightarrow> 'f \<Rightarrow> 'f \<Rightarrow> ('s, unit) state"
  addFieldOffset :: "int \<Rightarrow> int \<Rightarrow> int \<Rightarrow> ('s, unit) state"
  endObject :: "('s, int) state"
  startVector :: "int \<Rightarrow> int \<Rightarrow> int \<Rightarrow> ('s, unit) state"
  addInt8 :: "int \<Rightarrow> ('s, unit) state"
  endVector :: "('s, int) state"
  prep :: "int \<Rightarrow> int \<Rightarrow> ('s, unit) state"
  pad :: "int \<Rightarrow> ('s, unit) state"
  writeInt8 :: "int \<Rightarrow> ('s, unit) state"
  writeFloat32 :: "'f \<Rightarrow> ('s, unit) state"
  builderOffset :: "('s, int) state"
  createString :: "string \<Rightarrow> ('s, int) state"
  createByteVector :: "bytes \<Rightarrow> ('s, int) state"
  finish :: "int \<Rightarrow> bool \<Rightarrow> ('s, unit) state"
  asUint8Array :: "'s \<Rightarrow> bytes"

text \<open>
  A generated message object is a buffer and a position in it. \<open>__init\<close> and
  \<open>ByteBuffer.__union\<close> overwrite both fields of the object they are given, so an object that
  has not been initialised yet carries no information and is not represented.
\<close>

record 'bb fb_table =
  bb :: 'bb
  bb_pos :: int

definition SIZE_PREFIX_LENGTH :: int where
  "SIZE_PREFIX_LENGTH = 4"

text \<open>
  The loop of the generated vector builders: \<open>for (let i = data.length - 1; i >= 0; i--)\<close>
  \<open>builder.addInt8(data[i])\<close>. The argument \<open>Suc i\<close> is the loop variable before the test.
\<close>

fun addInt8Loop :: "('s, 'f) fb_builder \<Rightarrow> int list \<Rightarrow> nat \<Rightarrow> ('s, unit) state" where
  "addInt8Loop B data 0 = State_Monad.return ()"
| "addInt8Loop B data (Suc i) = do { addInt8 B (data ! i); addInt8Loop B data i }"

section \<open>What a builder holds\<close>

text \<open>A field of a table: a scalar, or the offset of another object of the same builder.\<close>

datatype 'f fb_val = FInt8 int | FInt32 int | FFloat 'f | FRef int

text \<open>The scalars of a vector, in the order of their addresses.\<close>

datatype 'f fb_cell = CInt8 int | CFloat 'f | CPad

fun cell_size :: "'f fb_cell \<Rightarrow> nat" where
  "cell_size (CInt8 v) = 1"
| "cell_size (CFloat v) = 4"
| "cell_size CPad = 1"

definition cells_size :: "'f fb_cell list \<Rightarrow> nat" where
  "cells_size cs = sum_list (map cell_size cs)"

lemma cells_size_simps [simp]:
  "cells_size [] = 0"
  "cells_size (c # cs) = cell_size c + cells_size cs"
  "cells_size (xs @ ys) = cells_size xs + cells_size ys"
  "cells_size (replicate n CPad) = n"
  by (simp_all add: cells_size_def sum_list_replicate)

datatype 'f fb_node =
    FString string
  | FVec int "'f fb_cell list"
  | FTable int "int \<Rightarrow> 'f fb_val option"

datatype 'f fb_mode =
    Idle
  | InTable int "int \<Rightarrow> 'f fb_val option"
  | InVector int int "'f fb_cell list"

text \<open>The cells of a byte vector.\<close>

definition byte_cells :: "bytes \<Rightarrow> 'f fb_cell list" where
  "byte_cells bs = map (\<lambda>b. CInt8 (uint b)) bs"

section \<open>The contract\<close>

locale flatbuffers =
  fixes B :: "('s, 'f::zero) fb_builder"
    and R :: "('bb, 'f) fb_reader"
    and valid :: "'s \<Rightarrow> bool"
    and mode :: "'s \<Rightarrow> 'f fb_mode"
    and nodes :: "'s \<Rightarrow> int \<Rightarrow> 'f fb_node option"
    and addr :: "'s \<Rightarrow> int \<Rightarrow> int"
    and views :: "'s \<Rightarrow> 'bb \<Rightarrow> bool"
    and fround :: "'f \<Rightarrow> 'f"
    and feq :: "'f \<Rightarrow> 'f \<Rightarrow> bool"
  assumes new_builder:
      "valid (newBuilder B n)" "mode (newBuilder B n) = Idle" "nodes (newBuilder B n) = Map.empty"
    and nodes_nonzero: "valid s \<Longrightarrow> nodes s p = Some nd \<Longrightarrow> p \<noteq> 0"
    and create_string:
      "valid s \<Longrightarrow> mode s = Idle \<Longrightarrow> run_state (createString B str) s = (p, s') \<Longrightarrow>
       valid s' \<and> mode s' = Idle \<and> nodes s p = None \<and> nodes s' = (nodes s)(p \<mapsto> FString str)"
    and create_byte_vector:
      "valid s \<Longrightarrow> mode s = Idle \<Longrightarrow> run_state (createByteVector B bs) s = (p, s') \<Longrightarrow>
       valid s' \<and> mode s' = Idle \<and> nodes s p = None \<and>
       nodes s' = (nodes s)(p \<mapsto> FVec (int (length bs)) (byte_cells bs))"
    and start_object:
      "valid s \<Longrightarrow> mode s = Idle \<Longrightarrow> 0 \<le> n \<Longrightarrow> n \<le> 4096 \<Longrightarrow>
       run_state (startObject B n) s = (u, s') \<Longrightarrow>
       valid s' \<and> mode s' = InTable n Map.empty \<and> nodes s' = nodes s"
    and add_field_int8:
      "valid s \<Longrightarrow> mode s = InTable n fs \<Longrightarrow> 0 \<le> i \<Longrightarrow> i < n \<Longrightarrow>
       run_state (addFieldInt8 B i v d) s = (u, s') \<Longrightarrow>
       valid s' \<and> nodes s' = nodes s \<and>
       mode s' = InTable n (if v = d then fs else fs(i \<mapsto> FInt8 v))"
    and add_field_int32:
      "valid s \<Longrightarrow> mode s = InTable n fs \<Longrightarrow> 0 \<le> i \<Longrightarrow> i < n \<Longrightarrow>
       run_state (addFieldInt32 B i v d) s = (u, s') \<Longrightarrow>
       valid s' \<and> nodes s' = nodes s \<and>
       mode s' = InTable n (if v = d then fs else fs(i \<mapsto> FInt32 v))"
    and add_field_float32:
      "valid s \<Longrightarrow> mode s = InTable n fs \<Longrightarrow> 0 \<le> i \<Longrightarrow> i < n \<Longrightarrow>
       run_state (addFieldFloat32 B i x df) s = (u, s') \<Longrightarrow>
       valid s' \<and> nodes s' = nodes s \<and>
       mode s' = InTable n (if feq x df then fs else fs(i \<mapsto> FFloat (fround x)))"
    and add_field_offset:
      "valid s \<Longrightarrow> mode s = InTable n fs \<Longrightarrow> 0 \<le> i \<Longrightarrow> i < n \<Longrightarrow>
       p = 0 \<or> nodes s p \<noteq> None \<Longrightarrow>
       run_state (addFieldOffset B i p 0) s = (u, s') \<Longrightarrow>
       valid s' \<and> nodes s' = nodes s \<and>
       mode s' = InTable n (if p = 0 then fs else fs(i \<mapsto> FRef p))"
    and end_object:
      "valid s \<Longrightarrow> mode s = InTable n fs \<Longrightarrow> run_state (endObject B) s = (p, s') \<Longrightarrow>
       valid s' \<and> mode s' = Idle \<and> nodes s p = None \<and> nodes s' = (nodes s)(p \<mapsto> FTable n fs)"
    and start_vector:
      "valid s \<Longrightarrow> mode s = Idle \<Longrightarrow> 0 \<le> n \<Longrightarrow> run_state (startVector B sz n al) s = (u, s') \<Longrightarrow>
       valid s' \<and> mode s' = InVector n al [] \<and> nodes s' = nodes s"
    and add_int8:
      "valid s \<Longrightarrow> mode s = InVector n al cs \<Longrightarrow> run_state (addInt8 B v) s = (u, s') \<Longrightarrow>
       valid s' \<and> mode s' = InVector n al (CInt8 v # cs) \<and> nodes s' = nodes s"
    and prep_aligned:
      "valid s \<Longrightarrow> mode s = InVector n al cs \<Longrightarrow> sz dvd al \<Longrightarrow> sz dvd int (cells_size cs) + add \<Longrightarrow>
       run_state (prep B sz add) s = (u, s') \<Longrightarrow>
       valid s' \<and> mode s' = mode s \<and> nodes s' = nodes s"
    and pad:
      "valid s \<Longrightarrow> mode s = InVector n al cs \<Longrightarrow> run_state (pad B k) s = (u, s') \<Longrightarrow>
       valid s' \<and> mode s' = InVector n al (replicate (nat k) CPad @ cs) \<and> nodes s' = nodes s"
    and write_int8:
      "valid s \<Longrightarrow> mode s = InVector n al cs \<Longrightarrow> run_state (writeInt8 B v) s = (u, s') \<Longrightarrow>
       valid s' \<and> mode s' = InVector n al (CInt8 v # cs) \<and> nodes s' = nodes s"
    and write_float32:
      "valid s \<Longrightarrow> mode s = InVector n al cs \<Longrightarrow> run_state (writeFloat32 B x) s = (u, s') \<Longrightarrow>
       valid s' \<and> mode s' = InVector n al (CFloat (fround x) # cs) \<and> nodes s' = nodes s"
    and builder_offset: "snd (run_state (builderOffset B) s) = s"
    and end_vector:
      "valid s \<Longrightarrow> mode s = InVector n al cs \<Longrightarrow> run_state (endVector B) s = (p, s') \<Longrightarrow>
       valid s' \<and> mode s' = Idle \<and> nodes s p = None \<and> nodes s' = (nodes s)(p \<mapsto> FVec n cs)"
    and finish_nodes:
      "valid s \<Longrightarrow> mode s = Idle \<Longrightarrow> nodes s p \<noteq> None \<Longrightarrow>
       run_state (finish B p pre) s = (u, s') \<Longrightarrow> nodes s' = nodes s"
    and finish_views:
      "valid s \<Longrightarrow> mode s = Idle \<Longrightarrow> nodes s p \<noteq> None \<Longrightarrow>
       run_state (finish B p pre) s = (u, s') \<Longrightarrow> length (asUint8Array B s') < 2 ^ 31 \<Longrightarrow>
       views s' (newByteBuffer R (asUint8Array B s'))"
    and finish_root:
      "valid s \<Longrightarrow> mode s = Idle \<Longrightarrow> nodes s p \<noteq> None \<Longrightarrow>
       run_state (finish B p False) s = (u, s') \<Longrightarrow> length (asUint8Array B s') < 2 ^ 31 \<Longrightarrow>
       b = newByteBuffer R (asUint8Array B s') \<Longrightarrow>
       readInt32 R b (position R b) + position R b = addr s' p"
    and finish_root_prefixed:
      "valid s \<Longrightarrow> mode s = Idle \<Longrightarrow> nodes s p \<noteq> None \<Longrightarrow>
       run_state (finish B p True) s = (u, s') \<Longrightarrow> length (asUint8Array B s') < 2 ^ 31 \<Longrightarrow>
       b = newByteBuffer R (asUint8Array B s') \<Longrightarrow>
       b' = setPosition R b (position R b + SIZE_PREFIX_LENGTH) \<Longrightarrow>
       readInt32 R b' (position R b') + position R b' = addr s' p"
    and views_setPosition: "views s b \<Longrightarrow> views s (setPosition R b k)"
    and offset_absent:
      "views s b \<Longrightarrow> nodes s p = Some (FTable n fs) \<Longrightarrow> 0 \<le> i \<Longrightarrow> i < n \<Longrightarrow> fs i = None \<Longrightarrow>
       fb_offset R b (addr s p) (4 + 2 * i) = 0"
    and offset_present:
      "views s b \<Longrightarrow> nodes s p = Some (FTable n fs) \<Longrightarrow> 0 \<le> i \<Longrightarrow> i < n \<Longrightarrow> fs i = Some fv \<Longrightarrow>
       fb_offset R b (addr s p) (4 + 2 * i) \<noteq> 0"
    and read_uint8:
      "views s b \<Longrightarrow> nodes s p = Some (FTable n fs) \<Longrightarrow> 0 \<le> i \<Longrightarrow> i < n \<Longrightarrow> fs i = Some (FInt8 v) \<Longrightarrow>
       readUint8 R b (addr s p + fb_offset R b (addr s p) (4 + 2 * i)) = v mod 256"
    and read_int8:
      "views s b \<Longrightarrow> nodes s p = Some (FTable n fs) \<Longrightarrow> 0 \<le> i \<Longrightarrow> i < n \<Longrightarrow> fs i = Some (FInt8 v) \<Longrightarrow>
       - 128 \<le> v \<Longrightarrow> v < 128 \<Longrightarrow>
       readInt8 R b (addr s p + fb_offset R b (addr s p) (4 + 2 * i)) = v"
    and read_uint32:
      "views s b \<Longrightarrow> nodes s p = Some (FTable n fs) \<Longrightarrow> 0 \<le> i \<Longrightarrow> i < n \<Longrightarrow> fs i = Some (FInt32 v) \<Longrightarrow>
       readUint32 R b (addr s p + fb_offset R b (addr s p) (4 + 2 * i)) = v mod 2 ^ 32"
    and read_float32:
      "views s b \<Longrightarrow> nodes s p = Some (FTable n fs) \<Longrightarrow> 0 \<le> i \<Longrightarrow> i < n \<Longrightarrow> fs i = Some (FFloat x) \<Longrightarrow>
       readFloat32 R b (addr s p + fb_offset R b (addr s p) (4 + 2 * i)) = x"
    and read_union:
      "views s b \<Longrightarrow> nodes s p = Some (FTable n fs) \<Longrightarrow> 0 \<le> i \<Longrightarrow> i < n \<Longrightarrow> fs i = Some (FRef q) \<Longrightarrow>
       nodes s q = Some (FTable m gs) \<Longrightarrow>
       fb_union R b (addr s p + fb_offset R b (addr s p) (4 + 2 * i)) = addr s q"
    and read_string:
      "views s b \<Longrightarrow> nodes s p = Some (FTable n fs) \<Longrightarrow> 0 \<le> i \<Longrightarrow> i < n \<Longrightarrow> fs i = Some (FRef q) \<Longrightarrow>
       nodes s q = Some (FString str) \<Longrightarrow>
       fb_string R b (addr s p + fb_offset R b (addr s p) (4 + 2 * i)) = str"
    and read_vector_len:
      "views s b \<Longrightarrow> nodes s p = Some (FTable n fs) \<Longrightarrow> 0 \<le> i \<Longrightarrow> i < n \<Longrightarrow> fs i = Some (FRef q) \<Longrightarrow>
       nodes s q = Some (FVec k cs) \<Longrightarrow> k \<le> int (cells_size cs) \<Longrightarrow>
       fb_vector_len R b (addr s p + fb_offset R b (addr s p) (4 + 2 * i)) = k"
    and read_vector_float32:
      "views s b \<Longrightarrow> nodes s p = Some (FTable n fs) \<Longrightarrow> 0 \<le> i \<Longrightarrow> i < n \<Longrightarrow> fs i = Some (FRef q) \<Longrightarrow>
       nodes s q = Some (FVec k (xs @ CFloat x # ys)) \<Longrightarrow>
       readFloat32 R b (fb_vector R b (addr s p + fb_offset R b (addr s p) (4 + 2 * i)) +
         int (cells_size xs)) = x"
    and read_vector_int8:
      "views s b \<Longrightarrow> nodes s p = Some (FTable n fs) \<Longrightarrow> 0 \<le> i \<Longrightarrow> i < n \<Longrightarrow> fs i = Some (FRef q) \<Longrightarrow>
       nodes s q = Some (FVec k (xs @ CInt8 v # ys)) \<Longrightarrow> - 128 \<le> v \<Longrightarrow> v < 128 \<Longrightarrow>
       readInt8 R b (fb_vector R b (addr s p + fb_offset R b (addr s p) (4 + 2 * i)) +
         int (cells_size xs)) = v"
    and read_vector_uint8:
      "views s b \<Longrightarrow> nodes s p = Some (FTable n fs) \<Longrightarrow> 0 \<le> i \<Longrightarrow> i < n \<Longrightarrow> fs i = Some (FRef q) \<Longrightarrow>
       nodes s q = Some (FVec k (xs @ CInt8 v # ys)) \<Longrightarrow>
       readUint8 R b (fb_vector R b (addr s p + fb_offset R b (addr s p) (4 + 2 * i)) +
         int (cells_size xs)) = v mod 256"
    and read_vector_bytes:
      "views s b \<Longrightarrow> nodes s p = Some (FTable n fs) \<Longrightarrow> 0 \<le> i \<Longrightarrow> i < n \<Longrightarrow> fs i = Some (FRef q) \<Longrightarrow>
       nodes s q = Some (FVec (int (length bs)) (byte_cells bs)) \<Longrightarrow>
       uint8_view (fb_buffer R b)
         (fb_byteOffset R b + fb_vector R b (addr s p + fb_offset R b (addr s p) (4 + 2 * i)))
         (int (length bs)) = Inr bs"

section \<open>The contract as rewrite rules\<close>

text \<open>
  The laws restated as unconditional-looking equations on \<open>mode\<close> and \<open>nodes\<close>, so that the
  simplifier runs a builder program step by step: \<open>set_slot\<close> and \<open>push\<close> are what an operation
  does to the object under construction, \<open>slot_ok\<close> its precondition.
\<close>

fun slot_ok :: "int \<Rightarrow> 'f fb_mode \<Rightarrow> bool" where
  "slot_ok i (InTable n fs) = (0 \<le> i \<and> i < n)"
| "slot_ok i m = False"

fun set_slot :: "int \<Rightarrow> 'f fb_val \<Rightarrow> 'f fb_mode \<Rightarrow> 'f fb_mode" where
  "set_slot i v (InTable n fs) = InTable n (fs(i \<mapsto> v))"
| "set_slot i v m = m"

fun push :: "'f fb_cell list \<Rightarrow> 'f fb_mode \<Rightarrow> 'f fb_mode" where
  "push cs (InVector n al ds) = InVector n al (cs @ ds)"
| "push cs m = m"

fun in_vector :: "'f fb_mode \<Rightarrow> bool" where
  "in_vector (InVector n al cs) = True"
| "in_vector m = False"

fun in_table :: "'f fb_mode \<Rightarrow> bool" where
  "in_table (InTable n fs) = True"
| "in_table m = False"

lemma in_table_simps [simp]:
  "in_table (set_slot i v m) = in_table m" "slot_ok j (set_slot i v m) = slot_ok j m"
  "in_vector (push cs m) = in_vector m"
  by (cases m; simp)+

fun object_of :: "'f fb_mode \<Rightarrow> 'f fb_node" where
  "object_of (InTable n fs) = FTable n fs"
| "object_of (InVector n al cs) = FVec n cs"
| "object_of Idle = FString []"

context flatbuffers
begin

lemma start_object_run [simp]:
  assumes "valid s" and "mode s = Idle" and "0 \<le> n" and "n \<le> 4096"
  shows "valid (snd (run_state (startObject B n) s))"
    and "mode (snd (run_state (startObject B n) s)) = InTable n Map.empty"
    and "nodes (snd (run_state (startObject B n) s)) = nodes s"
  using start_object [OF assms, of "()" "snd (run_state (startObject B n) s)"]
  by (auto simp: prod_eq_iff)

lemma add_field_int8_run [simp]:
  assumes "valid s" and "slot_ok i (mode s)"
  shows "valid (snd (run_state (addFieldInt8 B i v d) s))"
    and "mode (snd (run_state (addFieldInt8 B i v d) s)) =
      (if v = d then mode s else set_slot i (FInt8 v) (mode s))"
    and "nodes (snd (run_state (addFieldInt8 B i v d) s)) = nodes s"
  using assms add_field_int8 [of s _ _ i v d "()" "snd (run_state (addFieldInt8 B i v d) s)"]
  by (cases "mode s"; auto simp: prod_eq_iff)+

lemma add_field_int32_run [simp]:
  assumes "valid s" and "slot_ok i (mode s)"
  shows "valid (snd (run_state (addFieldInt32 B i v d) s))"
    and "mode (snd (run_state (addFieldInt32 B i v d) s)) =
      (if v = d then mode s else set_slot i (FInt32 v) (mode s))"
    and "nodes (snd (run_state (addFieldInt32 B i v d) s)) = nodes s"
  using assms add_field_int32 [of s _ _ i v d "()" "snd (run_state (addFieldInt32 B i v d) s)"]
  by (cases "mode s"; auto simp: prod_eq_iff)+

lemma add_field_float32_run [simp]:
  assumes "valid s" and "slot_ok i (mode s)"
  shows "valid (snd (run_state (addFieldFloat32 B i x df) s))"
    and "mode (snd (run_state (addFieldFloat32 B i x df) s)) =
      (if feq x df then mode s else set_slot i (FFloat (fround x)) (mode s))"
    and "nodes (snd (run_state (addFieldFloat32 B i x df) s)) = nodes s"
  using assms add_field_float32 [of s _ _ i x df "()" "snd (run_state (addFieldFloat32 B i x df) s)"]
  by (cases "mode s"; auto simp: prod_eq_iff)+

lemma add_field_offset_run [simp]:
  assumes "valid s" and "slot_ok i (mode s)" and "p = 0 \<or> nodes s p \<noteq> None"
  shows "valid (snd (run_state (addFieldOffset B i p 0) s))"
    and "mode (snd (run_state (addFieldOffset B i p 0) s)) =
      (if p = 0 then mode s else set_slot i (FRef p) (mode s))"
    and "nodes (snd (run_state (addFieldOffset B i p 0) s)) = nodes s"
  using assms add_field_offset [of s _ _ i p "()" "snd (run_state (addFieldOffset B i p 0) s)"]
  by (cases "mode s"; auto simp: prod_eq_iff)+

lemma end_object_run [simp]:
  assumes "valid s" and "in_table (mode s)"
  shows "valid (snd (run_state (endObject B) s))"
    and "mode (snd (run_state (endObject B) s)) = Idle"
    and "nodes (snd (run_state (endObject B) s)) =
      (nodes s)(fst (run_state (endObject B) s) \<mapsto> object_of (mode s))"
    and "nodes s (fst (run_state (endObject B) s)) = None"
  using assms end_object [of s _ _ "fst (run_state (endObject B) s)" "snd (run_state (endObject B) s)"]
  by (cases "mode s"; auto simp: prod_eq_iff)+

lemma start_vector_run [simp]:
  assumes "valid s" and "mode s = Idle" and "0 \<le> n"
  shows "valid (snd (run_state (startVector B sz n al) s))"
    and "mode (snd (run_state (startVector B sz n al) s)) = InVector n al []"
    and "nodes (snd (run_state (startVector B sz n al) s)) = nodes s"
  using start_vector [OF assms, of sz al "()" "snd (run_state (startVector B sz n al) s)"]
  by (auto simp: prod_eq_iff)

lemma add_int8_run [simp]:
  assumes "valid s" and "in_vector (mode s)"
  shows "valid (snd (run_state (addInt8 B v) s))"
    and "mode (snd (run_state (addInt8 B v) s)) = push [CInt8 v] (mode s)"
    and "nodes (snd (run_state (addInt8 B v) s)) = nodes s"
  using assms add_int8 [of s _ _ _ v "()" "snd (run_state (addInt8 B v) s)"]
  by (cases "mode s"; auto simp: prod_eq_iff)+

lemma prep_run [simp]:
  assumes "valid s" and "mode s = InVector n al cs" and "sz dvd al" and "sz dvd int (cells_size cs) + k"
  shows "valid (snd (run_state (prep B sz k) s))"
    and "mode (snd (run_state (prep B sz k) s)) = mode s"
    and "nodes (snd (run_state (prep B sz k) s)) = nodes s"
  using prep_aligned [OF assms, of "()" "snd (run_state (prep B sz k) s)"] by (auto simp: prod_eq_iff)

lemma pad_run [simp]:
  assumes "valid s" and "in_vector (mode s)"
  shows "valid (snd (run_state (pad B k) s))"
    and "mode (snd (run_state (pad B k) s)) = push (replicate (nat k) CPad) (mode s)"
    and "nodes (snd (run_state (pad B k) s)) = nodes s"
  using assms pad [of s _ _ _ k "()" "snd (run_state (pad B k) s)"]
  by (cases "mode s"; auto simp: prod_eq_iff)+

lemma write_int8_run [simp]:
  assumes "valid s" and "in_vector (mode s)"
  shows "valid (snd (run_state (writeInt8 B v) s))"
    and "mode (snd (run_state (writeInt8 B v) s)) = push [CInt8 v] (mode s)"
    and "nodes (snd (run_state (writeInt8 B v) s)) = nodes s"
  using assms write_int8 [of s _ _ _ v "()" "snd (run_state (writeInt8 B v) s)"]
  by (cases "mode s"; auto simp: prod_eq_iff)+

lemma write_float32_run [simp]:
  assumes "valid s" and "in_vector (mode s)"
  shows "valid (snd (run_state (writeFloat32 B x) s))"
    and "mode (snd (run_state (writeFloat32 B x) s)) = push [CFloat (fround x)] (mode s)"
    and "nodes (snd (run_state (writeFloat32 B x) s)) = nodes s"
  using assms write_float32 [of s _ _ _ x "()" "snd (run_state (writeFloat32 B x) s)"]
  by (cases "mode s"; auto simp: prod_eq_iff)+

lemmas builder_offset_run [simp] = builder_offset

lemma end_vector_run [simp]:
  assumes "valid s" and "in_vector (mode s)"
  shows "valid (snd (run_state (endVector B) s))"
    and "mode (snd (run_state (endVector B) s)) = Idle"
    and "nodes (snd (run_state (endVector B) s)) =
      (nodes s)(fst (run_state (endVector B) s) \<mapsto> object_of (mode s))"
    and "nodes s (fst (run_state (endVector B) s)) = None"
  using assms end_vector [of s _ _ _ "fst (run_state (endVector B) s)" "snd (run_state (endVector B) s)"]
  by (cases "mode s"; auto simp: prod_eq_iff)+

lemma create_string_run [simp]:
  assumes "valid s" and "mode s = Idle"
  shows "valid (snd (run_state (createString B str) s))"
    and "mode (snd (run_state (createString B str) s)) = Idle"
    and "nodes (snd (run_state (createString B str) s)) =
      (nodes s)(fst (run_state (createString B str) s) \<mapsto> FString str)"
    and "nodes s (fst (run_state (createString B str) s)) = None"
  using create_string [OF assms, of str "fst (run_state (createString B str) s)"
      "snd (run_state (createString B str) s)"]
  by (auto simp: prod_eq_iff)

lemma create_byte_vector_run [simp]:
  assumes "valid s" and "mode s = Idle"
  shows "valid (snd (run_state (createByteVector B bs) s))"
    and "mode (snd (run_state (createByteVector B bs) s)) = Idle"
    and "nodes (snd (run_state (createByteVector B bs) s)) =
      (nodes s)(fst (run_state (createByteVector B bs) s) \<mapsto> FVec (int (length bs)) (byte_cells bs))"
    and "nodes s (fst (run_state (createByteVector B bs) s)) = None"
  using create_byte_vector [OF assms, of bs "fst (run_state (createByteVector B bs) s)"
      "snd (run_state (createByteVector B bs) s)"]
  by (auto simp: prod_eq_iff)

lemmas new_builder_run [simp] = new_builder

lemma nodes_zero [simp]: "valid s \<Longrightarrow> nodes s 0 = None"
  using nodes_nonzero [of s 0] by (cases "nodes s 0") auto

end

end
