(* ===== verification/Game_Messages.thy ===== *)
theory Game_Messages
  imports Flatbuffers
begin

text \<open>
  The application messages of the demo game, \<open>examples/hello-spanreed/client/src/gen/hello-spanreed\<close>:
  one group of definitions per generated class, in the order of its methods. Enumerations are
  datatypes with the numbers the wire carries and the reverse lookup that TypeScript numeric
  enumerations have; accessors read through the virtual table and fall back to the default;
  builder methods are state-monad programs over the builder parameter.
\<close>

section \<open>Definitions\<close>

subsection \<open>\<open>color.ts\<close>\<close>

datatype Color = Color_Red | Color_Green | Color_Blue | Color_Indigo | Color_FireOrange

fun Color_num :: "Color \<Rightarrow> int" where
  "Color_num Color_Red = 0"
| "Color_num Color_Green = 1"
| "Color_num Color_Blue = 2"
| "Color_num Color_Indigo = 3"
| "Color_num Color_FireOrange = 4"

definition Color_at :: "int \<Rightarrow> Color option" where
  "Color_at n =
     (if n = 0 then Some Color_Red
      else if n = 1 then Some Color_Green
      else if n = 2 then Some Color_Blue
      else if n = 3 then Some Color_Indigo
      else if n = 4 then Some Color_FireOrange
      else None)"

subsection \<open>\<open>user-message.ts\<close>\<close>

datatype UserMessage = UserMessage_NONE | UserMessage_UserConnectMessage | UserMessage_UserClickMessage | UserMessage_UserChatMessage | UserMessage_UserPingMessage

fun UserMessage_num :: "UserMessage \<Rightarrow> int" where
  "UserMessage_num UserMessage_NONE = 0"
| "UserMessage_num UserMessage_UserConnectMessage = 1"
| "UserMessage_num UserMessage_UserClickMessage = 2"
| "UserMessage_num UserMessage_UserChatMessage = 3"
| "UserMessage_num UserMessage_UserPingMessage = 4"

definition UserMessage_at :: "int \<Rightarrow> UserMessage option" where
  "UserMessage_at n =
     (if n = 0 then Some UserMessage_NONE
      else if n = 1 then Some UserMessage_UserConnectMessage
      else if n = 2 then Some UserMessage_UserClickMessage
      else if n = 3 then Some UserMessage_UserChatMessage
      else if n = 4 then Some UserMessage_UserPingMessage
      else None)"

definition unionToUserMessage :: "int \<Rightarrow> (UserMessage \<Rightarrow> 'bb fb_table option) \<Rightarrow> 'bb fb_table option" where
  "unionToUserMessage type accessor =
     (case UserMessage_at type of
        Some UserMessage_NONE \<Rightarrow> None
      | Some UserMessage_UserConnectMessage \<Rightarrow> accessor UserMessage_UserConnectMessage
      | Some UserMessage_UserClickMessage \<Rightarrow> accessor UserMessage_UserClickMessage
      | Some UserMessage_UserChatMessage \<Rightarrow> accessor UserMessage_UserChatMessage
      | Some UserMessage_UserPingMessage \<Rightarrow> accessor UserMessage_UserPingMessage
      | None \<Rightarrow> None)"

definition unionListToUserMessage ::
  "int \<Rightarrow> (int \<Rightarrow> UserMessage \<Rightarrow> 'bb fb_table option) \<Rightarrow> int \<Rightarrow> 'bb fb_table option" where
  "unionListToUserMessage type accessor index =
     (case UserMessage_at type of
        Some UserMessage_NONE \<Rightarrow> None
      | Some UserMessage_UserConnectMessage \<Rightarrow> accessor index UserMessage_UserConnectMessage
      | Some UserMessage_UserClickMessage \<Rightarrow> accessor index UserMessage_UserClickMessage
      | Some UserMessage_UserChatMessage \<Rightarrow> accessor index UserMessage_UserChatMessage
      | Some UserMessage_UserPingMessage \<Rightarrow> accessor index UserMessage_UserPingMessage
      | None \<Rightarrow> None)"

subsection \<open>\<open>message.ts\<close>\<close>

datatype Message = Message_NONE | Message_ServerChatMessage | Message_ServerGameStateMessage

fun Message_num :: "Message \<Rightarrow> int" where
  "Message_num Message_NONE = 0"
| "Message_num Message_ServerChatMessage = 1"
| "Message_num Message_ServerGameStateMessage = 2"

definition Message_at :: "int \<Rightarrow> Message option" where
  "Message_at n =
     (if n = 0 then Some Message_NONE
      else if n = 1 then Some Message_ServerChatMessage
      else if n = 2 then Some Message_ServerGameStateMessage
      else None)"

definition unionToMessage :: "int \<Rightarrow> (Message \<Rightarrow> 'bb fb_table option) \<Rightarrow> 'bb fb_table option" where
  "unionToMessage type accessor =
     (case Message_at type of
        Some Message_NONE \<Rightarrow> None
      | Some Message_ServerChatMessage \<Rightarrow> accessor Message_ServerChatMessage
      | Some Message_ServerGameStateMessage \<Rightarrow> accessor Message_ServerGameStateMessage
      | None \<Rightarrow> None)"

definition unionListToMessage ::
  "int \<Rightarrow> (int \<Rightarrow> Message \<Rightarrow> 'bb fb_table option) \<Rightarrow> int \<Rightarrow> 'bb fb_table option" where
  "unionListToMessage type accessor index =
     (case Message_at type of
        Some Message_NONE \<Rightarrow> None
      | Some Message_ServerChatMessage \<Rightarrow> accessor index Message_ServerChatMessage
      | Some Message_ServerGameStateMessage \<Rightarrow> accessor index Message_ServerGameStateMessage
      | None \<Rightarrow> None)"

subsection \<open>\<open>user-connect-message.ts\<close>\<close>

definition UserConnectMessage_init :: "int \<Rightarrow> 'bb \<Rightarrow> 'bb fb_table" where
  "UserConnectMessage_init i b = \<lparr>bb = b, bb_pos = i\<rparr>"

definition getRootAsUserConnectMessage :: "('bb, 'f) fb_reader \<Rightarrow> 'bb \<Rightarrow> 'bb fb_table" where
  "getRootAsUserConnectMessage R b = UserConnectMessage_init (readInt32 R b (position R b) + position R b) b"

definition getSizePrefixedRootAsUserConnectMessage :: "('bb, 'f) fb_reader \<Rightarrow> 'bb \<Rightarrow> 'bb fb_table" where
  "getSizePrefixedRootAsUserConnectMessage R b =
     (let b' = setPosition R b (position R b + SIZE_PREFIX_LENGTH)
      in UserConnectMessage_init (readInt32 R b' (position R b') + position R b') b')"

definition UserConnectMessage_name :: "('bb, 'f) fb_reader \<Rightarrow> 'bb fb_table \<Rightarrow> string option" where
  "UserConnectMessage_name R t =
     (let offset = fb_offset R (bb t) (bb_pos t) 4
      in if offset \<noteq> 0 then Some (fb_string R (bb t) (bb_pos t + offset)) else None)"

definition startUserConnectMessage :: "('s, 'f) fb_builder \<Rightarrow> ('s, unit) state" where
  "startUserConnectMessage B = startObject B 1"

definition UserConnectMessage_addName :: "('s, 'f) fb_builder \<Rightarrow> int \<Rightarrow> ('s, unit) state" where
  "UserConnectMessage_addName B nameOffset = addFieldOffset B 0 nameOffset 0"

definition endUserConnectMessage :: "('s, 'f) fb_builder \<Rightarrow> ('s, int) state" where
  "endUserConnectMessage B = endObject B"

definition createUserConnectMessage :: "('s, 'f) fb_builder \<Rightarrow> int \<Rightarrow> ('s, int) state" where
  "createUserConnectMessage B nameOffset =
     do { startUserConnectMessage B;
          UserConnectMessage_addName B nameOffset;
          endUserConnectMessage B }"

subsection \<open>\<open>user-click-message.ts\<close>\<close>

definition UserClickMessage_init :: "int \<Rightarrow> 'bb \<Rightarrow> 'bb fb_table" where
  "UserClickMessage_init i b = \<lparr>bb = b, bb_pos = i\<rparr>"

definition getRootAsUserClickMessage :: "('bb, 'f) fb_reader \<Rightarrow> 'bb \<Rightarrow> 'bb fb_table" where
  "getRootAsUserClickMessage R b = UserClickMessage_init (readInt32 R b (position R b) + position R b) b"

definition getSizePrefixedRootAsUserClickMessage :: "('bb, 'f) fb_reader \<Rightarrow> 'bb \<Rightarrow> 'bb fb_table" where
  "getSizePrefixedRootAsUserClickMessage R b =
     (let b' = setPosition R b (position R b + SIZE_PREFIX_LENGTH)
      in UserClickMessage_init (readInt32 R b' (position R b') + position R b') b')"

definition UserClickMessage_x :: "('bb, 'f::zero) fb_reader \<Rightarrow> 'bb fb_table \<Rightarrow> 'f" where
  "UserClickMessage_x R t =
     (let offset = fb_offset R (bb t) (bb_pos t) 4
      in if offset \<noteq> 0 then readFloat32 R (bb t) (bb_pos t + offset) else 0)"

definition UserClickMessage_y :: "('bb, 'f::zero) fb_reader \<Rightarrow> 'bb fb_table \<Rightarrow> 'f" where
  "UserClickMessage_y R t =
     (let offset = fb_offset R (bb t) (bb_pos t) 6
      in if offset \<noteq> 0 then readFloat32 R (bb t) (bb_pos t + offset) else 0)"

definition startUserClickMessage :: "('s, 'f) fb_builder \<Rightarrow> ('s, unit) state" where
  "startUserClickMessage B = startObject B 2"

definition UserClickMessage_addX :: "('s, 'f::zero) fb_builder \<Rightarrow> 'f \<Rightarrow> ('s, unit) state" where
  "UserClickMessage_addX B x = addFieldFloat32 B 0 x 0"

definition UserClickMessage_addY :: "('s, 'f::zero) fb_builder \<Rightarrow> 'f \<Rightarrow> ('s, unit) state" where
  "UserClickMessage_addY B y = addFieldFloat32 B 1 y 0"

definition endUserClickMessage :: "('s, 'f) fb_builder \<Rightarrow> ('s, int) state" where
  "endUserClickMessage B = endObject B"

definition createUserClickMessage :: "('s, 'f::zero) fb_builder \<Rightarrow> 'f \<Rightarrow> 'f \<Rightarrow> ('s, int) state" where
  "createUserClickMessage B x y =
     do { startUserClickMessage B;
          UserClickMessage_addX B x;
          UserClickMessage_addY B y;
          endUserClickMessage B }"

subsection \<open>\<open>user-chat-message.ts\<close>\<close>

definition UserChatMessage_init :: "int \<Rightarrow> 'bb \<Rightarrow> 'bb fb_table" where
  "UserChatMessage_init i b = \<lparr>bb = b, bb_pos = i\<rparr>"

definition getRootAsUserChatMessage :: "('bb, 'f) fb_reader \<Rightarrow> 'bb \<Rightarrow> 'bb fb_table" where
  "getRootAsUserChatMessage R b = UserChatMessage_init (readInt32 R b (position R b) + position R b) b"

definition getSizePrefixedRootAsUserChatMessage :: "('bb, 'f) fb_reader \<Rightarrow> 'bb \<Rightarrow> 'bb fb_table" where
  "getSizePrefixedRootAsUserChatMessage R b =
     (let b' = setPosition R b (position R b + SIZE_PREFIX_LENGTH)
      in UserChatMessage_init (readInt32 R b' (position R b') + position R b') b')"

definition UserChatMessage_text :: "('bb, 'f) fb_reader \<Rightarrow> 'bb fb_table \<Rightarrow> string option" where
  "UserChatMessage_text R t =
     (let offset = fb_offset R (bb t) (bb_pos t) 4
      in if offset \<noteq> 0 then Some (fb_string R (bb t) (bb_pos t + offset)) else None)"

definition startUserChatMessage :: "('s, 'f) fb_builder \<Rightarrow> ('s, unit) state" where
  "startUserChatMessage B = startObject B 1"

definition UserChatMessage_addText :: "('s, 'f) fb_builder \<Rightarrow> int \<Rightarrow> ('s, unit) state" where
  "UserChatMessage_addText B textOffset = addFieldOffset B 0 textOffset 0"

definition endUserChatMessage :: "('s, 'f) fb_builder \<Rightarrow> ('s, int) state" where
  "endUserChatMessage B = endObject B"

definition createUserChatMessage :: "('s, 'f) fb_builder \<Rightarrow> int \<Rightarrow> ('s, int) state" where
  "createUserChatMessage B textOffset =
     do { startUserChatMessage B;
          UserChatMessage_addText B textOffset;
          endUserChatMessage B }"

subsection \<open>\<open>user-ping-message.ts\<close>\<close>

definition UserPingMessage_init :: "int \<Rightarrow> 'bb \<Rightarrow> 'bb fb_table" where
  "UserPingMessage_init i b = \<lparr>bb = b, bb_pos = i\<rparr>"

definition getRootAsUserPingMessage :: "('bb, 'f) fb_reader \<Rightarrow> 'bb \<Rightarrow> 'bb fb_table" where
  "getRootAsUserPingMessage R b = UserPingMessage_init (readInt32 R b (position R b) + position R b) b"

definition getSizePrefixedRootAsUserPingMessage :: "('bb, 'f) fb_reader \<Rightarrow> 'bb \<Rightarrow> 'bb fb_table" where
  "getSizePrefixedRootAsUserPingMessage R b =
     (let b' = setPosition R b (position R b + SIZE_PREFIX_LENGTH)
      in UserPingMessage_init (readInt32 R b' (position R b') + position R b') b')"

definition startUserPingMessage :: "('s, 'f) fb_builder \<Rightarrow> ('s, unit) state" where
  "startUserPingMessage B = startObject B 0"

definition endUserPingMessage :: "('s, 'f) fb_builder \<Rightarrow> ('s, int) state" where
  "endUserPingMessage B = endObject B"

definition createUserPingMessage :: "('s, 'f) fb_builder \<Rightarrow> ('s, int) state" where
  "createUserPingMessage B =
     do { startUserPingMessage B;
          endUserPingMessage B }"

subsection \<open>\<open>client-message.ts\<close>\<close>

definition ClientMessage_init :: "int \<Rightarrow> 'bb \<Rightarrow> 'bb fb_table" where
  "ClientMessage_init i b = \<lparr>bb = b, bb_pos = i\<rparr>"

definition getRootAsClientMessage :: "('bb, 'f) fb_reader \<Rightarrow> 'bb \<Rightarrow> 'bb fb_table" where
  "getRootAsClientMessage R b = ClientMessage_init (readInt32 R b (position R b) + position R b) b"

definition getSizePrefixedRootAsClientMessage :: "('bb, 'f) fb_reader \<Rightarrow> 'bb \<Rightarrow> 'bb fb_table" where
  "getSizePrefixedRootAsClientMessage R b =
     (let b' = setPosition R b (position R b + SIZE_PREFIX_LENGTH)
      in ClientMessage_init (readInt32 R b' (position R b') + position R b') b')"

definition ClientMessage_userMessageType :: "('bb, 'f) fb_reader \<Rightarrow> 'bb fb_table \<Rightarrow> int" where
  "ClientMessage_userMessageType R t =
     (let offset = fb_offset R (bb t) (bb_pos t) 4
      in if offset \<noteq> 0 then readUint8 R (bb t) (bb_pos t + offset) else UserMessage_num UserMessage_NONE)"

definition ClientMessage_userMessage :: "('bb, 'f) fb_reader \<Rightarrow> 'bb fb_table \<Rightarrow> 'bb fb_table option" where
  "ClientMessage_userMessage R t =
     (let offset = fb_offset R (bb t) (bb_pos t) 6
      in if offset \<noteq> 0 then Some \<lparr>bb = bb t, bb_pos = fb_union R (bb t) (bb_pos t + offset)\<rparr> else None)"

definition startClientMessage :: "('s, 'f) fb_builder \<Rightarrow> ('s, unit) state" where
  "startClientMessage B = startObject B 2"

definition ClientMessage_addUserMessageType :: "('s, 'f) fb_builder \<Rightarrow> UserMessage \<Rightarrow> ('s, unit) state" where
  "ClientMessage_addUserMessageType B userMessageType = addFieldInt8 B 0 (UserMessage_num userMessageType) (UserMessage_num UserMessage_NONE)"

definition ClientMessage_addUserMessage :: "('s, 'f) fb_builder \<Rightarrow> int \<Rightarrow> ('s, unit) state" where
  "ClientMessage_addUserMessage B userMessageOffset = addFieldOffset B 1 userMessageOffset 0"

definition endClientMessage :: "('s, 'f) fb_builder \<Rightarrow> ('s, int) state" where
  "endClientMessage B = endObject B"

definition finishClientMessageBuffer :: "('s, 'f) fb_builder \<Rightarrow> int \<Rightarrow> ('s, unit) state" where
  "finishClientMessageBuffer B offset = finish B offset False"

definition finishSizePrefixedClientMessageBuffer :: "('s, 'f) fb_builder \<Rightarrow> int \<Rightarrow> ('s, unit) state" where
  "finishSizePrefixedClientMessageBuffer B offset = finish B offset True"

definition createClientMessage :: "('s, 'f) fb_builder \<Rightarrow> UserMessage \<Rightarrow> int \<Rightarrow> ('s, int) state" where
  "createClientMessage B userMessageType userMessageOffset =
     do { startClientMessage B;
          ClientMessage_addUserMessageType B userMessageType;
          ClientMessage_addUserMessage B userMessageOffset;
          endClientMessage B }"

subsection \<open>\<open>dot.ts\<close>\<close>

definition Dot_init :: "int \<Rightarrow> 'bb \<Rightarrow> 'bb fb_table" where
  "Dot_init i b = \<lparr>bb = b, bb_pos = i\<rparr>"

definition Dot_x :: "('bb, 'f) fb_reader \<Rightarrow> 'bb fb_table \<Rightarrow> 'f" where
  "Dot_x R t = readFloat32 R (bb t) (bb_pos t)"

definition Dot_y :: "('bb, 'f) fb_reader \<Rightarrow> 'bb fb_table \<Rightarrow> 'f" where
  "Dot_y R t = readFloat32 R (bb t) (bb_pos t + 4)"

definition Dot_radius :: "('bb, 'f) fb_reader \<Rightarrow> 'bb fb_table \<Rightarrow> 'f" where
  "Dot_radius R t = readFloat32 R (bb t) (bb_pos t + 8)"

definition Dot_color :: "('bb, 'f) fb_reader \<Rightarrow> 'bb fb_table \<Rightarrow> int" where
  "Dot_color R t = readInt8 R (bb t) (bb_pos t + 12)"

definition Dot_sizeOf :: "int" where
  "Dot_sizeOf = 16"

definition createDot :: "('s, 'f) fb_builder \<Rightarrow> 'f \<Rightarrow> 'f \<Rightarrow> 'f \<Rightarrow> Color \<Rightarrow> ('s, int) state" where
  "createDot B x y radius color =
     do { prep B 4 16;
          pad B 3;
          writeInt8 B (Color_num color);
          writeFloat32 B radius;
          writeFloat32 B y;
          writeFloat32 B x;
          builderOffset B }"

subsection \<open>\<open>server-chat-message.ts\<close>\<close>

definition ServerChatMessage_init :: "int \<Rightarrow> 'bb \<Rightarrow> 'bb fb_table" where
  "ServerChatMessage_init i b = \<lparr>bb = b, bb_pos = i\<rparr>"

definition getRootAsServerChatMessage :: "('bb, 'f) fb_reader \<Rightarrow> 'bb \<Rightarrow> 'bb fb_table" where
  "getRootAsServerChatMessage R b = ServerChatMessage_init (readInt32 R b (position R b) + position R b) b"

definition getSizePrefixedRootAsServerChatMessage :: "('bb, 'f) fb_reader \<Rightarrow> 'bb \<Rightarrow> 'bb fb_table" where
  "getSizePrefixedRootAsServerChatMessage R b =
     (let b' = setPosition R b (position R b + SIZE_PREFIX_LENGTH)
      in ServerChatMessage_init (readInt32 R b' (position R b') + position R b') b')"

definition ServerChatMessage_user :: "('bb, 'f) fb_reader \<Rightarrow> 'bb fb_table \<Rightarrow> string option" where
  "ServerChatMessage_user R t =
     (let offset = fb_offset R (bb t) (bb_pos t) 4
      in if offset \<noteq> 0 then Some (fb_string R (bb t) (bb_pos t + offset)) else None)"

definition ServerChatMessage_text :: "('bb, 'f) fb_reader \<Rightarrow> 'bb fb_table \<Rightarrow> string option" where
  "ServerChatMessage_text R t =
     (let offset = fb_offset R (bb t) (bb_pos t) 6
      in if offset \<noteq> 0 then Some (fb_string R (bb t) (bb_pos t + offset)) else None)"

definition startServerChatMessage :: "('s, 'f) fb_builder \<Rightarrow> ('s, unit) state" where
  "startServerChatMessage B = startObject B 2"

definition ServerChatMessage_addUser :: "('s, 'f) fb_builder \<Rightarrow> int \<Rightarrow> ('s, unit) state" where
  "ServerChatMessage_addUser B userOffset = addFieldOffset B 0 userOffset 0"

definition ServerChatMessage_addText :: "('s, 'f) fb_builder \<Rightarrow> int \<Rightarrow> ('s, unit) state" where
  "ServerChatMessage_addText B textOffset = addFieldOffset B 1 textOffset 0"

definition endServerChatMessage :: "('s, 'f) fb_builder \<Rightarrow> ('s, int) state" where
  "endServerChatMessage B = endObject B"

definition createServerChatMessage :: "('s, 'f) fb_builder \<Rightarrow> int \<Rightarrow> int \<Rightarrow> ('s, int) state" where
  "createServerChatMessage B userOffset textOffset =
     do { startServerChatMessage B;
          ServerChatMessage_addUser B userOffset;
          ServerChatMessage_addText B textOffset;
          endServerChatMessage B }"

subsection \<open>\<open>server-game-state-message.ts\<close>\<close>

definition ServerGameStateMessage_init :: "int \<Rightarrow> 'bb \<Rightarrow> 'bb fb_table" where
  "ServerGameStateMessage_init i b = \<lparr>bb = b, bb_pos = i\<rparr>"

definition getRootAsServerGameStateMessage :: "('bb, 'f) fb_reader \<Rightarrow> 'bb \<Rightarrow> 'bb fb_table" where
  "getRootAsServerGameStateMessage R b = ServerGameStateMessage_init (readInt32 R b (position R b) + position R b) b"

definition getSizePrefixedRootAsServerGameStateMessage :: "('bb, 'f) fb_reader \<Rightarrow> 'bb \<Rightarrow> 'bb fb_table" where
  "getSizePrefixedRootAsServerGameStateMessage R b =
     (let b' = setPosition R b (position R b + SIZE_PREFIX_LENGTH)
      in ServerGameStateMessage_init (readInt32 R b' (position R b') + position R b') b')"

definition ServerGameStateMessage_dots :: "('bb, 'f) fb_reader \<Rightarrow> 'bb fb_table \<Rightarrow> int \<Rightarrow> 'bb fb_table option" where
  "ServerGameStateMessage_dots R t index =
     (let offset = fb_offset R (bb t) (bb_pos t) 4
      in if offset \<noteq> 0
         then Some (Dot_init (fb_vector R (bb t) (bb_pos t + offset) + index * 16) (bb t)) else None)"

definition ServerGameStateMessage_dotsLength :: "('bb, 'f) fb_reader \<Rightarrow> 'bb fb_table \<Rightarrow> int" where
  "ServerGameStateMessage_dotsLength R t =
     (let offset = fb_offset R (bb t) (bb_pos t) 4
      in if offset \<noteq> 0 then fb_vector_len R (bb t) (bb_pos t + offset) else 0)"

definition startServerGameStateMessage :: "('s, 'f) fb_builder \<Rightarrow> ('s, unit) state" where
  "startServerGameStateMessage B = startObject B 1"

definition ServerGameStateMessage_addDots :: "('s, 'f) fb_builder \<Rightarrow> int \<Rightarrow> ('s, unit) state" where
  "ServerGameStateMessage_addDots B dotsOffset = addFieldOffset B 0 dotsOffset 0"

definition ServerGameStateMessage_startDotsVector :: "('s, 'f) fb_builder \<Rightarrow> int \<Rightarrow> ('s, unit) state" where
  "ServerGameStateMessage_startDotsVector B numElems = startVector B 16 numElems 4"

definition endServerGameStateMessage :: "('s, 'f) fb_builder \<Rightarrow> ('s, int) state" where
  "endServerGameStateMessage B = endObject B"

definition createServerGameStateMessage :: "('s, 'f) fb_builder \<Rightarrow> int \<Rightarrow> ('s, int) state" where
  "createServerGameStateMessage B dotsOffset =
     do { startServerGameStateMessage B;
          ServerGameStateMessage_addDots B dotsOffset;
          endServerGameStateMessage B }"

subsection \<open>\<open>server-message.ts\<close>\<close>

definition ServerMessage_init :: "int \<Rightarrow> 'bb \<Rightarrow> 'bb fb_table" where
  "ServerMessage_init i b = \<lparr>bb = b, bb_pos = i\<rparr>"

definition getRootAsServerMessage :: "('bb, 'f) fb_reader \<Rightarrow> 'bb \<Rightarrow> 'bb fb_table" where
  "getRootAsServerMessage R b = ServerMessage_init (readInt32 R b (position R b) + position R b) b"

definition getSizePrefixedRootAsServerMessage :: "('bb, 'f) fb_reader \<Rightarrow> 'bb \<Rightarrow> 'bb fb_table" where
  "getSizePrefixedRootAsServerMessage R b =
     (let b' = setPosition R b (position R b + SIZE_PREFIX_LENGTH)
      in ServerMessage_init (readInt32 R b' (position R b') + position R b') b')"

definition ServerMessage_messageType :: "('bb, 'f) fb_reader \<Rightarrow> 'bb fb_table \<Rightarrow> int" where
  "ServerMessage_messageType R t =
     (let offset = fb_offset R (bb t) (bb_pos t) 4
      in if offset \<noteq> 0 then readUint8 R (bb t) (bb_pos t + offset) else Message_num Message_NONE)"

definition ServerMessage_message :: "('bb, 'f) fb_reader \<Rightarrow> 'bb fb_table \<Rightarrow> 'bb fb_table option" where
  "ServerMessage_message R t =
     (let offset = fb_offset R (bb t) (bb_pos t) 6
      in if offset \<noteq> 0 then Some \<lparr>bb = bb t, bb_pos = fb_union R (bb t) (bb_pos t + offset)\<rparr> else None)"

definition startServerMessage :: "('s, 'f) fb_builder \<Rightarrow> ('s, unit) state" where
  "startServerMessage B = startObject B 2"

definition ServerMessage_addMessageType :: "('s, 'f) fb_builder \<Rightarrow> Message \<Rightarrow> ('s, unit) state" where
  "ServerMessage_addMessageType B messageType = addFieldInt8 B 0 (Message_num messageType) (Message_num Message_NONE)"

definition ServerMessage_addMessage :: "('s, 'f) fb_builder \<Rightarrow> int \<Rightarrow> ('s, unit) state" where
  "ServerMessage_addMessage B messageOffset = addFieldOffset B 1 messageOffset 0"

definition endServerMessage :: "('s, 'f) fb_builder \<Rightarrow> ('s, int) state" where
  "endServerMessage B = endObject B"

definition finishServerMessageBuffer :: "('s, 'f) fb_builder \<Rightarrow> int \<Rightarrow> ('s, unit) state" where
  "finishServerMessageBuffer B offset = finish B offset False"

definition finishSizePrefixedServerMessageBuffer :: "('s, 'f) fb_builder \<Rightarrow> int \<Rightarrow> ('s, unit) state" where
  "finishSizePrefixedServerMessageBuffer B offset = finish B offset True"

definition createServerMessage :: "('s, 'f) fb_builder \<Rightarrow> Message \<Rightarrow> int \<Rightarrow> ('s, int) state" where
  "createServerMessage B messageType messageOffset =
     do { startServerMessage B;
          ServerMessage_addMessageType B messageType;
          ServerMessage_addMessage B messageOffset;
          endServerMessage B }"

end
