(* ===== verification/Spanreed_Messages.thy ===== *)
theory Spanreed_Messages
  imports Flatbuffers
begin

text \<open>
  The messages of the proxy protocol, \<open>examples/hello-spanreed/client/src/gen/spanreed-message\<close>:
  what a client sends to open a connection and gets back, and what the proxy and a destination
  server exchange. One group of definitions per generated class, in the order of its methods.
\<close>

section \<open>Definitions\<close>

subsection \<open>\<open>inner-msg.ts\<close>\<close>

datatype InnerMsg = InnerMsg_NONE | InnerMsg_ProxyMessage | InnerMsg_ConnectionVerdict | InnerMsg_CloseConnection

fun InnerMsg_num :: "InnerMsg \<Rightarrow> int" where
  "InnerMsg_num InnerMsg_NONE = 0"
| "InnerMsg_num InnerMsg_ProxyMessage = 1"
| "InnerMsg_num InnerMsg_ConnectionVerdict = 2"
| "InnerMsg_num InnerMsg_CloseConnection = 3"

definition InnerMsg_at :: "int \<Rightarrow> InnerMsg option" where
  "InnerMsg_at n =
     (if n = 0 then Some InnerMsg_NONE
      else if n = 1 then Some InnerMsg_ProxyMessage
      else if n = 2 then Some InnerMsg_ConnectionVerdict
      else if n = 3 then Some InnerMsg_CloseConnection
      else None)"

definition unionToInnerMsg :: "int \<Rightarrow> (InnerMsg \<Rightarrow> 'bb fb_table option) \<Rightarrow> 'bb fb_table option" where
  "unionToInnerMsg type accessor =
     (case InnerMsg_at type of
        Some InnerMsg_NONE \<Rightarrow> None
      | Some InnerMsg_ProxyMessage \<Rightarrow> accessor InnerMsg_ProxyMessage
      | Some InnerMsg_ConnectionVerdict \<Rightarrow> accessor InnerMsg_ConnectionVerdict
      | Some InnerMsg_CloseConnection \<Rightarrow> accessor InnerMsg_CloseConnection
      | None \<Rightarrow> None)"

definition unionListToInnerMsg ::
  "int \<Rightarrow> (int \<Rightarrow> InnerMsg \<Rightarrow> 'bb fb_table option) \<Rightarrow> int \<Rightarrow> 'bb fb_table option" where
  "unionListToInnerMsg type accessor index =
     (case InnerMsg_at type of
        Some InnerMsg_NONE \<Rightarrow> None
      | Some InnerMsg_ProxyMessage \<Rightarrow> accessor index InnerMsg_ProxyMessage
      | Some InnerMsg_ConnectionVerdict \<Rightarrow> accessor index InnerMsg_ConnectionVerdict
      | Some InnerMsg_CloseConnection \<Rightarrow> accessor index InnerMsg_CloseConnection
      | None \<Rightarrow> None)"

subsection \<open>\<open>proxy-dest-inner-msg.ts\<close>\<close>

datatype ProxyDestInnerMsg = ProxyDestInnerMsg_NONE | ProxyDestInnerMsg_ProxyDestConnectionRequest | ProxyDestInnerMsg_ProxyDestClientMessage | ProxyDestInnerMsg_ProxyDestCloseConnection

fun ProxyDestInnerMsg_num :: "ProxyDestInnerMsg \<Rightarrow> int" where
  "ProxyDestInnerMsg_num ProxyDestInnerMsg_NONE = 0"
| "ProxyDestInnerMsg_num ProxyDestInnerMsg_ProxyDestConnectionRequest = 1"
| "ProxyDestInnerMsg_num ProxyDestInnerMsg_ProxyDestClientMessage = 2"
| "ProxyDestInnerMsg_num ProxyDestInnerMsg_ProxyDestCloseConnection = 3"

definition ProxyDestInnerMsg_at :: "int \<Rightarrow> ProxyDestInnerMsg option" where
  "ProxyDestInnerMsg_at n =
     (if n = 0 then Some ProxyDestInnerMsg_NONE
      else if n = 1 then Some ProxyDestInnerMsg_ProxyDestConnectionRequest
      else if n = 2 then Some ProxyDestInnerMsg_ProxyDestClientMessage
      else if n = 3 then Some ProxyDestInnerMsg_ProxyDestCloseConnection
      else None)"

definition unionToProxyDestInnerMsg :: "int \<Rightarrow> (ProxyDestInnerMsg \<Rightarrow> 'bb fb_table option) \<Rightarrow> 'bb fb_table option" where
  "unionToProxyDestInnerMsg type accessor =
     (case ProxyDestInnerMsg_at type of
        Some ProxyDestInnerMsg_NONE \<Rightarrow> None
      | Some ProxyDestInnerMsg_ProxyDestConnectionRequest \<Rightarrow> accessor ProxyDestInnerMsg_ProxyDestConnectionRequest
      | Some ProxyDestInnerMsg_ProxyDestClientMessage \<Rightarrow> accessor ProxyDestInnerMsg_ProxyDestClientMessage
      | Some ProxyDestInnerMsg_ProxyDestCloseConnection \<Rightarrow> accessor ProxyDestInnerMsg_ProxyDestCloseConnection
      | None \<Rightarrow> None)"

definition unionListToProxyDestInnerMsg ::
  "int \<Rightarrow> (int \<Rightarrow> ProxyDestInnerMsg \<Rightarrow> 'bb fb_table option) \<Rightarrow> int \<Rightarrow> 'bb fb_table option" where
  "unionListToProxyDestInnerMsg type accessor index =
     (case ProxyDestInnerMsg_at type of
        Some ProxyDestInnerMsg_NONE \<Rightarrow> None
      | Some ProxyDestInnerMsg_ProxyDestConnectionRequest \<Rightarrow> accessor index ProxyDestInnerMsg_ProxyDestConnectionRequest
      | Some ProxyDestInnerMsg_ProxyDestClientMessage \<Rightarrow> accessor index ProxyDestInnerMsg_ProxyDestClientMessage
      | Some ProxyDestInnerMsg_ProxyDestCloseConnection \<Rightarrow> accessor index ProxyDestInnerMsg_ProxyDestCloseConnection
      | None \<Rightarrow> None)"

subsection \<open>\<open>connect-client-message.ts\<close>\<close>

definition ConnectClientMessage_init :: "int \<Rightarrow> 'bb \<Rightarrow> 'bb fb_table" where
  "ConnectClientMessage_init i b = \<lparr>bb = b, bb_pos = i\<rparr>"

definition getRootAsConnectClientMessage :: "('bb, 'f) fb_reader \<Rightarrow> 'bb \<Rightarrow> 'bb fb_table" where
  "getRootAsConnectClientMessage R b = ConnectClientMessage_init (readInt32 R b (position R b) + position R b) b"

definition getSizePrefixedRootAsConnectClientMessage :: "('bb, 'f) fb_reader \<Rightarrow> 'bb \<Rightarrow> 'bb fb_table" where
  "getSizePrefixedRootAsConnectClientMessage R b =
     (let b' = setPosition R b (position R b + SIZE_PREFIX_LENGTH)
      in ConnectClientMessage_init (readInt32 R b' (position R b') + position R b') b')"

definition ConnectClientMessage_connectionString :: "('bb, 'f) fb_reader \<Rightarrow> 'bb fb_table \<Rightarrow> string option" where
  "ConnectClientMessage_connectionString R t =
     (let offset = fb_offset R (bb t) (bb_pos t) 4
      in if offset \<noteq> 0 then Some (fb_string R (bb t) (bb_pos t + offset)) else None)"

definition ConnectClientMessage_appData :: "('bb, 'f) fb_reader \<Rightarrow> 'bb fb_table \<Rightarrow> int \<Rightarrow> int" where
  "ConnectClientMessage_appData R t index =
     (let offset = fb_offset R (bb t) (bb_pos t) 6
      in if offset \<noteq> 0 then readUint8 R (bb t) (fb_vector R (bb t) (bb_pos t + offset) + index) else 0)"

definition ConnectClientMessage_appDataLength :: "('bb, 'f) fb_reader \<Rightarrow> 'bb fb_table \<Rightarrow> int" where
  "ConnectClientMessage_appDataLength R t =
     (let offset = fb_offset R (bb t) (bb_pos t) 6
      in if offset \<noteq> 0 then fb_vector_len R (bb t) (bb_pos t + offset) else 0)"

definition ConnectClientMessage_appDataArray :: "('bb, 'f) fb_reader \<Rightarrow> 'bb fb_table \<Rightarrow> js_error + bytes option" where
  "ConnectClientMessage_appDataArray R t =
     (let offset = fb_offset R (bb t) (bb_pos t) 6
      in if offset \<noteq> 0
         then map_sum id Some (uint8_view (fb_buffer R (bb t))
           (fb_byteOffset R (bb t) + fb_vector R (bb t) (bb_pos t + offset)) (fb_vector_len R (bb t) (bb_pos t + offset)))
         else Inr None)"

definition startConnectClientMessage :: "('s, 'f) fb_builder \<Rightarrow> ('s, unit) state" where
  "startConnectClientMessage B = startObject B 2"

definition ConnectClientMessage_addConnectionString :: "('s, 'f) fb_builder \<Rightarrow> int \<Rightarrow> ('s, unit) state" where
  "ConnectClientMessage_addConnectionString B connectionStringOffset = addFieldOffset B 0 connectionStringOffset 0"

definition ConnectClientMessage_addAppData :: "('s, 'f) fb_builder \<Rightarrow> int \<Rightarrow> ('s, unit) state" where
  "ConnectClientMessage_addAppData B appDataOffset = addFieldOffset B 1 appDataOffset 0"

definition ConnectClientMessage_createAppDataVector :: "('s, 'f) fb_builder \<Rightarrow> int list \<Rightarrow> ('s, int) state" where
  "ConnectClientMessage_createAppDataVector B data =
     do { startVector B 1 (int (length data)) 1; addInt8Loop B data (length data); endVector B }"

definition ConnectClientMessage_startAppDataVector :: "('s, 'f) fb_builder \<Rightarrow> int \<Rightarrow> ('s, unit) state" where
  "ConnectClientMessage_startAppDataVector B numElems = startVector B 1 numElems 1"

definition endConnectClientMessage :: "('s, 'f) fb_builder \<Rightarrow> ('s, int) state" where
  "endConnectClientMessage B = endObject B"

definition finishConnectClientMessageBuffer :: "('s, 'f) fb_builder \<Rightarrow> int \<Rightarrow> ('s, unit) state" where
  "finishConnectClientMessageBuffer B offset = finish B offset False"

definition finishSizePrefixedConnectClientMessageBuffer :: "('s, 'f) fb_builder \<Rightarrow> int \<Rightarrow> ('s, unit) state" where
  "finishSizePrefixedConnectClientMessageBuffer B offset = finish B offset True"

definition createConnectClientMessage :: "('s, 'f) fb_builder \<Rightarrow> int \<Rightarrow> int \<Rightarrow> ('s, int) state" where
  "createConnectClientMessage B connectionStringOffset appDataOffset =
     do { startConnectClientMessage B;
          ConnectClientMessage_addConnectionString B connectionStringOffset;
          ConnectClientMessage_addAppData B appDataOffset;
          endConnectClientMessage B }"

subsection \<open>\<open>connect-client-verdict.ts\<close>\<close>

definition ConnectClientVerdict_init :: "int \<Rightarrow> 'bb \<Rightarrow> 'bb fb_table" where
  "ConnectClientVerdict_init i b = \<lparr>bb = b, bb_pos = i\<rparr>"

definition getRootAsConnectClientVerdict :: "('bb, 'f) fb_reader \<Rightarrow> 'bb \<Rightarrow> 'bb fb_table" where
  "getRootAsConnectClientVerdict R b = ConnectClientVerdict_init (readInt32 R b (position R b) + position R b) b"

definition getSizePrefixedRootAsConnectClientVerdict :: "('bb, 'f) fb_reader \<Rightarrow> 'bb \<Rightarrow> 'bb fb_table" where
  "getSizePrefixedRootAsConnectClientVerdict R b =
     (let b' = setPosition R b (position R b + SIZE_PREFIX_LENGTH)
      in ConnectClientVerdict_init (readInt32 R b' (position R b') + position R b') b')"

definition ConnectClientVerdict_accepted :: "('bb, 'f) fb_reader \<Rightarrow> 'bb fb_table \<Rightarrow> bool" where
  "ConnectClientVerdict_accepted R t =
     (let offset = fb_offset R (bb t) (bb_pos t) 4
      in if offset \<noteq> 0 then readInt8 R (bb t) (bb_pos t + offset) \<noteq> 0 else False)"

definition ConnectClientVerdict_errorReason :: "('bb, 'f) fb_reader \<Rightarrow> 'bb fb_table \<Rightarrow> string option" where
  "ConnectClientVerdict_errorReason R t =
     (let offset = fb_offset R (bb t) (bb_pos t) 6
      in if offset \<noteq> 0 then Some (fb_string R (bb t) (bb_pos t + offset)) else None)"

definition ConnectClientVerdict_appData :: "('bb, 'f) fb_reader \<Rightarrow> 'bb fb_table \<Rightarrow> int \<Rightarrow> int" where
  "ConnectClientVerdict_appData R t index =
     (let offset = fb_offset R (bb t) (bb_pos t) 8
      in if offset \<noteq> 0 then readUint8 R (bb t) (fb_vector R (bb t) (bb_pos t + offset) + index) else 0)"

definition ConnectClientVerdict_appDataLength :: "('bb, 'f) fb_reader \<Rightarrow> 'bb fb_table \<Rightarrow> int" where
  "ConnectClientVerdict_appDataLength R t =
     (let offset = fb_offset R (bb t) (bb_pos t) 8
      in if offset \<noteq> 0 then fb_vector_len R (bb t) (bb_pos t + offset) else 0)"

definition ConnectClientVerdict_appDataArray :: "('bb, 'f) fb_reader \<Rightarrow> 'bb fb_table \<Rightarrow> js_error + bytes option" where
  "ConnectClientVerdict_appDataArray R t =
     (let offset = fb_offset R (bb t) (bb_pos t) 8
      in if offset \<noteq> 0
         then map_sum id Some (uint8_view (fb_buffer R (bb t))
           (fb_byteOffset R (bb t) + fb_vector R (bb t) (bb_pos t + offset)) (fb_vector_len R (bb t) (bb_pos t + offset)))
         else Inr None)"

definition startConnectClientVerdict :: "('s, 'f) fb_builder \<Rightarrow> ('s, unit) state" where
  "startConnectClientVerdict B = startObject B 3"

definition ConnectClientVerdict_addAccepted :: "('s, 'f) fb_builder \<Rightarrow> bool \<Rightarrow> ('s, unit) state" where
  "ConnectClientVerdict_addAccepted B accepted = addFieldInt8 B 0 (of_bool accepted) (of_bool False)"

definition ConnectClientVerdict_addErrorReason :: "('s, 'f) fb_builder \<Rightarrow> int \<Rightarrow> ('s, unit) state" where
  "ConnectClientVerdict_addErrorReason B errorReasonOffset = addFieldOffset B 1 errorReasonOffset 0"

definition ConnectClientVerdict_addAppData :: "('s, 'f) fb_builder \<Rightarrow> int \<Rightarrow> ('s, unit) state" where
  "ConnectClientVerdict_addAppData B appDataOffset = addFieldOffset B 2 appDataOffset 0"

definition ConnectClientVerdict_createAppDataVector :: "('s, 'f) fb_builder \<Rightarrow> int list \<Rightarrow> ('s, int) state" where
  "ConnectClientVerdict_createAppDataVector B data =
     do { startVector B 1 (int (length data)) 1; addInt8Loop B data (length data); endVector B }"

definition ConnectClientVerdict_startAppDataVector :: "('s, 'f) fb_builder \<Rightarrow> int \<Rightarrow> ('s, unit) state" where
  "ConnectClientVerdict_startAppDataVector B numElems = startVector B 1 numElems 1"

definition endConnectClientVerdict :: "('s, 'f) fb_builder \<Rightarrow> ('s, int) state" where
  "endConnectClientVerdict B = endObject B"

definition finishConnectClientVerdictBuffer :: "('s, 'f) fb_builder \<Rightarrow> int \<Rightarrow> ('s, unit) state" where
  "finishConnectClientVerdictBuffer B offset = finish B offset False"

definition finishSizePrefixedConnectClientVerdictBuffer :: "('s, 'f) fb_builder \<Rightarrow> int \<Rightarrow> ('s, unit) state" where
  "finishSizePrefixedConnectClientVerdictBuffer B offset = finish B offset True"

definition createConnectClientVerdict :: "('s, 'f) fb_builder \<Rightarrow> bool \<Rightarrow> int \<Rightarrow> int \<Rightarrow> ('s, int) state" where
  "createConnectClientVerdict B accepted errorReasonOffset appDataOffset =
     do { startConnectClientVerdict B;
          ConnectClientVerdict_addAccepted B accepted;
          ConnectClientVerdict_addErrorReason B errorReasonOffset;
          ConnectClientVerdict_addAppData B appDataOffset;
          endConnectClientVerdict B }"

subsection \<open>\<open>connect-destination-verdict.ts\<close>\<close>

definition ConnectDestinationVerdict_init :: "int \<Rightarrow> 'bb \<Rightarrow> 'bb fb_table" where
  "ConnectDestinationVerdict_init i b = \<lparr>bb = b, bb_pos = i\<rparr>"

definition getRootAsConnectDestinationVerdict :: "('bb, 'f) fb_reader \<Rightarrow> 'bb \<Rightarrow> 'bb fb_table" where
  "getRootAsConnectDestinationVerdict R b = ConnectDestinationVerdict_init (readInt32 R b (position R b) + position R b) b"

definition getSizePrefixedRootAsConnectDestinationVerdict :: "('bb, 'f) fb_reader \<Rightarrow> 'bb \<Rightarrow> 'bb fb_table" where
  "getSizePrefixedRootAsConnectDestinationVerdict R b =
     (let b' = setPosition R b (position R b + SIZE_PREFIX_LENGTH)
      in ConnectDestinationVerdict_init (readInt32 R b' (position R b') + position R b') b')"

definition ConnectDestinationVerdict_clientId :: "('bb, 'f) fb_reader \<Rightarrow> 'bb fb_table \<Rightarrow> int" where
  "ConnectDestinationVerdict_clientId R t =
     (let offset = fb_offset R (bb t) (bb_pos t) 4
      in if offset \<noteq> 0 then readUint32 R (bb t) (bb_pos t + offset) else 0)"

definition ConnectDestinationVerdict_accepted :: "('bb, 'f) fb_reader \<Rightarrow> 'bb fb_table \<Rightarrow> bool" where
  "ConnectDestinationVerdict_accepted R t =
     (let offset = fb_offset R (bb t) (bb_pos t) 6
      in if offset \<noteq> 0 then readInt8 R (bb t) (bb_pos t + offset) \<noteq> 0 else False)"

definition ConnectDestinationVerdict_errorReason :: "('bb, 'f) fb_reader \<Rightarrow> 'bb fb_table \<Rightarrow> string option" where
  "ConnectDestinationVerdict_errorReason R t =
     (let offset = fb_offset R (bb t) (bb_pos t) 8
      in if offset \<noteq> 0 then Some (fb_string R (bb t) (bb_pos t + offset)) else None)"

definition ConnectDestinationVerdict_appData :: "('bb, 'f) fb_reader \<Rightarrow> 'bb fb_table \<Rightarrow> int \<Rightarrow> int" where
  "ConnectDestinationVerdict_appData R t index =
     (let offset = fb_offset R (bb t) (bb_pos t) 10
      in if offset \<noteq> 0 then readUint8 R (bb t) (fb_vector R (bb t) (bb_pos t + offset) + index) else 0)"

definition ConnectDestinationVerdict_appDataLength :: "('bb, 'f) fb_reader \<Rightarrow> 'bb fb_table \<Rightarrow> int" where
  "ConnectDestinationVerdict_appDataLength R t =
     (let offset = fb_offset R (bb t) (bb_pos t) 10
      in if offset \<noteq> 0 then fb_vector_len R (bb t) (bb_pos t + offset) else 0)"

definition ConnectDestinationVerdict_appDataArray :: "('bb, 'f) fb_reader \<Rightarrow> 'bb fb_table \<Rightarrow> js_error + bytes option" where
  "ConnectDestinationVerdict_appDataArray R t =
     (let offset = fb_offset R (bb t) (bb_pos t) 10
      in if offset \<noteq> 0
         then map_sum id Some (uint8_view (fb_buffer R (bb t))
           (fb_byteOffset R (bb t) + fb_vector R (bb t) (bb_pos t + offset)) (fb_vector_len R (bb t) (bb_pos t + offset)))
         else Inr None)"

definition startConnectDestinationVerdict :: "('s, 'f) fb_builder \<Rightarrow> ('s, unit) state" where
  "startConnectDestinationVerdict B = startObject B 4"

definition ConnectDestinationVerdict_addClientId :: "('s, 'f) fb_builder \<Rightarrow> int \<Rightarrow> ('s, unit) state" where
  "ConnectDestinationVerdict_addClientId B clientId = addFieldInt32 B 0 clientId 0"

definition ConnectDestinationVerdict_addAccepted :: "('s, 'f) fb_builder \<Rightarrow> bool \<Rightarrow> ('s, unit) state" where
  "ConnectDestinationVerdict_addAccepted B accepted = addFieldInt8 B 1 (of_bool accepted) (of_bool False)"

definition ConnectDestinationVerdict_addErrorReason :: "('s, 'f) fb_builder \<Rightarrow> int \<Rightarrow> ('s, unit) state" where
  "ConnectDestinationVerdict_addErrorReason B errorReasonOffset = addFieldOffset B 2 errorReasonOffset 0"

definition ConnectDestinationVerdict_addAppData :: "('s, 'f) fb_builder \<Rightarrow> int \<Rightarrow> ('s, unit) state" where
  "ConnectDestinationVerdict_addAppData B appDataOffset = addFieldOffset B 3 appDataOffset 0"

definition ConnectDestinationVerdict_createAppDataVector :: "('s, 'f) fb_builder \<Rightarrow> int list \<Rightarrow> ('s, int) state" where
  "ConnectDestinationVerdict_createAppDataVector B data =
     do { startVector B 1 (int (length data)) 1; addInt8Loop B data (length data); endVector B }"

definition ConnectDestinationVerdict_startAppDataVector :: "('s, 'f) fb_builder \<Rightarrow> int \<Rightarrow> ('s, unit) state" where
  "ConnectDestinationVerdict_startAppDataVector B numElems = startVector B 1 numElems 1"

definition endConnectDestinationVerdict :: "('s, 'f) fb_builder \<Rightarrow> ('s, int) state" where
  "endConnectDestinationVerdict B = endObject B"

definition finishConnectDestinationVerdictBuffer :: "('s, 'f) fb_builder \<Rightarrow> int \<Rightarrow> ('s, unit) state" where
  "finishConnectDestinationVerdictBuffer B offset = finish B offset False"

definition finishSizePrefixedConnectDestinationVerdictBuffer :: "('s, 'f) fb_builder \<Rightarrow> int \<Rightarrow> ('s, unit) state" where
  "finishSizePrefixedConnectDestinationVerdictBuffer B offset = finish B offset True"

definition createConnectDestinationVerdict :: "('s, 'f) fb_builder \<Rightarrow> int \<Rightarrow> bool \<Rightarrow> int \<Rightarrow> int \<Rightarrow> ('s, int) state" where
  "createConnectDestinationVerdict B clientId accepted errorReasonOffset appDataOffset =
     do { startConnectDestinationVerdict B;
          ConnectDestinationVerdict_addClientId B clientId;
          ConnectDestinationVerdict_addAccepted B accepted;
          ConnectDestinationVerdict_addErrorReason B errorReasonOffset;
          ConnectDestinationVerdict_addAppData B appDataOffset;
          endConnectDestinationVerdict B }"

subsection \<open>\<open>proxy-message.ts\<close>\<close>

definition ProxyMessage_init :: "int \<Rightarrow> 'bb \<Rightarrow> 'bb fb_table" where
  "ProxyMessage_init i b = \<lparr>bb = b, bb_pos = i\<rparr>"

definition getRootAsProxyMessage :: "('bb, 'f) fb_reader \<Rightarrow> 'bb \<Rightarrow> 'bb fb_table" where
  "getRootAsProxyMessage R b = ProxyMessage_init (readInt32 R b (position R b) + position R b) b"

definition getSizePrefixedRootAsProxyMessage :: "('bb, 'f) fb_reader \<Rightarrow> 'bb \<Rightarrow> 'bb fb_table" where
  "getSizePrefixedRootAsProxyMessage R b =
     (let b' = setPosition R b (position R b + SIZE_PREFIX_LENGTH)
      in ProxyMessage_init (readInt32 R b' (position R b') + position R b') b')"

definition ProxyMessage_clientId :: "('bb, 'f) fb_reader \<Rightarrow> 'bb fb_table \<Rightarrow> int" where
  "ProxyMessage_clientId R t =
     (let offset = fb_offset R (bb t) (bb_pos t) 4
      in if offset \<noteq> 0 then readUint32 R (bb t) (bb_pos t + offset) else 0)"

definition startProxyMessage :: "('s, 'f) fb_builder \<Rightarrow> ('s, unit) state" where
  "startProxyMessage B = startObject B 1"

definition ProxyMessage_addClientId :: "('s, 'f) fb_builder \<Rightarrow> int \<Rightarrow> ('s, unit) state" where
  "ProxyMessage_addClientId B clientId = addFieldInt32 B 0 clientId 0"

definition endProxyMessage :: "('s, 'f) fb_builder \<Rightarrow> ('s, int) state" where
  "endProxyMessage B = endObject B"

definition createProxyMessage :: "('s, 'f) fb_builder \<Rightarrow> int \<Rightarrow> ('s, int) state" where
  "createProxyMessage B clientId =
     do { startProxyMessage B;
          ProxyMessage_addClientId B clientId;
          endProxyMessage B }"

subsection \<open>\<open>connection-verdict.ts\<close>\<close>

definition ConnectionVerdict_init :: "int \<Rightarrow> 'bb \<Rightarrow> 'bb fb_table" where
  "ConnectionVerdict_init i b = \<lparr>bb = b, bb_pos = i\<rparr>"

definition getRootAsConnectionVerdict :: "('bb, 'f) fb_reader \<Rightarrow> 'bb \<Rightarrow> 'bb fb_table" where
  "getRootAsConnectionVerdict R b = ConnectionVerdict_init (readInt32 R b (position R b) + position R b) b"

definition getSizePrefixedRootAsConnectionVerdict :: "('bb, 'f) fb_reader \<Rightarrow> 'bb \<Rightarrow> 'bb fb_table" where
  "getSizePrefixedRootAsConnectionVerdict R b =
     (let b' = setPosition R b (position R b + SIZE_PREFIX_LENGTH)
      in ConnectionVerdict_init (readInt32 R b' (position R b') + position R b') b')"

definition ConnectionVerdict_clientId :: "('bb, 'f) fb_reader \<Rightarrow> 'bb fb_table \<Rightarrow> int" where
  "ConnectionVerdict_clientId R t =
     (let offset = fb_offset R (bb t) (bb_pos t) 4
      in if offset \<noteq> 0 then readUint32 R (bb t) (bb_pos t + offset) else 0)"

definition ConnectionVerdict_accepted :: "('bb, 'f) fb_reader \<Rightarrow> 'bb fb_table \<Rightarrow> bool" where
  "ConnectionVerdict_accepted R t =
     (let offset = fb_offset R (bb t) (bb_pos t) 6
      in if offset \<noteq> 0 then readInt8 R (bb t) (bb_pos t + offset) \<noteq> 0 else False)"

definition startConnectionVerdict :: "('s, 'f) fb_builder \<Rightarrow> ('s, unit) state" where
  "startConnectionVerdict B = startObject B 2"

definition ConnectionVerdict_addClientId :: "('s, 'f) fb_builder \<Rightarrow> int \<Rightarrow> ('s, unit) state" where
  "ConnectionVerdict_addClientId B clientId = addFieldInt32 B 0 clientId 0"

definition ConnectionVerdict_addAccepted :: "('s, 'f) fb_builder \<Rightarrow> bool \<Rightarrow> ('s, unit) state" where
  "ConnectionVerdict_addAccepted B accepted = addFieldInt8 B 1 (of_bool accepted) (of_bool False)"

definition endConnectionVerdict :: "('s, 'f) fb_builder \<Rightarrow> ('s, int) state" where
  "endConnectionVerdict B = endObject B"

definition createConnectionVerdict :: "('s, 'f) fb_builder \<Rightarrow> int \<Rightarrow> bool \<Rightarrow> ('s, int) state" where
  "createConnectionVerdict B clientId accepted =
     do { startConnectionVerdict B;
          ConnectionVerdict_addClientId B clientId;
          ConnectionVerdict_addAccepted B accepted;
          endConnectionVerdict B }"

subsection \<open>\<open>close-connection.ts\<close>\<close>

definition CloseConnection_init :: "int \<Rightarrow> 'bb \<Rightarrow> 'bb fb_table" where
  "CloseConnection_init i b = \<lparr>bb = b, bb_pos = i\<rparr>"

definition getRootAsCloseConnection :: "('bb, 'f) fb_reader \<Rightarrow> 'bb \<Rightarrow> 'bb fb_table" where
  "getRootAsCloseConnection R b = CloseConnection_init (readInt32 R b (position R b) + position R b) b"

definition getSizePrefixedRootAsCloseConnection :: "('bb, 'f) fb_reader \<Rightarrow> 'bb \<Rightarrow> 'bb fb_table" where
  "getSizePrefixedRootAsCloseConnection R b =
     (let b' = setPosition R b (position R b + SIZE_PREFIX_LENGTH)
      in CloseConnection_init (readInt32 R b' (position R b') + position R b') b')"

definition CloseConnection_clientId :: "('bb, 'f) fb_reader \<Rightarrow> 'bb fb_table \<Rightarrow> int" where
  "CloseConnection_clientId R t =
     (let offset = fb_offset R (bb t) (bb_pos t) 4
      in if offset \<noteq> 0 then readUint32 R (bb t) (bb_pos t + offset) else 0)"

definition CloseConnection_reason :: "('bb, 'f) fb_reader \<Rightarrow> 'bb fb_table \<Rightarrow> string option" where
  "CloseConnection_reason R t =
     (let offset = fb_offset R (bb t) (bb_pos t) 6
      in if offset \<noteq> 0 then Some (fb_string R (bb t) (bb_pos t + offset)) else None)"

definition startCloseConnection :: "('s, 'f) fb_builder \<Rightarrow> ('s, unit) state" where
  "startCloseConnection B = startObject B 2"

definition CloseConnection_addClientId :: "('s, 'f) fb_builder \<Rightarrow> int \<Rightarrow> ('s, unit) state" where
  "CloseConnection_addClientId B clientId = addFieldInt32 B 0 clientId 0"

definition CloseConnection_addReason :: "('s, 'f) fb_builder \<Rightarrow> int \<Rightarrow> ('s, unit) state" where
  "CloseConnection_addReason B reasonOffset = addFieldOffset B 1 reasonOffset 0"

definition endCloseConnection :: "('s, 'f) fb_builder \<Rightarrow> ('s, int) state" where
  "endCloseConnection B = endObject B"

definition createCloseConnection :: "('s, 'f) fb_builder \<Rightarrow> int \<Rightarrow> int \<Rightarrow> ('s, int) state" where
  "createCloseConnection B clientId reasonOffset =
     do { startCloseConnection B;
          CloseConnection_addClientId B clientId;
          CloseConnection_addReason B reasonOffset;
          endCloseConnection B }"

subsection \<open>\<open>destination-message.ts\<close>\<close>

definition DestinationMessage_init :: "int \<Rightarrow> 'bb \<Rightarrow> 'bb fb_table" where
  "DestinationMessage_init i b = \<lparr>bb = b, bb_pos = i\<rparr>"

definition getRootAsDestinationMessage :: "('bb, 'f) fb_reader \<Rightarrow> 'bb \<Rightarrow> 'bb fb_table" where
  "getRootAsDestinationMessage R b = DestinationMessage_init (readInt32 R b (position R b) + position R b) b"

definition getSizePrefixedRootAsDestinationMessage :: "('bb, 'f) fb_reader \<Rightarrow> 'bb \<Rightarrow> 'bb fb_table" where
  "getSizePrefixedRootAsDestinationMessage R b =
     (let b' = setPosition R b (position R b + SIZE_PREFIX_LENGTH)
      in DestinationMessage_init (readInt32 R b' (position R b') + position R b') b')"

definition DestinationMessage_msgType :: "('bb, 'f) fb_reader \<Rightarrow> 'bb fb_table \<Rightarrow> int" where
  "DestinationMessage_msgType R t =
     (let offset = fb_offset R (bb t) (bb_pos t) 4
      in if offset \<noteq> 0 then readUint8 R (bb t) (bb_pos t + offset) else InnerMsg_num InnerMsg_NONE)"

definition DestinationMessage_msg :: "('bb, 'f) fb_reader \<Rightarrow> 'bb fb_table \<Rightarrow> 'bb fb_table option" where
  "DestinationMessage_msg R t =
     (let offset = fb_offset R (bb t) (bb_pos t) 6
      in if offset \<noteq> 0 then Some \<lparr>bb = bb t, bb_pos = fb_union R (bb t) (bb_pos t + offset)\<rparr> else None)"

definition DestinationMessage_appData :: "('bb, 'f) fb_reader \<Rightarrow> 'bb fb_table \<Rightarrow> int \<Rightarrow> int" where
  "DestinationMessage_appData R t index =
     (let offset = fb_offset R (bb t) (bb_pos t) 8
      in if offset \<noteq> 0 then readUint8 R (bb t) (fb_vector R (bb t) (bb_pos t + offset) + index) else 0)"

definition DestinationMessage_appDataLength :: "('bb, 'f) fb_reader \<Rightarrow> 'bb fb_table \<Rightarrow> int" where
  "DestinationMessage_appDataLength R t =
     (let offset = fb_offset R (bb t) (bb_pos t) 8
      in if offset \<noteq> 0 then fb_vector_len R (bb t) (bb_pos t + offset) else 0)"

definition DestinationMessage_appDataArray :: "('bb, 'f) fb_reader \<Rightarrow> 'bb fb_table \<Rightarrow> js_error + bytes option" where
  "DestinationMessage_appDataArray R t =
     (let offset = fb_offset R (bb t) (bb_pos t) 8
      in if offset \<noteq> 0
         then map_sum id Some (uint8_view (fb_buffer R (bb t))
           (fb_byteOffset R (bb t) + fb_vector R (bb t) (bb_pos t + offset)) (fb_vector_len R (bb t) (bb_pos t + offset)))
         else Inr None)"

definition startDestinationMessage :: "('s, 'f) fb_builder \<Rightarrow> ('s, unit) state" where
  "startDestinationMessage B = startObject B 3"

definition DestinationMessage_addMsgType :: "('s, 'f) fb_builder \<Rightarrow> InnerMsg \<Rightarrow> ('s, unit) state" where
  "DestinationMessage_addMsgType B msgType = addFieldInt8 B 0 (InnerMsg_num msgType) (InnerMsg_num InnerMsg_NONE)"

definition DestinationMessage_addMsg :: "('s, 'f) fb_builder \<Rightarrow> int \<Rightarrow> ('s, unit) state" where
  "DestinationMessage_addMsg B msgOffset = addFieldOffset B 1 msgOffset 0"

definition DestinationMessage_addAppData :: "('s, 'f) fb_builder \<Rightarrow> int \<Rightarrow> ('s, unit) state" where
  "DestinationMessage_addAppData B appDataOffset = addFieldOffset B 2 appDataOffset 0"

definition DestinationMessage_createAppDataVector :: "('s, 'f) fb_builder \<Rightarrow> int list \<Rightarrow> ('s, int) state" where
  "DestinationMessage_createAppDataVector B data =
     do { startVector B 1 (int (length data)) 1; addInt8Loop B data (length data); endVector B }"

definition DestinationMessage_startAppDataVector :: "('s, 'f) fb_builder \<Rightarrow> int \<Rightarrow> ('s, unit) state" where
  "DestinationMessage_startAppDataVector B numElems = startVector B 1 numElems 1"

definition endDestinationMessage :: "('s, 'f) fb_builder \<Rightarrow> ('s, int) state" where
  "endDestinationMessage B = endObject B"

definition finishDestinationMessageBuffer :: "('s, 'f) fb_builder \<Rightarrow> int \<Rightarrow> ('s, unit) state" where
  "finishDestinationMessageBuffer B offset = finish B offset False"

definition finishSizePrefixedDestinationMessageBuffer :: "('s, 'f) fb_builder \<Rightarrow> int \<Rightarrow> ('s, unit) state" where
  "finishSizePrefixedDestinationMessageBuffer B offset = finish B offset True"

definition createDestinationMessage :: "('s, 'f) fb_builder \<Rightarrow> InnerMsg \<Rightarrow> int \<Rightarrow> int \<Rightarrow> ('s, int) state" where
  "createDestinationMessage B msgType msgOffset appDataOffset =
     do { startDestinationMessage B;
          DestinationMessage_addMsgType B msgType;
          DestinationMessage_addMsg B msgOffset;
          DestinationMessage_addAppData B appDataOffset;
          endDestinationMessage B }"

subsection \<open>\<open>proxy-dest-connection-request.ts\<close>\<close>

definition ProxyDestConnectionRequest_init :: "int \<Rightarrow> 'bb \<Rightarrow> 'bb fb_table" where
  "ProxyDestConnectionRequest_init i b = \<lparr>bb = b, bb_pos = i\<rparr>"

definition getRootAsProxyDestConnectionRequest :: "('bb, 'f) fb_reader \<Rightarrow> 'bb \<Rightarrow> 'bb fb_table" where
  "getRootAsProxyDestConnectionRequest R b = ProxyDestConnectionRequest_init (readInt32 R b (position R b) + position R b) b"

definition getSizePrefixedRootAsProxyDestConnectionRequest :: "('bb, 'f) fb_reader \<Rightarrow> 'bb \<Rightarrow> 'bb fb_table" where
  "getSizePrefixedRootAsProxyDestConnectionRequest R b =
     (let b' = setPosition R b (position R b + SIZE_PREFIX_LENGTH)
      in ProxyDestConnectionRequest_init (readInt32 R b' (position R b') + position R b') b')"

definition ProxyDestConnectionRequest_clientId :: "('bb, 'f) fb_reader \<Rightarrow> 'bb fb_table \<Rightarrow> int" where
  "ProxyDestConnectionRequest_clientId R t =
     (let offset = fb_offset R (bb t) (bb_pos t) 4
      in if offset \<noteq> 0 then readUint32 R (bb t) (bb_pos t + offset) else 0)"

definition startProxyDestConnectionRequest :: "('s, 'f) fb_builder \<Rightarrow> ('s, unit) state" where
  "startProxyDestConnectionRequest B = startObject B 1"

definition ProxyDestConnectionRequest_addClientId :: "('s, 'f) fb_builder \<Rightarrow> int \<Rightarrow> ('s, unit) state" where
  "ProxyDestConnectionRequest_addClientId B clientId = addFieldInt32 B 0 clientId 0"

definition endProxyDestConnectionRequest :: "('s, 'f) fb_builder \<Rightarrow> ('s, int) state" where
  "endProxyDestConnectionRequest B = endObject B"

definition createProxyDestConnectionRequest :: "('s, 'f) fb_builder \<Rightarrow> int \<Rightarrow> ('s, int) state" where
  "createProxyDestConnectionRequest B clientId =
     do { startProxyDestConnectionRequest B;
          ProxyDestConnectionRequest_addClientId B clientId;
          endProxyDestConnectionRequest B }"

subsection \<open>\<open>proxy-dest-client-message.ts\<close>\<close>

definition ProxyDestClientMessage_init :: "int \<Rightarrow> 'bb \<Rightarrow> 'bb fb_table" where
  "ProxyDestClientMessage_init i b = \<lparr>bb = b, bb_pos = i\<rparr>"

definition getRootAsProxyDestClientMessage :: "('bb, 'f) fb_reader \<Rightarrow> 'bb \<Rightarrow> 'bb fb_table" where
  "getRootAsProxyDestClientMessage R b = ProxyDestClientMessage_init (readInt32 R b (position R b) + position R b) b"

definition getSizePrefixedRootAsProxyDestClientMessage :: "('bb, 'f) fb_reader \<Rightarrow> 'bb \<Rightarrow> 'bb fb_table" where
  "getSizePrefixedRootAsProxyDestClientMessage R b =
     (let b' = setPosition R b (position R b + SIZE_PREFIX_LENGTH)
      in ProxyDestClientMessage_init (readInt32 R b' (position R b') + position R b') b')"

definition ProxyDestClientMessage_clientId :: "('bb, 'f) fb_reader \<Rightarrow> 'bb fb_table \<Rightarrow> int" where
  "ProxyDestClientMessage_clientId R t =
     (let offset = fb_offset R (bb t) (bb_pos t) 4
      in if offset \<noteq> 0 then readUint32 R (bb t) (bb_pos t + offset) else 0)"

definition startProxyDestClientMessage :: "('s, 'f) fb_builder \<Rightarrow> ('s, unit) state" where
  "startProxyDestClientMessage B = startObject B 1"

definition ProxyDestClientMessage_addClientId :: "('s, 'f) fb_builder \<Rightarrow> int \<Rightarrow> ('s, unit) state" where
  "ProxyDestClientMessage_addClientId B clientId = addFieldInt32 B 0 clientId 0"

definition endProxyDestClientMessage :: "('s, 'f) fb_builder \<Rightarrow> ('s, int) state" where
  "endProxyDestClientMessage B = endObject B"

definition createProxyDestClientMessage :: "('s, 'f) fb_builder \<Rightarrow> int \<Rightarrow> ('s, int) state" where
  "createProxyDestClientMessage B clientId =
     do { startProxyDestClientMessage B;
          ProxyDestClientMessage_addClientId B clientId;
          endProxyDestClientMessage B }"

subsection \<open>\<open>proxy-dest-close-connection.ts\<close>\<close>

definition ProxyDestCloseConnection_init :: "int \<Rightarrow> 'bb \<Rightarrow> 'bb fb_table" where
  "ProxyDestCloseConnection_init i b = \<lparr>bb = b, bb_pos = i\<rparr>"

definition getRootAsProxyDestCloseConnection :: "('bb, 'f) fb_reader \<Rightarrow> 'bb \<Rightarrow> 'bb fb_table" where
  "getRootAsProxyDestCloseConnection R b = ProxyDestCloseConnection_init (readInt32 R b (position R b) + position R b) b"

definition getSizePrefixedRootAsProxyDestCloseConnection :: "('bb, 'f) fb_reader \<Rightarrow> 'bb \<Rightarrow> 'bb fb_table" where
  "getSizePrefixedRootAsProxyDestCloseConnection R b =
     (let b' = setPosition R b (position R b + SIZE_PREFIX_LENGTH)
      in ProxyDestCloseConnection_init (readInt32 R b' (position R b') + position R b') b')"

definition ProxyDestCloseConnection_clientId :: "('bb, 'f) fb_reader \<Rightarrow> 'bb fb_table \<Rightarrow> int" where
  "ProxyDestCloseConnection_clientId R t =
     (let offset = fb_offset R (bb t) (bb_pos t) 4
      in if offset \<noteq> 0 then readUint32 R (bb t) (bb_pos t + offset) else 0)"

definition startProxyDestCloseConnection :: "('s, 'f) fb_builder \<Rightarrow> ('s, unit) state" where
  "startProxyDestCloseConnection B = startObject B 1"

definition ProxyDestCloseConnection_addClientId :: "('s, 'f) fb_builder \<Rightarrow> int \<Rightarrow> ('s, unit) state" where
  "ProxyDestCloseConnection_addClientId B clientId = addFieldInt32 B 0 clientId 0"

definition endProxyDestCloseConnection :: "('s, 'f) fb_builder \<Rightarrow> ('s, int) state" where
  "endProxyDestCloseConnection B = endObject B"

definition createProxyDestCloseConnection :: "('s, 'f) fb_builder \<Rightarrow> int \<Rightarrow> ('s, int) state" where
  "createProxyDestCloseConnection B clientId =
     do { startProxyDestCloseConnection B;
          ProxyDestCloseConnection_addClientId B clientId;
          endProxyDestCloseConnection B }"

subsection \<open>\<open>proxy-destination-message.ts\<close>\<close>

definition ProxyDestinationMessage_init :: "int \<Rightarrow> 'bb \<Rightarrow> 'bb fb_table" where
  "ProxyDestinationMessage_init i b = \<lparr>bb = b, bb_pos = i\<rparr>"

definition getRootAsProxyDestinationMessage :: "('bb, 'f) fb_reader \<Rightarrow> 'bb \<Rightarrow> 'bb fb_table" where
  "getRootAsProxyDestinationMessage R b = ProxyDestinationMessage_init (readInt32 R b (position R b) + position R b) b"

definition getSizePrefixedRootAsProxyDestinationMessage :: "('bb, 'f) fb_reader \<Rightarrow> 'bb \<Rightarrow> 'bb fb_table" where
  "getSizePrefixedRootAsProxyDestinationMessage R b =
     (let b' = setPosition R b (position R b + SIZE_PREFIX_LENGTH)
      in ProxyDestinationMessage_init (readInt32 R b' (position R b') + position R b') b')"

definition ProxyDestinationMessage_innerMessageType :: "('bb, 'f) fb_reader \<Rightarrow> 'bb fb_table \<Rightarrow> int" where
  "ProxyDestinationMessage_innerMessageType R t =
     (let offset = fb_offset R (bb t) (bb_pos t) 4
      in if offset \<noteq> 0 then readUint8 R (bb t) (bb_pos t + offset) else ProxyDestInnerMsg_num ProxyDestInnerMsg_NONE)"

definition ProxyDestinationMessage_innerMessage :: "('bb, 'f) fb_reader \<Rightarrow> 'bb fb_table \<Rightarrow> 'bb fb_table option" where
  "ProxyDestinationMessage_innerMessage R t =
     (let offset = fb_offset R (bb t) (bb_pos t) 6
      in if offset \<noteq> 0 then Some \<lparr>bb = bb t, bb_pos = fb_union R (bb t) (bb_pos t + offset)\<rparr> else None)"

definition ProxyDestinationMessage_appData :: "('bb, 'f) fb_reader \<Rightarrow> 'bb fb_table \<Rightarrow> int \<Rightarrow> int" where
  "ProxyDestinationMessage_appData R t index =
     (let offset = fb_offset R (bb t) (bb_pos t) 8
      in if offset \<noteq> 0 then readUint8 R (bb t) (fb_vector R (bb t) (bb_pos t + offset) + index) else 0)"

definition ProxyDestinationMessage_appDataLength :: "('bb, 'f) fb_reader \<Rightarrow> 'bb fb_table \<Rightarrow> int" where
  "ProxyDestinationMessage_appDataLength R t =
     (let offset = fb_offset R (bb t) (bb_pos t) 8
      in if offset \<noteq> 0 then fb_vector_len R (bb t) (bb_pos t + offset) else 0)"

definition ProxyDestinationMessage_appDataArray :: "('bb, 'f) fb_reader \<Rightarrow> 'bb fb_table \<Rightarrow> js_error + bytes option" where
  "ProxyDestinationMessage_appDataArray R t =
     (let offset = fb_offset R (bb t) (bb_pos t) 8
      in if offset \<noteq> 0
         then map_sum id Some (uint8_view (fb_buffer R (bb t))
           (fb_byteOffset R (bb t) + fb_vector R (bb t) (bb_pos t + offset)) (fb_vector_len R (bb t) (bb_pos t + offset)))
         else Inr None)"

definition startProxyDestinationMessage :: "('s, 'f) fb_builder \<Rightarrow> ('s, unit) state" where
  "startProxyDestinationMessage B = startObject B 3"

definition ProxyDestinationMessage_addInnerMessageType :: "('s, 'f) fb_builder \<Rightarrow> ProxyDestInnerMsg \<Rightarrow> ('s, unit) state" where
  "ProxyDestinationMessage_addInnerMessageType B innerMessageType = addFieldInt8 B 0 (ProxyDestInnerMsg_num innerMessageType) (ProxyDestInnerMsg_num ProxyDestInnerMsg_NONE)"

definition ProxyDestinationMessage_addInnerMessage :: "('s, 'f) fb_builder \<Rightarrow> int \<Rightarrow> ('s, unit) state" where
  "ProxyDestinationMessage_addInnerMessage B innerMessageOffset = addFieldOffset B 1 innerMessageOffset 0"

definition ProxyDestinationMessage_addAppData :: "('s, 'f) fb_builder \<Rightarrow> int \<Rightarrow> ('s, unit) state" where
  "ProxyDestinationMessage_addAppData B appDataOffset = addFieldOffset B 2 appDataOffset 0"

definition ProxyDestinationMessage_createAppDataVector :: "('s, 'f) fb_builder \<Rightarrow> int list \<Rightarrow> ('s, int) state" where
  "ProxyDestinationMessage_createAppDataVector B data =
     do { startVector B 1 (int (length data)) 1; addInt8Loop B data (length data); endVector B }"

definition ProxyDestinationMessage_startAppDataVector :: "('s, 'f) fb_builder \<Rightarrow> int \<Rightarrow> ('s, unit) state" where
  "ProxyDestinationMessage_startAppDataVector B numElems = startVector B 1 numElems 1"

definition endProxyDestinationMessage :: "('s, 'f) fb_builder \<Rightarrow> ('s, int) state" where
  "endProxyDestinationMessage B = endObject B"

definition finishProxyDestinationMessageBuffer :: "('s, 'f) fb_builder \<Rightarrow> int \<Rightarrow> ('s, unit) state" where
  "finishProxyDestinationMessageBuffer B offset = finish B offset False"

definition finishSizePrefixedProxyDestinationMessageBuffer :: "('s, 'f) fb_builder \<Rightarrow> int \<Rightarrow> ('s, unit) state" where
  "finishSizePrefixedProxyDestinationMessageBuffer B offset = finish B offset True"

definition createProxyDestinationMessage :: "('s, 'f) fb_builder \<Rightarrow> ProxyDestInnerMsg \<Rightarrow> int \<Rightarrow> int \<Rightarrow> ('s, int) state" where
  "createProxyDestinationMessage B innerMessageType innerMessageOffset appDataOffset =
     do { startProxyDestinationMessage B;
          ProxyDestinationMessage_addInnerMessageType B innerMessageType;
          ProxyDestinationMessage_addInnerMessage B innerMessageOffset;
          ProxyDestinationMessage_addAppData B appDataOffset;
          endProxyDestinationMessage B }"

end
