(* ===== verification/Wire_Format.thy ===== *)
theory Wire_Format
  imports Flatbuffers
begin

text \<open>
  An implementation of the buffer contract of theory \<open>Flatbuffers\<close> that writes real bytes: the
  FlatBuffers layout of little-endian scalars, length-prefixed strings and vectors, and tables
  with a virtual table of 16-bit field offsets and 32-bit relative references. Buffers are
  built back to front, so an offset counts bytes from the end and stays the same when more is
  written. It is not the code of the \<open>flatbuffers\<close> package, which is not in the repository and
  stays a parameter; it shows that the contract can be met byte for byte, and it is what the
  concrete instances of the round-trip properties run on. Floats are held as their IEEE bits.
\<close>

section \<open>Little-endian integers and occurrences\<close>

definition le8 :: "int \<Rightarrow> bytes" where
  "le8 v = [word_of_int v]"

definition le16 :: "int \<Rightarrow> bytes" where
  "le16 v = [word_of_int v, word_of_int (v div 256)]"

definition le32 :: "int \<Rightarrow> bytes" where
  "le32 v = [word_of_int v, word_of_int (v div 256), word_of_int (v div 65536),
     word_of_int (v div 16777216)]"

lemma length_le [simp]: "length (le8 v) = 1" "length (le16 v) = 2" "length (le32 v) = 4"
  by (simp_all add: le8_def le16_def le32_def)

definition rd :: "bytes \<Rightarrow> int \<Rightarrow> int" where
  "rd bs i = (if 0 \<le> i \<and> i < int (length bs) then uint (bs ! nat i) else 0)"

definition rd16 :: "bytes \<Rightarrow> int \<Rightarrow> int" where
  "rd16 bs i = rd bs i + 256 * rd bs (i + 1)"

definition rd32 :: "bytes \<Rightarrow> int \<Rightarrow> int" where
  "rd32 bs i = rd bs i + 256 * rd bs (i + 1) + 65536 * rd bs (i + 2) + 16777216 * rd bs (i + 3)"

definition signed :: "nat \<Rightarrow> int \<Rightarrow> int" where
  "signed w u = (if u < 2 ^ (w - 1) then u else u - 2 ^ w)"

text \<open>The byte string \<open>xs\<close> stands at position \<open>n\<close> of \<open>bs\<close>.\<close>

definition occurs :: "bytes \<Rightarrow> nat \<Rightarrow> bytes \<Rightarrow> bool" where
  "occurs bs n xs \<longleftrightarrow> take (length xs) (drop n bs) = xs"

lemma occurs_self [intro, simp]: "occurs (xs @ ys) 0 xs"
  by (simp add: occurs_def)

lemma occurs_drop: "occurs (drop k bs) n xs \<longleftrightarrow> occurs bs (n + k) xs"
  by (simp add: occurs_def add.commute)

lemma occurs_append: "occurs bs n (xs @ ys) \<longleftrightarrow> occurs bs n xs \<and> occurs bs (n + length xs) ys"
proof
  assume a: "occurs bs n (xs @ ys)"
  have "xs @ ys = take (length xs) (drop n bs) @ take (length ys) (drop (length xs) (drop n bs))"
    using a by (metis occurs_def length_append take_add)
  moreover have "length xs \<le> length (drop n bs)"
    using a by (metis occurs_def length_append length_take le_add1 min.bounded_iff order_refl)
  ultimately show "occurs bs n xs \<and> occurs bs (n + length xs) ys"
    by (simp add: occurs_def add.commute append_eq_append_conv)
next
  assume "occurs bs n xs \<and> occurs bs (n + length xs) ys"
  then show "occurs bs n (xs @ ys)"
    by (simp add: occurs_def take_add add.commute)
qed

lemma occurs_nth:
  assumes "occurs bs n xs" and "k < length xs"
  shows "n + k < length bs" and "bs ! (n + k) = xs ! k"
proof -
  have len: "length xs \<le> length bs - n"
    using assms(1) by (metis occurs_def length_drop length_take min.cobounded2 min.commute)
  then show "n + k < length bs" using assms(2) by linarith
  have "xs ! k = take (length xs) (drop n bs) ! k"
    using assms(1) by (simp add: occurs_def)
  also have "\<dots> = bs ! (n + k)" using assms(2) len by simp
  finally show "bs ! (n + k) = xs ! k" by simp
qed

lemma occurs_rd: "occurs bs n xs \<Longrightarrow> k < length xs \<Longrightarrow> i = int (n + k) \<Longrightarrow> rd bs i = uint (xs ! k)"
  using occurs_nth [of bs n xs k] by (simp add: rd_def nat_int_add)

lemma occurs_concat:
  assumes "occurs bs n (concat (map f [0..<m]))" and "\<And>i. i < m \<Longrightarrow> length (f i) = k" and "i < m"
  shows "occurs bs (n + k * i) (f i)"
proof -
  have "[0..<m] = [0..<i] @ i # [Suc i..<m]"
    using assms(3) upt_add_eq_append [of 0 i "m - i"] upt_conv_Cons [of i m] by simp
  then have "concat (map f [0..<m]) = concat (map f [0..<i]) @ f i @ concat (map f [Suc i..<m])"
    by simp
  moreover have "length (concat (map f [0..<i])) = k * i"
    using assms(2,3) by (intro length_concat_chunks) simp
  ultimately show ?thesis using assms(1) by (simp add: occurs_append)
qed

lemma occurs_rd8: "occurs bs n (le8 v) \<Longrightarrow> rd bs (int n) = v mod 256"
  using occurs_rd [of bs n "le8 v" 0 "int n"] by (simp add: le8_def uint_word_of_int)

lemma occurs_rd16: "occurs bs n (le16 v) \<Longrightarrow> rd16 bs (int n) = v mod 65536"
  using occurs_rd [of bs n "le16 v" 0 "int n"] occurs_rd [of bs n "le16 v" 1 "int n + 1"]
  by (simp add: rd16_def le16_def uint_word_of_int zmod_zmult2_eq [of 256 v 256, simplified])

lemma mod_4_bytes:
  "v mod 256 + 256 * (v div 256 mod 256) + 65536 * (v div 65536 mod 256) +
    16777216 * (v div 16777216 mod 256) = v mod (4294967296 :: int)"
proof -
  have "v mod 65536 = 256 * (v div 256 mod 256) + v mod 256"
    using zmod_zmult2_eq [of 256 v 256] by simp
  moreover have "v mod 16777216 = 65536 * (v div 65536 mod 256) + v mod 65536"
    using zmod_zmult2_eq [of 256 v 65536] by simp
  moreover have "v mod 4294967296 = 16777216 * (v div 16777216 mod 256) + v mod 16777216"
    using zmod_zmult2_eq [of 256 v 16777216] by simp
  ultimately show ?thesis by linarith
qed

lemma uint_byte: "uint (word_of_int v :: byte) = v mod 256"
  by (simp add: uint_word_of_int)

lemma le32_nth: "le32 v ! 0 = word_of_int v" "le32 v ! 1 = word_of_int (v div 256)"
  "le32 v ! 2 = word_of_int (v div 65536)" "le32 v ! 3 = word_of_int (v div 16777216)"
  by (simp_all add: le32_def)

lemma occurs_rd32:
  assumes "occurs bs n (le32 v)"
  shows "rd32 bs (int n) = v mod 2 ^ 32"
proof -
  have "rd bs (int n) = v mod 256" "rd bs (int n + 1) = v div 256 mod 256"
    "rd bs (int n + 2) = v div 65536 mod 256" "rd bs (int n + 3) = v div 16777216 mod 256"
    by (subst occurs_rd [OF assms, of 0] occurs_rd [OF assms, of 1] occurs_rd [OF assms, of 2]
        occurs_rd [OF assms, of 3]; simp only: le32_nth uint_byte length_le; simp)+
  then have "rd32 bs (int n) = v mod 4294967296"
    unfolding rd32_def using mod_4_bytes [of v] by (simp only:)
  then show ?thesis by simp
qed

lemma signed_mod:
  assumes "0 < w" and "- (2 ^ (w - 1)) \<le> v" and "v < 2 ^ (w - 1)"
  shows "signed w (v mod 2 ^ w) = v"
proof -
  have w: "(2 :: int) ^ w = 2 * 2 ^ (w - 1)"
    using assms(1) by (metis power_Suc Suc_pred')
  show ?thesis
  proof (cases "v < 0")
    case True
    have "v mod 2 ^ w = (v + 2 ^ w) mod 2 ^ w" by simp
    also have "\<dots> = v + 2 ^ w" using True assms(2) w by (intro mod_pos_pos_trivial) linarith+
    finally show ?thesis using True assms(2) w by (simp add: signed_def)
  next
    case False
    then have "v mod 2 ^ w = v" using assms(3) w by (intro mod_pos_pos_trivial) linarith+
    then show ?thesis using assms(3) by (simp add: signed_def)
  qed
qed

lemmas signed32 = signed_mod [of 32, simplified]
lemmas signed8 = signed_mod [of 8, simplified]

section \<open>Objects as bytes\<close>

type_synonym f32 = "32 word"

definition byte_of_char :: "char \<Rightarrow> byte" where
  "byte_of_char c = word_of_nat (of_char c)"

definition char_of_byte :: "byte \<Rightarrow> char" where
  "char_of_byte b = char_of (unat b)"

lemma char_of_byte_of_char [simp]: "char_of_byte (byte_of_char c) = c"
  by (simp add: char_of_byte_def byte_of_char_def unat_of_nat)

fun cell_bytes :: "f32 fb_cell \<Rightarrow> bytes" where
  "cell_bytes (CInt8 v) = le8 v"
| "cell_bytes (CFloat x) = le32 (uint x)"
| "cell_bytes CPad = [0]"

text \<open>A field of a table that ends \<open>q\<close> bytes before the end of the buffer starts.\<close>

fun field_bytes :: "int \<Rightarrow> f32 fb_val option \<Rightarrow> bytes" where
  "field_bytes q None = le32 0"
| "field_bytes q (Some (FInt8 v)) = le8 v @ [0, 0, 0]"
| "field_bytes q (Some (FInt32 v)) = le32 v"
| "field_bytes q (Some (FFloat x)) = le32 (uint x)"
| "field_bytes q (Some (FRef p)) = le32 (q - p)"

lemma length_field_bytes [simp]: "length (field_bytes q v) = 4"
  by (cases "(q, v)" rule: field_bytes.cases) simp_all

definition vtable_entry :: "(int \<Rightarrow> f32 fb_val option) \<Rightarrow> nat \<Rightarrow> bytes" where
  "vtable_entry fs i = le16 (if fs (int i) = None then 0 else 4 + 4 * int i)"

text \<open>The bytes of an object that starts \<open>q\<close> bytes before the end of the buffer.\<close>

fun node_bytes :: "int \<Rightarrow> f32 fb_node \<Rightarrow> bytes" where
  "node_bytes q (FString str) = le32 (int (length str)) @ map byte_of_char str @ [0]"
| "node_bytes q (FVec k cs) = le32 k @ concat (map cell_bytes cs)"
| "node_bytes q (FTable n fs) =
     le32 (- (4 + 4 * n)) @
     concat (map (\<lambda>i. field_bytes (q - 4 - 4 * int i) (fs (int i))) [0..<nat n]) @
     le16 (4 + 2 * n) @ le16 (4 + 4 * n) @
     concat (map (vtable_entry fs) [0..<nat n])"

fun node_size :: "f32 fb_node \<Rightarrow> nat" where
  "node_size (FString str) = 5 + length str"
| "node_size (FVec k cs) = 4 + cells_size cs"
| "node_size (FTable n fs) = 8 + 6 * nat n"

fun node_wf :: "f32 fb_node \<Rightarrow> bool" where
  "node_wf (FString str) = True"
| "node_wf (FVec k cs) = (0 \<le> k)"
| "node_wf (FTable n fs) = (0 \<le> n \<and> n \<le> 4096)"

lemma length_cells: "length (concat (map cell_bytes cs)) = cells_size cs"
proof (induction cs)
  case (Cons c cs)
  then show ?case by (cases c) simp_all
qed simp

lemma length_vtable_entry [simp]: "length (vtable_entry fs i) = 2"
  by (simp add: vtable_entry_def)

lemma length_node_bytes [simp]: "length (node_bytes q nd) = node_size nd"
proof (cases nd)
  case (FVec k cs)
  then show ?thesis using length_cells [of cs] by simp
next
  case (FTable n fs)
  have "length (concat (map (\<lambda>i. field_bytes (q - 4 - 4 * int i) (fs (int i))) [0..<nat n])) = 4 * nat n"
    "length (concat (map (vtable_entry fs) [0..<nat n])) = 2 * nat n"
    by (rule length_concat_chunks, simp)+
  then show ?thesis using FTable by simp
qed simp

lemma node_size_pos [simp]: "0 < node_size nd"
  by (cases nd) simp_all

section \<open>The builder and the reader\<close>

record wire =
  wbytes :: bytes
  wmode :: "f32 fb_mode"
  wnodes :: "int \<Rightarrow> f32 fb_node option"

definition emit :: "f32 fb_node \<Rightarrow> wire \<Rightarrow> int \<times> wire" where
  "emit nd w = (let q = int (node_size nd + length (wbytes w)) in
     (q, \<lparr>wbytes = node_bytes q nd @ wbytes w, wmode = Idle, wnodes = (wnodes w)(q \<mapsto> nd)\<rparr>))"

definition set_field :: "int \<Rightarrow> f32 fb_val \<Rightarrow> wire \<Rightarrow> wire" where
  "set_field i v w = (case wmode w of
     InTable n fs \<Rightarrow> w\<lparr>wmode := InTable n (fs(i \<mapsto> v))\<rparr> | _ \<Rightarrow> w)"

definition push_cells :: "f32 fb_cell list \<Rightarrow> wire \<Rightarrow> wire" where
  "push_cells cs w = (case wmode w of
     InVector n al ds \<Rightarrow> w\<lparr>wmode := InVector n al (cs @ ds)\<rparr> | _ \<Rightarrow> w)"

definition close_object :: "wire \<Rightarrow> int \<times> wire" where
  "close_object w = (case wmode w of
     InTable n fs \<Rightarrow> emit (FTable n fs) w | InVector n al cs \<Rightarrow> emit (FVec n cs) w | Idle \<Rightarrow> (0, w))"

definition wire_builder :: "(wire, f32) fb_builder" where
  "wire_builder = \<lparr>
     newBuilder = (\<lambda>_. \<lparr>wbytes = [], wmode = Idle, wnodes = Map.empty\<rparr>),
     startObject = (\<lambda>n. State (\<lambda>w. ((), w\<lparr>wmode := InTable n Map.empty\<rparr>))),
     addFieldInt8 = (\<lambda>i v d. State (\<lambda>w. ((), if v = d then w else set_field i (FInt8 v) w))),
     addFieldInt32 = (\<lambda>i v d. State (\<lambda>w. ((), if v = d then w else set_field i (FInt32 v) w))),
     addFieldFloat32 = (\<lambda>i x d. State (\<lambda>w. ((), if x = d then w else set_field i (FFloat x) w))),
     addFieldOffset = (\<lambda>i p d. State (\<lambda>w. ((), if p = d then w else set_field i (FRef p) w))),
     endObject = State close_object,
     startVector = (\<lambda>sz n al. State (\<lambda>w. ((), w\<lparr>wmode := InVector n al []\<rparr>))),
     addInt8 = (\<lambda>v. State (\<lambda>w. ((), push_cells [CInt8 v] w))),
     endVector = State close_object,
     prep = (\<lambda>sz add. State (\<lambda>w. ((), w))),
     pad = (\<lambda>k. State (\<lambda>w. ((), push_cells (replicate (nat k) CPad) w))),
     writeInt8 = (\<lambda>v. State (\<lambda>w. ((), push_cells [CInt8 v] w))),
     writeFloat32 = (\<lambda>x. State (\<lambda>w. ((), push_cells [CFloat x] w))),
     builderOffset = State (\<lambda>w. (int (length (wbytes w)), w)),
     createString = (\<lambda>str. State (emit (FString str))),
     createByteVector = (\<lambda>bs. State (emit (FVec (int (length bs)) (byte_cells bs)))),
     finish = (\<lambda>p pre. State (\<lambda>w. ((), w\<lparr>wbytes :=
       (if pre then le32 (int (length (wbytes w)) + 4) else []) @
       le32 (int (length (wbytes w)) + 4 - p) @ wbytes w\<rparr>))),
     asUint8Array = wbytes\<rparr>"

definition rd_s32 :: "bytes \<Rightarrow> int \<Rightarrow> int" where
  "rd_s32 bs i = signed 32 (rd32 bs i)"

definition wire_reader :: "(bytes \<times> int, f32) fb_reader" where
  "wire_reader = \<lparr>
     newByteBuffer = (\<lambda>bs. (bs, 0)),
     readInt8 = (\<lambda>b i. signed 8 (rd (fst b) i)),
     readUint8 = (\<lambda>b i. rd (fst b) i),
     readInt32 = (\<lambda>b i. rd_s32 (fst b) i),
     readUint32 = (\<lambda>b i. rd32 (fst b) i),
     readFloat32 = (\<lambda>b i. word_of_int (rd32 (fst b) i)),
     position = snd,
     setPosition = (\<lambda>b k. (fst b, k)),
     fb_offset = (\<lambda>b i k. let v = i - rd_s32 (fst b) i in
        if k < rd16 (fst b) v then rd16 (fst b) (v + k) else 0),
     fb_union = (\<lambda>b i. i + rd_s32 (fst b) i),
     fb_string = (\<lambda>b i. let t = i + rd_s32 (fst b) i in
        map char_of_byte (take (nat (rd_s32 (fst b) t)) (drop (nat t + 4) (fst b)))),
     fb_vector = (\<lambda>b i. i + rd_s32 (fst b) i + 4),
     fb_vector_len = (\<lambda>b i. rd_s32 (fst b) (i + rd_s32 (fst b) i)),
     fb_buffer = fst,
     fb_byteOffset = (\<lambda>b. 0)\<rparr>"

section \<open>Validity\<close>

definition nodes_ok :: "wire \<Rightarrow> bool" where
  "nodes_ok w \<longleftrightarrow> (\<forall>q nd. wnodes w q = Some nd \<longrightarrow>
     0 < q \<and> q \<le> int (length (wbytes w)) \<and> node_wf nd \<and>
     occurs (wbytes w) (length (wbytes w) - nat q) (node_bytes q nd))"

fun mode_ok :: "f32 fb_mode \<Rightarrow> bool" where
  "mode_ok Idle = True"
| "mode_ok (InTable n fs) = (0 \<le> n \<and> n \<le> 4096)"
| "mode_ok (InVector n al cs) = (0 \<le> n)"

definition wire_valid :: "wire \<Rightarrow> bool" where
  "wire_valid w \<longleftrightarrow> nodes_ok w \<and> mode_ok (wmode w)"

definition wire_views :: "wire \<Rightarrow> bytes \<times> int \<Rightarrow> bool" where
  "wire_views w b \<longleftrightarrow> nodes_ok w \<and> fst b = wbytes w \<and> length (wbytes w) < 2 ^ 31"

definition wire_addr :: "wire \<Rightarrow> int \<Rightarrow> int" where
  "wire_addr w q = int (length (wbytes w)) - q"

lemma occurs_prepend [simp]: "occurs (xs @ bs) (length xs + n) ys \<longleftrightarrow> occurs bs n ys"
  by (simp add: occurs_def)

lemma nodes_ok_prepend:
  assumes "nodes_ok w"
  shows "nodes_ok (w\<lparr>wbytes := xs @ wbytes w, wmode := m\<rparr>)"
  unfolding nodes_ok_def
proof (intro allI impI)
  fix q nd
  assume "wnodes (w\<lparr>wbytes := xs @ wbytes w, wmode := m\<rparr>) q = Some nd"
  then have h: "0 < q" "q \<le> int (length (wbytes w))" "node_wf nd"
    "occurs (wbytes w) (length (wbytes w) - nat q) (node_bytes q nd)"
    using assms by (auto simp: nodes_ok_def)
  have "length (xs @ wbytes w) - nat q = length xs + (length (wbytes w) - nat q)"
    using h(2) by simp
  then have "occurs (xs @ wbytes w) (length (xs @ wbytes w) - nat q) (node_bytes q nd)"
    using h(4) by (simp only: occurs_prepend)
  then show "0 < q \<and> q \<le> int (length (wbytes (w\<lparr>wbytes := xs @ wbytes w, wmode := m\<rparr>))) \<and> node_wf nd \<and>
    occurs (wbytes (w\<lparr>wbytes := xs @ wbytes w, wmode := m\<rparr>))
      (length (wbytes (w\<lparr>wbytes := xs @ wbytes w, wmode := m\<rparr>)) - nat q) (node_bytes q nd)"
    using h by simp
qed

lemma emit_spec:
  assumes "nodes_ok w" and "node_wf nd" and "emit nd w = (p, w')"
  shows "wire_valid w' \<and> wmode w' = Idle \<and> wnodes w p = None \<and> wnodes w' = (wnodes w)(p \<mapsto> nd)"
proof -
  define q where "q = int (node_size nd + length (wbytes w))"
  let ?u = "w\<lparr>wbytes := node_bytes q nd @ wbytes w, wmode := Idle\<rparr>"
  have p: "p = q" and w': "w' = ?u\<lparr>wnodes := (wnodes w)(q \<mapsto> nd)\<rparr>"
    using assms(3) by (auto simp: emit_def q_def Let_def)
  have u: "nodes_ok ?u" using assms(1) by (rule nodes_ok_prepend)
  have fresh: "wnodes w q = None"
  proof (rule ccontr)
    assume "wnodes w q \<noteq> None"
    then have "q \<le> int (length (wbytes w))" using assms(1) by (auto simp: nodes_ok_def)
    then show False using node_size_pos [of nd] by (simp add: q_def)
  qed
  have here: "0 < q \<and> q \<le> int (length (wbytes ?u)) \<and> occurs (wbytes ?u) (length (wbytes ?u) - nat q) (node_bytes q nd)"
    using node_size_pos [of nd] by (simp add: q_def del: node_size_pos)
  have "nodes_ok w'"
    using u here assms(2) by (auto simp: nodes_ok_def w')
  then show ?thesis using fresh by (simp add: p wire_valid_def w')
qed

section \<open>Reading back\<close>

lemma views_node:
  assumes "wire_views w b" and "wnodes w q = Some nd"
  shows "0 < q" "q \<le> int (length (fst b))" "node_wf nd" "fst b = wbytes w" "int (length (fst b)) < 2 ^ 31"
    "occurs (fst b) (length (fst b) - nat q) (node_bytes q nd)"
    "wire_addr w q = int (length (fst b) - nat q)"
proof -
  from assms show q: "0 < q" "q \<le> int (length (fst b))" "node_wf nd" "fst b = wbytes w"
      "int (length (fst b)) < 2 ^ 31" "occurs (fst b) (length (fst b) - nat q) (node_bytes q nd)"
    by (auto simp: wire_views_def nodes_ok_def)
  show "wire_addr w q = int (length (fst b) - nat q)"
    using q(1,2,4) by (simp add: wire_addr_def of_nat_diff nat_le_iff)
qed

lemma table_parts:
  assumes "occurs bs a (node_bytes q (FTable n fs))" and "0 \<le> n"
  shows "occurs bs a (le32 (- (4 + 4 * n)))"
    and "i < nat n \<Longrightarrow> occurs bs (a + 4 + 4 * i) (field_bytes (q - 4 - 4 * int i) (fs (int i)))"
    and "occurs bs (a + 4 + 4 * nat n) (le16 (4 + 2 * n))"
    and "i < nat n \<Longrightarrow> occurs bs (a + 8 + 4 * nat n + 2 * i) (vtable_entry fs i)"
proof -
  let ?F = "concat (map (\<lambda>i. field_bytes (q - 4 - 4 * int i) (fs (int i))) [0..<nat n])"
  let ?V = "concat (map (vtable_entry fs) [0..<nat n])"
  have F: "length ?F = 4 * nat n" by (rule length_concat_chunks) simp
  have parts: "occurs bs a (le32 (- (4 + 4 * n)))" "occurs bs (a + 4) ?F"
    "occurs bs (a + 4 + 4 * nat n) (le16 (4 + 2 * n))" "occurs bs (a + 8 + 4 * nat n) ?V"
    using assms(1) by (simp_all add: occurs_append F add.assoc) (simp_all add: add.commute add.left_commute)
  show "occurs bs a (le32 (- (4 + 4 * n)))" "occurs bs (a + 4 + 4 * nat n) (le16 (4 + 2 * n))"
    by (rule parts)+
  show "occurs bs (a + 4 + 4 * i) (field_bytes (q - 4 - 4 * int i) (fs (int i)))" if "i < nat n"
    by (rule occurs_concat [OF parts(2), of 4 i]) (simp_all add: that)
  show "occurs bs (a + 8 + 4 * nat n + 2 * i) (vtable_entry fs i)" if "i < nat n"
    by (rule occurs_concat [OF parts(4), of 2 i]) (simp_all add: that)
qed

lemma occurs_rd_s32:
  "occurs bs k (le32 v) \<Longrightarrow> i = int k \<Longrightarrow> - (2 ^ 31) \<le> v \<Longrightarrow> v < 2 ^ 31 \<Longrightarrow> rd_s32 bs i = v"
  using occurs_rd32 [of bs k v] signed32 [of v] by (simp add: rd_s32_def)

lemma table_offset:
  assumes "wire_views w b" and "wnodes w p = Some (FTable n fs)" and "0 \<le> i" and "i < n"
  shows "fb_offset wire_reader b (wire_addr w p) (4 + 2 * i) = (if fs i = None then 0 else 4 + 4 * i)"
proof -
  note v = views_node [OF assms(1,2)]
  let ?a = "length (fst b) - nat p"
  have n: "0 \<le> n" "n \<le> 4096" using v(3) by simp_all
  note t = table_parts [OF v(6) n(1)]
  have 1: "rd_s32 (fst b) (wire_addr w p) = - (4 + 4 * n)"
    using n by (intro occurs_rd_s32 [OF t(1)] v(7)) simp_all
  have vt: "wire_addr w p - - (4 + 4 * n) = int (?a + 4 + 4 * nat n)"
    using n by (simp add: v(7))
  have 2: "rd16 (fst b) (int (?a + 4 + 4 * nat n)) = 4 + 2 * n"
    using occurs_rd16 [OF t(3)] n by simp
  have "nat i < nat n" using assms(3,4) by simp
  from t(4) [OF this] have "rd16 (fst b) (int (?a + 8 + 4 * nat n + 2 * nat i)) =
      (if fs i = None then 0 else 4 + 4 * i)"
    using assms(3,4) n occurs_rd16 [of "fst b" "?a + 8 + 4 * nat n + 2 * nat i"]
    by (simp add: vtable_entry_def split: if_splits)
  then have 3: "rd16 (fst b) (int (?a + 4 + 4 * nat n) + (4 + 2 * i)) = (if fs i = None then 0 else 4 + 4 * i)"
    using assms(3) by (simp add: algebra_simps)
  show ?thesis
    using assms(4) unfolding wire_reader_def fb_reader.simps Let_def 1 vt 2 3 by simp
qed

lemma table_field:
  assumes "wire_views w b" and "wnodes w p = Some (FTable n fs)" and "0 \<le> i" and "i < n"
    and "fs i = Some fv"
  obtains k where "wire_addr w p + fb_offset wire_reader b (wire_addr w p) (4 + 2 * i) = int k"
    and "occurs (fst b) k (field_bytes (p - 4 - 4 * i) (Some fv))"
    and "int k = int (length (fst b)) - (p - 4 - 4 * i)"
proof -
  note v = views_node [OF assms(1,2)]
  let ?k = "length (fst b) - nat p + 4 + 4 * nat i"
  have "occurs (fst b) ?k (field_bytes (p - 4 - 4 * i) (Some fv))"
    using table_parts(2) [OF v(6), of "nat i"] v(3) assms(3,4,5) by simp
  moreover have "wire_addr w p + fb_offset wire_reader b (wire_addr w p) (4 + 2 * i) = int ?k"
    using table_offset [OF assms(1-4)] assms(3,5) by (simp add: v(7))
  moreover have "int ?k = int (length (fst b)) - (p - 4 - 4 * i)"
    using v(1,2) assms(3) by (simp add: of_nat_diff nat_le_iff)
  ultimately show ?thesis using that by blast
qed

lemma table_ref:
  assumes "wire_views w b" and "wnodes w p = Some (FTable n fs)" and "0 \<le> i" and "i < n"
    and "fs i = Some (FRef q)" and "wnodes w q = Some nd"
    and "j = wire_addr w p + fb_offset wire_reader b (wire_addr w p) (4 + 2 * i)"
  shows "j + rd_s32 (fst b) j = int (length (fst b) - nat q)"
proof -
  obtain k where k: "j = int k" "occurs (fst b) k (field_bytes (p - 4 - 4 * i) (Some (FRef q)))"
    "int k = int (length (fst b)) - (p - 4 - 4 * i)"
    using table_field [OF assms(1-5)] assms(7) by metis
  note v = views_node [OF assms(1,6)] and u = views_node [OF assms(1,2)]
  have "k < length (fst b)" using occurs_nth(1) [OF k(2), of 0] by simp
  then have "p - 4 - 4 * i - q \<ge> - (2 ^ 31)" using v(2,5) k(3) by simp
  moreover have "p - 4 - 4 * i - q < 2 ^ 31" using u(2,5) v(1) assms(3) by simp
  ultimately have "rd_s32 (fst b) j = p - 4 - 4 * i - q"
    using occurs_rd_s32 [of "fst b" k "p - 4 - 4 * i - q" j] k(1,2) by simp
  then show ?thesis using k v(1,2) by (simp add: of_nat_diff nat_le_iff)
qed

lemma vector_len:
  assumes "wire_views w b" and "wnodes w q = Some (FVec k cs)" and "k \<le> int (cells_size cs)"
  shows "rd_s32 (fst b) (int (length (fst b) - nat q)) = k"
proof -
  note v = views_node [OF assms(1,2)]
  let ?a = "length (fst b) - nat q"
  have "node_size (FVec k cs) - 1 < length (node_bytes q (FVec k cs))"
    by (simp only: length_node_bytes node_size.simps)
  from occurs_nth(1) [OF v(6) this] have "k < 2 ^ 31" using v(5) assms(3) by simp
  moreover have "0 \<le> k" using v(3) by simp
  moreover have "occurs (fst b) ?a (le32 k)" using v(6) by (simp add: occurs_append)
  ultimately show ?thesis by (intro occurs_rd_s32 [of _ ?a]) simp_all
qed

lemma vector_cell:
  assumes "wire_views w b" and "wnodes w q = Some (FVec k (xs @ c # ys))"
  shows "occurs (fst b) (length (fst b) - nat q + 4 + cells_size xs) (cell_bytes c)"
  using views_node(6) [OF assms] by (simp add: occurs_append length_cells add.assoc)

lemma vector_bytes:
  assumes "wire_views w b" and "wnodes w q = Some (FVec k (byte_cells bs))"
  shows "occurs (fst b) (length (fst b) - nat q + 4) bs"
proof -
  have "concat (map cell_bytes (byte_cells bs)) = bs"
    by (induction bs) (simp_all add: byte_cells_def le8_def)
  then show ?thesis using views_node(6) [OF assms] by (simp add: occurs_append)
qed

lemma string_bytes:
  assumes "wire_views w b" and "wnodes w q = Some (FString str)"
  shows "rd_s32 (fst b) (int (length (fst b) - nat q)) = int (length str)"
    and "occurs (fst b) (length (fst b) - nat q + 4) (map byte_of_char str)"
proof -
  note v = views_node [OF assms]
  let ?a = "length (fst b) - nat q"
  show o: "occurs (fst b) (?a + 4) (map byte_of_char str)"
    using v(6) by (simp add: occurs_append)
  have "?a + (4 + length str) < length (fst b)"
    using occurs_nth(1) [OF v(6), of "4 + length str"] by simp
  then have "int (length str) < 2 ^ 31" using v(5) by simp
  moreover have "occurs (fst b) ?a (le32 (int (length str)))" using v(6) by (simp add: occurs_append)
  ultimately show "rd_s32 (fst b) (int ?a) = int (length str)"
    by (intro occurs_rd_s32 [of _ ?a]) simp_all
qed

lemma occurs_view:
  assumes "occurs bs n xs" and "i = int n" and "n \<le> length bs"
  shows "uint8_view bs i (int (length xs)) = Inr xs"
proof (cases "xs = []")
  case True
  then show ?thesis using assms by (simp add: uint8_view_def)
next
  case False
  then have "n + (length xs - 1) < length bs" by (intro occurs_nth(1) [OF assms(1)]) simp
  then show ?thesis using assms False by (simp add: uint8_view_def occurs_def)
qed

section \<open>The contract holds\<close>

lemma nodes_ok_mode [simp]: "nodes_ok (w\<lparr>wmode := m\<rparr>) = nodes_ok w"
  by (simp add: nodes_ok_def)

lemma nodes_ok_bytes:
  "nodes_ok w \<Longrightarrow> nodes_ok (w\<lparr>wbytes := xs @ wbytes w\<rparr>)"
  using nodes_ok_prepend [of w "wmode w" xs] by simp

lemmas wire_run = wire_builder_def wire_valid_def set_field_def push_cells_def

lemma wire_close_table:
  assumes "wire_valid s" and "wmode s = InTable n fs" and "close_object s = (p, s')"
  shows "wire_valid s' \<and> wmode s' = Idle \<and> wnodes s p = None \<and> wnodes s' = (wnodes s)(p \<mapsto> FTable n fs)"
  using assms emit_spec [of s "FTable n fs" p s'] by (simp add: close_object_def wire_valid_def)

lemma wire_close_vector:
  assumes "wire_valid s" and "wmode s = InVector n al cs" and "close_object s = (p, s')"
  shows "wire_valid s' \<and> wmode s' = Idle \<and> wnodes s p = None \<and> wnodes s' = (wnodes s)(p \<mapsto> FVec n cs)"
  using assms emit_spec [of s "FVec n cs" p s'] by (simp add: close_object_def wire_valid_def)

lemma wire_finish:
  assumes "wire_valid s" and "wnodes s p \<noteq> None" and "run_state (finish wire_builder p pre) s = (u, s')"
    and "length (asUint8Array wire_builder s') < 2 ^ 31"
  shows "wire_views s' (asUint8Array wire_builder s', k)"
    and "rd_s32 (wbytes s') (if pre then 4 else 0) + (if pre then 4 else 0) = wire_addr s' p"
proof -
  let ?l = "int (length (wbytes s))"
  have s': "s' = s\<lparr>wbytes := ((if pre then le32 (?l + 4) else []) @ le32 (?l + 4 - p)) @ wbytes s\<rparr>"
    using assms(3) by (auto simp: wire_builder_def)
  have len: "length (wbytes s') < 2 ^ 31" using assms(4) by (simp add: wire_builder_def)
  have p: "0 < p" "p \<le> ?l" using assms(1,2) by (auto simp: wire_valid_def nodes_ok_def)
  have ok: "nodes_ok s'" unfolding s' by (rule nodes_ok_bytes) (use assms(1) in \<open>simp add: wire_valid_def\<close>)
  then show "wire_views s' (asUint8Array wire_builder s', k)"
    using len by (simp add: wire_views_def wire_builder_def)
  have "occurs (wbytes s') (if pre then 4 else 0) (le32 (?l + 4 - p))"
    by (simp add: s' occurs_def)
  then have "rd_s32 (wbytes s') (if pre then 4 else 0) = ?l + 4 - p"
    by (rule occurs_rd_s32) (use p len in \<open>simp_all add: s' split: if_splits\<close>)
  then show "rd_s32 (wbytes s') (if pre then 4 else 0) + (if pre then 4 else 0) = wire_addr s' p"
    by (simp add: s' wire_addr_def)
qed

lemma wire_field_scalar:
  assumes "wire_views w b" and "wnodes w p = Some (FTable n fs)" and "0 \<le> i" and "i < n"
    and "j = wire_addr w p + fb_offset wire_reader b (wire_addr w p) (4 + 2 * i)"
  shows "fs i = Some (FInt8 v) \<Longrightarrow> rd (fst b) j = v mod 256"
    and "fs i = Some (FInt32 v) \<Longrightarrow> rd32 (fst b) j = v mod 2 ^ 32"
    and "fs i = Some (FFloat x) \<Longrightarrow> rd32 (fst b) j = uint x"
proof -
  have at: "\<exists>k. j = int k \<and> occurs (fst b) k (field_bytes (p - 4 - 4 * i) (Some fv))"
    if "fs i = Some fv" for fv
    by (rule table_field [OF assms(1-4) that]) (use assms(5) in blast)
  show "rd (fst b) j = v mod 256" if "fs i = Some (FInt8 v)"
    using at [OF that] occurs_rd8 by (auto simp: occurs_append)
  show "rd32 (fst b) j = v mod 2 ^ 32" if "fs i = Some (FInt32 v)"
    using at [OF that] occurs_rd32 by auto
  show "rd32 (fst b) j = uint x" if "fs i = Some (FFloat x)"
    using at [OF that] occurs_rd32 [of "fst b" _ "uint x"] uint_lt2p [of x] by auto
qed

lemma wire_vector_base:
  assumes "wire_views w b" and "wnodes w p = Some (FTable n fs)" and "0 \<le> i" and "i < n"
    and "fs i = Some (FRef q)" and "wnodes w q = Some nd"
  shows "fb_vector wire_reader b (wire_addr w p + fb_offset wire_reader b (wire_addr w p) (4 + 2 * i))
    = int (length (fst b) - nat q + 4)"
  using table_ref [OF assms refl] by (simp add: wire_reader_def)

lemma wire_string:
  assumes "wire_views w b" and "wnodes w p = Some (FTable n fs)" and "0 \<le> i" and "i < n"
    and "fs i = Some (FRef q)" and "wnodes w q = Some (FString str)"
  shows "fb_string wire_reader b (wire_addr w p + fb_offset wire_reader b (wire_addr w p) (4 + 2 * i)) = str"
proof -
  define j where "j = wire_addr w p + fb_offset wire_reader b (wire_addr w p) (4 + 2 * i)"
  have j: "j + rd_s32 (fst b) j = int (length (fst b) - nat q)"
    using table_ref [OF assms j_def] .
  have "map char_of_byte (take (length str) (drop (length (fst b) - nat q + 4) (fst b))) = str"
    using string_bytes(2) [OF assms(1,6)] by (simp add: occurs_def comp_def)
  then have "fb_string wire_reader b j = str"
    using string_bytes(1) [OF assms(1,6)] j by (simp add: wire_reader_def Let_def)
  then show ?thesis by (simp add: j_def)
qed

lemma wire_byte_view:
  assumes "wire_views w b" and "wnodes w p = Some (FTable n fs)" and "0 \<le> i" and "i < n"
    and "fs i = Some (FRef q)" and "wnodes w q = Some (FVec (int (length bs)) (byte_cells bs))"
  shows "uint8_view (fb_buffer wire_reader b)
     (fb_byteOffset wire_reader b +
      fb_vector wire_reader b (wire_addr w p + fb_offset wire_reader b (wire_addr w p) (4 + 2 * i)))
     (int (length bs)) = Inr bs"
proof -
  have "length (fst b) - nat q + 3 < length (fst b)"
    using occurs_nth(1) [of "fst b" "length (fst b) - nat q" _ 3] views_node(6) [OF assms(1,6)]
    by (auto simp: occurs_append)
  then have "uint8_view (fst b) (int (length (fst b) - nat q + 4)) (int (length bs)) = Inr bs"
    by (intro occurs_view [OF vector_bytes [OF assms(1,6)]]) simp_all
  moreover have "fb_buffer wire_reader b = fst b" "fb_byteOffset wire_reader b = 0"
    by (simp_all add: wire_reader_def)
  ultimately show ?thesis using wire_vector_base [OF assms] by simp
qed

lemma wire_vector_len:
  assumes "wire_views w b" and "wnodes w p = Some (FTable n fs)" and "0 \<le> i" and "i < n"
    and "fs i = Some (FRef q)" and "wnodes w q = Some (FVec k cs)" and "k \<le> int (cells_size cs)"
  shows "fb_vector_len wire_reader b (wire_addr w p + fb_offset wire_reader b (wire_addr w p) (4 + 2 * i)) = k"
  using table_ref [OF assms(1-6) refl] vector_len [OF assms(1,6,7)] by (simp add: wire_reader_def)

lemmas wire_reader_simps = wire_reader_def wire_views_def

interpretation wire: flatbuffers wire_builder wire_reader wire_valid wmode wnodes wire_addr
  wire_views id "(=)"
proof (unfold_locales, goal_cases)
  case (1 n)
  show ?case by (simp add: wire_run nodes_ok_def)
next
  case (4 s p nd)
  then show ?case by (auto simp: wire_valid_def nodes_ok_def)
next
  case (5 s str p s')
  then show ?case
    using emit_spec [of s "FString str" p s'] by (simp add: wire_builder_def wire_valid_def)
next
  case (6 s bs p s')
  then show ?case
    using emit_spec [of s "FVec (int (length bs)) (byte_cells bs)" p s']
    by (simp add: wire_builder_def wire_valid_def)
next
  case (12 s n fs p s')
  then show ?case using wire_close_table [of s n fs p s'] by (simp add: wire_builder_def)
next
  case (20 s n al cs p s')
  then show ?case using wire_close_vector [of s n al cs p s'] by (simp add: wire_builder_def)
next
  case (22 s p pre u s')
  then show ?case using wire_finish(1) [of s p pre u s' 0] by (simp add: wire_reader_def)
next
  case (23 s p u s' b)
  then show ?case using wire_finish(2) [of s p False u s'] by (simp add: wire_reader_def wire_builder_def)
next
  case (24 s p u s' b b')
  then show ?case
    using wire_finish(2) [of s p True u s']
    by (simp add: wire_reader_def wire_builder_def SIZE_PREFIX_LENGTH_def)
next
  case (26 s b p n fs i)
  then show ?case using table_offset by simp
next
  case (27 s b p n fs i fv)
  then show ?case using table_offset by simp
next
  case (28 s b p n fs i v)
  then show ?case using wire_field_scalar(1) [OF 28(1-4) refl 28(5)] by (simp add: wire_reader_def)
next
  case (29 s b p n fs i v)
  then show ?case
    using wire_field_scalar(1) [OF 29(1-4) refl 29(5)] signed8 [of v] by (simp add: wire_reader_def)
next
  case (30 s b p n fs i v)
  then show ?case using wire_field_scalar(2) [OF 30(1-4) refl 30(5)] by (simp add: wire_reader_def)
next
  case (31 s b p n fs i x)
  then show ?case using wire_field_scalar(3) [OF 31(1-4) refl 31(5)] by (simp add: wire_reader_def)
next
  case (32 s b p n fs i q m gs)
  then show ?case
    using table_ref [OF 32 refl] views_node(7) [OF 32(1,6)] by (simp add: wire_reader_def)
next
  case (33 s b p n fs i q str)
  then show ?case by (rule wire_string)
next
  case (34 s b p n fs i q k cs)
  then show ?case by (rule wire_vector_len)
next
  case (35 s b p n fs i q k xs x ys)
  then show ?case
    using wire_vector_base [OF 35] occurs_rd32 [OF vector_cell [OF 35(1,6), simplified]] uint_lt2p [of x]
    by (simp add: wire_reader_def)
next
  case (36 s b p n fs i q k xs v ys)
  then show ?case
    using wire_vector_base [OF 36(1-6)] occurs_rd8 [OF vector_cell [OF 36(1,6), simplified]] signed8 [of v]
    by (simp add: wire_reader_def)
next
  case (37 s b p n fs i q k xs v ys)
  then show ?case
    using wire_vector_base [OF 37] occurs_rd8 [OF vector_cell [OF 37(1,6), simplified]]
    by (simp add: wire_reader_def)
next
  case (38 s b p n fs i q bs)
  then show ?case by (rule wire_byte_view)
qed (auto simp: wire_run wire_views_def wire_reader_def)

end
