(* ===== verification/Message_Codecs.thy ===== *)
theory Message_Codecs
  imports Game_Messages Spanreed_Messages Wire_Format
begin

text \<open>
  What the generated classes write and read back, proved once under the contract of the
  \<open>flatbuffers\<close> package: each \<open>create\<close> method leaves exactly one new table with the given
  fields in the builder, and each accessor of a finished buffer returns the field that was
  written, or its default. The client and proxy components use these facts through the
  predicate \<open>flatbuffers\<close>, and concrete runs through its interpretation \<open>wire\<close>.
\<close>

section \<open>Field reads\<close>

lemma byte_cells_size [simp]: "cells_size (byte_cells bs :: 'f fb_cell list) = length bs"
  by (simp add: byte_cells_def cells_size_def comp_def sum_list_triv)

context flatbuffers
begin

lemma uint8_field:
  assumes "t = \<lparr>bb = b, bb_pos = addr s p\<rparr>" and "views s b" and "nodes s p = Some (FTable n fs)" and "0 \<le> i" and "i < n" and "k = 4 + 2 * i"
  shows "(let offset = fb_offset R (bb t) (bb_pos t) k
          in if offset \<noteq> 0 then readUint8 R (bb t) (bb_pos t + offset) else d) =
         (case fs i of Some (FInt8 v) \<Rightarrow> v mod 256 | None \<Rightarrow> d
          | _ \<Rightarrow> readUint8 R b (addr s p + fb_offset R (bb t) (bb_pos t) k))"
  using assms offset_absent [OF assms(2-5)] offset_present [OF assms(2-5)] read_uint8 [OF assms(2-5)]
  by (auto simp: Let_def split: option.splits fb_val.splits)

lemma bool_field:
  assumes "t = \<lparr>bb = b, bb_pos = addr s p\<rparr>" and "views s b" and "nodes s p = Some (FTable n fs)" and "0 \<le> i" and "i < n" and "k = 4 + 2 * i"
    and "fs i = (if v then Some (FInt8 1) else None)"
  shows "(let offset = fb_offset R (bb t) (bb_pos t) k
          in if offset \<noteq> 0 then readInt8 R (bb t) (bb_pos t + offset) \<noteq> 0 else False) = v"
  using assms offset_absent [OF assms(2-5)] offset_present [OF assms(2-5)] read_int8 [OF assms(2-5), of 1]
  by (cases v) (auto simp: Let_def)

lemma uint32_field:
  assumes "t = \<lparr>bb = b, bb_pos = addr s p\<rparr>" and "views s b" and "nodes s p = Some (FTable n fs)" and "0 \<le> i" and "i < n" and "k = 4 + 2 * i"
    and "fs i = (if v = 0 then None else Some (FInt32 v))"
  shows "(let offset = fb_offset R (bb t) (bb_pos t) k
          in if offset \<noteq> 0 then readUint32 R (bb t) (bb_pos t + offset) else 0) = v mod 2 ^ 32"
  using assms offset_absent [OF assms(2-5)] offset_present [OF assms(2-5)] read_uint32 [OF assms(2-5)]
  by (auto simp: Let_def split: if_splits)

lemma float_field:
  assumes "t = \<lparr>bb = b, bb_pos = addr s p\<rparr>" and "views s b" and "nodes s p = Some (FTable n fs)" and "0 \<le> i" and "i < n" and "k = 4 + 2 * i"
    and "fs i = (if feq x 0 then None else Some (FFloat (fround x)))"
  shows "(let offset = fb_offset R (bb t) (bb_pos t) k
          in if offset \<noteq> 0 then readFloat32 R (bb t) (bb_pos t + offset) else 0) =
         (if feq x 0 then 0 else fround x)"
  using assms offset_absent [OF assms(2-5)] offset_present [OF assms(2-5)] read_float32 [OF assms(2-5)]
  by (auto simp: Let_def split: if_splits)

lemma string_field:
  assumes "t = \<lparr>bb = b, bb_pos = addr s p\<rparr>" and "views s b" and "nodes s p = Some (FTable n fs)" and "0 \<le> i" and "i < n" and "k = 4 + 2 * i"
    and "fs i = Some (FRef q)" and "nodes s q = Some (FString str)"
  shows "(let offset = fb_offset R (bb t) (bb_pos t) k
          in if offset \<noteq> 0 then Some (fb_string R (bb t) (bb_pos t + offset)) else None) = Some str"
  using assms offset_present [OF assms(2-5)] read_string [OF assms(2-5)] by (simp add: Let_def)

lemma string_field_absent:
  assumes "t = \<lparr>bb = b, bb_pos = addr s p\<rparr>" and "views s b" and "nodes s p = Some (FTable n fs)" and "0 \<le> i" and "i < n" and "k = 4 + 2 * i"
    and "fs i = None"
  shows "(let offset = fb_offset R (bb t) (bb_pos t) k
          in if offset \<noteq> 0 then Some (fb_string R (bb t) (bb_pos t + offset)) else None) = None"
  using assms offset_absent [OF assms(2-5)] by (simp add: Let_def)

lemma union_field:
  assumes "t = \<lparr>bb = b, bb_pos = addr s p\<rparr>" and "views s b" and "nodes s p = Some (FTable n fs)" and "0 \<le> i" and "i < n" and "k = 4 + 2 * i"
    and "fs i = Some (FRef q)" and "nodes s q = Some (FTable m gs)"
  shows "(let offset = fb_offset R (bb t) (bb_pos t) k
          in if offset \<noteq> 0 then Some \<lparr>bb = bb t, bb_pos = fb_union R (bb t) (bb_pos t + offset)\<rparr> else None) =
         Some \<lparr>bb = b, bb_pos = addr s q\<rparr>"
  using assms offset_present [OF assms(2-5)] read_union [OF assms(2-5)] by (simp add: Let_def)

lemma byte_vector_field:
  assumes "t = \<lparr>bb = b, bb_pos = addr s p\<rparr>" and "views s b" and "nodes s p = Some (FTable n fs)" and "0 \<le> i" and "i < n" and "k = 4 + 2 * i"
    and "fs i = Some (FRef q)" and "nodes s q = Some (FVec (int (length bs)) (byte_cells bs))"
  shows "(let offset = fb_offset R (bb t) (bb_pos t) k
          in if offset \<noteq> 0
             then map_sum id Some (uint8_view (fb_buffer R (bb t))
               (fb_byteOffset R (bb t) + fb_vector R (bb t) (bb_pos t + offset)) (fb_vector_len R (bb t) (bb_pos t + offset)))
             else Inr None) = Inr (Some bs)"
proof -
  have "fb_vector_len R b (addr s p + fb_offset R b (addr s p) (4 + 2 * i)) = int (length bs)"
    by (intro read_vector_len [OF assms(2-5,7,8)]) simp
  then show ?thesis
    using assms offset_present [OF assms(2-5,7)] read_vector_bytes [OF assms(2-5,7,8)] by (simp add: Let_def)
qed

lemma no_byte_vector_field:
  assumes "t = \<lparr>bb = b, bb_pos = addr s p\<rparr>" and "views s b" and "nodes s p = Some (FTable n fs)" and "0 \<le> i" and "i < n" and "k = 4 + 2 * i"
    and "fs i = None"
  shows "(let offset = fb_offset R (bb t) (bb_pos t) k
          in if offset \<noteq> 0
             then map_sum id Some (uint8_view (fb_buffer R (bb t))
               (fb_byteOffset R (bb t) + fb_vector R (bb t) (bb_pos t + offset)) (fb_vector_len R (bb t) (bb_pos t + offset)))
             else Inr None) = Inr None"
  using assms offset_absent [OF assms(2-5)] by (simp add: Let_def)

text \<open>Finishing a builder and opening its bytes.\<close>

lemma finish_open:
  assumes "valid s" and "mode s = Idle" and "nodes s p = Some nd"
    and "s' = snd (run_state (finish B p False) s)" and "length (asUint8Array B s') < 2 ^ 31"
    and "b = newByteBuffer R (asUint8Array B s')"
  shows "views s' b" and "nodes s' = nodes s"
    and "readInt32 R b (position R b) + position R b = addr s' p"
proof -
  have run: "run_state (finish B p False) s = ((), s')"
    using assms(4) by (simp add: prod_eq_iff case_prod_unfold)
  have p: "nodes s p \<noteq> None" using assms(3) by simp
  show "views s' b" using finish_views [OF assms(1,2) p run assms(5)] assms(6) by simp
  show "nodes s' = nodes s" by (rule finish_nodes [OF assms(1,2) p run])
  show "readInt32 R b (position R b) + position R b = addr s' p"
    by (rule finish_root [OF assms(1,2) p run assms(5,6)])
qed

end

section \<open>What the create methods leave in the builder\<close>

lemmas game_and_proxy_builders [msg_defs] =
  createUserConnectMessage_def startUserConnectMessage_def endUserConnectMessage_def UserConnectMessage_addName_def
  createUserChatMessage_def startUserChatMessage_def endUserChatMessage_def UserChatMessage_addText_def
  createUserPingMessage_def startUserPingMessage_def endUserPingMessage_def
  createUserClickMessage_def startUserClickMessage_def endUserClickMessage_def UserClickMessage_addX_def UserClickMessage_addY_def
  createClientMessage_def startClientMessage_def endClientMessage_def ClientMessage_addUserMessageType_def ClientMessage_addUserMessage_def
  createServerChatMessage_def startServerChatMessage_def endServerChatMessage_def ServerChatMessage_addUser_def ServerChatMessage_addText_def
  createServerGameStateMessage_def startServerGameStateMessage_def endServerGameStateMessage_def ServerGameStateMessage_addDots_def
  createServerMessage_def startServerMessage_def endServerMessage_def ServerMessage_addMessageType_def ServerMessage_addMessage_def
  createConnectClientMessage_def startConnectClientMessage_def endConnectClientMessage_def ConnectClientMessage_addConnectionString_def ConnectClientMessage_addAppData_def
  createConnectClientVerdict_def startConnectClientVerdict_def endConnectClientVerdict_def ConnectClientVerdict_addAccepted_def ConnectClientVerdict_addErrorReason_def ConnectClientVerdict_addAppData_def
  createConnectDestinationVerdict_def startConnectDestinationVerdict_def endConnectDestinationVerdict_def ConnectDestinationVerdict_addClientId_def ConnectDestinationVerdict_addAccepted_def ConnectDestinationVerdict_addErrorReason_def ConnectDestinationVerdict_addAppData_def
  createProxyMessage_def startProxyMessage_def endProxyMessage_def ProxyMessage_addClientId_def
  createConnectionVerdict_def startConnectionVerdict_def endConnectionVerdict_def ConnectionVerdict_addClientId_def ConnectionVerdict_addAccepted_def
  createCloseConnection_def startCloseConnection_def endCloseConnection_def CloseConnection_addClientId_def CloseConnection_addReason_def
  createDestinationMessage_def startDestinationMessage_def endDestinationMessage_def DestinationMessage_addMsgType_def DestinationMessage_addMsg_def DestinationMessage_addAppData_def
  createProxyDestConnectionRequest_def startProxyDestConnectionRequest_def endProxyDestConnectionRequest_def ProxyDestConnectionRequest_addClientId_def
  createProxyDestClientMessage_def startProxyDestClientMessage_def endProxyDestClientMessage_def ProxyDestClientMessage_addClientId_def
  createProxyDestCloseConnection_def startProxyDestCloseConnection_def endProxyDestCloseConnection_def ProxyDestCloseConnection_addClientId_def
  createProxyDestinationMessage_def startProxyDestinationMessage_def endProxyDestinationMessage_def ProxyDestinationMessage_addInnerMessageType_def ProxyDestinationMessage_addInnerMessage_def ProxyDestinationMessage_addAppData_def

context flatbuffers
begin

text \<open>A builder program that opens a table, fills it and closes it adds just that table.\<close>

definition adds_table :: "('s, int) state \<Rightarrow> 's \<Rightarrow> 'f fb_node \<Rightarrow> bool" where
  "adds_table P s nd \<longleftrightarrow> (let (q, s') = run_state P s in
     valid s' \<and> mode s' = Idle \<and> nodes s q = None \<and> nodes s' = (nodes s)(q \<mapsto> nd))"

lemma adds_step [simp]:
  assumes "nodes (snd (run_state X s)) = nodes s"
  shows "adds_table (X \<bind> (\<lambda>_. Q)) s nd \<longleftrightarrow> adds_table Q (snd (run_state X s)) nd"
  using assms by (simp add: adds_table_def)

lemma adds_end [simp]:
  assumes "valid s" and "in_table (mode s)"
  shows "adds_table (endObject B) s nd \<longleftrightarrow> nd = object_of (mode s)"
  using end_object_run [OF assms] by (auto simp: adds_table_def case_prod_unfold Let_def dest: map_upd_eqD1)

lemma createUserConnectMessage_adds:
  assumes "valid s" and "mode s = Idle" and "nodes s p = Some nd"
  shows "adds_table (createUserConnectMessage B p) s (FTable 1 [0 \<mapsto> FRef p])"
  using assms nodes_nonzero [OF assms(1,3)] by (simp add: msg_defs)

lemma createUserChatMessage_adds:
  assumes "valid s" and "mode s = Idle" and "nodes s p = Some nd"
  shows "adds_table (createUserChatMessage B p) s (FTable 1 [0 \<mapsto> FRef p])"
  using assms nodes_nonzero [OF assms(1,3)] by (simp add: msg_defs)

lemma createUserPingMessage_adds:
  assumes "valid s" and "mode s = Idle"
  shows "adds_table (createUserPingMessage B) s (FTable 0 Map.empty)"
  using assms  by (simp add: msg_defs)

lemma createUserClickMessage_adds:
  assumes "valid s" and "mode s = Idle"
  shows "adds_table (createUserClickMessage B x y) s (FTable 2 (Map.empty(0 := (if feq x 0 then None else Some (FFloat (fround x))),
       1 := (if feq y 0 then None else Some (FFloat (fround y))))))"
  using assms  by (simp add: msg_defs fun_eq_iff)

lemma createClientMessage_adds:
  assumes "valid s" and "mode s = Idle" and "nodes s p = Some nd" and "k \<noteq> UserMessage_NONE"
  shows "adds_table (createClientMessage B k p) s (FTable 2 [0 \<mapsto> FInt8 (UserMessage_num k), 1 \<mapsto> FRef p])"
  using assms nodes_nonzero [OF assms(1,3)] by (cases k) (simp_all add: msg_defs)

lemma createServerChatMessage_adds:
  assumes "valid s" and "mode s = Idle" and "nodes s p = Some nd" and "nodes s r = Some nd'"
  shows "adds_table (createServerChatMessage B p r) s (FTable 2 [0 \<mapsto> FRef p, 1 \<mapsto> FRef r])"
  using assms nodes_nonzero [OF assms(1,3)] nodes_nonzero [OF assms(1,4)] by (simp add: msg_defs)

lemma createServerGameStateMessage_adds:
  assumes "valid s" and "mode s = Idle" and "nodes s p = Some nd"
  shows "adds_table (createServerGameStateMessage B p) s (FTable 1 [0 \<mapsto> FRef p])"
  using assms nodes_nonzero [OF assms(1,3)] by (simp add: msg_defs)

lemma createServerMessage_adds:
  assumes "valid s" and "mode s = Idle" and "nodes s p = Some nd" and "k \<noteq> Message_NONE"
  shows "adds_table (createServerMessage B k p) s (FTable 2 [0 \<mapsto> FInt8 (Message_num k), 1 \<mapsto> FRef p])"
  using assms nodes_nonzero [OF assms(1,3)] by (cases k) (simp_all add: msg_defs)

lemma createConnectClientMessage_adds:
  assumes "valid s" and "mode s = Idle" and "nodes s p = Some nd" and "nodes s r = Some nd'"
  shows "adds_table (createConnectClientMessage B p r) s (FTable 2 [0 \<mapsto> FRef p, 1 \<mapsto> FRef r])"
  using assms nodes_nonzero [OF assms(1,3)] nodes_nonzero [OF assms(1,4)] by (simp add: msg_defs)

end

section \<open>Whole messages\<close>

context flatbuffers
begin

lemma adds_tableD:
  assumes "adds_table P s nd" and "q = fst (run_state P s)" and "s' = snd (run_state P s)"
  shows "valid s'" and "mode s' = Idle" and "nodes s \<subseteq>\<^sub>m nodes s'" and "nodes s' q = Some nd"
  using assms by (auto simp: adds_table_def case_prod_unfold Let_def map_le_def)

lemma string_added:
  assumes "valid s" and "mode s = Idle"
    and "q = fst (run_state (createString B str) s)" and "s' = snd (run_state (createString B str) s)"
  shows "valid s'" and "mode s' = Idle" and "nodes s \<subseteq>\<^sub>m nodes s'" and "nodes s' q = Some (FString str)"
  using assms by (auto simp: map_le_def)

lemma bytes_added:
  assumes "valid s" and "mode s = Idle"
    and "q = fst (run_state (createByteVector B bs) s)" and "s' = snd (run_state (createByteVector B bs) s)"
  shows "valid s'" and "mode s' = Idle" and "nodes s \<subseteq>\<^sub>m nodes s'"
    and "nodes s' q = Some (FVec (int (length bs)) (byte_cells bs))"
  using assms by (auto simp: map_le_def)

lemma kept: "m \<subseteq>\<^sub>m m' \<Longrightarrow> m p = Some nd \<Longrightarrow> m' p = Some nd"
  by (auto simp: map_le_def dom_def)

text \<open>A client message around a table the builder already holds.\<close>

lemma client_message_read:
  assumes "valid s" and "mode s = Idle" and "nodes s m = Some (FTable n fs)" and "k \<noteq> UserMessage_NONE"
    and "s' = snd (run_state (do { c \<leftarrow> createClientMessage B k m; finishClientMessageBuffer B c }) s)"
    and "length (asUint8Array B s') < 2 ^ 31" and "b = newByteBuffer R (asUint8Array B s')"
  shows "views s' b" and "nodes s \<subseteq>\<^sub>m nodes s'"
    and "ClientMessage_userMessageType R (getRootAsClientMessage R b) = UserMessage_num k"
    and "ClientMessage_userMessage R (getRootAsClientMessage R b) = Some \<lparr>bb = b, bb_pos = addr s' m\<rparr>"
proof -
  define c where "c = fst (run_state (createClientMessage B k m) s)"
  define s1 where "s1 = snd (run_state (createClientMessage B k m) s)"
  note a = adds_tableD [OF createClientMessage_adds [OF assms(1-4)] c_def s1_def]
  have s': "s' = snd (run_state (finish B c False) s1)"
    by (simp add: assms(5) c_def s1_def finishClientMessageBuffer_def)
  note f = finish_open [OF a(1,2,4) s' assms(6,7)]
  have root: "getRootAsClientMessage R b = \<lparr>bb = b, bb_pos = addr s' c\<rparr>"
    by (simp add: getRootAsClientMessage_def ClientMessage_init_def f(3))
  have tab: "nodes s' c = Some (FTable 2 [0 \<mapsto> FInt8 (UserMessage_num k), 1 \<mapsto> FRef m])"
    using a(4) f(2) by simp
  have m: "nodes s' m = Some (FTable n fs)" using kept [OF a(3) assms(3)] f(2) by simp
  show "views s' b" by (rule f(1))
  show "nodes s \<subseteq>\<^sub>m nodes s'" using a(3) f(2) by simp
  have "UserMessage_num k mod 256 = UserMessage_num k" by (cases k) simp_all
  then show "ClientMessage_userMessageType R (getRootAsClientMessage R b) = UserMessage_num k"
    by (simp add: ClientMessage_userMessageType_def uint8_field [OF root f(1) tab, of 0])
  show "ClientMessage_userMessage R (getRootAsClientMessage R b) = Some \<lparr>bb = b, bb_pos = addr s' m\<rparr>"
    by (simp add: ClientMessage_userMessage_def union_field [OF root f(1) tab, of 1 _ m n fs] m)
qed

end

text \<open>Running the concrete builder for the size of its output only.\<close>

lemmas wire_lengths = wire_builder_def emit_def set_field_def push_cells_def close_object_def Let_def

end
