(* ===== verification/Log.thy ===== *)
theory Log
  imports Prelude
begin

text \<open>
  The client's logging: \<open>log.ts\<close> (levels, prefixing, the default sink) and \<open>Console.tsx\<close> (the
  on-page log). A log callback is a state transformer on whatever the callback writes to.
\<close>

section \<open>log.ts\<close>

datatype LogLevel = LogDebug | LogInfo | LogWarning | LogError | LogUserChat

type_synonym 'l LogCb = "string \<Rightarrow> LogLevel option \<Rightarrow> 'l \<Rightarrow> 'l"

definition WrapLogFn :: "string \<Rightarrow> 'l LogCb \<Rightarrow> 'l LogCb" where
  "WrapLogFn name logCb = (\<lambda>msg level. logCb (''['' @ name @ ''] '' @ msg) level)"

text \<open>The browser console: the calls made to it, oldest first.\<close>

datatype console_call = ConsoleLog string | ConsoleWarn string | ConsoleError string

definition DefaultLogCb :: "console_call list LogCb" where
  "DefaultLogCb msg level console =
     (case (case level of None \<Rightarrow> LogInfo | Some l \<Rightarrow> l) of
        LogDebug \<Rightarrow> console @ [ConsoleLog msg]
      | LogInfo \<Rightarrow> console @ [ConsoleLog msg]
      | LogWarning \<Rightarrow> console @ [ConsoleWarn msg]
      | LogError \<Rightarrow> console @ [ConsoleError msg]
      | LogUserChat \<Rightarrow> console)"

section \<open>Console.tsx\<close>

record log_line =
  line_msg :: string
  line_level :: LogLevel

datatype console_style = CONSOLE_WARN | CONSOLE_ERROR | CONSOLE_INFO | CONSOLE_USER_CHAT

text \<open>The colour added to a line; a level without a case keeps the plain style.\<close>

fun MsgCssExtra :: "LogLevel \<Rightarrow> console_style option" where
  "MsgCssExtra LogWarning = Some CONSOLE_WARN"
| "MsgCssExtra LogError = Some CONSOLE_ERROR"
| "MsgCssExtra LogInfo = Some CONSOLE_INFO"
| "MsgCssExtra LogUserChat = Some CONSOLE_USER_CHAT"
| "MsgCssExtra LogDebug = None"

record console_row =
  row_key :: string
  row_number :: nat
  row_style :: "console_style option"
  row_id :: string
  row_text :: string

definition Console_row :: "nat \<Rightarrow> log_line \<Rightarrow> console_row" where
  "Console_row idx line =
     \<lparr>row_key = ''msgidx-'' @ js_nat_string idx, row_number = idx + 1,
      row_style = MsgCssExtra (line_level line), row_id = ''msg-'' @ js_nat_string idx,
      row_text = line_msg line\<rparr>"

definition Console :: "log_line list \<Rightarrow> console_row list" where
  "Console lines = map (\<lambda>(idx, line). Console_row idx line) (enumerate 0 lines)"

section \<open>Properties\<close>

lemma WrapLogFn_nested:
  "WrapLogFn a (WrapLogFn b cb) msg lv = cb (''['' @ b @ ''] ['' @ a @ ''] '' @ msg) lv"
  by (simp add: WrapLogFn_def)

lemma digits_distinct:
  "a < 10 \<Longrightarrow> b < 10 \<Longrightarrow> js_digit a = js_digit b \<Longrightarrow> a = b"
proof -
  assume "a < 10" "b < 10" "js_digit a = js_digit b"
  then have "of_char (js_digit a) = (of_char (js_digit b) :: nat)" by simp
  with \<open>a < 10\<close> \<open>b < 10\<close> show "a = b" by (simp add: js_digit_def)
qed

lemma js_nat_string_nonempty [simp]: "js_nat_string n \<noteq> []" "[] \<noteq> js_nat_string n"
  by (subst js_nat_string.simps; simp)+

lemma js_nat_string_inj: "js_nat_string m = js_nat_string n \<Longrightarrow> m = n"
proof (induction m arbitrary: n rule: js_nat_string.induct)
  case (1 m)
  have step: "js_nat_string k = (if k < 10 then [js_digit k] else js_nat_string (k div 10) @ [js_digit (k mod 10)])"
    for k by (rule js_nat_string.simps)
  show ?case
  proof (cases "m < 10"; cases "n < 10")
    assume "m < 10" "n < 10"
    then show ?thesis using "1.prems" step [of m] step [of n] digits_distinct by simp
  next
    assume "\<not> m < 10" "\<not> n < 10"
    then have eq: "js_nat_string (m div 10) = js_nat_string (n div 10)" "js_digit (m mod 10) = js_digit (n mod 10)"
      using "1.prems" step [of m] step [of n] by simp_all
    have "m div 10 = n div 10" using "1.IH" \<open>\<not> m < 10\<close> eq(1) by blast
    moreover have "m mod 10 = n mod 10" using digits_distinct [OF _ _ eq(2)] by simp
    ultimately show ?thesis by (metis div_mult_mod_eq)
  qed (use "1.prems" step [of m] step [of n] in auto)
qed

text \<open>
  The on-page log shows every line once, in order, numbered from one, and the React keys
  and element ids of its rows are pairwise different.
\<close>

theorem Console_rows:
  "map row_text (Console lines) = map line_msg lines \<and>
   map row_number (Console lines) = [1..<length lines + 1] \<and>
   distinct (map row_key (Console lines)) \<and> distinct (map row_id (Console lines))"
proof -
  have rows: "Console lines = map (\<lambda>i. Console_row i (lines ! i)) [0..<length lines]"
    by (rule nth_equalityI) (simp_all add: Console_def nth_enumerate_eq)
  have "map row_text (Console lines) = map line_msg lines"
    by (rule nth_equalityI) (simp_all add: rows Console_row_def)
  moreover have "map row_number (Console lines) = [1..<length lines + 1]"
    by (rule nth_equalityI) (simp_all add: rows Console_row_def del: upt_Suc)
  moreover have "distinct (map row_key (Console lines))" "distinct (map row_id (Console lines))"
    by (auto simp: rows Console_row_def comp_def distinct_map intro!: inj_onI dest: js_nat_string_inj)
  ultimately show ?thesis by blast
qed

end
