(* ===== verification/Connection.thy ===== *)
theory Connection
  imports Message_Codecs Log
begin

text \<open>
  \<open>Connection.ts\<close>: opening a connection to the proxy over a WebSocket or over WebTransport. The
  socket objects belong to the browser. A WebSocket is the part of its state the code touches:
  which callback is installed in each handler slot, what has been sent, how often \<open>close\<close> was
  called. The asynchronous function becomes a state machine whose steps are the events the
  browser delivers: a callback that settles the promise being awaited runs the rest of the
  function up to the next \<open>await\<close> in the same step, as the microtask queue does.
\<close>

section \<open>Connections\<close>

text \<open>The first argument is the identity of the socket or transport object.\<close>

datatype Connection =
    WebsocketConnection (conn_object: nat) (conn_userName: string)
  | WebtransportConnection (conn_object: nat) (conn_userName: string)

section \<open>The payload of a connection request\<close>

definition connect_app_data :: "('s, 'f) fb_builder \<Rightarrow> string \<Rightarrow> bytes" where
  "connect_app_data B userName =
     (let appDataFbb = newBuilder B 64
      in asUint8Array B (snd (run_state
        (do { pUserNameString \<leftarrow> createString B userName;
              pUserConnectMessage \<leftarrow> createUserConnectMessage B pUserNameString;
              pClientMessage \<leftarrow> createClientMessage B UserMessage_UserConnectMessage pUserConnectMessage;
              finishClientMessageBuffer B pClientMessage }) appDataFbb)))"

definition connect_payload :: "('s, 'f) fb_builder \<Rightarrow> string \<Rightarrow> string \<Rightarrow> bytes" where
  "connect_payload B backendAddress userName =
     (let appData = connect_app_data B userName; fbb = newBuilder B 64
      in asUint8Array B (snd (run_state
        (do { pBackendAddress \<leftarrow> createString B backendAddress;
              pAppData \<leftarrow> createByteVector B appData;
              pConnectClientMessage \<leftarrow> createConnectClientMessage B pBackendAddress pAppData;
              finishConnectClientMessageBuffer B pConnectClientMessage }) fbb)))"

section \<open>connectWebsocket\<close>

datatype ws_callback =
    RejectOnError      \<comment> \<open>lines 40 to 47\<close>
  | ResolveOnOpen      \<comment> \<open>line 48\<close>
  | VerdictOnMessage   \<comment> \<open>lines 89 to 100\<close>
  | RejectOnClose      \<comment> \<open>lines 101 to 103\<close>

record websocket =
  ws_url :: string
  ws_binaryType :: string
  ws_onopen :: "ws_callback option"
  ws_onerror :: "ws_callback option"
  ws_onmessage :: "ws_callback option"
  ws_onclose :: "ws_callback option"
  ws_sent :: "bytes list"
  ws_close_calls :: nat

definition new_WebSocket :: "string \<Rightarrow> websocket" where
  "new_WebSocket url =
     \<lparr>ws_url = url, ws_binaryType = ''blob'', ws_onopen = None, ws_onerror = None,
      ws_onmessage = None, ws_onclose = None, ws_sent = [], ws_close_calls = 0\<rparr>"

text \<open>
  Both constructors throw on an address the browser does not accept, inside an asynchronous
  function, so that its promise is rejected: the argument \<open>urlError\<close> is the browser's judgement
  of an address. No event is ever delivered to a socket that was not constructed.
\<close>

type_synonym url_check = "string \<Rightarrow> thrown option"

datatype ws_readyState = CONNECTING | OPEN | CLOSING | CLOSED

text \<open>
  What the browser can deliver: an error event with its current target (whether it is a
  WebSocket, and that socket's state) and its text, a binary message, a close event.
\<close>

datatype ws_event =
    WsOpen
  | WsError bool ws_readyState string
  | WsMessage bytes
  | WsClose string

text \<open>Where the asynchronous function stands: at its first or second \<open>await\<close>, or settled.\<close>

datatype ws_phase = AwaitOpen | AwaitVerdict | Returned Connection | Threw thrown

record 'l ws_run =
  ws :: websocket
  ws_phase :: ws_phase
  ws_logs :: 'l

definition connectWebsocket_start ::
  "url_check \<Rightarrow> string \<Rightarrow> string \<Rightarrow> 'l LogCb \<Rightarrow> 'l \<Rightarrow> 'l ws_run" where
  "connectWebsocket_start urlError spanreedAddress userName logCb l =
     (let log = WrapLogFn ''connectWebsocket'' logCb
      in case urlError spanreedAddress of
        Some e \<Rightarrow> \<lparr>ws = new_WebSocket spanreedAddress, ws_phase = Threw e, ws_logs = l\<rparr>
      | None \<Rightarrow>
         \<lparr>ws = (new_WebSocket spanreedAddress)
             \<lparr>ws_binaryType := ''arraybuffer'', ws_onerror := Some RejectOnError,
              ws_onopen := Some ResolveOnOpen\<rparr>,
          ws_phase = AwaitOpen,
          ws_logs = log (''Attempting to open WebSocket connection on '' @ spanreedAddress @
            '' for userName='' @ userName @ ''...'') (Some LogDebug) l\<rparr>)"

text \<open>From the first \<open>await\<close> to the second: ask for the connection and install the callbacks.\<close>

definition connectWebsocket_authorize ::
  "('s, 'f) fb_builder \<Rightarrow> string \<Rightarrow> string \<Rightarrow> 'l LogCb \<Rightarrow> 'l ws_run \<Rightarrow> 'l ws_run" where
  "connectWebsocket_authorize B backendAddress userName logCb r =
     (let log = WrapLogFn ''connectWebsocket'' logCb;
          connectClientPayload = connect_payload B backendAddress userName;
          w = (ws r)\<lparr>ws_onerror := None, ws_onmessage := None\<rparr>
      in \<lparr>ws = w\<lparr>ws_sent := ws_sent w @ [connectClientPayload],
                ws_onmessage := Some VerdictOnMessage, ws_onclose := Some RejectOnClose\<rparr>,
          ws_phase = AwaitVerdict,
          ws_logs = log (''Connection opened! Attempting to authorize (payload size='' @
            js_nat_string (length connectClientPayload) @ '')...'') (Some LogDebug) (ws_logs r)\<rparr>)"

text \<open>The rejection of the second promise: close the socket and rethrow.\<close>

definition connectWebsocket_reject :: "thrown \<Rightarrow> 'l ws_run \<Rightarrow> 'l ws_run" where
  "connectWebsocket_reject e r =
     r\<lparr>ws := (ws r)\<lparr>ws_close_calls := ws_close_calls (ws r) + 1\<rparr>, ws_phase := Threw e\<rparr>"

definition connectWebsocket_finish :: "nat \<Rightarrow> string \<Rightarrow> 'l LogCb \<Rightarrow> 'l ws_run \<Rightarrow> 'l ws_run" where
  "connectWebsocket_finish sock userName logCb r =
     (let log = WrapLogFn ''connectWebsocket'' logCb
      in \<lparr>ws = (ws r)\<lparr>ws_onclose := None, ws_onmessage := None\<rparr>,
          ws_phase = Returned (WebsocketConnection sock userName),
          ws_logs = log (''Connection opened successfully! Messages may now be forwarded to the '' @
            ''destination server through this WebSocket connection.'') (Some LogDebug) (ws_logs r)\<rparr>)"

definition verdict_of :: "('bb, 'f) fb_reader \<Rightarrow> bytes \<Rightarrow> 'bb fb_table" where
  "verdict_of R data = getRootAsConnectClientVerdict R (newByteBuffer R data)"

definition rejection_reason :: "('bb, 'f) fb_reader \<Rightarrow> 'bb fb_table \<Rightarrow> string" where
  "rejection_reason R verdict =
     (case ConnectClientVerdict_errorReason R verdict of None \<Rightarrow> ''<unknown reason>'' | Some e \<Rightarrow> e)"

fun connectWebsocket_step ::
  "('s, 'f) fb_builder \<Rightarrow> ('bb, 'f) fb_reader \<Rightarrow> nat \<Rightarrow> string \<Rightarrow> string \<Rightarrow> 'l LogCb \<Rightarrow>
   'l ws_run \<Rightarrow> ws_event \<Rightarrow> 'l ws_run" where
  "connectWebsocket_step B R sock backendAddress userName logCb r WsOpen =
     (if ws_onopen (ws r) = Some ResolveOnOpen \<and> ws_phase r = AwaitOpen
      then connectWebsocket_authorize B backendAddress userName logCb r else r)"
| "connectWebsocket_step B R sock backendAddress userName logCb r (WsError isWebSocket state text) =
     (if ws_onerror (ws r) = Some RejectOnError \<and> ws_phase r = AwaitOpen
      then r\<lparr>ws_phase := Threw (if isWebSocket \<and> state = CLOSED
               then JsError ''Failed to connect to proxy'' else JsObject text)\<rparr>
      else r)"
| "connectWebsocket_step B R sock backendAddress userName logCb r (WsMessage data) =
     (if ws_onmessage (ws r) = Some VerdictOnMessage \<and> ws_phase r = AwaitVerdict
      then (let verdict = verdict_of R data
            in if ConnectClientVerdict_accepted R verdict
               then connectWebsocket_finish sock userName logCb r
               else connectWebsocket_reject
                 (JsString (''destination rejected connection: '' @ rejection_reason R verdict)) r)
      else r)"
| "connectWebsocket_step B R sock backendAddress userName logCb r (WsClose text) =
     (if ws_onclose (ws r) = Some RejectOnClose \<and> ws_phase r = AwaitVerdict
      then connectWebsocket_reject (JsObject text) r else r)"

definition connectWebsocket ::
  "('s, 'f) fb_builder \<Rightarrow> ('bb, 'f) fb_reader \<Rightarrow> url_check \<Rightarrow> nat \<Rightarrow> string \<Rightarrow> string \<Rightarrow> string \<Rightarrow> 'l LogCb \<Rightarrow> 'l \<Rightarrow>
   ws_event list \<Rightarrow> 'l ws_run" where
  "connectWebsocket B R urlError sock spanreedAddress backendAddress userName logCb l events =
     foldl (connectWebsocket_step B R sock backendAddress userName logCb)
       (connectWebsocket_start urlError spanreedAddress userName logCb l) events"

section \<open>connectWebtransport\<close>

text \<open>
  The two promises the transport offers, and which of the two raced settles first: \<open>ready\<close> or
  \<open>closed\<close>, each resolved or rejected; then what the first datagram read gives. (A later
  rejection of \<open>closed\<close> only adds a log line, when the function may have returned already.)
\<close>

datatype wt_race = ReadyResolved | ReadyRejected thrown | ClosedResolved | ClosedRejected thrown

datatype wt_read = ReadDone | ReadBytes bytes | ReadOther | ReadRejected thrown

record 'l wt_run =
  wt_url :: string
  wt_requireUnreliable :: bool
  wt_reader_taken :: bool
  wt_writer_taken :: bool
  wt_written :: "bytes list"
  wt_close_calls :: nat
  wt_result :: "thrown + Connection"
  wt_logs :: 'l

fun thrown_text :: "thrown \<Rightarrow> string" where
  "thrown_text (JsError m) = ''Error: '' @ m"
| "thrown_text (JsString m) = m"
| "thrown_text (JsObject m) = m"

definition connectWebtransport ::
  "('s, 'f) fb_builder \<Rightarrow> ('bb, 'f) fb_reader \<Rightarrow> url_check \<Rightarrow> nat \<Rightarrow> string \<Rightarrow> string \<Rightarrow> string \<Rightarrow> 'l LogCb \<Rightarrow> 'l \<Rightarrow>
   wt_race \<Rightarrow> wt_read \<Rightarrow> 'l wt_run" where
  "connectWebtransport B R urlError wt spanreedAddress backendAddress userName logCb l race resp =
     (let log = WrapLogFn ''connectWebtransport'' logCb;
          start = \<lparr>wt_url = spanreedAddress, wt_requireUnreliable = True, wt_reader_taken = False,
            wt_writer_taken = False, wt_written = [], wt_close_calls = 0,
            wt_result = Inr (WebtransportConnection wt userName), wt_logs = l\<rparr>;
          connectClientPayload = connect_payload B backendAddress userName;
          asked = start\<lparr>wt_reader_taken := True, wt_writer_taken := True,
            wt_written := [connectClientPayload],
            wt_logs := log (''Connection opened! Attempting to authorize (payload size='' @
              js_nat_string (length connectClientPayload) @ '')'') (Some LogDebug) l\<rparr>;
          opened = asked\<lparr>wt_logs := log (''Connection opened successfully! Message may now be '' @
            ''forwarded to the destination server through this WebTransport connection'')
            (Some LogDebug) (wt_logs asked)\<rparr>
      in case urlError spanreedAddress of Some e \<Rightarrow> start\<lparr>wt_result := Inl e\<rparr> | None \<Rightarrow>
         (case race of
           ReadyRejected e \<Rightarrow> start\<lparr>wt_result := Inl e\<rparr>
         | ClosedRejected e \<Rightarrow>
             start\<lparr>wt_result := Inl e,
               wt_logs := logCb (''WebTransport unexpectedly closed! '' @ thrown_text e) (Some LogError) l\<rparr>
         | _ \<Rightarrow> (case resp of
             ReadRejected e \<Rightarrow> asked\<lparr>wt_result := Inl e\<rparr>
           | ReadDone \<Rightarrow> asked\<lparr>wt_result := Inl (JsError ''Failed to read from reader, closed'')\<rparr>
           | ReadBytes value \<Rightarrow>
               (let verdict = verdict_of R value
                in if \<not> ConnectClientVerdict_accepted R verdict
                   then asked\<lparr>wt_result :=
                     Inl (JsError (''Destination rejected connection: '' @ rejection_reason R verdict))\<rparr>
                   else opened)
           | ReadOther \<Rightarrow> opened)))"

section \<open>The connection request can be read back\<close>

context flatbuffers
begin

lemma connect_app_data_read:
  assumes "length (connect_app_data B userName) < 2 ^ 31" and "b = newByteBuffer R (connect_app_data B userName)"
  shows "ClientMessage_userMessageType R (getRootAsClientMessage R b) = UserMessage_num UserMessage_UserConnectMessage"
    and "map_option (UserConnectMessage_name R) (ClientMessage_userMessage R (getRootAsClientMessage R b)) =
         Some (Some userName)"
proof -
  define s0 where "s0 = newBuilder B 64"
  define n where "n = fst (run_state (createString B userName) s0)"
  define s1 where "s1 = snd (run_state (createString B userName) s0)"
  have "valid s0" "mode s0 = Idle" by (simp_all add: s0_def)
  note a1 = string_added [OF this n_def s1_def]
  define u where "u = fst (run_state (createUserConnectMessage B n) s1)"
  define s2 where "s2 = snd (run_state (createUserConnectMessage B n) s1)"
  note a2 = adds_tableD [OF createUserConnectMessage_adds [OF a1(1,2,4)] u_def s2_def]
  define s3 where "s3 = snd (run_state (do { c \<leftarrow> createClientMessage B UserMessage_UserConnectMessage u;
    finishClientMessageBuffer B c }) s2)"
  have data: "connect_app_data B userName = asUint8Array B s3"
    by (simp add: connect_app_data_def Let_def s0_def n_def s1_def u_def s2_def s3_def)
  note m = client_message_read [OF a2(1,2,4) _ s3_def assms [unfolded data], simplified]
  show "ClientMessage_userMessageType R (getRootAsClientMessage R b) = UserMessage_num UserMessage_UserConnectMessage"
    using m(3) by simp
  have "UserConnectMessage_name R \<lparr>bb = b, bb_pos = addr s3 u\<rparr> = Some userName"
    unfolding UserConnectMessage_name_def
    by (rule string_field [OF refl m(1) kept [OF m(2) a2(4)], of 0 4 n]) 
      (simp_all add: kept [OF m(2) kept [OF a2(3) a1(4)]])
  then show "map_option (UserConnectMessage_name R) (ClientMessage_userMessage R (getRootAsClientMessage R b)) =
      Some (Some userName)"
    using m(4) by simp
qed

lemma connect_payload_read:
  assumes "length (connect_payload B dest userName) < 2 ^ 31" and "b = newByteBuffer R (connect_payload B dest userName)"
  shows "ConnectClientMessage_connectionString R (getRootAsConnectClientMessage R b) = Some dest"
    and "ConnectClientMessage_appDataArray R (getRootAsConnectClientMessage R b) =
         Inr (Some (connect_app_data B userName))"
proof -
  define d where "d = connect_app_data B userName"
  define s0 where "s0 = newBuilder B 64"
  define n where "n = fst (run_state (createString B dest) s0)"
  define s1 where "s1 = snd (run_state (createString B dest) s0)"
  have "valid s0" "mode s0 = Idle" by (simp_all add: s0_def)
  note a1 = string_added [OF this n_def s1_def]
  define v where "v = fst (run_state (createByteVector B d) s1)"
  define s2 where "s2 = snd (run_state (createByteVector B d) s1)"
  note a2 = bytes_added [OF a1(1,2) v_def s2_def]
  define c where "c = fst (run_state (createConnectClientMessage B n v) s2)"
  define s3 where "s3 = snd (run_state (createConnectClientMessage B n v) s2)"
  note a3 = adds_tableD [OF createConnectClientMessage_adds [OF a2(1,2) kept [OF a2(3) a1(4)] a2(4)] c_def s3_def]
  define s4 where "s4 = snd (run_state (finish B c False) s3)"
  have data: "connect_payload B dest userName = asUint8Array B s4"
    by (simp add: connect_payload_def Let_def finishConnectClientMessageBuffer_def d_def s0_def n_def s1_def v_def s2_def
        c_def s3_def s4_def)
  note f = finish_open [OF a3(1,2,4) s4_def assms [unfolded data]]
  have root: "getRootAsConnectClientMessage R b = \<lparr>bb = b, bb_pos = addr s4 c\<rparr>"
    by (simp add: getRootAsConnectClientMessage_def ConnectClientMessage_init_def f(3))
  have tab: "nodes s4 c = Some (FTable 2 [0 \<mapsto> FRef n, 1 \<mapsto> FRef v])" using a3(4) f(2) by simp
  have "nodes s4 n = Some (FString dest)" using kept [OF a3(3) kept [OF a2(3) a1(4)]] f(2) by simp
  then show "ConnectClientMessage_connectionString R (getRootAsConnectClientMessage R b) = Some dest"
    by (simp add: ConnectClientMessage_connectionString_def string_field [OF root f(1) tab, of 0 _ n])
  have "nodes s4 v = Some (FVec (int (length d)) (byte_cells d))" using kept [OF a3(3) a2(4)] f(2) by simp
  then show "ConnectClientMessage_appDataArray R (getRootAsConnectClientMessage R b) = Inr (Some d)"
    by (simp add: ConnectClientMessage_appDataArray_def byte_vector_field [OF root f(1) tab, of 1 _ v])
qed

end

text \<open>
  C16. The payload both transports send as the connection request reads back as what was asked
  for: the destination address, and an application message that is a \<open>UserConnectMessage\<close>
  carrying the user's name.
\<close>

theorem connect_payload_roundtrip:
  assumes "flatbuffers B R valid mode nodes addr views fround feq"
    and "length (connect_payload B dest userName) < 2 ^ 31"
    and "length (connect_app_data B userName) < 2 ^ 31"
    and "request = getRootAsConnectClientMessage R (newByteBuffer R (connect_payload B dest userName))"
    and "hello = getRootAsClientMessage R (newByteBuffer R (connect_app_data B userName))"
  shows "ConnectClientMessage_connectionString R request = Some dest \<and>
    ConnectClientMessage_appDataArray R request = Inr (Some (connect_app_data B userName)) \<and>
    ClientMessage_userMessageType R hello = UserMessage_num UserMessage_UserConnectMessage \<and>
    map_option (UserConnectMessage_name R) (ClientMessage_userMessage R hello) = Some (Some userName)"
  using flatbuffers.connect_payload_read [OF assms(1,2) refl] flatbuffers.connect_app_data_read [OF assms(1,3) refl]
  by (simp add: assms(4,5))

lemma wire_connect_lengths:
  "length (connect_app_data wire_builder u) = 43 + length u"
  "length (connect_payload wire_builder d u) = 76 + length d + length u"
  by (simp_all add: connect_app_data_def connect_payload_def Let_def msg_defs wire_lengths
      finishClientMessageBuffer_def finishConnectClientMessageBuffer_def byte_cells_size del: node_bytes.simps)

theorem connect_payload_roundtrip_witness:
  "ConnectClientMessage_connectionString wire_reader (getRootAsConnectClientMessage wire_reader
     (newByteBuffer wire_reader (connect_payload wire_builder ''udp:x'' ''Ann''))) = Some ''udp:x''"
  using connect_payload_roundtrip [OF wire.flatbuffers_axioms _ _ refl refl, of "''udp:x''" "''Ann''"]
  by (simp add: wire_connect_lengths)

section \<open>The WebSocket handshake\<close>

text \<open>The events that matter while the socket is opening, and while the verdict is awaited.\<close>

fun opening_event :: "ws_event \<Rightarrow> bool" where
  "opening_event WsOpen = True"
| "opening_event (WsError a b c) = True"
| "opening_event e = False"

fun verdict_event :: "ws_event \<Rightarrow> bool" where
  "verdict_event (WsMessage d) = True"
| "verdict_event (WsClose t) = True"
| "verdict_event e = False"

text \<open>The handler slots, the traffic and the progress of the function determine each other.\<close>

definition handshake_inv :: "bytes \<Rightarrow> Connection \<Rightarrow> 'l ws_run \<Rightarrow> bool" where
  "handshake_inv payload conn r \<longleftrightarrow> (case ws_phase r of
     AwaitOpen \<Rightarrow> ws_onopen (ws r) = Some ResolveOnOpen \<and> ws_onerror (ws r) = Some RejectOnError \<and>
       ws_sent (ws r) = [] \<and> ws_close_calls (ws r) = 0
   | AwaitVerdict \<Rightarrow> ws_onmessage (ws r) = Some VerdictOnMessage \<and> ws_onclose (ws r) = Some RejectOnClose \<and>
       ws_onerror (ws r) = None \<and> ws_sent (ws r) = [payload] \<and> ws_close_calls (ws r) = 0
   | Returned c \<Rightarrow> c = conn \<and> ws_onmessage (ws r) = None \<and> ws_onclose (ws r) = None \<and>
       ws_onerror (ws r) = None \<and> ws_sent (ws r) = [payload] \<and> ws_close_calls (ws r) = 0
   | Threw e \<Rightarrow> ws_sent (ws r) = [] \<and> ws_close_calls (ws r) = 0 \<or>
       ws_sent (ws r) = [payload] \<and> ws_close_calls (ws r) = 1)"

lemmas handshake_defs = connectWebsocket_authorize_def connectWebsocket_reject_def connectWebsocket_finish_def
  Let_def

lemma handshake_step_inv:
  assumes "handshake_inv (connect_payload B dest userName) (WebsocketConnection sock userName) r"
  shows "handshake_inv (connect_payload B dest userName) (WebsocketConnection sock userName)
    (connectWebsocket_step B R sock dest userName logCb r e)"
  using assms by (cases e; cases "ws_phase r") (simp_all add: handshake_inv_def handshake_defs)

lemma handshake_inv_foldl:
  "handshake_inv (connect_payload B dest userName) (WebsocketConnection sock userName) r \<Longrightarrow>
   handshake_inv (connect_payload B dest userName) (WebsocketConnection sock userName)
    (foldl (connectWebsocket_step B R sock dest userName logCb) r events)"
  by (induction events arbitrary: r) (simp_all add: handshake_step_inv)

lemma handshake_inv_run:
  "handshake_inv (connect_payload B dest userName) (WebsocketConnection sock userName)
    (connectWebsocket B R urlError sock addr dest userName logCb l events)"
  unfolding connectWebsocket_def
  by (rule handshake_inv_foldl)
    (simp add: handshake_inv_def connectWebsocket_start_def new_WebSocket_def split: option.split)


lemma settled_foldl:
  "ws_phase r = Returned c \<or> ws_phase r = Threw t \<Longrightarrow>
   foldl (connectWebsocket_step B R sock dest userName logCb) r events = r"
proof (induction events)
  case (Cons e events)
  then show ?case by (cases e) auto
qed simp

text \<open>
  What the handshake promises, read off the events alone: the first opening event is the socket's
  \<open>open\<close>, and the first message or close after it is a message with an accepting verdict.
\<close>

definition accepted_by :: "('bb, 'f) fb_reader \<Rightarrow> ws_event list \<Rightarrow> bool" where
  "accepted_by R events = (case dropWhile (\<lambda>e. \<not> verdict_event e) events of
     WsMessage data # _ \<Rightarrow> ConnectClientVerdict_accepted R (verdict_of R data) | _ \<Rightarrow> False)"

definition opened_and_accepted_by :: "('bb, 'f) fb_reader \<Rightarrow> ws_event list \<Rightarrow> bool" where
  "opened_and_accepted_by R events = (case dropWhile (\<lambda>e. \<not> opening_event e) events of
     WsOpen # rest \<Rightarrow> accepted_by R rest | _ \<Rightarrow> False)"

lemma verdict_foldl:
  assumes "handshake_inv (connect_payload B dest userName) (WebsocketConnection sock userName) r"
    and "ws_phase r = AwaitVerdict"
  shows "ws_phase (foldl (connectWebsocket_step B R sock dest userName logCb) r events) =
      Returned (WebsocketConnection sock userName) \<longleftrightarrow> accepted_by R events"
  using assms(2)
proof (induction events)
  case (Cons e events)
  then show ?case
    using assms(1)
    by (cases e) (simp_all add: handshake_inv_def handshake_defs accepted_by_def settled_foldl)
qed (simp add: accepted_by_def)

lemma opening_foldl:
  assumes "handshake_inv (connect_payload B dest userName) (WebsocketConnection sock userName) r"
    and "ws_phase r = AwaitOpen"
  shows "ws_phase (foldl (connectWebsocket_step B R sock dest userName logCb) r events) =
      Returned (WebsocketConnection sock userName) \<longleftrightarrow> opened_and_accepted_by R events"
  using assms(2)
proof (induction events)
  case (Cons e events)
  show ?case
  proof (cases e)
    case WsOpen
    have "handshake_inv (connect_payload B dest userName) (WebsocketConnection sock userName)
        (connectWebsocket_step B R sock dest userName logCb r e)"
      by (rule handshake_step_inv [OF assms(1)])
    moreover have "ws_phase (connectWebsocket_step B R sock dest userName logCb r e) = AwaitVerdict"
      using assms(1) Cons.prems WsOpen by (simp add: handshake_inv_def handshake_defs)
    ultimately show ?thesis
      using verdict_foldl WsOpen
      by (simp add: opened_and_accepted_by_def del: connectWebsocket_step.simps)
  qed (use Cons assms(1) in \<open>simp_all add: handshake_inv_def opened_and_accepted_by_def settled_foldl\<close>)
qed (simp add: opened_and_accepted_by_def)

text \<open>
  C17. The WebSocket handshake returns a connection exactly when the proxy was reachable and the
  first answer to the request accepts it: for an address the browser takes, the socket opens
  before any error and the first message or close event after that is a message whose verdict
  is \<open>accepted\<close>.
\<close>

theorem connectWebsocket_returns_iff:
  "(\<exists>c. ws_phase (connectWebsocket B R urlError sock addr dest userName logCb l events) = Returned c) \<longleftrightarrow>
   urlError addr = None \<and> opened_and_accepted_by R events"
proof -
  let ?start = "connectWebsocket_start urlError addr userName logCb l"
  let ?run = "connectWebsocket B R urlError sock addr dest userName logCb l events"
  have "(\<exists>c. ws_phase ?run = Returned c) \<longleftrightarrow> ws_phase ?run = Returned (WebsocketConnection sock userName)"
    using handshake_inv_run [of B dest userName sock R urlError addr logCb l events]
    by (auto simp: handshake_inv_def)
  also have "\<dots> \<longleftrightarrow> urlError addr = None \<and> opened_and_accepted_by R events"
  proof (cases "urlError addr")
    case None
    then have "ws_phase ?start = AwaitOpen"
      "handshake_inv (connect_payload B dest userName) (WebsocketConnection sock userName) ?start"
      by (simp_all add: connectWebsocket_start_def handshake_inv_def new_WebSocket_def)
    then show ?thesis using None opening_foldl unfolding connectWebsocket_def by blast
  next
    case (Some e)
    then show ?thesis
      unfolding connectWebsocket_def
      by (subst settled_foldl [of _ undefined e]) (simp_all add: connectWebsocket_start_def)
  qed
  finally show ?thesis .
qed

section \<open>The two transports\<close>

text \<open>
  Over WebTransport the outcome depends on the promises in the same way: a connection results
  unless the address is refused, a promise of the opening race is rejected, or the first read
  fails, ends the stream or carries a refusal; and exactly the connection request is written,
  unless the function fails before that.
\<close>

theorem connectWebtransport_outcome:
  "let r = connectWebtransport B R urlError wt addr dest userName logCb l race resp
   in wt_written r = (case (urlError addr, race) of
        (None, ReadyResolved) \<Rightarrow> [connect_payload B dest userName]
      | (None, ClosedResolved) \<Rightarrow> [connect_payload B dest userName] | _ \<Rightarrow> []) \<and>
      (wt_result r = Inr (WebtransportConnection wt userName) \<longleftrightarrow> wt_written r \<noteq> [] \<and>
        (case resp of ReadBytes d \<Rightarrow> ConnectClientVerdict_accepted R (verdict_of R d)
           | ReadOther \<Rightarrow> True | _ \<Rightarrow> False)) \<and>
      (wt_result r = Inr (WebtransportConnection wt userName) \<or> isl (wt_result r))"
  by (simp add: connectWebtransport_def Let_def split: option.split wt_race.split wt_read.split)

text \<open>
  C32. Both transports put the same question to the proxy and take the same answer: when the
  socket opens and one verdict arrives, the same bytes have been sent, and one returns a
  connection if and only if the other does. On a refusal they differ in the release of the
  transport: the WebSocket is closed once, the WebTransport session is left open.
\<close>

theorem transports_agree:
  assumes "urlError addr = None"
  shows "let w = connectWebsocket B R urlError k addr dest userName logCb l [WsOpen, WsMessage verdict];
             t = connectWebtransport B R urlError k addr dest userName logCb l ReadyResolved (ReadBytes verdict);
             ok = ConnectClientVerdict_accepted R (verdict_of R verdict)
         in ws_sent (ws w) = wt_written t \<and>
            (ws_phase w = Returned (WebsocketConnection k userName) \<longleftrightarrow> ok) \<and>
            (wt_result t = Inr (WebtransportConnection k userName) \<longleftrightarrow> ok) \<and>
            ws_close_calls (ws w) = (if ok then 0 else 1) \<and> wt_close_calls t = 0"
  using assms by (simp add: connectWebtransport_def connectWebsocket_def connectWebsocket_start_def new_WebSocket_def
      handshake_defs)

theorem transports_agree_witness:
  "let w = connectWebsocket wire_builder wire_reader (\<lambda>_. None) 7 ''wss:p'' ''udp:x'' ''Ann'' (\<lambda>_ _ l. l) ()
         [WsOpen, WsMessage []]
   in ws_sent (ws w) = wt_written (connectWebtransport wire_builder wire_reader (\<lambda>_. None) 7 ''wss:p'' ''udp:x''
        ''Ann'' (\<lambda>_ _ l. l) () ReadyResolved (ReadBytes []))"
  using transports_agree [of "\<lambda>_. None" "''wss:p''" wire_builder wire_reader 7 "''udp:x''" "''Ann''"
      "\<lambda>_ _ l. l" "()" "[]"]
  by (simp add: Let_def)

end
