(* ===== verification/Connection_State.thy ===== *)
theory Connection_State
  imports Connection
begin

text \<open>
  The widgets around a connection: \<open>Button.tsx\<close>, \<open>ChatBox.tsx\<close> and
  \<open>ConnectionStateComponent.tsx\<close>. A component's React state is a record, each event handler a
  function on it; what a handler does to the enclosing page goes through the callbacks it is
  given, as functions on the page's state \<open>'l\<close>. The asynchronous \<open>onClickConnect\<close> is cut at
  its \<open>await\<close>: the part before it records the values its closure captured, the part after it
  runs when the connection attempt settles.
\<close>

section \<open>Button.tsx\<close>

definition Button_onMouseEnter :: "bool \<Rightarrow> bool" where
  "Button_onMouseEnter hover = True"

definition Button_onMouseLeave :: "bool \<Rightarrow> bool" where
  "Button_onMouseLeave hover = False"

definition Button_onClick :: "bool \<Rightarrow> ('a \<Rightarrow> 'a) \<Rightarrow> 'a \<Rightarrow> 'a" where
  "Button_onClick disabled onClick s = (if \<not> disabled then onClick s else s)"

section \<open>ChatBox.tsx\<close>

text \<open>The state of the box is the text typed so far, beside the page it submits to.\<close>

definition ChatBox_title :: "string \<Rightarrow> string" where
  "ChatBox_title Nickname = ''Send chat as: '' @ Nickname"

definition ChatBox_onChange :: "string \<Rightarrow> string \<times> 'l \<Rightarrow> string \<times> 'l" where
  "ChatBox_onChange text = (\<lambda>(chatMsg, l). (text, l))"

definition ChatBox_onKeyDown :: "(string \<Rightarrow> 'l \<Rightarrow> 'l) \<Rightarrow> string \<Rightarrow> string \<times> 'l \<Rightarrow> string \<times> 'l" where
  "ChatBox_onKeyDown onSubmit key =
     (\<lambda>(chatMsg, l). if key = ''Enter'' then ('''', onSubmit chatMsg l) else (chatMsg, l))"

definition ChatBox_onClickSubmit :: "(string \<Rightarrow> 'l \<Rightarrow> 'l) \<Rightarrow> string \<times> 'l \<Rightarrow> string \<times> 'l" where
  "ChatBox_onClickSubmit onSubmit s =
     Button_onClick (length (fst s) = 0) (\<lambda>(chatMsg, l). ('''', onSubmit chatMsg l)) s"

section \<open>ConnectionStateComponent.tsx\<close>

subsection \<open>The status line\<close>

datatype connection_view = SetupView | StatusView string

definition ConnectionStateComponent :: "Connection option \<Rightarrow> connection_view" where
  "ConnectionStateComponent connection = (case connection of
     None \<Rightarrow> SetupView
   | Some c \<Rightarrow> StatusView ((case c of WebsocketConnection _ _ \<Rightarrow> ''Websocket''
                                    | WebtransportConnection _ _ \<Rightarrow> ''WebTransport'') @ '' connection status: open''))"

definition onClickClose :: "(Connection option \<Rightarrow> 'l \<Rightarrow> 'l) \<Rightarrow> 'l \<Rightarrow> 'l" where
  "onClickClose onOpenConnection = onOpenConnection None"

subsection \<open>The setup form\<close>

record setup_form =
  form_loading :: bool
  form_leftSelected :: bool
  form_userName :: string
  form_spanUrl :: string
  form_destUrl :: string

definition SetupConnection_initial :: setup_form where
  "SetupConnection_initial = \<lparr>form_loading = False, form_leftSelected = True,
     form_userName = ''Sessamekesh'', form_spanUrl = ''ws://localhost:3000/ws'',
     form_destUrl = ''udp:localhost:30001''\<rparr>"

definition onToggleTransport :: "setup_form \<Rightarrow> setup_form" where
  "onToggleTransport s = s\<lparr>form_leftSelected := \<not> form_leftSelected s\<rparr>"

definition onChangeUserName :: "string \<Rightarrow> setup_form \<Rightarrow> setup_form" where
  "onChangeUserName value s =
     (if form_loading s then s\<lparr>form_userName := form_userName s\<rparr> else s\<lparr>form_userName := value\<rparr>)"

definition onChangeSpanUrl :: "string \<Rightarrow> setup_form \<Rightarrow> setup_form" where
  "onChangeSpanUrl value s =
     (if form_loading s then s\<lparr>form_spanUrl := form_spanUrl s\<rparr> else s\<lparr>form_spanUrl := value\<rparr>)"

definition onChangeDestUrl :: "string \<Rightarrow> setup_form \<Rightarrow> setup_form" where
  "onChangeDestUrl value s =
     (if form_loading s then s\<lparr>form_destUrl := form_destUrl s\<rparr> else s\<lparr>form_destUrl := value\<rparr>)"

definition spanUrl_pattern :: "setup_form \<Rightarrow> string" where
  "spanUrl_pattern s = (if form_leftSelected s then ''wss?://.*'' else ''https://.*'')"

definition spanUrl_placeholder :: "setup_form \<Rightarrow> string" where
  "spanUrl_placeholder s = (if form_leftSelected s then ''ws://spanreed.example.com/ws''
     else ''https://spanreed.example.com/wt'')"

subsection \<open>onClickConnect\<close>

text \<open>The values the handler's closure captured when it was clicked.\<close>

record attempt =
  at_leftSelected :: bool
  at_spanUrl :: string
  at_destUrl :: string
  at_userName :: string

definition captured :: "setup_form \<Rightarrow> attempt" where
  "captured s = \<lparr>at_leftSelected = form_leftSelected s, at_spanUrl = form_spanUrl s,
     at_destUrl = form_destUrl s, at_userName = form_userName s\<rparr>"

definition onClickConnect_begin :: "'l LogCb \<Rightarrow> setup_form \<times> 'l \<Rightarrow> setup_form \<times> 'l" where
  "onClickConnect_begin logCb = (\<lambda>(s, l).
     let log = WrapLogFn ''SetupConnectionComponent'' logCb
     in (s\<lparr>form_loading := True\<rparr>, log ''Attempting to connect...'' None l))"

fun thrown_message :: "thrown \<Rightarrow> string" where
  "thrown_message (JsError m) = m"
| "thrown_message (JsString m) = m"
| "thrown_message (JsObject m) = ''<unknown>''"

fun onClickConnect_settle ::
  "'l LogCb \<Rightarrow> (Connection option \<Rightarrow> 'l \<Rightarrow> 'l) \<Rightarrow> attempt \<Rightarrow> thrown + Connection \<Rightarrow>
   setup_form \<times> 'l \<Rightarrow> setup_form \<times> 'l" where
  "onClickConnect_settle logCb onOpenConnection a result (s, l) =
     (let log = WrapLogFn ''SetupConnectionComponent'' logCb
      in if at_leftSelected a
         then (case result of
             Inr (WebsocketConnection k u) \<Rightarrow>
               (s\<lparr>form_loading := False\<rparr>, onOpenConnection (Some (WebsocketConnection k u)) l)
           | Inr _ \<Rightarrow> (s, log ''Not a WebSocket connection!'' (Some LogWarning) l)
           | Inl e \<Rightarrow> (s\<lparr>form_loading := False\<rparr>,
               log (''Error connecting to WebSocket! '' @ thrown_message e) (Some LogError) l))
         else (case result of
             Inr (WebtransportConnection k u) \<Rightarrow>
               (s\<lparr>form_loading := False\<rparr>, onOpenConnection (Some (WebtransportConnection k u)) l)
           | Inr _ \<Rightarrow> (s, log ''Not a WebTransport connection!'' (Some LogWarning) l)
           | Inl e \<Rightarrow> (s\<lparr>form_loading := False\<rparr>,
               log (''Error connecting to WebTransport! '' @ thrown_message e) (Some LogError) l)))"

text \<open>
  What the awaited call of an attempt does with the events the browser delivers: its result, if
  it has settled, and the page's state after its log lines.
\<close>

definition attempt_result ::
  "('s, 'f) fb_builder \<Rightarrow> ('bb, 'f) fb_reader \<Rightarrow> url_check \<Rightarrow> nat \<Rightarrow> 'l LogCb \<Rightarrow> attempt \<Rightarrow>
   ws_event list \<Rightarrow> wt_race \<Rightarrow> wt_read \<Rightarrow> 'l \<Rightarrow> (thrown + Connection) option \<times> 'l" where
  "attempt_result B R urlError k logCb a events race resp l =
     (if at_leftSelected a
      then let r = connectWebsocket B R urlError k (at_spanUrl a) (at_destUrl a) (at_userName a) logCb l events
           in (case ws_phase r of Returned c \<Rightarrow> Some (Inr c) | Threw e \<Rightarrow> Some (Inl e) | _ \<Rightarrow> None, ws_logs r)
      else let r = connectWebtransport B R urlError k (at_spanUrl a) (at_destUrl a) (at_userName a) logCb l race resp
           in (Some (wt_result r), wt_logs r))"

definition onClickConnect ::
  "('s, 'f) fb_builder \<Rightarrow> ('bb, 'f) fb_reader \<Rightarrow> url_check \<Rightarrow> nat \<Rightarrow> 'l LogCb \<Rightarrow>
   (Connection option \<Rightarrow> 'l \<Rightarrow> 'l) \<Rightarrow> ws_event list \<Rightarrow> wt_race \<Rightarrow> wt_read \<Rightarrow> setup_form \<times> 'l \<Rightarrow> setup_form \<times> 'l" where
  "onClickConnect B R urlError k logCb onOpenConnection events race resp = (\<lambda>(s, l).
     let (s1, l1) = onClickConnect_begin logCb (s, l);
         (result, l2) = attempt_result B R urlError k logCb (captured s) events race resp l1
     in case result of
          None \<Rightarrow> (s1, l2)
        | Some res \<Rightarrow> onClickConnect_settle logCb onOpenConnection (captured s) res (s1, l2))"

section \<open>The form as a state machine\<close>

text \<open>
  The form, the attempts whose \<open>await\<close> is pending, and the page. The user types, flips the
  transport switch and clicks the button in any order, and a pending attempt settles with
  whatever its browser events give.
\<close>

type_synonym 'l setup_state = "setup_form \<times> attempt list \<times> 'l"

definition click_connect :: "'l LogCb \<Rightarrow> 'l setup_state \<Rightarrow> 'l setup_state" where
  "click_connect logCb = (\<lambda>(s, as, l).
     Button_onClick (form_loading s) (\<lambda>(s, as, l).
       let (s', l') = onClickConnect_begin logCb (s, l) in (s', captured s # as, l')) (s, as, l))"

inductive setup_step ::
  "('s, 'f) fb_builder \<Rightarrow> ('bb, 'f) fb_reader \<Rightarrow> url_check \<Rightarrow> 'l LogCb \<Rightarrow>
   (Connection option \<Rightarrow> 'l \<Rightarrow> 'l) \<Rightarrow> 'l setup_state \<Rightarrow> 'l setup_state \<Rightarrow> bool"
  for B R urlError logCb onOpen where
  type_user: "setup_step B R urlError logCb onOpen (s, as, l) (onChangeUserName v s, as, l)"
| type_span: "setup_step B R urlError logCb onOpen (s, as, l) (onChangeSpanUrl v s, as, l)"
| type_dest: "setup_step B R urlError logCb onOpen (s, as, l) (onChangeDestUrl v s, as, l)"
| toggle: "setup_step B R urlError logCb onOpen (s, as, l) (onToggleTransport s, as, l)"
| click: "setup_step B R urlError logCb onOpen (s, as, l) (click_connect logCb (s, as, l))"
| settle:
    "attempt_result B R urlError k logCb a events race resp l = (Some res, l') \<Longrightarrow>
     onClickConnect_settle logCb onOpen a res (s, l') = (s', l'') \<Longrightarrow>
     setup_step B R urlError logCb onOpen (s, before @ a # after, l) (s', before @ after, l'')"

inductive_cases setup_stepE: "setup_step B R urlError logCb onOpen (s, as, l) t"

definition setup_inv :: "'l setup_state \<Rightarrow> bool" where
  "setup_inv = (\<lambda>(s, as, l). length as = (if form_loading s then 1 else 0) \<and>
     (\<forall>a \<in> set as. at_userName a = form_userName s \<and> at_spanUrl a = form_spanUrl s \<and>
        at_destUrl a = form_destUrl s))"

lemma attempt_result_transport:
  assumes "attempt_result B R urlError k logCb a events race resp l = (Some (Inr c), l')"
  shows "c = (if at_leftSelected a then WebsocketConnection k (at_userName a)
              else WebtransportConnection k (at_userName a))"
proof (cases "at_leftSelected a")
  case True
  then show ?thesis
    using assms handshake_inv_run [of B "at_destUrl a" "at_userName a" k R urlError "at_spanUrl a" logCb l events]
    by (auto simp: attempt_result_def handshake_inv_def Let_def split: ws_phase.splits)
next
  case False
  then show ?thesis
    using assms by (auto simp: attempt_result_def connectWebtransport_def Let_def
        split: option.splits wt_race.splits wt_read.splits if_splits)
qed

text \<open>All an attempt does to the page before it settles is to log.\<close>

lemma attempt_logs_keep:
  assumes log: "\<And>x lv p. P p \<Longrightarrow> P (logCb x lv p)" and start: "P l"
  shows "P (snd (attempt_result B R urlError k logCb a events race resp l))"
proof -
  have step: "P (ws_logs r) \<Longrightarrow> P (ws_logs (connectWebsocket_step B R k d u logCb r e))" for d u r e
    using log by (cases e) (simp_all add: handshake_defs WrapLogFn_def)
  have "P (ws_logs r) \<Longrightarrow> P (ws_logs (foldl (connectWebsocket_step B R k d u logCb) r events))" for d u r
    by (induction events arbitrary: r) (simp_all add: step del: connectWebsocket_step.simps)
  then show ?thesis
    using log start by (simp add: attempt_result_def connectWebsocket_def connectWebsocket_start_def
        connectWebtransport_def WrapLogFn_def Let_def split: option.split wt_race.split wt_read.split)
qed

lemma attempt_only_logs:
  assumes "\<And>x lv p. h (logCb x lv p) = h p"
  shows "h (snd (attempt_result B R urlError k logCb a events race resp l)) = h l"
  by (rule attempt_logs_keep [where P = "\<lambda>q. h q = h l"]) (simp_all add: assms)

lemma settle_form:
  assumes "attempt_result B R urlError k logCb a events race resp l = (Some res, l')"
  shows "fst (onClickConnect_settle logCb onOpen a res (s, l'')) = s\<lparr>form_loading := False\<rparr>"
  using assms attempt_result_transport [of B R urlError k logCb a events race resp l _ l']
  by (cases res) (auto simp: Let_def split: Connection.Connection.splits)

lemmas setup_handler_defs = onChangeUserName_def onChangeSpanUrl_def onChangeDestUrl_def onToggleTransport_def
  click_connect_def Button_onClick_def onClickConnect_begin_def captured_def Let_def

lemma setup_step_inv:
  assumes "setup_step B R urlError logCb onOpen t t'" and "setup_inv t"
  shows "setup_inv t'"
  using assms
proof (induction rule: setup_step.induct)
  case (settle k a events race resp l res l' s s' l'' before after)
  have "s' = s\<lparr>form_loading := False\<rparr>"
    using settle_form [OF settle(1), of onOpen s l'] settle(2) by simp
  moreover have "form_loading s \<and> before = [] \<and> after = []"
    using settle(3) by (auto simp: setup_inv_def split: if_splits)
  ultimately show ?case by (simp add: setup_inv_def)
qed (auto simp: setup_inv_def setup_handler_defs)

lemma setup_reachable_inv:
  "(setup_step B R urlError logCb onOpen)\<^sup>*\<^sup>* t t' \<Longrightarrow> setup_inv t \<Longrightarrow> setup_inv t'"
  by (induction rule: rtranclp_induct) (auto dest: setup_step_inv)

text \<open>
  However the user and the network interleave, a setup form never has more than one connection
  attempt in progress, the button is disabled exactly while there is one, and the name and the
  two addresses on screen are those the pending attempt uses.
\<close>

theorem setup_single_attempt:
  assumes "(setup_step B R urlError logCb onOpen)\<^sup>*\<^sup>* (SetupConnection_initial, [], l0) (s, as, l)"
  shows "(as \<noteq> [] \<longleftrightarrow> form_loading s) \<and> length as \<le> 1 \<and>
    list_all (\<lambda>a. at_userName a = form_userName s \<and> at_spanUrl a = form_spanUrl s \<and>
      at_destUrl a = form_destUrl s) as"
  using setup_reachable_inv [OF assms]
  by (auto simp: setup_inv_def SetupConnection_initial_def list_all_iff split: if_splits)

theorem setup_single_attempt_witness:
  "let (s, as, l) = click_connect (\<lambda>m lv l. l @ [m]) (click_connect (\<lambda>m lv l. l @ [m]) (SetupConnection_initial, [], []))
   in form_loading s \<and> length as \<le> 1"
proof -
  let ?cb = "\<lambda>m lv l. l @ [m]" and ?start = "(SetupConnection_initial, [], [])"
  let ?step = "setup_step wire_builder wire_reader (\<lambda>_. None) ?cb (\<lambda>c l. l)"
  let ?final = "click_connect ?cb (click_connect ?cb ?start)"
  have steps: "?step t (click_connect ?cb t)" for t
    by (cases t) (simp add: setup_step.click)
  have "?step\<^sup>*\<^sup>* ?start ?final" 
    by (rule rtranclp.rtrancl_into_rtrancl [OF r_into_rtranclp]; rule steps)
  then show ?thesis
    using setup_single_attempt [of wire_builder wire_reader "\<lambda>_. None" ?cb "\<lambda>c l. l" "[]"
        "fst ?final" "fst (snd ?final)" "snd (snd ?final)"]
    by (simp add: setup_handler_defs SetupConnection_initial_def)
qed

text \<open>
  A click on Connect whose attempt settles always leaves the form usable again. The page is
  given a connection exactly when the handshake of the selected transport succeeds, once, for
  the typed user name and over the selected transport; otherwise it only gets log lines.
\<close>

theorem onClickConnect_settles:
  fixes l :: "Connection option list \<times> 'm"
  assumes "onOpen = (\<lambda>c (cs, m). (cs @ [c], m))" and "\<And>x lv p. fst (logCb x lv p) = fst p"
    and "attempt_result B R urlError k logCb (captured s) events race resp
           (snd (onClickConnect_begin logCb (s, l))) = (Some res, l')"
    and "onClickConnect B R urlError k logCb onOpen events race resp (s, l) = (s', l'')"
  shows "s' = s\<lparr>form_loading := False\<rparr> \<and>
    fst l'' = fst l @ (if isl res then [] else [Some
      (if form_leftSelected s then WebsocketConnection k (form_userName s)
       else WebtransportConnection k (form_userName s))])"
proof -
  let ?a = "captured s"
  define l1 where "l1 = snd (onClickConnect_begin logCb (s, l))"
  have started: "onClickConnect_begin logCb (s, l) = (s\<lparr>form_loading := True\<rparr>, l1)"
    by (simp add: onClickConnect_begin_def l1_def)
  have result: "attempt_result B R urlError k logCb ?a events race resp l1 = (Some res, l')"
    using assms(3) by (simp add: l1_def)
  have run: "onClickConnect_settle logCb onOpen ?a res (s\<lparr>form_loading := True\<rparr>, l') = (s', l'')"
    using assms(4) unfolding onClickConnect_def by (simp add: started result del: onClickConnect_settle.simps)
  have "fst l1 = fst l" using assms(2) by (simp add: l1_def onClickConnect_begin_def WrapLogFn_def Let_def)
  then have logs: "fst l' = fst l"
    using attempt_only_logs [of fst logCb B R urlError k ?a events race resp l1] assms(2) result by simp
  have "s' = s\<lparr>form_loading := False\<rparr>"
    using settle_form [OF result, of onOpen "s\<lparr>form_loading := True\<rparr>" l'] run
    by (simp del: onClickConnect_settle.simps)
  moreover have "fst l'' = fst l @ (if isl res then [] else [Some
      (if form_leftSelected s then WebsocketConnection k (form_userName s)
       else WebtransportConnection k (form_userName s))])"
    using run logs assms(1,2) attempt_result_transport [of B R urlError k logCb ?a events race resp l1 _ l'] result
    by (cases res; cases l') (auto simp: Let_def captured_def WrapLogFn_def split: Connection.Connection.splits if_splits)
  ultimately show ?thesis by blast
qed

theorem onClickConnect_settles_witness:
  "fst (snd (onClickConnect wire_builder wire_reader (\<lambda>_. None) 5 (\<lambda>x lv p. p) (\<lambda>c (cs, m). (cs @ [c], m))
     [] ReadyResolved ReadOther (onToggleTransport SetupConnection_initial, ([], ())))) =
   [Some (WebtransportConnection 5 ''Sessamekesh'')]"
proof -
  let ?s = "onToggleTransport SetupConnection_initial" and ?cb = "\<lambda>x lv p :: Connection option list \<times> unit. p"
  have "attempt_result wire_builder wire_reader (\<lambda>_. None) 5 ?cb (captured ?s) [] ReadyResolved ReadOther
      (snd (onClickConnect_begin ?cb (?s, ([], ())))) =
    (Some (Inr (WebtransportConnection 5 ''Sessamekesh'')), ([], ()))"
    by (simp add: attempt_result_def connectWebtransport_def setup_handler_defs SetupConnection_initial_def WrapLogFn_def)
  from onClickConnect_settles [OF refl _ this surjective_pairing] show ?thesis
    by (simp add: onToggleTransport_def SetupConnection_initial_def)
qed

section \<open>Chat box and buttons\<close>

text \<open>
  The submit button never submits an empty message and acts only when there is text, while
  the Enter key submits whatever was typed; both submit the typed text exactly once and empty
  the box, and no other key submits.
\<close>

theorem ChatBox_submits:
  "ChatBox_onClickSubmit onSubmit (text, l) = (if text = [] then (text, l) else ([], onSubmit text l)) \<and>
   ChatBox_onKeyDown onSubmit key (text, l) = (if key = ''Enter'' then ([], onSubmit text l) else (text, l)) \<and>
   ChatBox_onClickSubmit onSubmit (ChatBox_onClickSubmit onSubmit (text, l)) = ChatBox_onClickSubmit onSubmit (text, l)"
  by (simp add: ChatBox_onClickSubmit_def ChatBox_onKeyDown_def Button_onClick_def)

end
