(* ===== verification/Elements.thy ===== *)
theory Elements
  imports Prelude "HOL-Library.AList" "HOL-Library.Sublist"
begin

text \<open>
  What a React component returns: a tree of host elements with attributes, inline style, event
  handlers and children. A handler is a function on the state of whatever the component belongs
  to; an element without a handler for an event leaves that state alone. \<open>dispatch\<close> is the
  delivery of an event by React: the handler of the target runs first and then, for events that
  bubble, those of the elements around it.
\<close>

section \<open>Style objects\<close>

text \<open>
  Properties in the order of the object literal, numbers in decimal. Spreading one object into
  another keeps the place of a property that is already there; spreading \<open>false\<close> adds nothing.
\<close>

type_synonym css = "(string \<times> string) list"

definition spread :: "css \<Rightarrow> css \<Rightarrow> css" where
  "spread base extra = fold (\<lambda>(k, v). AList.update k v) extra base"

definition spread_if :: "bool \<Rightarrow> css \<Rightarrow> css \<Rightarrow> css" where
  "spread_if c extra base = (if c then spread base extra else base)"

lemma spread_lookup: "map_of (spread base extra) = map_of base ++ map_of (rev extra)"
proof (induction extra arbitrary: base)
  case (Cons kv extra)
  obtain k v where kv: "kv = (k, v)" by (cases kv)
  have "spread base ((k, v) # extra) = spread (AList.update k v base) extra" by (simp add: spread_def)
  then show ?case by (simp add: kv Cons.IH update_conv map_add_def fun_eq_iff split: option.split)
qed (simp add: spread_def)

section \<open>Elements and events\<close>

datatype dom_event =
    ClickEvent "real \<times> real"   \<comment> \<open>with \<open>clientX\<close> and \<open>clientY\<close>\<close>
  | ChangeEvent string          \<comment> \<open>with the value of the input\<close>
  | KeyDownEvent string         \<comment> \<open>with the key\<close>
  | MouseEnterEvent
  | MouseLeaveEvent

fun bubbles :: "dom_event \<Rightarrow> bool" where
  "bubbles MouseEnterEvent = False"
| "bubbles MouseLeaveEvent = False"
| "bubbles _ = True"

datatype 's element =
    TextNode string
  | Element (el_tag: string) (el_attrs: "(string \<times> string) list") (el_style: css)
      (el_on: "dom_event \<Rightarrow> 's \<Rightarrow> 's") (el_children: "'s element list")

definition inert_handlers :: "dom_event \<Rightarrow> 's \<Rightarrow> 's" where
  "inert_handlers e s = s"

text \<open>An element that has a style and children only.\<close>

definition plain :: "string \<Rightarrow> css \<Rightarrow> 's element list \<Rightarrow> 's element" where
  "plain tag css children = Element tag [] css inert_handlers children"

text \<open>The target is given by its path from the root; a path that leaves the tree ends where it leaves it.\<close>

fun dispatch :: "nat list \<Rightarrow> dom_event \<Rightarrow> 's element \<Rightarrow> 's \<Rightarrow> 's" where
  "dispatch path e (TextNode t) s = s"
| "dispatch [] e (Element tag attrs css on children) s = on e s"
| "dispatch (i # path) e (Element tag attrs css on children) s =
     (if i < length children
      then let s' = dispatch path e (children ! i) s in if bubbles e then on e s' else s'
      else on e s)"

section \<open>Subtrees without handlers\<close>

primrec inert :: "'s element \<Rightarrow> bool" where
  "inert (TextNode t) = True"
| "inert (Element tag attrs css on children) = (on = inert_handlers \<and> list_all id (map inert children))"

lemma inert_plain [simp]: "inert (plain tag css children) = list_all inert children"
  by (simp add: plain_def list_all_iff)

lemma inert_dispatch [simp]: "inert el \<Longrightarrow> dispatch path e el s = s"
  by (induction path e el s rule: dispatch.induct) (auto simp: inert_handlers_def list_all_iff)

lemma dispatch_plain:
  "dispatch [] e (plain tag css children) s = s"
  "dispatch (i # p) e (plain tag css children) s = (if i < length children then dispatch p e (children ! i) s else s)"
  by (simp_all add: plain_def inert_handlers_def Let_def)

lemma dispatch_leaf [simp]: "dispatch path e (Element tag attrs css on []) s = on e s"
  by (cases path) simp_all

text \<open>An element whose children do nothing of their own.\<close>

lemma dispatch_outer:
  assumes "list_all inert children"
  shows "dispatch path e (Element tag attrs css on children) s =
    (if bubbles e \<or> path = [] \<or> length children \<le> hd path then on e s else s)"
  using assms by (cases path) (auto simp: list_all_length)

section \<open>Embedding a component\<close>

text \<open>
  A component works on its own part of the state. The locale says what a pair of selector and
  update for such a part has to satisfy.
\<close>

primrec embed :: "('u \<Rightarrow> 's) \<Rightarrow> ('s \<Rightarrow> 'u \<Rightarrow> 'u) \<Rightarrow> 's element \<Rightarrow> 'u element" where
  "embed get put (TextNode t) = TextNode t"
| "embed get put (Element tag attrs css on children) =
     Element tag attrs css (\<lambda>e u. put (on e (get u)) u) (map (embed get put) children)"

locale state_part =
  fixes get :: "'u \<Rightarrow> 's" and put :: "'s \<Rightarrow> 'u \<Rightarrow> 'u"
  assumes get_put: "get (put s u) = s"
    and put_get: "put (get u) u = u"
    and put_put: "put t (put s u) = put t u"
begin

lemma dispatch_embed: "dispatch path e (embed get put el) u = put (dispatch path e el (get u)) u"
proof (induction path e el "get u" arbitrary: u rule: dispatch.induct)
  case (3 i path e tag attrs css on children)
  show ?case
  proof (cases "i < length children")
    case True
    then have "dispatch path e (map (embed get put) children ! i) u = put (dispatch path e (children ! i) (get u)) u"
      using 3 by simp
    then show ?thesis using True by (simp add: Let_def get_put put_put)
  qed simp
qed (simp_all add: put_get)

end

section \<open>Attributes of a page\<close>

text \<open>The attributes of the elements of a tree, in document order.\<close>

primrec all_attrs :: "'s element \<Rightarrow> (string \<times> (string \<times> string) list) list" where
  "all_attrs (TextNode t) = []"
| "all_attrs (Element tag attrs css on children) = (tag, attrs) # concat (map all_attrs children)"

definition element_ids :: "'s element \<Rightarrow> string list" where
  "element_ids el = List.map_filter (\<lambda>(tag, attrs). map_of attrs ''id'') (all_attrs el)"

text \<open>What the labels refer to, and the value each input shows.\<close>

definition label_targets :: "'s element \<Rightarrow> string list" where
  "label_targets el = List.map_filter (\<lambda>(tag, attrs). if tag = ''label'' then map_of attrs ''htmlFor'' else None) (all_attrs el)"

definition input_values :: "'s element \<Rightarrow> (string option \<times> string option) list" where
  "input_values el = List.map_filter (\<lambda>(tag, attrs). if tag = ''input'' then Some (map_of attrs ''id'', map_of attrs ''value'') else None) (all_attrs el)"

text \<open>The text that a tree shows.\<close>

primrec element_text :: "'s element \<Rightarrow> string" where
  "element_text (TextNode t) = t"
| "element_text (Element tag attrs css on children) = concat (map element_text children)"

lemma all_attrs_plain [simp]: "all_attrs (plain tag css children) = (tag, []) # concat (map all_attrs children)"
  by (simp add: plain_def)

lemma element_text_plain [simp]: "element_text (plain tag css children) = concat (map element_text children)"
  by (simp add: plain_def)

lemma all_attrs_embed [simp]: "all_attrs (embed get put el) = all_attrs el"
  by (induction el) (simp_all cong: map_cong)

lemma map_filter_concat: "List.map_filter f xs = concat (map (\<lambda>x. case f x of None \<Rightarrow> [] | Some y \<Rightarrow> [y]) xs)"
  by (induction xs) (auto simp: List.map_filter_def split: option.split)

lemma element_ids_simps [simp]:
  "element_ids (TextNode t) = []"
  "element_ids (Element tag attrs css on children) =
     (case map_of attrs ''id'' of None \<Rightarrow> [] | Some i \<Rightarrow> [i]) @ concat (map element_ids children)"
  "element_ids (embed get put el) = element_ids el"
  by (simp_all add: element_ids_def map_filter_concat) (induction children; simp add: element_ids_def map_filter_concat)

lemma element_ids_plain [simp]: "element_ids (plain tag css children) = concat (map element_ids children)"
  by (simp add: plain_def)

end
