(* ===== verification/Widgets.thy ===== *)
theory Widgets
  imports Connection_State Elements
begin

text \<open>
  What the widgets of theory \<open>Connection_State\<close> render: \<open>Button.tsx\<close>, \<open>ChatBox.tsx\<close> and
  \<open>ConnectionStateComponent.tsx\<close> as element trees with their styles, labels, inputs and
  handlers. A rendered handler is a closure: it reads the values the component was rendered with
  and updates the current state. The last section shows what every event on every
  element of the trees does.
\<close>

section \<open>Button.tsx\<close>

definition Button_style :: "bool \<Rightarrow> bool \<Rightarrow> css" where
  "Button_style hover disabled =
     spread_if disabled [(''backgroundColor'', ''#333''), (''color'', ''#aaa''), (''cursor'', ''not-allowed'')]
       (spread_if hover [(''backgroundColor'', ''#1C09EE''), (''border'', ''1px solid #1C09EE''), (''color'', ''#fff'')]
         [(''marginLeft'', ''auto''), (''backgroundColor'', ''#4538e5''), (''padding'', ''8px 28px''),
          (''border'', ''1px solid #eee''), (''borderRadius'', ''8px''), (''fontWeight'', ''700''),
          (''fontSize'', ''14pt''), (''cursor'', ''pointer''), (''userSelect'', ''none'')])"

text \<open>\<open>hover\<close> and \<open>setHover\<close> are the two halves of the component's own state.\<close>

definition Button_element ::
  "bool \<Rightarrow> (bool \<Rightarrow> 's \<Rightarrow> 's) \<Rightarrow> bool \<Rightarrow> ('s \<Rightarrow> 's) \<Rightarrow> 's element list \<Rightarrow> 's element" where
  "Button_element hover setHover disabled onClick children =
     Element ''div'' [] (Button_style hover disabled)
       (\<lambda>e s. case e of
          MouseEnterEvent \<Rightarrow> setHover (Button_onMouseEnter hover) s
        | MouseLeaveEvent \<Rightarrow> setHover (Button_onMouseLeave hover) s
        | ClickEvent _ \<Rightarrow> Button_onClick disabled onClick s
        | _ \<Rightarrow> s) children"

section \<open>ChatBox.tsx\<close>

text \<open>The state: the text typed so far and the page it is submitted to, and the button's \<open>hover\<close>.\<close>

definition ChatBox_element ::
  "(string \<Rightarrow> 'l \<Rightarrow> 'l) \<Rightarrow> string \<Rightarrow> string \<Rightarrow> bool \<Rightarrow> ((string \<times> 'l) \<times> bool) element" where
  "ChatBox_element onSubmit Nickname chatMsg hover =
     plain ''div'' [(''display'', ''flex''), (''flexDirection'', ''column''), (''padding'', ''8px 12px''),
         (''border'', ''2px solid #ccc'')]
       [plain ''p'' [(''margin'', ''0''), (''fontSize'', ''14pt''), (''fontWeight'', ''700''), (''color'', ''#ccc'')]
          [TextNode (ChatBox_title Nickname)],
        plain ''div'' [(''display'', ''flex''), (''flexDirection'', ''row'')]
          [Element ''input'' [(''type'', ''text''), (''value'', chatMsg)]
             [(''border'', ''2px solid #88cc88''), (''backgroundColor'', ''#3E4544''), (''color'', ''#eee''),
              (''resize'', ''none''), (''minWidth'', ''250px''), (''borderRadius'', ''4px''), (''padding'', ''4px 8px''),
              (''margin'', ''8px 12px 8px 0''), (''flexGrow'', ''1'')]
             (\<lambda>e ((text, l), h). case e of
                ChangeEvent value \<Rightarrow> ((value, l), h)
              | KeyDownEvent key \<Rightarrow> if key = ''Enter'' then (('''', onSubmit chatMsg l), h) else ((text, l), h)
              | _ \<Rightarrow> ((text, l), h)) [],
           Button_element hover (\<lambda>h (x, _). (x, h)) (length chatMsg = 0)
             (\<lambda>((text, l), h). (('''', onSubmit chatMsg l), h)) [TextNode ''Submit!'']]]"

section \<open>ConnectionStateComponent.tsx\<close>

subsection \<open>The status line\<close>

definition StatusLine_element ::
  "Connection \<Rightarrow> (Connection option \<Rightarrow> 'l \<Rightarrow> 'l) \<Rightarrow> bool \<Rightarrow> ('l \<times> bool) element" where
  "StatusLine_element connection onOpenConnection hover =
     plain ''div'' [(''display'', ''flex''), (''flexDirection'', ''row''), (''justifyContent'', ''space-between''),
         (''alignItems'', ''center''), (''padding'', ''8px 20px'')]
       [plain ''p'' [(''fontWeight'', ''700''), (''fontSize'', ''18pt''), (''margin'', ''0'')]
          [TextNode (case connection of WebsocketConnection _ _ \<Rightarrow> ''Websocket'' | WebtransportConnection _ _ \<Rightarrow> ''WebTransport''),
           TextNode '' '', TextNode ''connection status: open''],
        Button_element hover (\<lambda>h (l, _). (l, h)) False (\<lambda>(l, h). (onClickClose onOpenConnection l, h)) [TextNode ''Close'']]"

subsection \<open>The setup form\<close>

definition DiagBtnCommonStyle :: css where
  "DiagBtnCommonStyle = [(''position'', ''absolute''), (''float'', ''left''), (''width'', ''130px''), (''height'', ''0''),
     (''cursor'', ''pointer''), (''userSelect'', ''none'')]"

definition UrlInputStyle :: css where
  "UrlInputStyle = [(''minWidth'', ''250px''), (''borderRadius'', ''4px''), (''border'', ''2px solid #88cc88''),
     (''backgroundColor'', ''#3E4544''), (''color'', ''#eee''), (''padding'', ''4px 8px'')]"

definition leftTab_style :: "bool \<Rightarrow> css" where
  "leftTab_style leftSelected =
     spread_if leftSelected [(''borderTop'', ''30px solid #4538e5''), (''color'', ''#fff'')]
       (spread DiagBtnCommonStyle [(''left'', ''0''), (''borderTop'', ''30px solid black''),
          (''borderRight'', ''20px solid transparent''), (''zIndex'', ''1''), (''color'', ''#888'')])"

definition rightTab_style :: "bool \<Rightarrow> css" where
  "rightTab_style leftSelected =
     spread_if (\<not> leftSelected) [(''borderBottom'', ''30px solid #4538e5''), (''color'', ''#fff'')]
       (spread DiagBtnCommonStyle [(''right'', ''0''), (''zIndex'', ''2''), (''borderLeft'', ''20px solid transparent''),
          (''borderBottom'', ''30px solid black''), (''color'', ''#888'')])"

definition tab_label :: "string \<Rightarrow> string \<Rightarrow> 's element" where
  "tab_label offset text = plain ''span'' [(''position'', ''relative''), (''float'', ''left''), (''width'', ''100%''),
     (''height'', ''auto''), (''margin'', ''0''), (''padding'', ''0''), (''top'', offset)] [TextNode text]"

text \<open>The switch between the transports. \<open>f\<close> is the form as it was rendered.\<close>

definition TransportSwitch_element :: "setup_form \<Rightarrow> ('l setup_state \<times> bool) element" where
  "TransportSwitch_element f =
     Element ''div'' [] [(''marginLeft'', ''20px''), (''position'', ''relative''), (''width'', ''280px''),
         (''border'', ''2px solid #fff''), (''height'', ''30px''), (''textAlign'', ''center'')]
       (\<lambda>e ((s, as, l), h). case e of
          ClickEvent _ \<Rightarrow> ((s\<lparr>form_leftSelected := \<not> form_leftSelected f\<rparr>, as, l), h)
        | _ \<Rightarrow> ((s, as, l), h))
       [plain ''div'' (leftTab_style (form_leftSelected f)) [tab_label ''-27px'' ''WebSocket''],
        plain ''div'' [(''borderRight'', ''2px solid #fff''), (''height'', ''36px''), (''top'', ''-3px''),
          (''position'', ''absolute''), (''right'', ''50%''), (''transform'', ''rotate(34deg) translateZ(0px)''),
          (''zIndex'', ''1'')] [],
        plain ''div'' (rightTab_style (form_leftSelected f)) [tab_label ''3px'' ''WebTransport'']]"

definition label_element :: "string \<Rightarrow> string \<Rightarrow> 's element" where
  "label_element htmlFor text = Element ''label'' [(''htmlFor'', htmlFor)] [] inert_handlers [TextNode text]"

text \<open>The three inputs differ in their attributes and in the field they set.\<close>

definition input_element ::
  "(string \<times> string) list \<Rightarrow> (string \<Rightarrow> setup_form \<Rightarrow> setup_form) \<Rightarrow> ('l setup_state \<times> bool) element" where
  "input_element attrs onChange =
     Element ''input'' attrs (spread [] UrlInputStyle)
       (\<lambda>e ((s, as, l), h). case e of ChangeEvent value \<Rightarrow> ((onChange value s, as, l), h) | _ \<Rightarrow> ((s, as, l), h)) []"

definition AddressForm_element :: "setup_form \<Rightarrow> ('l setup_state \<times> bool) element" where
  "AddressForm_element f =
     plain ''form'' [(''marginBottom'', ''24px''), (''marginTop'', ''12px''), (''display'', ''grid''),
         (''gridTemplateColumns'', ''2fr 5fr''), (''gap'', ''10px'')]
       [label_element ''tb-username'' ''Spanreed Proxy Address:'',
        input_element [(''type'', ''text''), (''id'', ''tb-username''), (''placeholder'', ''Sessamekesh''),
            (''value'', form_userName f)]
          (\<lambda>value s. if form_loading f then s\<lparr>form_userName := form_userName f\<rparr> else s\<lparr>form_userName := value\<rparr>),
        label_element ''tb-spanreed-url'' ''Spanreed Proxy Address:'',
        input_element [(''type'', ''url''), (''id'', ''tb-spanreed-url''), (''pattern'', spanUrl_pattern f),
            (''placeholder'', spanUrl_placeholder f), (''value'', form_spanUrl f)]
          (\<lambda>value s. if form_loading f then s\<lparr>form_spanUrl := form_spanUrl f\<rparr> else s\<lparr>form_spanUrl := value\<rparr>),
        label_element ''tb-backend-url'' ''Demo Server Address:'',
        input_element [(''id'', ''tb-backend-url''), (''type'', ''text''), (''placeholder'', ''URL or IP address''),
            (''value'', form_destUrl f)]
          (\<lambda>value s. if form_loading f then s\<lparr>form_destUrl := form_destUrl f\<rparr> else s\<lparr>form_destUrl := value\<rparr>)]"

definition SetupConnection_element :: "'l LogCb \<Rightarrow> setup_form \<Rightarrow> bool \<Rightarrow> ('l setup_state \<times> bool) element" where
  "SetupConnection_element logCb f hover =
     plain ''div'' [(''display'', ''flex''), (''flexDirection'', ''column''), (''padding'', ''16px 12px''),
         (''margin'', ''4px 12px''), (''borderRadius'', ''4px''), (''border'', ''1px solid #eee'')]
       [plain ''div'' [(''display'', ''flex''), (''flexDirection'', ''row''), (''justifyContent'', ''space-between''),
            (''width'', ''100%''), (''alignItems'', ''center'')]
          [plain ''p'' [(''margin'', ''0''), (''fontSize'', ''14pt''), (''fontWeight'', ''700''), (''color'', ''#ccc'')]
             [TextNode ''Open Connection''],
           TransportSwitch_element f],
        AddressForm_element f,
        Button_element hover (\<lambda>h (x, _). (x, h)) (form_loading f)
          (\<lambda>((s, as, l), h). let (s', l') = onClickConnect_begin logCb (s, l) in ((s', captured f # as, l'), h))
          [plain ''span'' [] [TextNode ''Connect!'']]]"

text \<open>The component picks one of the two.\<close>

definition ConnectionState_element ::
  "'l LogCb \<Rightarrow> (Connection option \<Rightarrow> 'l \<Rightarrow> 'l) \<Rightarrow> Connection option \<Rightarrow> setup_form \<Rightarrow> bool \<Rightarrow> ('l setup_state \<times> bool) element" where
  "ConnectionState_element logCb onOpenConnection connection f hover = (case connection of
     None \<Rightarrow> SetupConnection_element logCb f hover
   | Some c \<Rightarrow> embed (\<lambda>((s, as, l), h). (l, h)) (\<lambda>(l, h) ((s, as, _), _). ((s, as, l), h))
       (StatusLine_element c onOpenConnection hover))"

section \<open>Events\<close>

lemma button_dispatch:
  assumes "list_all inert children"
  shows "dispatch path e (Button_element hover setHover disabled onClick children) s =
    (case e of ClickEvent _ \<Rightarrow> Button_onClick disabled onClick s
     | MouseEnterEvent \<Rightarrow> if path = [] \<or> length children \<le> hd path then setHover True s else s
     | MouseLeaveEvent \<Rightarrow> if path = [] \<or> length children \<le> hd path then setHover False s else s
     | _ \<Rightarrow> s)"
  unfolding Button_element_def dispatch_outer [OF assms]
  by (cases e) (simp_all add: Button_onMouseEnter_def Button_onMouseLeave_def)

lemma tabs_inert [simp]: "inert (tab_label offset text)" "inert (label_element for_id text)"
  by (simp_all add: tab_label_def label_element_def)

lemma switch_dispatch:
  "dispatch path e (TransportSwitch_element f) ((s, as, l), h) =
    (case e of ClickEvent _ \<Rightarrow> ((s\<lparr>form_leftSelected := \<not> form_leftSelected f\<rparr>, as, l), h) | _ \<Rightarrow> ((s, as, l), h))"
  unfolding TransportSwitch_element_def by (subst dispatch_outer) (auto split: dom_event.split)

lemma input_dispatch:
  "dispatch path e (input_element attrs onChange) ((s, as, l), h) =
    (case e of ChangeEvent v \<Rightarrow> ((onChange v s, as, l), h) | _ \<Rightarrow> ((s, as, l), h))"
  by (simp add: input_element_def)

text \<open>Which input of the form, if any, a path leads to.\<close>

lemma form_dispatch:
  "dispatch path e (AddressForm_element s) ((s, as, l), h) = (case e of
     ChangeEvent v \<Rightarrow> ((if prefix [1] path then onChangeUserName v s else if prefix [3] path then onChangeSpanUrl v s
       else if prefix [5] path then onChangeDestUrl v s else s, as, l), h)
   | _ \<Rightarrow> ((s, as, l), h))"
proof (cases path)
  case (Cons i p)
  consider "i = 0" | "i = 1" | "i = 2" | "i = 3" | "i = 4" | "i = 5" | "6 \<le> i" by linarith
  then show ?thesis
    by cases (simp_all add: Cons AddressForm_element_def dispatch_plain input_dispatch onChangeUserName_def
      onChangeSpanUrl_def onChangeDestUrl_def nth_Cons' split: dom_event.split)
qed (simp add: AddressForm_element_def dispatch_plain split: dom_event.split)

lemma form_dispatched:
  "fst (dispatch path e (SetupConnection_element logCb s hover) ((s, as, l), h)) = (case e of
     ClickEvent _ \<Rightarrow> if prefix [0, 1] path then (onToggleTransport s, as, l)
       else if prefix [2] path then click_connect logCb (s, as, l) else (s, as, l)
   | ChangeEvent v \<Rightarrow> if prefix [1, 1] path then (onChangeUserName v s, as, l)
       else if prefix [1, 3] path then (onChangeSpanUrl v s, as, l)
       else if prefix [1, 5] path then (onChangeDestUrl v s, as, l) else (s, as, l)
   | _ \<Rightarrow> (s, as, l))"
proof (cases path)
  case (Cons i p)
  consider "i = 0" | "i = 1" | "i = 2" | "3 \<le> i" by linarith
  then show ?thesis
  proof cases
    case 1
    then show ?thesis
      by (cases p) (auto simp: Cons SetupConnection_element_def dispatch_plain switch_dispatch onToggleTransport_def
        nth_Cons' split: dom_event.split)
  next
    case 2
    then show ?thesis
      by (simp add: Cons SetupConnection_element_def dispatch_plain form_dispatch split: dom_event.split)
  next
    case 3
    then show ?thesis
      by (auto simp: Cons SetupConnection_element_def dispatch_plain button_dispatch click_connect_def Button_onClick_def
        onClickConnect_begin_def Let_def split: dom_event.split)
  next
    case 4
    then show ?thesis by (simp add: Cons SetupConnection_element_def dispatch_plain split: dom_event.split)
  qed
qed (simp add: SetupConnection_element_def dispatch_plain split: dom_event.split)

text \<open>
  C30. Every event on every element of the rendered setup form: a click on the transport switch, or on
  anything inside it, flips the transport; a change of one of the three inputs sets exactly that
  field, unless an attempt is pending; a click on the button or its text starts an attempt,
  unless one is pending; no other event on any element changes the form or starts anything.
\<close>

theorem form_events_exact:
  "fst (dispatch path e (SetupConnection_element logCb s hover) ((s, as, l), h)) = (case e of
     ClickEvent _ \<Rightarrow> if prefix [0, 1] path then (onToggleTransport s, as, l)
       else if prefix [2] path then click_connect logCb (s, as, l) else (s, as, l)
   | ChangeEvent v \<Rightarrow> if prefix [1, 1] path then (onChangeUserName v s, as, l)
       else if prefix [1, 3] path then (onChangeSpanUrl v s, as, l)
       else if prefix [1, 5] path then (onChangeDestUrl v s, as, l) else (s, as, l)
   | _ \<Rightarrow> (s, as, l))"
  by (rule form_dispatched)

text \<open>Seen from the state machine of the form, an event is one step or nothing.\<close>

lemma form_event_step:
  assumes "fst (dispatch path e (SetupConnection_element logCb s hover) ((s, as, l), h)) = t"
  shows "t = (s, as, l) \<or> setup_step B R urlError logCb onOpen (s, as, l) t"
  using assms unfolding form_dispatched
  by (auto intro: setup_step.intros split: dom_event.splits if_splits)

lemma form_event_page:
  assumes "fst (dispatch path e (SetupConnection_element logCb s hover) ((s, as, l), h)) = (s', as', l')"
  shows "l' = l \<or> l' = WrapLogFn ''SetupConnectionComponent'' logCb ''Attempting to connect...'' None l"
  using assms unfolding form_dispatched
  by (auto simp: setup_handler_defs split: dom_event.splits if_splits)

text \<open>The chat box and the status line.\<close>

lemma chat_box_dispatch:
  "fst (dispatch path e (ChatBox_element onSubmit name chat hover) ((chat, l), h)) = (case e of
     ClickEvent _ \<Rightarrow> if prefix [1, 1] path then ChatBox_onClickSubmit onSubmit (chat, l) else (chat, l)
   | ChangeEvent v \<Rightarrow> if prefix [1, 0] path then ChatBox_onChange v (chat, l) else (chat, l)
   | KeyDownEvent k \<Rightarrow> if prefix [1, 0] path then ChatBox_onKeyDown onSubmit k (chat, l) else (chat, l)
   | _ \<Rightarrow> (chat, l))"
proof -
  consider "path = []" | "path = [1]" | i p where "path = i # p" "i \<noteq> 1" | p where "path = 1 # 0 # p" | p where "path = 1 # 1 # p"
    | j p where "path = 1 # j # p" "2 \<le> j"
    by (metis One_nat_def Suc_1 less_2_cases not_less neq_Nil_conv)
  then show ?thesis
    by cases (auto simp: ChatBox_element_def dispatch_plain button_dispatch ChatBox_onClickSubmit_def ChatBox_onChange_def
      ChatBox_onKeyDown_def Button_onClick_def nth_Cons' split: dom_event.split)
qed

interpretation status_part: state_part "\<lambda>((s, as, l), h). (l, h)" "\<lambda>(l, h) ((s, as, _), _). ((s, as, l), h)"
  by unfold_locales auto

lemma status_dispatch:
  "fst (dispatch path e (StatusLine_element c onOpen hover) (l, h)) = (case e of
     ClickEvent _ \<Rightarrow> if prefix [1] path then onClickClose onOpen l else l | _ \<Rightarrow> l)"
proof (cases path)
  case (Cons i p)
  consider "i = 0" | "i = 1" | "2 \<le> i" by linarith
  then show ?thesis
    by cases (auto simp: Cons StatusLine_element_def dispatch_plain button_dispatch Button_onClick_def split: dom_event.split)
qed (simp add: StatusLine_element_def dispatch_plain split: dom_event.split)

section \<open>What is shown\<close>

lemmas attrs_defs = element_ids_def label_targets_def input_values_def List.map_filter_def

text \<open>
  What the setup form shows: the inputs have pairwise different identifiers and the current values, each label refers to an
  input, and exactly the tab of the selected transport has the highlighted colour.
\<close>

theorem form_shows_state:
  "element_ids (SetupConnection_element logCb s hover) = [''tb-username'', ''tb-spanreed-url'', ''tb-backend-url''] \<and>
   label_targets (SetupConnection_element logCb s hover) = element_ids (SetupConnection_element logCb s hover) \<and>
   input_values (SetupConnection_element logCb s hover) =
     [(Some ''tb-username'', Some (form_userName s)), (Some ''tb-spanreed-url'', Some (form_spanUrl s)),
      (Some ''tb-backend-url'', Some (form_destUrl s))] \<and>
   map_of (leftTab_style (form_leftSelected s)) ''color'' = Some (if form_leftSelected s then ''#fff'' else ''#888'') \<and>
   map_of (rightTab_style (form_leftSelected s)) ''color'' = Some (if form_leftSelected s then ''#888'' else ''#fff'')"
  by (simp add: attrs_defs SetupConnection_element_def TransportSwitch_element_def AddressForm_element_def Button_element_def
      label_element_def input_element_def tab_label_def leftTab_style_def rightTab_style_def spread_if_def spread_lookup)

end
