(* ===== verification/Scene.thy ===== *)
theory Scene
  imports Game_Messages
begin

text \<open>
  What the canvas shows: the colours of \<open>colors.ts\<close>, the dots the page hands to the renderer,
  and the circle of \<open>geomtry.ts\<close>. JavaScript numbers are a type variable \<open>'f\<close> wherever only
  stored and compared; where the source computes with them the definitions are polymorphic in
  the arithmetic operations, and the theorems about them read \<open>'f\<close> as the real numbers.
\<close>

section \<open>colors.ts\<close>

definition COLORS_Red :: bytes where "COLORS_Red = [229, 47, 15]"
definition COLORS_Green :: bytes where "COLORS_Green = [168, 224, 157]"
definition COLORS_Blue :: bytes where "COLORS_Blue = [70, 194, 219]"
definition COLORS_Indigo :: bytes where "COLORS_Indigo = [167, 83, 255]"
definition COLORS_FireOrange :: bytes where "COLORS_FireOrange = [246, 206, 29]"

lemmas COLORS_defs = COLORS_Red_def COLORS_Green_def COLORS_Blue_def COLORS_Indigo_def COLORS_FireOrange_def

section \<open>Dots\<close>

record 'f dot =
  dot_x :: 'f
  dot_y :: 'f
  dot_radius :: 'f
  dot_color :: bytes

section \<open>geomtry.ts\<close>

text \<open>
  The vertex list the loop builds, before it is stored as 32-bit floats. \<open>cos\<close>, \<open>sin\<close> and
  \<open>pi\<close> are the members of \<open>Math\<close>.
\<close>

fun circleLoop :: "nat \<Rightarrow> nat \<Rightarrow> real list \<Rightarrow> real list" where
  "circleLoop segmentCount 0 vertexData = vertexData"
| "circleLoop segmentCount (Suc left) vertexData =
     (let i = segmentCount - Suc left;
          vertex1Angle = (real i * pi * 2) / real segmentCount;
          vertex2Angle = ((real i + 1) * pi * 2) / real segmentCount;
          x1 = cos vertex1Angle; y1 = sin vertex1Angle;
          x2 = cos vertex2Angle; y2 = sin vertex2Angle
      in circleLoop segmentCount left (vertexData @ [0, 0] @ [x1, y1] @ [x2, y2]))"

definition buildCircleVertexBufferData :: "nat \<Rightarrow> real list" where
  "buildCircleVertexBufferData segmentCount = circleLoop segmentCount segmentCount []"

section \<open>Properties of the circle\<close>

definition circle_point :: "nat \<Rightarrow> nat \<Rightarrow> real \<times> real" where
  "circle_point n i = (cos (2 * pi * real i / real n), sin (2 * pi * real i / real n))"

definition circle_triangle :: "nat \<Rightarrow> nat \<Rightarrow> real list" where
  "circle_triangle n i = [0, 0, fst (circle_point n i), snd (circle_point n i),
     fst (circle_point n (Suc i)), snd (circle_point n (Suc i))]"

lemma circleLoop_triangles:
  "left \<le> n \<Longrightarrow> circleLoop n left acc = acc @ concat (map (circle_triangle n) [n - left..<n])"
proof (induction left arbitrary: acc)
  case (Suc left)
  then have "[n - Suc left..<n] = (n - Suc left) # [n - left..<n]"
    by (simp add: upt_conv_Cons Suc_diff_Suc)
  with Suc show ?case
    by (simp add: Let_def circle_triangle_def circle_point_def mult.commute mult.left_commute of_nat_diff add.commute)
qed simp

text \<open>
  The vertex buffer of a circle with any number of segments consists of that many triangles of
  three two-dimensional vertices: each has its first vertex in the centre and the other two on
  the unit circle, neighbouring triangles share an edge, and the last triangle ends where the
  first begins, so that the fan is closed.
\<close>

theorem circle_closed_fan:
  assumes "0 < n" and "i < n"
  shows "length (buildCircleVertexBufferData n) = 6 * n \<and>
    (let v = (\<lambda>k. (buildCircleVertexBufferData n ! (6 * i + 2 * k), buildCircleVertexBufferData n ! (6 * i + 2 * k + 1)))
     in v 0 = (0, 0) \<and> (fst (v 1))\<^sup>2 + (snd (v 1))\<^sup>2 = 1 \<and>
        v 1 = circle_point n i \<and> v 2 = circle_point n (Suc i) \<and> circle_point n n = circle_point n 0)"
proof -
  let ?d = "buildCircleVertexBufferData n"
  have d: "?d = concat (map (circle_triangle n) [0..<n])"
    using circleLoop_triangles [of n n "[]"] by (simp add: buildCircleVertexBufferData_def)
  have len: "length (circle_triangle n j) = 6" for j by (simp add: circle_triangle_def)
  have "length ?d = 6 * n" unfolding d by (rule length_concat_chunks) (rule len)
  moreover have at: "?d ! (6 * i + j) = circle_triangle n i ! j" if "j < 6" for j
    unfolding d by (rule nth_concat_chunks) (simp_all add: len assms(2) that)
  moreover have "circle_point n n = circle_point n 0" using assms(1) by (simp add: circle_point_def)
  ultimately show ?thesis
    using at [of 0] at [of 1] at [of 2] at [of 3] at [of 4] at [of 5]
    by (simp add: Let_def circle_triangle_def circle_point_def eval_nat_numeral)
qed

theorem circle_closed_fan_witness: "length (buildCircleVertexBufferData 20) = 120"
  using circle_closed_fan [of 20 0] by simp

end
