(* ===== verification/Go_Messages.thy ===== *)
theory Go_Messages
  imports Flatbuffers
begin

text \<open>
  The generated Go classes the proxy itself uses, \<open>pkg/transport/SpanreedMessage\<close>: the builder
  functions of the messages it composes and the accessors of those it reads. The Go runtime of
  flatbuffers has the operations of the TypeScript one under other names (\<open>StartObject\<close>,
  \<open>PrependUint32Slot\<close> and \<open>PrependByteSlot\<close> with \<open>PrependBoolSlot\<close>, \<open>PrependUOffsetTSlot\<close>, \<open>EndObject\<close>;
  \<open>Table.Offset\<close>, \<open>Union\<close>, \<open>GetByte\<close>, \<open>GetUint32\<close>, \<open>GetBool\<close>, \<open>ByteVector\<close>), so that both are
  instances of the same two interface records. A \<open>uint32\<close> is a 32-bit word. Where Go slices
  outside of the buffer and panics, a byte-slice accessor returns \<open>None\<close>; a string field is returned
  as Go's conversion \<open>string(b)\<close> of its bytes makes it, empty when the field is absent.
\<close>

section \<open>Definitions\<close>

subsection \<open>\<open>InnerMsg.go\<close>\<close>

definition go_InnerMsgNONE :: "int" where
  "go_InnerMsgNONE = 0"

definition go_InnerMsgProxyMessage :: "int" where
  "go_InnerMsgProxyMessage = 1"

definition go_InnerMsgConnectionVerdict :: "int" where
  "go_InnerMsgConnectionVerdict = 2"

definition go_InnerMsgCloseConnection :: "int" where
  "go_InnerMsgCloseConnection = 3"

subsection \<open>\<open>ProxyDestInnerMsg.go\<close>\<close>

definition go_ProxyDestInnerMsgNONE :: "int" where
  "go_ProxyDestInnerMsgNONE = 0"

definition go_ProxyDestInnerMsgProxyDestConnectionRequest :: "int" where
  "go_ProxyDestInnerMsgProxyDestConnectionRequest = 1"

definition go_ProxyDestInnerMsgProxyDestClientMessage :: "int" where
  "go_ProxyDestInnerMsgProxyDestClientMessage = 2"

definition go_ProxyDestInnerMsgProxyDestCloseConnection :: "int" where
  "go_ProxyDestInnerMsgProxyDestCloseConnection = 3"

subsection \<open>\<open>ConnectClientMessage.go\<close>\<close>

definition go_GetRootAsConnectClientMessage :: "('bb, 'f) fb_reader \<Rightarrow> bytes \<Rightarrow> 'bb fb_table" where
  "go_GetRootAsConnectClientMessage R buf =
     (let b = newByteBuffer R buf
      in \<lparr>bb = b, bb_pos = readInt32 R b (position R b) + position R b\<rparr>)"

definition go_ConnectClientMessage_ConnectionString :: "('bb, 'f) fb_reader \<Rightarrow> 'bb fb_table \<Rightarrow> string" where
  "go_ConnectClientMessage_ConnectionString R rcv =
     (let o' = fb_offset R (bb rcv) (bb_pos rcv) 4
      in if o' \<noteq> 0 then fb_string R (bb rcv) (bb_pos rcv + o') else [])"

definition go_ConnectClientMessage_AppDataBytes :: "('bb, 'f) fb_reader \<Rightarrow> 'bb fb_table \<Rightarrow> bytes option option" where
  "go_ConnectClientMessage_AppDataBytes R rcv =
     (let o' = fb_offset R (bb rcv) (bb_pos rcv) 6
      in if o' \<noteq> 0
         then (case uint8_view (fb_buffer R (bb rcv)) (fb_byteOffset R (bb rcv) + fb_vector R (bb rcv) (bb_pos rcv + o'))
             (fb_vector_len R (bb rcv) (bb_pos rcv + o')) of
             Inl outside \<Rightarrow> None | Inr bs \<Rightarrow> Some (Some bs))
         else Some None)"

subsection \<open>\<open>ConnectClientVerdict.go\<close>\<close>

definition go_ConnectClientVerdictStart :: "('s, 'f) fb_builder \<Rightarrow> ('s, unit) state" where
  "go_ConnectClientVerdictStart B = startObject B 3"

definition go_ConnectClientVerdictAddAccepted :: "('s, 'f) fb_builder \<Rightarrow> bool \<Rightarrow> ('s, unit) state" where
  "go_ConnectClientVerdictAddAccepted B accepted = addFieldInt8 B 0 (of_bool accepted) (of_bool False)"

definition go_ConnectClientVerdictAddErrorReason :: "('s, 'f) fb_builder \<Rightarrow> int \<Rightarrow> ('s, unit) state" where
  "go_ConnectClientVerdictAddErrorReason B errorReason = addFieldOffset B 1 errorReason 0"

definition go_ConnectClientVerdictAddAppData :: "('s, 'f) fb_builder \<Rightarrow> int \<Rightarrow> ('s, unit) state" where
  "go_ConnectClientVerdictAddAppData B appData = addFieldOffset B 2 appData 0"

definition go_ConnectClientVerdictEnd :: "('s, 'f) fb_builder \<Rightarrow> ('s, int) state" where
  "go_ConnectClientVerdictEnd B = endObject B"

subsection \<open>\<open>DestinationMessage.go\<close>\<close>

definition go_GetRootAsDestinationMessage :: "('bb, 'f) fb_reader \<Rightarrow> bytes \<Rightarrow> 'bb fb_table" where
  "go_GetRootAsDestinationMessage R buf =
     (let b = newByteBuffer R buf
      in \<lparr>bb = b, bb_pos = readInt32 R b (position R b) + position R b\<rparr>)"

definition go_DestinationMessage_MsgType :: "('bb, 'f) fb_reader \<Rightarrow> 'bb fb_table \<Rightarrow> int" where
  "go_DestinationMessage_MsgType R rcv =
     (let o' = fb_offset R (bb rcv) (bb_pos rcv) 4
      in if o' \<noteq> 0 then readUint8 R (bb rcv) (bb_pos rcv + o') else 0)"

definition go_DestinationMessage_Msg :: "('bb, 'f) fb_reader \<Rightarrow> 'bb fb_table \<Rightarrow> 'bb fb_table option" where
  "go_DestinationMessage_Msg R rcv =
     (let o' = fb_offset R (bb rcv) (bb_pos rcv) 6
      in if o' \<noteq> 0 then Some \<lparr>bb = bb rcv, bb_pos = fb_union R (bb rcv) (bb_pos rcv + o')\<rparr> else None)"

definition go_DestinationMessage_AppDataBytes :: "('bb, 'f) fb_reader \<Rightarrow> 'bb fb_table \<Rightarrow> bytes option option" where
  "go_DestinationMessage_AppDataBytes R rcv =
     (let o' = fb_offset R (bb rcv) (bb_pos rcv) 8
      in if o' \<noteq> 0
         then (case uint8_view (fb_buffer R (bb rcv)) (fb_byteOffset R (bb rcv) + fb_vector R (bb rcv) (bb_pos rcv + o'))
             (fb_vector_len R (bb rcv) (bb_pos rcv + o')) of
             Inl outside \<Rightarrow> None | Inr bs \<Rightarrow> Some (Some bs))
         else Some None)"

subsection \<open>\<open>ConnectionVerdict.go\<close>\<close>

definition go_ConnectionVerdict_ClientId :: "('bb, 'f) fb_reader \<Rightarrow> 'bb fb_table \<Rightarrow> client_id" where
  "go_ConnectionVerdict_ClientId R rcv =
     (let o' = fb_offset R (bb rcv) (bb_pos rcv) 4
      in if o' \<noteq> 0 then word_of_int (readUint32 R (bb rcv) (bb_pos rcv + o')) else 0)"

definition go_ConnectionVerdict_Accepted :: "('bb, 'f) fb_reader \<Rightarrow> 'bb fb_table \<Rightarrow> bool" where
  "go_ConnectionVerdict_Accepted R rcv =
     (let o' = fb_offset R (bb rcv) (bb_pos rcv) 6
      in if o' \<noteq> 0 then readInt8 R (bb rcv) (bb_pos rcv + o') \<noteq> 0 else False)"

subsection \<open>\<open>ProxyMessage.go\<close>\<close>

definition go_ProxyMessage_ClientId :: "('bb, 'f) fb_reader \<Rightarrow> 'bb fb_table \<Rightarrow> client_id" where
  "go_ProxyMessage_ClientId R rcv =
     (let o' = fb_offset R (bb rcv) (bb_pos rcv) 4
      in if o' \<noteq> 0 then word_of_int (readUint32 R (bb rcv) (bb_pos rcv + o')) else 0)"

subsection \<open>\<open>CloseConnection.go\<close>\<close>

definition go_CloseConnection_ClientId :: "('bb, 'f) fb_reader \<Rightarrow> 'bb fb_table \<Rightarrow> client_id" where
  "go_CloseConnection_ClientId R rcv =
     (let o' = fb_offset R (bb rcv) (bb_pos rcv) 4
      in if o' \<noteq> 0 then word_of_int (readUint32 R (bb rcv) (bb_pos rcv + o')) else 0)"

definition go_CloseConnection_Reason :: "('bb, 'f) fb_reader \<Rightarrow> 'bb fb_table \<Rightarrow> string" where
  "go_CloseConnection_Reason R rcv =
     (let o' = fb_offset R (bb rcv) (bb_pos rcv) 6
      in if o' \<noteq> 0 then fb_string R (bb rcv) (bb_pos rcv + o') else [])"

subsection \<open>\<open>ProxyDestConnectionRequest.go\<close>\<close>

definition go_ProxyDestConnectionRequestStart :: "('s, 'f) fb_builder \<Rightarrow> ('s, unit) state" where
  "go_ProxyDestConnectionRequestStart B = startObject B 1"

definition go_ProxyDestConnectionRequestAddClientId :: "('s, 'f) fb_builder \<Rightarrow> client_id \<Rightarrow> ('s, unit) state" where
  "go_ProxyDestConnectionRequestAddClientId B clientId = addFieldInt32 B 0 (uint clientId) 0"

definition go_ProxyDestConnectionRequestEnd :: "('s, 'f) fb_builder \<Rightarrow> ('s, int) state" where
  "go_ProxyDestConnectionRequestEnd B = endObject B"

subsection \<open>\<open>ProxyDestClientMessage.go\<close>\<close>

definition go_ProxyDestClientMessageStart :: "('s, 'f) fb_builder \<Rightarrow> ('s, unit) state" where
  "go_ProxyDestClientMessageStart B = startObject B 1"

definition go_ProxyDestClientMessageAddClientId :: "('s, 'f) fb_builder \<Rightarrow> client_id \<Rightarrow> ('s, unit) state" where
  "go_ProxyDestClientMessageAddClientId B clientId = addFieldInt32 B 0 (uint clientId) 0"

definition go_ProxyDestClientMessageEnd :: "('s, 'f) fb_builder \<Rightarrow> ('s, int) state" where
  "go_ProxyDestClientMessageEnd B = endObject B"

subsection \<open>\<open>ProxyDestCloseConnection.go\<close>\<close>

definition go_ProxyDestCloseConnectionStart :: "('s, 'f) fb_builder \<Rightarrow> ('s, unit) state" where
  "go_ProxyDestCloseConnectionStart B = startObject B 1"

definition go_ProxyDestCloseConnectionAddClientId :: "('s, 'f) fb_builder \<Rightarrow> client_id \<Rightarrow> ('s, unit) state" where
  "go_ProxyDestCloseConnectionAddClientId B clientId = addFieldInt32 B 0 (uint clientId) 0"

definition go_ProxyDestCloseConnectionEnd :: "('s, 'f) fb_builder \<Rightarrow> ('s, int) state" where
  "go_ProxyDestCloseConnectionEnd B = endObject B"

subsection \<open>\<open>ProxyDestinationMessage.go\<close>\<close>

definition go_ProxyDestinationMessageStart :: "('s, 'f) fb_builder \<Rightarrow> ('s, unit) state" where
  "go_ProxyDestinationMessageStart B = startObject B 3"

definition go_ProxyDestinationMessageAddInnerMessageType :: "('s, 'f) fb_builder \<Rightarrow> int \<Rightarrow> ('s, unit) state" where
  "go_ProxyDestinationMessageAddInnerMessageType B innerMessageType = addFieldInt8 B 0 innerMessageType 0"

definition go_ProxyDestinationMessageAddInnerMessage :: "('s, 'f) fb_builder \<Rightarrow> int \<Rightarrow> ('s, unit) state" where
  "go_ProxyDestinationMessageAddInnerMessage B innerMessage = addFieldOffset B 1 innerMessage 0"

definition go_ProxyDestinationMessageAddAppData :: "('s, 'f) fb_builder \<Rightarrow> int \<Rightarrow> ('s, unit) state" where
  "go_ProxyDestinationMessageAddAppData B appData = addFieldOffset B 2 appData 0"

definition go_ProxyDestinationMessageEnd :: "('s, 'f) fb_builder \<Rightarrow> ('s, int) state" where
  "go_ProxyDestinationMessageEnd B = endObject B"

lemmas go_builders [msg_defs] =
  go_InnerMsgNONE_def go_InnerMsgProxyMessage_def go_InnerMsgConnectionVerdict_def
  go_InnerMsgCloseConnection_def go_ProxyDestInnerMsgNONE_def
  go_ProxyDestInnerMsgProxyDestConnectionRequest_def go_ProxyDestInnerMsgProxyDestClientMessage_def
  go_ProxyDestInnerMsgProxyDestCloseConnection_def go_ConnectClientVerdictStart_def
  go_ConnectClientVerdictAddAccepted_def go_ConnectClientVerdictAddErrorReason_def
  go_ConnectClientVerdictAddAppData_def go_ConnectClientVerdictEnd_def
  go_ProxyDestConnectionRequestStart_def go_ProxyDestConnectionRequestAddClientId_def
  go_ProxyDestConnectionRequestEnd_def go_ProxyDestClientMessageStart_def
  go_ProxyDestClientMessageAddClientId_def go_ProxyDestClientMessageEnd_def
  go_ProxyDestCloseConnectionStart_def go_ProxyDestCloseConnectionAddClientId_def
  go_ProxyDestCloseConnectionEnd_def go_ProxyDestinationMessageStart_def
  go_ProxyDestinationMessageAddInnerMessageType_def go_ProxyDestinationMessageAddInnerMessage_def
  go_ProxyDestinationMessageAddAppData_def go_ProxyDestinationMessageEnd_def

end
