(* ===== verification/Server_Messages.thy ===== *)
theory Server_Messages
  imports Message_Codecs Go_Messages
begin

text \<open>
  The messages composed on the other side of the wire and what the client reads from them: the
  two application messages of the demo server (\<open>main.cc\<close>) and the proxy's verdict on a connection
  request (\<open>client_connection_router.go\<close>), in the order that code composes them. The server
  writes its vector of dots with one library call; the loop below is the way the generated
  TypeScript classes write the same vector, last element first.
\<close>

section \<open>Composition\<close>

definition server_chat_message :: "('s, 'f) fb_builder \<Rightarrow> string \<Rightarrow> string \<Rightarrow> bytes" where
  "server_chat_message B client_name chat =
     (let inner_msg_fbb = newBuilder B 1024
      in asUint8Array B (snd (run_state
        (do { user_text \<leftarrow> createString B client_name;
              broadcast_text \<leftarrow> createString B chat;
              server_chat_msg \<leftarrow> createServerChatMessage B user_text broadcast_text;
              app_message \<leftarrow> createServerMessage B Message_ServerChatMessage server_chat_msg;
              finish B app_message False }) inner_msg_fbb)))"

record 'f world_dot =
  wdot_x :: 'f
  wdot_y :: 'f
  wdot_radius :: 'f
  wdot_color :: Color

fun createDots :: "('s, 'f) fb_builder \<Rightarrow> 'f world_dot list \<Rightarrow> nat \<Rightarrow> ('s, unit) state" where
  "createDots B ds 0 = State_Monad.return ()"
| "createDots B ds (Suc i) =
     do { createDot B (wdot_x (ds ! i)) (wdot_y (ds ! i)) (wdot_radius (ds ! i)) (wdot_color (ds ! i));
          createDots B ds i }"

definition server_game_state_message :: "('s, 'f) fb_builder \<Rightarrow> 'f world_dot list \<Rightarrow> bytes" where
  "server_game_state_message B dots =
     (let app_data_builder = newBuilder B 1024
      in asUint8Array B (snd (run_state
        (do { ServerGameStateMessage_startDotsVector B (int (length dots));
              createDots B dots (length dots);
              dots_v \<leftarrow> endVector B;
              game_state_msg \<leftarrow> createServerGameStateMessage B dots_v;
              app_data_v \<leftarrow> createServerMessage B Message_ServerGameStateMessage game_state_msg;
              finish B app_data_v False }) app_data_builder)))"

section \<open>Reading\<close>

context flatbuffers
begin

definition dot_cells :: "'f world_dot \<Rightarrow> 'f fb_cell list" where
  "dot_cells d = [CFloat (fround (wdot_x d)), CFloat (fround (wdot_y d)), CFloat (fround (wdot_radius d)),
     CInt8 (Color_num (wdot_color d)), CPad, CPad, CPad]"

lemma dot_cells_size [simp]: "cells_size (dot_cells d) = 16"
  by (simp add: dot_cells_def)

lemma dots_cells_size [simp]: "cells_size (concat (map dot_cells ds)) = 16 * length ds"
  by (induction ds) simp_all

lemma createDot_run:
  assumes "valid s" and "mode s = InVector n 4 cs" and "4 dvd int (cells_size cs)"
  shows "valid (snd (run_state (createDot B x y r c) s))"
    and "mode (snd (run_state (createDot B x y r c) s)) =
      InVector n 4 (dot_cells \<lparr>wdot_x = x, wdot_y = y, wdot_radius = r, wdot_color = c\<rparr> @ cs)"
    and "nodes (snd (run_state (createDot B x y r c) s)) = nodes s"
  using assms by (simp_all add: createDot_def dot_cells_def eval_nat_numeral)

lemma createDots_run:
  assumes "valid s" and "mode s = InVector n 4 cs" and "4 dvd int (cells_size cs)" and "i \<le> length ds"
  shows "valid (snd (run_state (createDots B ds i) s)) \<and>
    mode (snd (run_state (createDots B ds i) s)) = InVector n 4 (concat (map dot_cells (take i ds)) @ cs) \<and>
    nodes (snd (run_state (createDots B ds i) s)) = nodes s"
  using assms
proof (induction i arbitrary: s cs)
  case (Suc i)
  let ?d = "ds ! i"
  have eta: "\<lparr>wdot_x = wdot_x ?d, wdot_y = wdot_y ?d, wdot_radius = wdot_radius ?d, wdot_color = wdot_color ?d\<rparr> = ?d"
    by simp
  note one = createDot_run [OF Suc.prems(1-3), of "wdot_x ?d" "wdot_y ?d" "wdot_radius ?d" "wdot_color ?d", unfolded eta]
  have "4 dvd int (cells_size (dot_cells ?d @ cs))" using Suc.prems(3) by simp
  with Suc.IH [OF one(1,2)] Suc.prems(4) one(3) show ?case
    by (simp add: take_Suc_conv_app_nth)
qed simp

lemma server_message_read:
  assumes "valid s" and "mode s = Idle" and "nodes s m = Some (FTable n fs)" and "k \<noteq> Message_NONE"
    and "s' = snd (run_state (do { c \<leftarrow> createServerMessage B k m; finish B c False }) s)"
    and "length (asUint8Array B s') < 2 ^ 31" and "b = newByteBuffer R (asUint8Array B s')"
  shows "views s' b" and "nodes s \<subseteq>\<^sub>m nodes s'"
    and "ServerMessage_messageType R (getRootAsServerMessage R b) = Message_num k"
    and "ServerMessage_message R (getRootAsServerMessage R b) = Some \<lparr>bb = b, bb_pos = addr s' m\<rparr>"
proof -
  define c where "c = fst (run_state (createServerMessage B k m) s)"
  define s1 where "s1 = snd (run_state (createServerMessage B k m) s)"
  note a = adds_tableD [OF createServerMessage_adds [OF assms(1-4)] c_def s1_def]
  have s': "s' = snd (run_state (finish B c False) s1)" by (simp add: assms(5) c_def s1_def)
  note f = finish_open [OF a(1,2,4) s' assms(6,7)]
  have root: "getRootAsServerMessage R b = \<lparr>bb = b, bb_pos = addr s' c\<rparr>"
    by (simp add: getRootAsServerMessage_def ServerMessage_init_def f(3))
  have tab: "nodes s' c = Some (FTable 2 [0 \<mapsto> FInt8 (Message_num k), 1 \<mapsto> FRef m])"
    using a(4) f(2) by simp
  have m: "nodes s' m = Some (FTable n fs)" using kept [OF a(3) assms(3)] f(2) by simp
  show "views s' b" by (rule f(1))
  show "nodes s \<subseteq>\<^sub>m nodes s'" using a(3) f(2) by simp
  have "Message_num k mod 256 = Message_num k" by (cases k) simp_all
  then show "ServerMessage_messageType R (getRootAsServerMessage R b) = Message_num k"
    by (simp add: ServerMessage_messageType_def uint8_field [OF root f(1) tab, of 0])
  show "ServerMessage_message R (getRootAsServerMessage R b) = Some \<lparr>bb = b, bb_pos = addr s' m\<rparr>"
    by (simp add: ServerMessage_message_def union_field [OF root f(1) tab, of 1 _ m n fs] m)
qed

lemma server_chat_read:
  assumes "length (server_chat_message B user chat) < 2 ^ 31"
    and "m = getRootAsServerMessage R (newByteBuffer R (server_chat_message B user chat))"
  shows "ServerMessage_messageType R m = Message_num Message_ServerChatMessage"
    and "\<exists>t. ServerMessage_message R m = Some t \<and> ServerChatMessage_user R t = Some user \<and>
           ServerChatMessage_text R t = Some chat"
proof -
  define s0 where "s0 = newBuilder B 1024"
  define u where "u = fst (run_state (createString B user) s0)"
  define s1 where "s1 = snd (run_state (createString B user) s0)"
  have "valid s0" "mode s0 = Idle" by (simp_all add: s0_def)
  note a1 = string_added [OF this u_def s1_def]
  define c where "c = fst (run_state (createString B chat) s1)"
  define s2 where "s2 = snd (run_state (createString B chat) s1)"
  note a2 = string_added [OF a1(1,2) c_def s2_def]
  define t where "t = fst (run_state (createServerChatMessage B u c) s2)"
  define s3 where "s3 = snd (run_state (createServerChatMessage B u c) s2)"
  note a3 = adds_tableD [OF createServerChatMessage_adds [OF a2(1,2) kept [OF a2(3) a1(4)] a2(4)] t_def s3_def]
  define s4 where "s4 = snd (run_state (do { m \<leftarrow> createServerMessage B Message_ServerChatMessage t;
    finish B m False }) s3)"
  have data: "server_chat_message B user chat = asUint8Array B s4"
    by (simp add: server_chat_message_def Let_def s0_def u_def s1_def c_def s2_def t_def s3_def s4_def)
  note r = server_message_read [OF a3(1,2,4) _ s4_def assms(1) [unfolded data] refl, simplified]
  show "ServerMessage_messageType R m = Message_num Message_ServerChatMessage"
    using r(3) by (simp add: assms(2) data)
  have nodes: "nodes s4 u = Some (FString user)" "nodes s4 c = Some (FString chat)"
    using kept [OF r(2) kept [OF a3(3) kept [OF a2(3) a1(4)]]] kept [OF r(2) kept [OF a3(3) a2(4)]] by simp_all
  note tab = kept [OF r(2) a3(4)]
  have "ServerChatMessage_user R \<lparr>bb = newByteBuffer R (asUint8Array B s4), bb_pos = addr s4 t\<rparr> = Some user"
    by (simp only: ServerChatMessage_user_def) (rule string_field [OF refl r(1) tab, of 0 _ u]; simp add: nodes)
  moreover have "ServerChatMessage_text R \<lparr>bb = newByteBuffer R (asUint8Array B s4), bb_pos = addr s4 t\<rparr> = Some chat"
    by (simp only: ServerChatMessage_text_def) (rule string_field [OF refl r(1) tab, of 1 _ c]; simp add: nodes)
  ultimately show "\<exists>t. ServerMessage_message R m = Some t \<and> ServerChatMessage_user R t = Some user \<and>
      ServerChatMessage_text R t = Some chat"
    using r(4) by (simp add: assms(2) data)
qed

lemma dots_vector_read:
  assumes "t = \<lparr>bb = b, bb_pos = addr s p\<rparr>" and "views s b" and "nodes s p = Some (FTable 1 [0 \<mapsto> FRef v])"
    and "nodes s v = Some (FVec (int (length ds)) (concat (map dot_cells ds)))" and "i < length ds"
  shows "ServerGameStateMessage_dotsLength R t = int (length ds)"
    and "\<exists>d. ServerGameStateMessage_dots R t (int i) = Some d \<and> Dot_x R d = fround (wdot_x (ds ! i)) \<and>
      Dot_y R d = fround (wdot_y (ds ! i)) \<and> Dot_radius R d = fround (wdot_radius (ds ! i)) \<and>
      Dot_color R d = Color_num (wdot_color (ds ! i))"
proof -
  let ?off = "fb_offset R b (addr s p) 4" and ?c = "concat (map dot_cells (take i ds))" and ?d = "ds ! i"
  have present: "?off \<noteq> 0" using offset_present [OF assms(2,3), of 0 "FRef v"] by simp
  show "ServerGameStateMessage_dotsLength R t = int (length ds)"
    using read_vector_len [OF assms(2,3) _ _ _ assms(4), of 0] present
    by (simp add: ServerGameStateMessage_dotsLength_def assms(1) Let_def)
  have split: "concat (map dot_cells ds) =
      (?c @ take j (dot_cells ?d)) @ dot_cells ?d ! j # (drop (Suc j) (dot_cells ?d) @ concat (map dot_cells (drop (Suc i) ds)))"
    if "j < length (dot_cells ?d)" for j
    using id_take_nth_drop [OF assms(5)] id_take_nth_drop [OF that]
    by (metis (no_types, lifting) append.assoc append_Cons concat.simps(2) concat_append list.map(2) map_append)
  have size: "int (cells_size ?c) = int i * 16" using assms(5) by simp
  have float: "readFloat32 R b (fb_vector R b (addr s p + ?off) + int (cells_size (?c @ take j (dot_cells ?d)))) = x"
    if "j < 7" and "dot_cells ?d ! j = CFloat x" for j x
    using read_vector_float32 [OF assms(2,3), of 0 v "int (length ds)" "?c @ take j (dot_cells ?d)" x]
      assms(4) split [of j] that by (simp add: dot_cells_def)
  have "- 128 \<le> Color_num (wdot_color ?d)" "Color_num (wdot_color ?d) < 128"
    by (cases "wdot_color ?d"; simp)+
  then have color: "readInt8 R b (fb_vector R b (addr s p + ?off) + int (cells_size (?c @ take 3 (dot_cells ?d)))) =
      Color_num (wdot_color ?d)"
    using read_vector_int8 [OF assms(2,3), of 0 v "int (length ds)" "?c @ take 3 (dot_cells ?d)"]
      assms(4) split [of 3] by (simp add: dot_cells_def)
  note x = float [of 0] and y = float [of 1] and r = float [of 2]
  show "\<exists>d. ServerGameStateMessage_dots R t (int i) = Some d \<and> Dot_x R d = fround (wdot_x ?d) \<and>
      Dot_y R d = fround (wdot_y ?d) \<and> Dot_radius R d = fround (wdot_radius ?d) \<and>
      Dot_color R d = Color_num (wdot_color ?d)"
    using x y r color present size
    by (simp add: dot_cells_def ServerGameStateMessage_dots_def assms(1) Let_def Dot_init_def Dot_x_def Dot_y_def Dot_radius_def
        Dot_color_def add.commute add.left_commute mult.commute)
qed

lemma dots_vector_empty:
  assumes "t = \<lparr>bb = b, bb_pos = addr s p\<rparr>" and "views s b" and "nodes s p = Some (FTable 1 [0 \<mapsto> FRef v])"
    and "nodes s v = Some (FVec 0 [])"
  shows "ServerGameStateMessage_dotsLength R t = 0"
  using read_vector_len [OF assms(2,3) _ _ _ assms(4), of 0]
  by (simp add: ServerGameStateMessage_dotsLength_def assms(1) Let_def)

lemma game_state_read:
  assumes "length (server_game_state_message B ds) < 2 ^ 31"
    and "m = getRootAsServerMessage R (newByteBuffer R (server_game_state_message B ds))"
  shows "ServerMessage_messageType R m = Message_num Message_ServerGameStateMessage"
    and "\<exists>t. ServerMessage_message R m = Some t \<and> ServerGameStateMessage_dotsLength R t = int (length ds) \<and>
      (\<forall>i < length ds. \<exists>d. ServerGameStateMessage_dots R t (int i) = Some d \<and>
        Dot_x R d = fround (wdot_x (ds ! i)) \<and> Dot_y R d = fround (wdot_y (ds ! i)) \<and>
        Dot_radius R d = fround (wdot_radius (ds ! i)) \<and> Dot_color R d = Color_num (wdot_color (ds ! i)))"
proof -
  define s0 where "s0 = snd (run_state (ServerGameStateMessage_startDotsVector B (int (length ds))) (newBuilder B 1024))"
  have s0: "valid s0" "mode s0 = InVector (int (length ds)) 4 []"
    by (simp_all add: s0_def ServerGameStateMessage_startDotsVector_def)
  define s1 where "s1 = snd (run_state (createDots B ds (length ds)) s0)"
  have s1: "valid s1" "mode s1 = InVector (int (length ds)) 4 (concat (map dot_cells ds))"
    using createDots_run [OF s0, of "length ds"] by (simp_all add: s1_def)
  define v where "v = fst (run_state (endVector B) s1)"
  define s2 where "s2 = snd (run_state (endVector B) s1)"
  have s2: "valid s2" "mode s2 = Idle" "nodes s2 v = Some (FVec (int (length ds)) (concat (map dot_cells ds)))"
    using s1 end_vector_run [of s1] by (simp_all add: s2_def v_def)
  define g where "g = fst (run_state (createServerGameStateMessage B v) s2)"
  define s3 where "s3 = snd (run_state (createServerGameStateMessage B v) s2)"
  note a3 = adds_tableD [OF createServerGameStateMessage_adds [OF s2] g_def s3_def]
  define s4 where "s4 = snd (run_state (do { m \<leftarrow> createServerMessage B Message_ServerGameStateMessage g;
    finish B m False }) s3)"
  have data: "server_game_state_message B ds = asUint8Array B s4"
    by (simp add: server_game_state_message_def Let_def s0_def s1_def v_def s2_def g_def s3_def s4_def)
  note r = server_message_read [OF a3(1,2,4) _ s4_def assms(1) [unfolded data] refl, simplified]
  show "ServerMessage_messageType R m = Message_num Message_ServerGameStateMessage"
    using r(3) by (simp add: assms(2) data)
  note dots = kept [OF r(2) kept [OF a3(3) s2(3)]] and tab = kept [OF r(2) a3(4)]
  let ?t = "\<lparr>bb = newByteBuffer R (asUint8Array B s4), bb_pos = addr s4 g\<rparr>"
  have "ServerGameStateMessage_dotsLength R ?t = int (length ds)"
    using dots_vector_read(1) [OF refl r(1) tab dots, of 0] dots_vector_empty [OF refl r(1) tab] dots by (cases ds) auto
  then show "\<exists>t. ServerMessage_message R m = Some t \<and> ServerGameStateMessage_dotsLength R t = int (length ds) \<and>
      (\<forall>i < length ds. \<exists>d. ServerGameStateMessage_dots R t (int i) = Some d \<and>
        Dot_x R d = fround (wdot_x (ds ! i)) \<and> Dot_y R d = fround (wdot_y (ds ! i)) \<and>
        Dot_radius R d = fround (wdot_radius (ds ! i)) \<and> Dot_color R d = Color_num (wdot_color (ds ! i)))"
    using r(4) dots_vector_read(2) [OF refl r(1) tab dots] by (auto simp: assms(2) data)
qed

end

section \<open>The proxy's verdict\<close>

text \<open>\<open>createVerdictMsg\<close> of \<open>client_connection_router.go\<close>; \<open>None\<close> is a nil slice.\<close>

definition createVerdictMsg :: "('s, 'f) fb_builder \<Rightarrow> bool \<Rightarrow> string \<Rightarrow> bytes option \<Rightarrow> bytes" where
  "createVerdictMsg B verdict reason appData =
     (let b = newBuilder B 64
      in asUint8Array B (snd (run_state
        (do { pAppData \<leftarrow> (case appData of None \<Rightarrow> State_Monad.return 0 | Some d \<Rightarrow> createByteVector B d);
              pReasonString \<leftarrow> (if reason \<noteq> [] then createString B reason else State_Monad.return 0);
              go_ConnectClientVerdictStart B;
              go_ConnectClientVerdictAddAccepted B verdict;
              (if reason \<noteq> [] then go_ConnectClientVerdictAddErrorReason B pReasonString else State_Monad.return ());
              (if appData \<noteq> None then go_ConnectClientVerdictAddAppData B pAppData else State_Monad.return ());
              pConnectClientVerdict \<leftarrow> go_ConnectClientVerdictEnd B;
              finish B pConnectClientVerdict False }) b)))"

context flatbuffers
begin

lemma verdict_table_adds:
  assumes "valid s" and "mode s = Idle" and "reason \<noteq> [] \<Longrightarrow> nodes s q = Some nd"
    and "app \<noteq> None \<Longrightarrow> nodes s p = Some nd'"
  shows "adds_table
    (do { go_ConnectClientVerdictStart B;
          go_ConnectClientVerdictAddAccepted B verdict;
          (if reason \<noteq> [] then go_ConnectClientVerdictAddErrorReason B q else State_Monad.return ());
          (if app \<noteq> None then go_ConnectClientVerdictAddAppData B p else State_Monad.return ());
          go_ConnectClientVerdictEnd B }) s
    (FTable 3 (Map.empty(0 := if verdict then Some (FInt8 1) else None,
       1 := if reason \<noteq> [] then Some (FRef q) else None, 2 := if app \<noteq> None then Some (FRef p) else None)))"
  using assms nodes_nonzero [OF assms(1), of q nd] nodes_nonzero [OF assms(1), of p nd']
  by (cases "reason = []"; cases app; cases verdict) (simp_all add: msg_defs fun_eq_iff)

lemma verdict_read:
  assumes "length (createVerdictMsg B verdict reason appData) < 2 ^ 31"
    and "t = getRootAsConnectClientVerdict R (newByteBuffer R (createVerdictMsg B verdict reason appData))"
  shows "ConnectClientVerdict_accepted R t = verdict"
    and "ConnectClientVerdict_errorReason R t = (if reason = [] then None else Some reason)"
    and "ConnectClientVerdict_appDataArray R t = Inr appData"
proof -
  let ?app = "case appData of None \<Rightarrow> State_Monad.return 0 | Some d \<Rightarrow> createByteVector B d"
  let ?str = "if reason \<noteq> [] then createString B reason else State_Monad.return 0"
  define s0 where "s0 = newBuilder B 64"
  have s0: "valid s0" "mode s0 = Idle" by (simp_all add: s0_def)
  define p where "p = fst (run_state ?app s0)"
  define s1 where "s1 = snd (run_state ?app s0)"
  have s1: "valid s1" "mode s1 = Idle"
    and p: "appData = Some d \<Longrightarrow> nodes s1 p = Some (FVec (int (length d)) (byte_cells d))" for d
    using s0 by (cases appData; auto simp: s1_def p_def)+
  define q where "q = fst (run_state ?str s1)"
  define s2 where "s2 = snd (run_state ?str s1)"
  have s2: "valid s2" "mode s2 = Idle" and q: "reason \<noteq> [] \<Longrightarrow> nodes s2 q = Some (FString reason)"
    and le: "nodes s1 \<subseteq>\<^sub>m nodes s2"
    using s1 string_added [OF s1] by (auto simp: s2_def q_def)
  note p2 = kept [OF le p]
  define P where "P = do { go_ConnectClientVerdictStart B;
          go_ConnectClientVerdictAddAccepted B verdict;
          (if reason \<noteq> [] then go_ConnectClientVerdictAddErrorReason B q else State_Monad.return ());
          (if appData \<noteq> None then go_ConnectClientVerdictAddAppData B p else State_Monad.return ());
          go_ConnectClientVerdictEnd B }"
  define c where "c = fst (run_state P s2)"
  define s3 where "s3 = snd (run_state P s2)"
  have "nodes s2 p = Some (FVec (int (length (the appData))) (byte_cells (the appData)))" if "appData \<noteq> None"
    using that p2 by auto
  then have "adds_table P s2 (FTable 3 (Map.empty(0 := if verdict then Some (FInt8 1) else None,
      1 := if reason \<noteq> [] then Some (FRef q) else None, 2 := if appData \<noteq> None then Some (FRef p) else None)))"
    unfolding P_def by (intro verdict_table_adds [OF s2 q])
  from adds_tableD [OF this c_def s3_def]
  have a: "valid s3" "mode s3 = Idle" "nodes s2 \<subseteq>\<^sub>m nodes s3" "nodes s3 c = Some (FTable 3 (Map.empty(
      0 := if verdict then Some (FInt8 1) else None, 1 := if reason \<noteq> [] then Some (FRef q) else None,
      2 := if appData \<noteq> None then Some (FRef p) else None)))" by simp_all
  define s4 where "s4 = snd (run_state (finish B c False) s3)"
  have data: "createVerdictMsg B verdict reason appData = asUint8Array B s4"
    by (simp add: createVerdictMsg_def Let_def s0_def p_def s1_def q_def s2_def P_def c_def s3_def s4_def)
  note f = finish_open [OF a(1,2,4) s4_def assms(1) [unfolded data] refl]
  have root: "t = \<lparr>bb = newByteBuffer R (asUint8Array B s4), bb_pos = addr s4 c\<rparr>"
    by (simp add: assms(2) data getRootAsConnectClientVerdict_def ConnectClientVerdict_init_def f(3))
  note tab = a(4) [folded f(2)]
  show "ConnectClientVerdict_accepted R t = verdict"
    unfolding ConnectClientVerdict_accepted_def by (rule bool_field [OF root f(1) tab, of 0]) simp_all
  show "ConnectClientVerdict_errorReason R t = (if reason = [] then None else Some reason)"
    using string_field_absent [OF root f(1) tab, of 1] string_field [OF root f(1) tab, of 1 _ q reason]
      kept [OF a(3) q] f(2) by (auto simp: ConnectClientVerdict_errorReason_def)
  show "ConnectClientVerdict_appDataArray R t = Inr appData"
    using no_byte_vector_field [OF root f(1) tab, of 2] byte_vector_field [OF root f(1) tab, of 2 _ p]
      kept [OF a(3) p2] f(2) by (cases appData) (auto simp: ConnectClientVerdict_appDataArray_def)
qed

end

text \<open>
  The verdict the proxy composes is the verdict the client reads: the accepted flag, the
  reason where one was given and none where it was empty, and the application data.
\<close>

theorem verdict_roundtrip:
  assumes "flatbuffers B R valid mode nodes addr views fround feq"
    and "length (createVerdictMsg B verdict reason appData) < 2 ^ 31"
    and "t = getRootAsConnectClientVerdict R (newByteBuffer R (createVerdictMsg B verdict reason appData))"
  shows "ConnectClientVerdict_accepted R t = verdict \<and>
    ConnectClientVerdict_errorReason R t = (if reason = [] then None else Some reason) \<and>
    ConnectClientVerdict_appDataArray R t = Inr appData"
  using flatbuffers.verdict_read [OF assms] by blast

lemma wire_verdict_length:
  "length (createVerdictMsg wire_builder v [] None) = 30"
  "length (createVerdictMsg wire_builder v (c # cs) None) = 36 + length cs"
  by (cases v; simp add: createVerdictMsg_def Let_def msg_defs wire_lengths del: node_bytes.simps)+

theorem verdict_roundtrip_witness:
  "ConnectClientVerdict_errorReason wire_reader (getRootAsConnectClientVerdict wire_reader
     (newByteBuffer wire_reader (createVerdictMsg wire_builder False ''full'' None))) = Some ''full''"
  using verdict_roundtrip [OF wire.flatbuffers_axioms _ refl, of False "''full''" None]
  by (simp add: wire_verdict_length)

end
