(* ===== verification/Demo_Page.thy ===== *)
theory Demo_Page
  imports Connection_State Scene Server_Messages
begin

text \<open>
  \<open>DemoPage.tsx\<close>: the page that owns the connection. Its React state is a record together with
  the calls the page has made on browser objects, oldest first. \<open>setConnection\<close> is a render
  with a new connection: React runs the clean-ups of the two effects that depend on the
  connection, in order, and then their bodies. Events of the browser and of the user are the
  steps of a transition system.
\<close>

section \<open>State\<close>

text \<open>
  Calls on the objects of a connection: the page's own handlers being installed (line 125 on for
  a WebSocket, line 184 on for WebTransport), \<open>spanreedConnection.send\<close> or \<open>writer.write\<close>,
  \<open>spanreedConnection.close\<close> with its argument, \<open>writer.abort\<close>, and the ping timer.
\<close>

datatype page_call =
    CallAttach Connection
  | CallSend Connection bytes
  | CallClose Connection "(int \<times> string) option"
  | CallAbort Connection
  | CallSetInterval Connection nat
  | CallClearInterval Connection

record 'f page =
  page_lines :: "log_line list"
  page_connection :: "Connection option"
  page_dots :: "'f dot list option"
  page_console :: "console_call list"
  page_calls :: "page_call list"
  page_handlers :: "Connection list"   \<comment> \<open>sockets and transports that still have the page's callbacks\<close>
  page_readers :: "Connection list"    \<comment> \<open>read loops of line 192 that are running\<close>
  page_timer :: "Connection option"    \<comment> \<open>the connection captured by the ping interval\<close>

definition DemoPage_initial :: "'f page" where
  "DemoPage_initial = \<lparr>page_lines = [], page_connection = None, page_dots = None, page_console = [],
     page_calls = [], page_handlers = [], page_readers = [], page_timer = None\<rparr>"

definition do_call :: "page_call \<Rightarrow> 'f page \<Rightarrow> 'f page" where
  "do_call c p = p\<lparr>page_calls := page_calls p @ [c]\<rparr>"

section \<open>Logging\<close>

definition LogFn :: "'f page LogCb" where
  "LogFn msg level p =
     (let logLevel = (case level of None \<Rightarrow> LogInfo | Some l \<Rightarrow> l)
      in p\<lparr>page_console := DefaultLogCb msg (Some logLevel) (page_console p) @ [ConsoleLog msg],
           page_lines := page_lines p @ [\<lparr>line_msg = msg, line_level = logLevel\<rparr>]\<rparr>)"

definition page_log :: "'f page LogCb" where
  "page_log = WrapLogFn ''DemoPage'' LogFn"

section \<open>Sending\<close>

text \<open>The payloads of the three client messages, as the handlers build them.\<close>

definition click_payload :: "('s, 'f::zero) fb_builder \<Rightarrow> 'f \<Rightarrow> 'f \<Rightarrow> bytes" where
  "click_payload B x y =
     (let appDataFbb = newBuilder B 64
      in asUint8Array B (snd (run_state
        (do { pClickMessage \<leftarrow> createUserClickMessage B x y;
              pClientMessage \<leftarrow> createClientMessage B UserMessage_UserClickMessage pClickMessage;
              finishClientMessageBuffer B pClientMessage }) appDataFbb)))"

definition chat_payload :: "('s, 'f) fb_builder \<Rightarrow> string \<Rightarrow> bytes" where
  "chat_payload B chat =
     (let appDataFbb = newBuilder B 64
      in asUint8Array B (snd (run_state
        (do { pChatString \<leftarrow> createString B chat;
              pChatMessage \<leftarrow> createUserChatMessage B pChatString;
              pClientMessage \<leftarrow> createClientMessage B UserMessage_UserChatMessage pChatMessage;
              finishClientMessageBuffer B pClientMessage }) appDataFbb)))"

definition ping_payload :: "('s, 'f) fb_builder \<Rightarrow> bytes" where
  "ping_payload B =
     (let appDataFbb = newBuilder B 64
      in asUint8Array B (snd (run_state
        (do { pPingMessage \<leftarrow> createUserPingMessage B;
              pClientMessage \<leftarrow> createClientMessage B UserMessage_UserPingMessage pPingMessage;
              finishClientMessageBuffer B pClientMessage }) appDataFbb)))"

definition onClickCanvas :: "('s, 'f::zero) fb_builder \<Rightarrow> 'f \<Rightarrow> 'f \<Rightarrow> 'f page \<Rightarrow> 'f page" where
  "onClickCanvas B x y p = (case page_connection p of
     None \<Rightarrow> p | Some c \<Rightarrow> do_call (CallSend c (click_payload B x y)) p)"

definition onSubmitChat :: "('s, 'f) fb_builder \<Rightarrow> string \<Rightarrow> 'f page \<Rightarrow> 'f page" where
  "onSubmitChat B chat p = (case page_connection p of
     None \<Rightarrow> p | Some c \<Rightarrow> do_call (CallSend c (chat_payload B chat)) p)"

text \<open>The callback of the interval, with the connection it captured.\<close>

definition onPing :: "('s, 'f) fb_builder \<Rightarrow> Connection \<Rightarrow> 'f page \<Rightarrow> 'f page" where
  "onPing B connection p = do_call (CallSend connection (ping_payload B)) p"

section \<open>Receiving\<close>

definition mapColor :: "int \<Rightarrow> bytes" where
  "mapColor color =
     (if color = Color_num Color_Blue then COLORS_Blue
      else if color = Color_num Color_FireOrange then COLORS_FireOrange
      else if color = Color_num Color_Green then COLORS_Green
      else if color = Color_num Color_Indigo then COLORS_Indigo
      else COLORS_Red)"

text \<open>\<open>null\<close> in a template literal.\<close>

definition js_nullable :: "string option \<Rightarrow> string" where
  "js_nullable s = (case s of None \<Rightarrow> ''null'' | Some t \<Rightarrow> t)"

text \<open>The loop over the dots of a game state: \<open>left\<close> iterations remain.\<close>

fun dotsLoop :: "('bb, 'f) fb_reader \<Rightarrow> 'bb fb_table \<Rightarrow> int \<Rightarrow> nat \<Rightarrow> 'f dot list \<Rightarrow> 'f dot list" where
  "dotsLoop R gameState dotIdx 0 gameDots = gameDots"
| "dotsLoop R gameState dotIdx (Suc left) gameDots =
     (case ServerGameStateMessage_dots R gameState dotIdx of
        None \<Rightarrow> dotsLoop R gameState (dotIdx + 1) left gameDots
      | Some d \<Rightarrow> dotsLoop R gameState (dotIdx + 1) left (gameDots @
          [\<lparr>dot_x = Dot_x R d, dot_y = Dot_y R d, dot_radius = Dot_radius R d,
            dot_color = mapColor (Dot_color R d)\<rparr>]))"

definition websocket_serverMessage ::
  "('bb, 'f) fb_reader \<Rightarrow> bytes \<Rightarrow> 'f page \<Rightarrow> js_error + 'f page" where
  "websocket_serverMessage R data p =
     (let fbb = newByteBuffer R data;
          serverMessage = getRootAsServerMessage R fbb;
          messageType = ServerMessage_messageType R serverMessage
      in if messageType = Message_num Message_ServerChatMessage
         then (case ServerMessage_message R serverMessage of
             None \<Rightarrow> Inl TypeError
           | Some gameMessage \<Rightarrow>
               Inr (LogFn (''['' @ js_nullable (ServerChatMessage_user R gameMessage) @ '']: '' @
                 js_nullable (ServerChatMessage_text R gameMessage)) (Some LogUserChat) p))
         else if messageType = Message_num Message_ServerGameStateMessage
         then (case ServerMessage_message R serverMessage of
             None \<Rightarrow> Inl TypeError
           | Some gameState \<Rightarrow>
               (let dotsCt = ServerGameStateMessage_dotsLength R gameState;
                    gameDots = dotsLoop R gameState 0 (nat dotsCt) []
                in Inr (p\<lparr>page_dots := Some gameDots\<rparr>)))
         else Inr (page_log ''Unexpected server message type, cannot process'' (Some LogWarning) p))"

text \<open>The body of the WebTransport read loop repeats the same switch.\<close>

definition webtransport_serverMessage ::
  "('bb, 'f) fb_reader \<Rightarrow> bytes \<Rightarrow> 'f page \<Rightarrow> js_error + 'f page" where
  "webtransport_serverMessage R value p =
     (let fbb = newByteBuffer R value;
          serverMessage = getRootAsServerMessage R fbb;
          messageType = ServerMessage_messageType R serverMessage
      in if messageType = Message_num Message_ServerChatMessage
         then (case ServerMessage_message R serverMessage of
             None \<Rightarrow> Inl TypeError
           | Some gameMessage \<Rightarrow>
               Inr (LogFn (''['' @ js_nullable (ServerChatMessage_user R gameMessage) @ '']: '' @
                 js_nullable (ServerChatMessage_text R gameMessage)) (Some LogUserChat) p))
         else if messageType = Message_num Message_ServerGameStateMessage
         then (case ServerMessage_message R serverMessage of
             None \<Rightarrow> Inl TypeError
           | Some gameState \<Rightarrow>
               (let dotsCt = ServerGameStateMessage_dotsLength R gameState;
                    gameDots = dotsLoop R gameState 0 (nat dotsCt) []
                in Inr (p\<lparr>page_dots := Some gameDots\<rparr>)))
         else Inr (page_log ''Unexpected server message type, cannot process'' (Some LogWarning) p))"

section \<open>The effects of the connection\<close>

definition websocket_attach :: "Connection \<Rightarrow> 'f page \<Rightarrow> 'f page" where
  "websocket_attach c p = (do_call (CallAttach c) p)\<lparr>page_handlers := c # page_handlers p\<rparr>"

definition webtransport_attach :: "Connection \<Rightarrow> 'f page \<Rightarrow> 'f page" where
  "webtransport_attach c p =
     (do_call (CallAttach c) p)\<lparr>page_handlers := c # page_handlers p, page_readers := c # page_readers p\<rparr>"

definition websocket_cleanup :: "Connection \<Rightarrow> 'f page \<Rightarrow> 'f page" where
  "websocket_cleanup c p = do_call (CallClose c None) (p\<lparr>page_dots := None\<rparr>)"

definition webtransport_cleanup :: "Connection \<Rightarrow> 'f page \<Rightarrow> 'f page" where
  "webtransport_cleanup c p =
     do_call (CallClose c (Some (0, ''Client requested shutdown''))) (p\<lparr>page_dots := None\<rparr>)"

definition connection_effect :: "Connection option \<Rightarrow> 'f page \<Rightarrow> 'f page" where
  "connection_effect connection p = (case connection of
     None \<Rightarrow> p
   | Some (WebsocketConnection k u) \<Rightarrow> websocket_attach (WebsocketConnection k u) p
   | Some (WebtransportConnection k u) \<Rightarrow> webtransport_attach (WebtransportConnection k u) p)"

definition connection_cleanup :: "Connection option \<Rightarrow> 'f page \<Rightarrow> 'f page" where
  "connection_cleanup connection p = (case connection of
     None \<Rightarrow> p
   | Some (WebsocketConnection k u) \<Rightarrow> websocket_cleanup (WebsocketConnection k u) p
   | Some (WebtransportConnection k u) \<Rightarrow> webtransport_cleanup (WebtransportConnection k u) p)"

definition ping_effect :: "Connection option \<Rightarrow> 'f page \<Rightarrow> 'f page" where
  "ping_effect connection p = (case connection of
     None \<Rightarrow> p | Some c \<Rightarrow> (do_call (CallSetInterval c 3000) p)\<lparr>page_timer := Some c\<rparr>)"

definition ping_cleanup :: "Connection option \<Rightarrow> 'f page \<Rightarrow> 'f page" where
  "ping_cleanup connection p = (case connection of
     None \<Rightarrow> p | Some c \<Rightarrow> (do_call (CallClearInterval c) p)\<lparr>page_timer := None\<rparr>)"

text \<open>
  Setting the state: nothing happens when the connection is the one already set, otherwise the
  component renders and the effects that list the connection as a dependency run again.
\<close>

definition setConnection :: "Connection option \<Rightarrow> 'f page \<Rightarrow> 'f page" where
  "setConnection new p =
     (let old = page_connection p
      in if new = old then p
         else ping_effect new (connection_effect new
           (ping_cleanup old (connection_cleanup old (p\<lparr>page_connection := new\<rparr>)))))"

section \<open>The callbacks of a connection\<close>

definition page_onclose :: "'f page \<Rightarrow> 'f page" where
  "page_onclose p = setConnection None (page_log ''Spanreed connection is closing!'' (Some LogInfo) p)"

text \<open>An exception in an event handler is reported by the browser and changes nothing else.\<close>

definition page_onmessage :: "('bb, 'f) fb_reader \<Rightarrow> bytes option \<Rightarrow> 'f page \<Rightarrow> 'f page" where
  "page_onmessage R arrayBuffer p = (case arrayBuffer of
     None \<Rightarrow> page_log ''Non-ArrayBuffer for websocket message!'' (Some LogWarning) p
   | Some data \<Rightarrow> (case websocket_serverMessage R data p of Inl e \<Rightarrow> p | Inr p' \<Rightarrow> p'))"

definition webtransport_closed :: "thrown option \<Rightarrow> 'f page \<Rightarrow> 'f page" where
  "webtransport_closed error p = setConnection None (case error of
     None \<Rightarrow> page_log ''Spanreed connection is closing naturally'' (Some LogInfo) p
   | Some e \<Rightarrow> page_log (''Spanreed connection closed with error: '' @ thrown_text e) (Some LogError) p)"

text \<open>
  One turn of the read loop: the stream ended, a datagram came, or the read was rejected. An
  exception or a rejection ends the asynchronous function without reaching \<open>writer.abort\<close>;
  the clean end calls it and logs when that in turn is rejected.
\<close>

datatype stream_read = StreamDone "thrown option" | StreamValue bytes | StreamRejected thrown

definition webtransport_read :: "('bb, 'f) fb_reader \<Rightarrow> Connection \<Rightarrow> stream_read \<Rightarrow> 'f page \<Rightarrow> 'f page" where
  "webtransport_read R c r p =
     (let stopped = p\<lparr>page_readers := remove1 c (page_readers p)\<rparr>
      in case r of
        StreamRejected e \<Rightarrow> stopped
      | StreamValue value \<Rightarrow> (case webtransport_serverMessage R value p of Inl e \<Rightarrow> stopped | Inr p' \<Rightarrow> p')
      | StreamDone abortError \<Rightarrow>
          (let aborted = do_call (CallAbort c) stopped
           in case abortError of None \<Rightarrow> aborted
              | Some e \<Rightarrow> page_log (''Writable stream abort error: '' @ thrown_text e) (Some LogError) aborted))"

section \<open>What the page shows\<close>

datatype 'f page_element =
    DemoCanvasElement "'f dot list option"
  | ConnectionStateElement connection_view
  | ChatBoxElement string
  | ConsoleElement "console_row list"

definition DemoPage :: "'f page \<Rightarrow> 'f page_element list" where
  "DemoPage p =
     [DemoCanvasElement (page_dots p), ConnectionStateElement (ConnectionStateComponent (page_connection p))] @
     (case page_connection p of None \<Rightarrow> [] | Some c \<Rightarrow> [ChatBoxElement (ChatBox_title (conn_userName c))]) @
     [ConsoleElement (Console (page_lines p))]"

section \<open>The page as a transition system\<close>

text \<open>
  What can happen next. The user clicks the canvas, submits a chat line, closes the connection,
  or a connection attempt of the setup form, which is only shown without a connection, succeeds
  with a new object. The timer fires while it runs. A WebSocket delivers messages until its
  \<open>close\<close> was called, as its specification demands, and its close event at any time; the same
  for the reads of a WebTransport session and its \<open>closed\<close> promise. Both kinds of close
  notification come at most once and use the callbacks up.
\<close>

definition closed_by_page :: "'f page \<Rightarrow> Connection \<Rightarrow> bool" where
  "closed_by_page p c = list_ex (\<lambda>x. case x of CallClose c' _ \<Rightarrow> c' = c | _ \<Rightarrow> False) (page_calls p)"

definition attached_by_page :: "'f page \<Rightarrow> Connection \<Rightarrow> bool" where
  "attached_by_page p c \<longleftrightarrow> CallAttach c \<in> set (page_calls p)"

inductive page_step ::
  "('s, 'f::zero) fb_builder \<Rightarrow> ('bb, 'f) fb_reader \<Rightarrow> 'f page \<Rightarrow> 'f page \<Rightarrow> bool" for B R where
  click_canvas: "page_step B R p (onClickCanvas B x y p)"
| submit_chat: "page_step B R p (onSubmitChat B chat p)"
| form_logs: "page_step B R p (LogFn msg lv p)"
| connected: "page_connection p = None \<Longrightarrow> \<not> attached_by_page p c \<Longrightarrow> page_step B R p (setConnection (Some c) p)"
| close_clicked: "page_step B R p (onClickClose setConnection p)"
| ping: "page_timer p = Some c \<Longrightarrow> page_step B R p (onPing B c p)"
| ws_message:
    "WebsocketConnection k u \<in> set (page_handlers p) \<Longrightarrow> \<not> closed_by_page p (WebsocketConnection k u) \<Longrightarrow>
     page_step B R p (page_onmessage R data p)"
| ws_closed:
    "WebsocketConnection k u \<in> set (page_handlers p) \<Longrightarrow>
     page_step B R p (page_onclose (p\<lparr>page_handlers := remove1 (WebsocketConnection k u) (page_handlers p)\<rparr>))"
| wt_read:
    "c \<in> set (page_readers p) \<Longrightarrow> \<not> closed_by_page p c \<or> (\<nexists>v. r = StreamValue v) \<Longrightarrow>
     page_step B R p (webtransport_read R c r p)"
| wt_closed:
    "WebtransportConnection k u \<in> set (page_handlers p) \<Longrightarrow>
     page_step B R p (webtransport_closed e (p\<lparr>page_handlers := remove1 (WebtransportConnection k u) (page_handlers p)\<rparr>))"

inductive_cases page_stepE: "page_step B R p p'"

text \<open>
  The protocol a page is to follow towards its connections, as an automaton over the calls: one
  connection at a time is attached, pinged and sent to; closing it ends the sending, stops the
  timer and makes room for the next. The state is the open connection and the one being pinged.
\<close>

fun protocol_step :: "page_call \<Rightarrow> Connection option \<times> Connection option \<Rightarrow>
    (Connection option \<times> Connection option) option" where
  "protocol_step (CallAttach c) (cur, tim) = (if cur = None \<and> tim = None then Some (Some c, None) else None)"
| "protocol_step (CallSetInterval c ms) (cur, tim) =
     (if cur = Some c \<and> tim = None \<and> ms = 3000 then Some (Some c, Some c) else None)"
| "protocol_step (CallSend c d) (cur, tim) =
     (if cur = Some c \<and> tim = Some c then Some (cur, tim) else None)"
| "protocol_step (CallClose c x) (cur, tim) = (if cur = Some c \<and> tim = Some c then Some (None, tim) else None)"
| "protocol_step (CallClearInterval c) (cur, tim) = (if cur = None \<and> tim = Some c then Some (None, None) else None)"
| "protocol_step (CallAbort c) st = Some st"

definition protocol_run :: "page_call list \<Rightarrow> (Connection option \<times> Connection option) option" where
  "protocol_run calls = foldl (\<lambda>st c. Option.bind st (protocol_step c)) (Some (None, None)) calls"

lemma protocol_run_append [simp]:
  "protocol_run (xs @ ys) = foldl (\<lambda>st c. Option.bind st (protocol_step c)) (protocol_run xs) ys"
  by (simp add: protocol_run_def)

lemma protocol_run_Nil [simp]: "protocol_run [] = Some (None, None)"
  by (simp add: protocol_run_def)

definition page_inv :: "'f page \<Rightarrow> bool" where
  "page_inv p \<longleftrightarrow> protocol_run (page_calls p) = Some (page_connection p, page_connection p) \<and>
     page_timer p = page_connection p \<and>
     (\<forall>c \<in> set (page_handlers p) \<union> set (page_readers p). page_connection p = Some c \<or> closed_by_page p c) \<and>
     (page_connection p = None \<longrightarrow> page_dots p = None)"

lemmas page_handler_defs [page_simps] = do_call_def LogFn_def page_log_def WrapLogFn_def Let_def
  onClickCanvas_def onSubmitChat_def onPing_def onClickClose_def page_onclose_def page_onmessage_def
  webtransport_closed_def webtransport_read_def websocket_serverMessage_def webtransport_serverMessage_def
  connection_effect_def connection_cleanup_def websocket_attach_def webtransport_attach_def websocket_cleanup_def
  webtransport_cleanup_def ping_effect_def ping_cleanup_def closed_by_page_def

text \<open>Logging touches only the log; handling a server message only the log and the dots.\<close>

lemma LogFn_keeps [simp]:
  "page_calls (LogFn m lv p) = page_calls p" "page_connection (LogFn m lv p) = page_connection p"
  "page_dots (LogFn m lv p) = page_dots p" "page_timer (LogFn m lv p) = page_timer p"
  "page_handlers (LogFn m lv p) = page_handlers p" "page_readers (LogFn m lv p) = page_readers p"
  by (simp_all add: LogFn_def Let_def)

lemma page_log_keeps [simp]:
  "page_calls (page_log m lv p) = page_calls p" "page_connection (page_log m lv p) = page_connection p"
  "page_dots (page_log m lv p) = page_dots p" "page_timer (page_log m lv p) = page_timer p"
  "page_handlers (page_log m lv p) = page_handlers p" "page_readers (page_log m lv p) = page_readers p"
  by (simp_all add: page_log_def WrapLogFn_def)

lemma page_inv_cong:
  assumes "page_inv p" and "page_calls p' = page_calls p" and "page_connection p' = page_connection p"
    and "page_timer p' = page_timer p"
    and "set (page_handlers p') \<subseteq> set (page_handlers p)" and "set (page_readers p') \<subseteq> set (page_readers p)"
    and "page_dots p' = page_dots p \<or> page_connection p \<noteq> None"
  shows "page_inv p'"
  using assms unfolding page_inv_def closed_by_page_def by auto

lemma page_inv_log [simp]: "page_inv p \<Longrightarrow> page_inv (LogFn m lv p)" "page_inv p \<Longrightarrow> page_inv (page_log m lv p)"
  by (erule page_inv_cong; simp)+

lemma page_inv_drop_handler:
  "page_inv p \<Longrightarrow> page_inv (p\<lparr>page_handlers := remove1 c (page_handlers p)\<rparr>)"
  "page_inv p \<Longrightarrow> page_inv (p\<lparr>page_readers := remove1 c (page_readers p)\<rparr>)"
  by (erule page_inv_cong; simp add: set_remove1_subset)+

lemma page_inv_abort: "page_inv p \<Longrightarrow> page_inv (do_call (CallAbort c) p)"
  by (auto simp: page_inv_def do_call_def closed_by_page_def)

lemma serverMessage_keeps:
  assumes "websocket_serverMessage R d p = Inr p'"
  shows "page_calls p' = page_calls p" "page_connection p' = page_connection p" "page_timer p' = page_timer p"
    "page_handlers p' = page_handlers p" "page_readers p' = page_readers p"
  using assms by (auto simp: websocket_serverMessage_def Let_def split: if_splits option.splits)

lemma serverMessage_same: "webtransport_serverMessage = websocket_serverMessage"
  by (intro ext) (simp add: webtransport_serverMessage_def websocket_serverMessage_def)

lemma page_inv_send:
  assumes "page_inv p" and "page_connection p = Some c"
  shows "page_inv (do_call (CallSend c d) p)"
  using assms by (auto simp: page_inv_def do_call_def closed_by_page_def)

lemma page_inv_leave: "page_inv p \<Longrightarrow> page_inv (setConnection None p)"
  by (cases "page_connection p"; auto split: Connection.Connection.splits
      simp: page_inv_def setConnection_def page_handler_defs)

lemma page_inv_enter: "page_inv p \<Longrightarrow> page_connection p = None \<Longrightarrow> page_inv (setConnection (Some c) p)"
  by (cases c; auto simp: page_inv_def setConnection_def page_handler_defs)

text \<open>Replacing a connection is leaving it and entering the next.\<close>

lemma setConnection_via_none:
  "page_connection p \<noteq> Some c \<Longrightarrow> setConnection (Some c) p = setConnection (Some c) (setConnection None p)"
  by (cases "page_connection p"; cases c; auto split: Connection.Connection.splits
      simp: setConnection_def page_handler_defs)

lemma setConnection_connection [simp]: "page_connection (setConnection new p) = new"
  by (simp add: setConnection_def page_handler_defs split: option.splits Connection.Connection.splits)

lemma setConnection_same [simp]: "setConnection (page_connection p) p = p"
  by (simp add: setConnection_def)

lemma page_inv_setConnection: "page_inv p \<Longrightarrow> page_inv (setConnection new p)"
  using page_inv_enter [OF page_inv_leave] setConnection_via_none setConnection_same page_inv_leave
  by (metis not_None_eq setConnection_connection)

lemma page_inv_message:
  assumes "page_inv p" and "page_connection p \<noteq> None" and "websocket_serverMessage R d p = Inr p'"
  shows "page_inv p'"
  by (rule page_inv_cong [OF assms(1)]) (use assms(2) in \<open>simp_all add: serverMessage_keeps [OF assms(3)]\<close>)

lemma page_step_inv:
  assumes "page_step B R p p'" and "page_inv p"
  shows "page_inv p'"
  using assms
proof (induction rule: page_step.induct)
  case (click_canvas p x y)
  then show ?case by (auto simp: onClickCanvas_def page_inv_send split: option.split)
next
  case (submit_chat p chat)
  then show ?case by (auto simp: onSubmitChat_def page_inv_send split: option.split)
next
  case (ping p c)
  then have "page_connection p = Some c" by (simp add: page_inv_def)
  with ping show ?case by (simp add: onPing_def page_inv_send)
next
  case (ws_message k u p data)
  then have "page_connection p \<noteq> None" by (auto simp: page_inv_def)
  with ws_message show ?case
    by (auto simp: page_onmessage_def intro: page_inv_message split: option.splits sum.splits)
next
  case (wt_read c p r)
  show ?case
  proof (cases r)
    case (StreamValue v)
    then have "page_connection p \<noteq> None" using wt_read by (auto simp: page_inv_def)
    with StreamValue wt_read(3) show ?thesis
      by (auto simp: webtransport_read_def Let_def serverMessage_same page_inv_drop_handler
          intro: page_inv_message split: sum.splits)
  qed (use wt_read(3) in \<open>simp_all add: webtransport_read_def Let_def page_inv_abort page_inv_drop_handler
         split: option.split\<close>)
qed (simp_all add: onClickClose_def page_onclose_def webtransport_closed_def page_inv_setConnection
       page_inv_drop_handler split: option.split)

lemma page_reachable_inv: "(page_step B R)\<^sup>*\<^sup>* p p' \<Longrightarrow> page_inv p \<Longrightarrow> page_inv p'"
  by (induction rule: rtranclp_induct) (auto dest: page_step_inv)

lemma page_inv_initial: "page_inv DemoPage_initial"
  by (simp add: page_inv_def DemoPage_initial_def)

section \<open>Properties of the page\<close>

text \<open>
  C1. Whatever the user, the network and the timer do, the calls the page makes on its
  connections follow the protocol: one connection is open at a time, every send goes to the
  open connection, a connection is closed exactly once before the next is attached, and the
  ping timer runs exactly while a connection is open and for that connection.
\<close>

theorem page_follows_protocol:
  assumes "(page_step B R)\<^sup>*\<^sup>* DemoPage_initial p"
  shows "protocol_run (page_calls p) = Some (page_connection p, page_connection p) \<and>
    page_timer p = page_connection p"
  using page_reachable_inv [OF assms page_inv_initial] by (simp add: page_inv_def)

theorem page_follows_protocol_witness:
  "protocol_run (page_calls (onSubmitChat wire_builder ''hi''
     (setConnection (Some (WebsocketConnection 1 ''Ann'')) DemoPage_initial))) =
   Some (Some (WebsocketConnection 1 ''Ann''), Some (WebsocketConnection 1 ''Ann''))"
proof -
  let ?c = "WebsocketConnection 1 ''Ann''"
  have "page_step wire_builder wire_reader DemoPage_initial (setConnection (Some ?c) DemoPage_initial)"
    by (rule page_step.connected) (simp_all add: DemoPage_initial_def attached_by_page_def)
  moreover have "page_step wire_builder wire_reader p (onSubmitChat wire_builder ''hi'' p)" for p
    by (rule page_step.submit_chat)
  ultimately have "(page_step wire_builder wire_reader)\<^sup>*\<^sup>* DemoPage_initial
      (onSubmitChat wire_builder ''hi'' (setConnection (Some ?c) DemoPage_initial))"
    by (meson r_into_rtranclp rtranclp_trans)
  from page_follows_protocol [OF this] show ?thesis
    by (simp add: onSubmitChat_def do_call_def split: option.splits)
qed

text \<open>
  The dots of a server are on screen only while the page is connected: without a connection
  the canvas falls back to its own dots, and no chat box is shown.
\<close>

theorem page_disconnected_view:
  assumes "(page_step B R)\<^sup>*\<^sup>* DemoPage_initial p" and "page_connection p = None"
  shows "DemoPage p = [DemoCanvasElement None, ConnectionStateElement SetupView, ConsoleElement (Console (page_lines p))]"
  using page_reachable_inv [OF assms(1) page_inv_initial] assms(2)
  by (simp add: page_inv_def DemoPage_def ConnectionStateComponent_def)

theorem page_disconnected_view_witness:
  "DemoPage (LogFn ''x'' None DemoPage_initial :: f32 page) =
   [DemoCanvasElement None, ConnectionStateElement SetupView,
    ConsoleElement (Console [\<lparr>line_msg = ''x'', line_level = LogInfo\<rparr>])]"
proof -
  have "(page_step wire_builder wire_reader)\<^sup>*\<^sup>* DemoPage_initial (LogFn ''x'' None DemoPage_initial)"
    by (rule r_into_rtranclp) (rule page_step.form_logs)
  from page_disconnected_view [OF this] show ?thesis
    by (simp add: DemoPage_initial_def LogFn_def)
qed

section \<open>What the page sends can be read back\<close>

context flatbuffers
begin

lemma click_payload_read:
  assumes "length (click_payload B x y) < 2 ^ 31"
    and "m = getRootAsClientMessage R (newByteBuffer R (click_payload B x y))"
  shows "ClientMessage_userMessageType R m = UserMessage_num UserMessage_UserClickMessage"
    and "\<exists>t. ClientMessage_userMessage R m = Some t \<and>
      UserClickMessage_x R t = (if feq x 0 then 0 else fround x) \<and>
      UserClickMessage_y R t = (if feq y 0 then 0 else fround y)"
proof -
  define s0 where "s0 = newBuilder B 64"
  have s0: "valid s0" "mode s0 = Idle" by (simp_all add: s0_def)
  define c where "c = fst (run_state (createUserClickMessage B x y) s0)"
  define s1 where "s1 = snd (run_state (createUserClickMessage B x y) s0)"
  note a = adds_tableD [OF createUserClickMessage_adds [OF s0] c_def s1_def]
  define s2 where "s2 = snd (run_state (do { m \<leftarrow> createClientMessage B UserMessage_UserClickMessage c;
    finishClientMessageBuffer B m }) s1)"
  have data: "click_payload B x y = asUint8Array B s2"
    by (simp add: click_payload_def Let_def s0_def c_def s1_def s2_def)
  note r = client_message_read [OF a(1,2,4) _ s2_def assms(1) [unfolded data] refl, simplified]
  show "ClientMessage_userMessageType R m = UserMessage_num UserMessage_UserClickMessage"
    using r(3) by (simp add: assms(2) data)
  note tab = kept [OF r(2) a(4)]
  let ?t = "\<lparr>bb = newByteBuffer R (asUint8Array B s2), bb_pos = addr s2 c\<rparr>"
  have "UserClickMessage_x R ?t = (if feq x 0 then 0 else fround x)"
    unfolding UserClickMessage_x_def by (rule float_field [OF refl r(1) tab, of 0]) simp_all
  moreover have "UserClickMessage_y R ?t = (if feq y 0 then 0 else fround y)"
    unfolding UserClickMessage_y_def by (rule float_field [OF refl r(1) tab, of 1]) simp_all
  ultimately show "\<exists>t. ClientMessage_userMessage R m = Some t \<and>
      UserClickMessage_x R t = (if feq x 0 then 0 else fround x) \<and>
      UserClickMessage_y R t = (if feq y 0 then 0 else fround y)"
    using r(4) by (simp add: assms(2) data)
qed

lemma chat_payload_read:
  assumes "length (chat_payload B chat) < 2 ^ 31"
    and "m = getRootAsClientMessage R (newByteBuffer R (chat_payload B chat))"
  shows "ClientMessage_userMessageType R m = UserMessage_num UserMessage_UserChatMessage"
    and "\<exists>t. ClientMessage_userMessage R m = Some t \<and> UserChatMessage_text R t = Some chat"
proof -
  define s0 where "s0 = newBuilder B 64"
  have s0: "valid s0" "mode s0 = Idle" by (simp_all add: s0_def)
  define n where "n = fst (run_state (createString B chat) s0)"
  define s1 where "s1 = snd (run_state (createString B chat) s0)"
  note a1 = string_added [OF s0 n_def s1_def]
  define c where "c = fst (run_state (createUserChatMessage B n) s1)"
  define s2 where "s2 = snd (run_state (createUserChatMessage B n) s1)"
  note a = adds_tableD [OF createUserChatMessage_adds [OF a1(1,2,4)] c_def s2_def]
  define s3 where "s3 = snd (run_state (do { m \<leftarrow> createClientMessage B UserMessage_UserChatMessage c;
    finishClientMessageBuffer B m }) s2)"
  have data: "chat_payload B chat = asUint8Array B s3"
    by (simp add: chat_payload_def Let_def s0_def n_def s1_def c_def s2_def s3_def)
  note r = client_message_read [OF a(1,2,4) _ s3_def assms(1) [unfolded data] refl, simplified]
  show "ClientMessage_userMessageType R m = UserMessage_num UserMessage_UserChatMessage"
    using r(3) by (simp add: assms(2) data)
  have "UserChatMessage_text R \<lparr>bb = newByteBuffer R (asUint8Array B s3), bb_pos = addr s3 c\<rparr> = Some chat"
    unfolding UserChatMessage_text_def
    by (rule string_field [OF refl r(1) kept [OF r(2) a(4)], of 0 _ n])
      (simp_all add: kept [OF r(2) kept [OF a(3) a1(4)]])
  then show "\<exists>t. ClientMessage_userMessage R m = Some t \<and> UserChatMessage_text R t = Some chat"
    using r(4) by (simp add: assms(2) data)
qed

lemma ping_payload_read:
  assumes "length (ping_payload B) < 2 ^ 31"
  shows "ClientMessage_userMessageType R (getRootAsClientMessage R (newByteBuffer R (ping_payload B))) =
    UserMessage_num UserMessage_UserPingMessage"
proof -
  define s0 where "s0 = newBuilder B 64"
  have s0: "valid s0" "mode s0 = Idle" by (simp_all add: s0_def)
  define c where "c = fst (run_state (createUserPingMessage B) s0)"
  define s1 where "s1 = snd (run_state (createUserPingMessage B) s0)"
  note a = adds_tableD [OF createUserPingMessage_adds [OF s0] c_def s1_def]
  define s2 where "s2 = snd (run_state (do { m \<leftarrow> createClientMessage B UserMessage_UserPingMessage c;
    finishClientMessageBuffer B m }) s1)"
  have data: "ping_payload B = asUint8Array B s2"
    by (simp add: ping_payload_def Let_def s0_def c_def s1_def s2_def)
  show ?thesis
    using client_message_read(3) [OF a(1,2,4) _ s2_def assms(1) [unfolded data] refl] by (simp add: data)
qed

end

text \<open>
  A click on the canvas of a connected page sends exactly one message, on the current
  connection, and the message reads back as a \<open>UserClickMessage\<close> with the clicked coordinates
  rounded to 32-bit floats; without a connection a click does nothing.
\<close>

theorem click_sent_decodes:
  assumes "flatbuffers B R valid mode nodes addr views fround feq" and "length (click_payload B x y) < 2 ^ 31"
    and "m = getRootAsClientMessage R (newByteBuffer R (click_payload B x y))"
  shows "page_calls (onClickCanvas B x y p) = page_calls p @
      (case page_connection p of None \<Rightarrow> [] | Some c \<Rightarrow> [CallSend c (click_payload B x y)]) \<and>
    ClientMessage_userMessageType R m = UserMessage_num UserMessage_UserClickMessage \<and>
    (\<exists>t. ClientMessage_userMessage R m = Some t \<and>
      UserClickMessage_x R t = (if feq x 0 then 0 else fround x) \<and>
      UserClickMessage_y R t = (if feq y 0 then 0 else fround y))"
  using flatbuffers.click_payload_read [OF assms]
  by (simp add: onClickCanvas_def do_call_def split: option.split)

lemma wire_payload_lengths:
  "length (click_payload wire_builder x y) = 44" "length (chat_payload wire_builder t) = 43 + length t"
  by (simp_all add: click_payload_def chat_payload_def Let_def msg_defs wire_lengths
      finishClientMessageBuffer_def del: node_bytes.simps)

theorem click_sent_decodes_witness:
  "\<exists>t. ClientMessage_userMessage wire_reader (getRootAsClientMessage wire_reader
      (newByteBuffer wire_reader (click_payload wire_builder 7 0))) = Some t \<and>
    UserClickMessage_x wire_reader t = 7 \<and> UserClickMessage_y wire_reader t = 0"
  using click_sent_decodes [OF wire.flatbuffers_axioms _ refl, of 7 0]
  by (simp add: wire_payload_lengths)

text \<open>
  A chat line submitted on a connected page is sent once, on the current connection, and
  reads back as a \<open>UserChatMessage\<close> with the same text; without a connection nothing is sent.
\<close>

theorem chat_sent_decodes:
  assumes "flatbuffers B R valid mode nodes addr views fround feq" and "length (chat_payload B chat) < 2 ^ 31"
    and "m = getRootAsClientMessage R (newByteBuffer R (chat_payload B chat))"
  shows "page_calls (onSubmitChat B chat p) = page_calls p @
      (case page_connection p of None \<Rightarrow> [] | Some c \<Rightarrow> [CallSend c (chat_payload B chat)]) \<and>
    ClientMessage_userMessageType R m = UserMessage_num UserMessage_UserChatMessage \<and>
    (\<exists>t. ClientMessage_userMessage R m = Some t \<and> UserChatMessage_text R t = Some chat)"
  using flatbuffers.chat_payload_read [OF assms]
  by (simp add: onSubmitChat_def do_call_def split: option.split)

theorem chat_sent_decodes_witness:
  "\<exists>t. ClientMessage_userMessage wire_reader (getRootAsClientMessage wire_reader
      (newByteBuffer wire_reader (chat_payload wire_builder ''hello''))) = Some t \<and>
    UserChatMessage_text wire_reader t = Some ''hello''"
  using chat_sent_decodes [OF wire.flatbuffers_axioms _ refl, of "''hello''"]
  by (simp add: wire_payload_lengths)

section \<open>What the page makes of server messages\<close>

text \<open>
  A chat message composed by the server appears as one line of the page's log, at chat level,
  as the sender's name in brackets and the text, and changes nothing but the logs.
\<close>

theorem server_chat_shown:
  assumes "flatbuffers B R valid mode nodes addr views fround feq"
    and "length (server_chat_message B user chat) < 2 ^ 31"
  shows "page_onmessage R (Some (server_chat_message B user chat)) p =
    LogFn (''['' @ user @ '']: '' @ chat) (Some LogUserChat) p"
  using flatbuffers.server_chat_read [OF assms refl]
  by (auto simp: page_onmessage_def websocket_serverMessage_def Let_def js_nullable_def)

theorem server_chat_shown_witness:
  "page_lines (page_onmessage wire_reader (Some (server_chat_message wire_builder ''Ann'' ''hi'')) DemoPage_initial) =
   [\<lparr>line_msg = ''[Ann]: hi'', line_level = LogUserChat\<rparr>]"
proof -
  have "length (server_chat_message wire_builder ''Ann'' ''hi'') < 2 ^ 31"
    by (simp add: server_chat_message_def Let_def msg_defs wire_lengths del: node_bytes.simps)
  from server_chat_shown [OF wire.flatbuffers_axioms this] show ?thesis
    by (simp add: LogFn_def DemoPage_initial_def)
qed

text \<open>The colour of the palette that belongs to a colour of the protocol.\<close>

fun palette :: "Color \<Rightarrow> bytes" where
  "palette Color_Red = COLORS_Red"
| "palette Color_Green = COLORS_Green"
| "palette Color_Blue = COLORS_Blue"
| "palette Color_Indigo = COLORS_Indigo"
| "palette Color_FireOrange = COLORS_FireOrange"

lemma mapColor_palette [simp]: "mapColor (Color_num c) = palette c"
  by (cases c) (simp_all add: mapColor_def)

lemma dotsLoop_map:
  assumes "\<And>i. i < left \<Longrightarrow> ServerGameStateMessage_dots R g (start + int i) = Some (f i)"
  shows "dotsLoop R g start left acc = acc @ map (\<lambda>i. \<lparr>dot_x = Dot_x R (f i), dot_y = Dot_y R (f i),
    dot_radius = Dot_radius R (f i), dot_color = mapColor (Dot_color R (f i))\<rparr>) [0..<left]"
  using assms
proof (induction left arbitrary: start acc f)
  case (Suc left)
  have "ServerGameStateMessage_dots R g (start + 1 + int i) = Some (f (Suc i))" if "i < left" for i
    using Suc.prems [of "Suc i"] that by (simp add: ac_simps)
  note IH = Suc.IH [of "start + 1" "\<lambda>i. f (Suc i)", OF this]
  have "map h [0..<Suc left] = h 0 # map (\<lambda>i. h (Suc i)) [0..<left]" for h :: "nat \<Rightarrow> 'b dot"
    by (simp add: upt_conv_Cons map_Suc_upt [symmetric] comp_def del: upt_Suc)
  then show ?case using Suc.prems [of 0] IH by (simp del: upt_Suc)
qed simp

lemma game_state_shown:
  assumes "flatbuffers B R valid mode nodes addr views fround feq"
    and "length (server_game_state_message B ds) < 2 ^ 31"
  shows "page_onmessage R (Some (server_game_state_message B ds)) p = p\<lparr>page_dots := Some (map (\<lambda>d.
    \<lparr>dot_x = fround (wdot_x d), dot_y = fround (wdot_y d), dot_radius = fround (wdot_radius d),
     dot_color = palette (wdot_color d)\<rparr>) ds)\<rparr>"
proof -
  let ?m = "getRootAsServerMessage R (newByteBuffer R (server_game_state_message B ds))"
  note r = flatbuffers.game_state_read [OF assms refl]
  from r(2) obtain t where t: "ServerMessage_message R ?m = Some t"
    "ServerGameStateMessage_dotsLength R t = int (length ds)"
    and "\<forall>i < length ds. \<exists>d. ServerGameStateMessage_dots R t (int i) = Some d \<and>
        Dot_x R d = fround (wdot_x (ds ! i)) \<and> Dot_y R d = fround (wdot_y (ds ! i)) \<and>
        Dot_radius R d = fround (wdot_radius (ds ! i)) \<and> Dot_color R d = Color_num (wdot_color (ds ! i))"
    by blast
  then obtain f where f: "ServerGameStateMessage_dots R t (int i) = Some (f i) \<and>
        Dot_x R (f i) = fround (wdot_x (ds ! i)) \<and> Dot_y R (f i) = fround (wdot_y (ds ! i)) \<and>
        Dot_radius R (f i) = fround (wdot_radius (ds ! i)) \<and> Dot_color R (f i) = Color_num (wdot_color (ds ! i))"
    if "i < length ds" for i
    by metis
  have "dotsLoop R t 0 (length ds) [] = map (\<lambda>d. \<lparr>dot_x = fround (wdot_x d), dot_y = fround (wdot_y d),
      dot_radius = fround (wdot_radius d), dot_color = palette (wdot_color d)\<rparr>) ds"
    by (subst dotsLoop_map [of _ _ _ _ f]) (use f in \<open>auto intro!: nth_equalityI\<close>)
  then show ?thesis
    using r(1) t by (simp add: page_onmessage_def websocket_serverMessage_def Let_def)
qed

text \<open>
  A game state composed by the server replaces the dots on screen by exactly the server's
  dots, in order, with their coordinates and radius rounded to 32-bit floats and their colours
  taken from the palette, whatever dots were shown before.
\<close>

theorem server_dots_shown:
  assumes "flatbuffers B R valid mode nodes addr views fround feq"
    and "length (server_game_state_message B ds) < 2 ^ 31"
  shows "page_onmessage R (Some (server_game_state_message B ds)) p = p\<lparr>page_dots := Some (map (\<lambda>d.
    \<lparr>dot_x = fround (wdot_x d), dot_y = fround (wdot_y d), dot_radius = fround (wdot_radius d),
     dot_color = palette (wdot_color d)\<rparr>) ds)\<rparr>"
  using assms by (rule game_state_shown)

lemma wire_game_state_bound: "length (server_game_state_message wire_builder [d]) < 100"
  by (simp add: server_game_state_message_def Let_def msg_defs wire_lengths createDot_def
      ServerGameStateMessage_startDotsVector_def cells_size_def sum_list_replicate del: node_bytes.simps)

lemma wire_game_state_length: "length (server_game_state_message wire_builder [d]) < 2 ^ 31"
  using wire_game_state_bound [of d] by simp

theorem server_dots_shown_witness:
  "page_dots (page_onmessage wire_reader (Some (server_game_state_message wire_builder
      [\<lparr>wdot_x = 1, wdot_y = 2, wdot_radius = 3, wdot_color = Color_Blue\<rparr>])) DemoPage_initial) =
   Some [\<lparr>dot_x = 1, dot_y = 2, dot_radius = 3, dot_color = [70, 194, 219]\<rparr>]"
  using server_dots_shown [OF wire.flatbuffers_axioms wire_game_state_length] by (simp add: COLORS_defs)

text \<open>
  C33. Both transports deliver server messages alike: a datagram read by the WebTransport loop has
  the effect the same bytes have as a WebSocket message, and the loop goes on. The only
  difference is a message that makes the handler throw, which the WebSocket page ignores and
  which ends the WebTransport loop for good.
\<close>

theorem receive_agree:
  "webtransport_read R c (StreamValue data) p =
     (if isl (websocket_serverMessage R data p) then p\<lparr>page_readers := remove1 c (page_readers p)\<rparr>
      else page_onmessage R (Some data) p) \<and>
   (isl (websocket_serverMessage R data p) \<longleftrightarrow>
     (let m = getRootAsServerMessage R (newByteBuffer R data)
      in ServerMessage_message R m = None \<and>
         ServerMessage_messageType R m \<in> {Message_num Message_ServerChatMessage, Message_num Message_ServerGameStateMessage}))"
  by (auto simp: webtransport_read_def page_onmessage_def serverMessage_same websocket_serverMessage_def Let_def
      split: sum.splits option.splits)

section \<open>Late close events\<close>

text \<open>
  C38. A close event of a socket the page has left still disconnects the page: the callback sets
  the connection to \<open>undefined\<close> without looking whose event it is, so that after a quick
  reconnect the late event of the old socket closes the new connection.
\<close>

theorem late_close_drops_current:
  assumes "WebsocketConnection k u \<in> set (page_handlers p)" and "page_connection p = Some new"
    and "new \<noteq> WebsocketConnection k u"
  shows "\<exists>p'. page_step B R p p' \<and> page_connection p' = None \<and> closed_by_page p' new \<and>
    page_lines p' = page_lines p @ [\<lparr>line_msg = ''[DemoPage] Spanreed connection is closing!'', line_level = LogInfo\<rparr>]"
proof (intro exI conjI)
  let ?q = "p\<lparr>page_handlers := remove1 (WebsocketConnection k u) (page_handlers p)\<rparr>"
  show "page_step B R p (page_onclose ?q)" by (rule page_step.ws_closed) (rule assms(1))
  show "page_connection (page_onclose ?q) = None" by (simp add: page_onclose_def)
  show "closed_by_page (page_onclose ?q) new"
    "page_lines (page_onclose ?q) =
      page_lines p @ [\<lparr>line_msg = ''[DemoPage] Spanreed connection is closing!'', line_level = LogInfo\<rparr>]"
    using assms(2) by (auto simp: setConnection_def page_handler_defs split: Connection.Connection.splits)
qed

theorem late_close_drops_current_witness:
  "let old = WebsocketConnection 1 ''Ann''; new = WebsocketConnection 2 ''Ann'';
       p = setConnection (Some new) (setConnection None (setConnection (Some old) DemoPage_initial))
   in (page_step wire_builder wire_reader)\<^sup>*\<^sup>* DemoPage_initial p \<and>
      (\<exists>p'. page_step wire_builder wire_reader p p' \<and> page_connection p' = None \<and> closed_by_page p' new)"
proof -
  let ?step = "page_step wire_builder wire_reader"
  let ?old = "WebsocketConnection 1 ''Ann''" and ?new = "WebsocketConnection 2 ''Ann''"
  let ?p1 = "setConnection (Some ?old) DemoPage_initial" and ?p2 = "setConnection None (setConnection (Some ?old) DemoPage_initial)"
  note defs = DemoPage_initial_def attached_by_page_def setConnection_def page_handler_defs
  have "?step DemoPage_initial ?p1" by (rule page_step.connected) (simp_all add: defs)
  moreover have "?step ?p1 ?p2" using page_step.close_clicked [of _ _ ?p1] by (simp add: onClickClose_def)
  moreover have "?step ?p2 (setConnection (Some ?new) ?p2)" by (rule page_step.connected) (simp_all add: defs)
  ultimately have "?step\<^sup>*\<^sup>* DemoPage_initial (setConnection (Some ?new) ?p2)"
    by (meson r_into_rtranclp rtranclp_trans)
  moreover have "?old \<in> set (page_handlers (setConnection (Some ?new) ?p2))" by (simp add: defs)
  ultimately show ?thesis
    unfolding Let_def using late_close_drops_current [of 1 "''Ann''" "setConnection (Some ?new) ?p2" ?new wire_builder wire_reader]
    by auto
qed

end
