(* ===== verification/WebGL.thy ===== *)
theory WebGL
  imports Log Scene
begin

text \<open>
  The drawing interface of the browser and the helpers of \<open>glutils.ts\<close>. A WebGL context is a
  parameter: every call is recorded, and the calls that return something take their answer from
  an environment that may depend on all calls made before. A small machine gives the recorded
  calls their meaning as far as the renderer relies on it: which bytes a buffer holds, and how
  the attributes of a vertex array object are read from buffers.
\<close>

section \<open>Calls and answers\<close>

datatype gl_shader_kind = VERTEX_SHADER | FRAGMENT_SHADER
datatype gl_type = GL_FLOAT | GL_UNSIGNED_BYTE

datatype gl_call =
    GlCreateShader gl_shader_kind
  | GlCreateProgram
  | GlShaderSource nat string
  | GlCompileShader nat
  | GlGetShaderParameter nat
  | GlGetShaderInfoLog nat
  | GlAttachShader nat nat
  | GlLinkProgram nat
  | GlGetProgramParameter nat
  | GlGetProgramInfoLog nat
  | GlGetAttribLocation nat string
  | GlGetUniformLocation nat string
  | GlCreateBuffer
  | GlBindBuffer "nat option"
  | GlBufferData bytes
  | GlBufferDataSize nat
  | GlBufferSubData nat bytes
  | GlCreateVertexArray
  | GlBindVertexArray "nat option"
  | GlEnableVertexAttribArray int
  | GlVertexAttribPointer int nat gl_type bool nat nat
  | GlVertexAttribDivisor int nat
  | GlUseProgram "nat option"
  | GlUniform2f nat real real
  | GlDrawTrianglesInstanced nat nat nat
  | GlSetCanvasSize nat nat
  | GlClearColor real real real real
  | GlClearColorAndDepth
  | GlViewport nat nat nat nat

type_synonym gl_history = "gl_call list"

record gl_env =
  env_createShader :: "gl_history \<Rightarrow> gl_shader_kind \<Rightarrow> nat option"
  env_createProgram :: "gl_history \<Rightarrow> nat option"
  env_compileStatus :: "gl_history \<Rightarrow> nat \<Rightarrow> bool"
  env_shaderInfoLog :: "gl_history \<Rightarrow> nat \<Rightarrow> string"
  env_linkStatus :: "gl_history \<Rightarrow> nat \<Rightarrow> bool"
  env_programInfoLog :: "gl_history \<Rightarrow> nat \<Rightarrow> string"
  env_attribLocation :: "gl_history \<Rightarrow> nat \<Rightarrow> string \<Rightarrow> int"
  env_uniformLocation :: "gl_history \<Rightarrow> nat \<Rightarrow> string \<Rightarrow> nat option"
  env_createBuffer :: "gl_history \<Rightarrow> nat option"
  env_createVertexArray :: "gl_history \<Rightarrow> nat option"

text \<open>
  The state a drawing routine works on: the calls so far, whatever the given log callback
  writes to, and the browser console the default callback writes to.
\<close>

record 'l gl_state =
  gl_calls :: gl_history
  gl_log :: 'l
  gl_console :: "console_call list"

definition gl_do :: "gl_call \<Rightarrow> ('l gl_state, unit) state" where
  "gl_do c = State (\<lambda>s. ((), s\<lparr>gl_calls := gl_calls s @ [c]\<rparr>))"

definition gl_ask :: "gl_call \<Rightarrow> (gl_history \<Rightarrow> 'a) \<Rightarrow> ('l gl_state, 'a) state" where
  "gl_ask c answer = State (\<lambda>s. (answer (gl_calls s), s\<lparr>gl_calls := gl_calls s @ [c]\<rparr>))"

definition gl_say :: "'l LogCb \<Rightarrow> string \<Rightarrow> LogLevel option \<Rightarrow> ('l gl_state, unit) state" where
  "gl_say logCb m lv = State (\<lambda>s. ((), s\<lparr>gl_log := logCb m lv (gl_log s)\<rparr>))"

definition gl_say_default :: "string \<Rightarrow> LogLevel option \<Rightarrow> ('l gl_state, unit) state" where
  "gl_say_default m lv = State (\<lambda>s. ((), s\<lparr>gl_console := DefaultLogCb m lv (gl_console s)\<rparr>))"

lemma gl_run [simp]:
  "run_state (gl_do c) s = ((), s\<lparr>gl_calls := gl_calls s @ [c]\<rparr>)"
  "run_state (gl_ask c answer) s = (answer (gl_calls s), s\<lparr>gl_calls := gl_calls s @ [c]\<rparr>)"
  "run_state (gl_say logCb m lv) s = ((), s\<lparr>gl_log := logCb m lv (gl_log s)\<rparr>)"
  "run_state (gl_say_default m lv) s = ((), s\<lparr>gl_console := DefaultLogCb m lv (gl_console s)\<rparr>)"
  by (simp_all add: gl_do_def gl_ask_def gl_say_def gl_say_default_def)

section \<open>glutils.ts\<close>

definition createStaticVertexBuffer :: "gl_env \<Rightarrow> bytes \<Rightarrow> ('l gl_state, nat option) state" where
  "createStaticVertexBuffer E data = do {
     buffer \<leftarrow> gl_ask GlCreateBuffer (env_createBuffer E);
     case buffer of
       None \<Rightarrow> State_Monad.return None
     | Some b \<Rightarrow> do {
         gl_do (GlBindBuffer (Some b));
         gl_do (GlBufferData data);
         gl_do (GlBindBuffer None);
         State_Monad.return (Some b) } }"

definition createDynamicVertexBuffer :: "gl_env \<Rightarrow> nat \<Rightarrow> ('l gl_state, nat option) state" where
  "createDynamicVertexBuffer E bytesize = do {
     buffer \<leftarrow> gl_ask GlCreateBuffer (env_createBuffer E);
     gl_do (GlBindBuffer buffer);
     gl_do (GlBufferDataSize bytesize);
     gl_do (GlBindBuffer None);
     State_Monad.return buffer }"

definition js_bool :: "bool \<Rightarrow> string" where
  "js_bool b = (if b then ''true'' else ''false'')"

definition createProgram :: "gl_env \<Rightarrow> string \<Rightarrow> string \<Rightarrow> 'l LogCb \<Rightarrow> ('l gl_state, nat option) state" where
  "createProgram E vertexShaderSource fragmentShaderSource logCb = do {
     vertexShader \<leftarrow> gl_ask (GlCreateShader VERTEX_SHADER) (\<lambda>h. env_createShader E h VERTEX_SHADER);
     fragmentShader \<leftarrow> gl_ask (GlCreateShader FRAGMENT_SHADER) (\<lambda>h. env_createShader E h FRAGMENT_SHADER);
     program \<leftarrow> gl_ask GlCreateProgram (env_createProgram E);
     case (vertexShader, fragmentShader, program) of
       (Some vs, Some fs, Some pr) \<Rightarrow> do {
         gl_do (GlShaderSource vs vertexShaderSource);
         gl_do (GlCompileShader vs);
         vsOk \<leftarrow> gl_ask (GlGetShaderParameter vs) (\<lambda>h. env_compileStatus E h vs);
         if \<not> vsOk then do {
           errorMessage \<leftarrow> gl_ask (GlGetShaderInfoLog vs) (\<lambda>h. env_shaderInfoLog E h vs);
           gl_say logCb (''Failed to compile vertex shader: '' @ errorMessage) (Some LogError);
           State_Monad.return None }
         else do {
           gl_do (GlShaderSource fs fragmentShaderSource);
           gl_do (GlCompileShader fs);
           fsOk \<leftarrow> gl_ask (GlGetShaderParameter fs) (\<lambda>h. env_compileStatus E h fs);
           if \<not> fsOk then do {
             errorMessage \<leftarrow> gl_ask (GlGetShaderInfoLog fs) (\<lambda>h. env_shaderInfoLog E h fs);
             gl_say logCb (''Failed to compile fragment shader: '' @ errorMessage) (Some LogError);
             State_Monad.return None }
           else do {
             gl_do (GlAttachShader pr vs);
             gl_do (GlAttachShader pr fs);
             gl_do (GlLinkProgram pr);
             linked \<leftarrow> gl_ask (GlGetProgramParameter pr) (\<lambda>h. env_linkStatus E h pr);
             if \<not> linked then do {
               errorMessage \<leftarrow> gl_ask (GlGetProgramInfoLog pr) (\<lambda>h. env_programInfoLog E h pr);
               gl_say logCb (''Failed to link GPU program: '' @ errorMessage) (Some LogError);
               State_Monad.return None }
             else State_Monad.return (Some pr) } } }
     | _ \<Rightarrow> do {
         gl_say logCb (''Failed to allocate GL objects ('' @ ''vs='' @ js_bool (vertexShader \<noteq> None) @ '', '' @
           ''fs='' @ js_bool (fragmentShader \<noteq> None) @ '', '' @ ''program='' @ js_bool (program \<noteq> None) @ '')'')
           (Some LogError);
         State_Monad.return None } }"

section \<open>The machine behind the calls\<close>

record attrib_pointer =
  ap_buffer :: "nat option"
  ap_size :: nat
  ap_type :: gl_type
  ap_normalized :: bool
  ap_stride :: nat
  ap_offset :: nat

record gl_machine =
  m_array_buffer :: "nat option"
  m_buffers :: "nat \<Rightarrow> bytes option"
  m_vao :: "nat option"
  m_pointers :: "nat option \<times> int \<Rightarrow> attrib_pointer option"
  m_enabled :: "nat option \<times> int \<Rightarrow> bool"
  m_divisor :: "nat option \<times> int \<Rightarrow> nat"

definition gl_reset :: gl_machine where
  "gl_reset = \<lparr>m_array_buffer = None, m_buffers = Map.empty, m_vao = None, m_pointers = Map.empty,
     m_enabled = (\<lambda>_. False), m_divisor = (\<lambda>_. 0)\<rparr>"

text \<open>\<open>src\<close> written over \<open>dst\<close> from position \<open>off\<close>.\<close>

definition overwrite :: "nat \<Rightarrow> 'a list \<Rightarrow> 'a list \<Rightarrow> 'a list" where
  "overwrite off src dst = take off dst @ src @ drop (off + length src) dst"

fun gl_exec :: "gl_machine \<Rightarrow> gl_call \<Rightarrow> gl_machine" where
  "gl_exec m (GlBindBuffer b) = m\<lparr>m_array_buffer := b\<rparr>"
| "gl_exec m (GlBufferData d) = (case m_array_buffer m of None \<Rightarrow> m | Some b \<Rightarrow> m\<lparr>m_buffers := (m_buffers m)(b \<mapsto> d)\<rparr>)"
| "gl_exec m (GlBufferDataSize n) =
     (case m_array_buffer m of None \<Rightarrow> m | Some b \<Rightarrow> m\<lparr>m_buffers := (m_buffers m)(b \<mapsto> replicate n 0)\<rparr>)"
| "gl_exec m (GlBufferSubData off d) = (case m_array_buffer m of None \<Rightarrow> m
   | Some b \<Rightarrow> (case m_buffers m b of None \<Rightarrow> m
      | Some old \<Rightarrow> if off + length d \<le> length old then m\<lparr>m_buffers := (m_buffers m)(b \<mapsto> overwrite off d old)\<rparr> else m))"
| "gl_exec m (GlBindVertexArray v) = m\<lparr>m_vao := v\<rparr>"
| "gl_exec m (GlEnableVertexAttribArray loc) = m\<lparr>m_enabled := (m_enabled m)((m_vao m, loc) := True)\<rparr>"
| "gl_exec m (GlVertexAttribPointer loc sz ty nrm stride off) =
     m\<lparr>m_pointers := (m_pointers m)((m_vao m, loc) \<mapsto> \<lparr>ap_buffer = m_array_buffer m, ap_size = sz, ap_type = ty,
        ap_normalized = nrm, ap_stride = stride, ap_offset = off\<rparr>)\<rparr>"
| "gl_exec m (GlVertexAttribDivisor loc d) = m\<lparr>m_divisor := (m_divisor m)((m_vao m, loc) := d)\<rparr>"
| "gl_exec m c = m"

definition gl_machine_after :: "gl_history \<Rightarrow> gl_machine" where
  "gl_machine_after h = foldl gl_exec gl_reset h"

lemma gl_machine_append [simp]: "gl_machine_after (h @ cs) = foldl gl_exec (gl_machine_after h) cs"
  by (simp add: gl_machine_after_def)

fun gl_type_size :: "gl_type \<Rightarrow> nat" where
  "gl_type_size GL_FLOAT = 4"
| "gl_type_size GL_UNSIGNED_BYTE = 1"

text \<open>
  The bytes an enabled attribute reads for vertex \<open>vertex\<close> of instance \<open>inst\<close>; a stride of zero
  means that the values stand side by side.
\<close>

definition gl_fetch :: "gl_machine \<Rightarrow> nat option \<Rightarrow> int \<Rightarrow> nat \<Rightarrow> nat \<Rightarrow> bytes option" where
  "gl_fetch m vao loc vertex inst = (case m_pointers m (vao, loc) of None \<Rightarrow> None
   | Some a \<Rightarrow> (case ap_buffer a of None \<Rightarrow> None
     | Some b \<Rightarrow> (case m_buffers m b of None \<Rightarrow> None
       | Some data \<Rightarrow>
          (let size = ap_size a * gl_type_size (ap_type a);
               stride = (if ap_stride a = 0 then size else ap_stride a);
               idx = (if m_divisor m (vao, loc) = 0 then vertex else inst div m_divisor m (vao, loc))
           in if m_enabled m (vao, loc) \<and> ap_offset a + stride * idx + size \<le> length data
              then Some (take size (drop (ap_offset a + stride * idx) data)) else None))))"

end
