(* ===== verification/Renderer.thy ===== *)
theory Renderer
  imports WebGL
begin

text \<open>
  \<open>solid.shader.ts\<close>, \<open>DemoRenderer.ts\<close> and \<open>DemoCanvas.tsx\<close>: the shader program and its
  vertex layout, the renderer with its 3200-byte instance buffer, and the canvas component that
  owns it. Typed arrays are views of a byte list; how a number is stored as a 32-bit float is
  the argument \<open>enc32\<close>, four bytes per number.
\<close>

section \<open>solid.shader.ts\<close>

definition nl :: string where
  "nl = [CHR 0x0A]"

definition vsSrc :: string where
  "vsSrc = ''#version 300 es'' @ nl @ ''precision mediump float;'' @ nl @ nl @
     ''in vec2 vertexPosition;'' @ nl @ ''in vec2 shapeLocation;'' @ nl @ ''in float shapeRadius;'' @ nl @
     ''in vec3 shapeColor;'' @ nl @ nl @ ''out vec3 fragmentColor;'' @ nl @ nl @ ''uniform vec2 canvasSize;'' @ nl @ nl @
     ''void main() {'' @ nl @ ''  fragmentColor = shapeColor;'' @ nl @ nl @
     ''  vec2 logicalPosition = vertexPosition * shapeRadius + shapeLocation;'' @ nl @
     ''  gl_Position = vec4((logicalPosition / canvasSize) * 2. - 1., 0., 1.);'' @ nl @ ''}''"

definition fsSrc :: string where
  "fsSrc = ''#version 300 es'' @ nl @ ''precision mediump float;'' @ nl @ nl @ ''in vec3 fragmentColor;'' @ nl @
     ''out vec4 outColor;'' @ nl @ nl @ ''void main() {'' @ nl @ ''  outColor = vec4(fragmentColor, 1.);'' @ nl @ ''}''"

text \<open>The arithmetic of the vertex shader's \<open>main\<close>, per coordinate and over the reals.\<close>

definition vs_main :: "real \<times> real \<Rightarrow> real \<Rightarrow> real \<times> real \<Rightarrow> real \<times> real \<Rightarrow> real \<times> real" where
  "vs_main vertexPosition shapeRadius shapeLocation canvasSize =
     (let logicalPosition = (fst vertexPosition * shapeRadius + fst shapeLocation,
                             snd vertexPosition * shapeRadius + snd shapeLocation)
      in ((fst logicalPosition / fst canvasSize) * 2 - 1, (snd logicalPosition / snd canvasSize) * 2 - 1))"

record Attrib =
  VertexPosition :: int
  ShapeLocation :: int
  ShapeRadius :: int
  ShapeColor :: int

record SolidShader =
  sh_program :: nat
  sh_attribs :: Attrib
  sh_CanvasSize :: nat

definition SolidShader_Create :: "gl_env \<Rightarrow> 'l LogCb \<Rightarrow> ('l gl_state, SolidShader option) state" where
  "SolidShader_Create E logCb = do {
     program \<leftarrow> createProgram E vsSrc fsSrc logCb;
     case program of
       None \<Rightarrow> State_Monad.return None
     | Some pr \<Rightarrow> do {
         vertexPosition \<leftarrow> gl_ask (GlGetAttribLocation pr ''vertexPosition'') (\<lambda>h. env_attribLocation E h pr ''vertexPosition'');
         shapeLocation \<leftarrow> gl_ask (GlGetAttribLocation pr ''shapeLocation'') (\<lambda>h. env_attribLocation E h pr ''shapeLocation'');
         shapeRadius \<leftarrow> gl_ask (GlGetAttribLocation pr ''shapeRadius'') (\<lambda>h. env_attribLocation E h pr ''shapeRadius'');
         shapeColor \<leftarrow> gl_ask (GlGetAttribLocation pr ''shapeColor'') (\<lambda>h. env_attribLocation E h pr ''shapeColor'');
         canvasSize \<leftarrow> gl_ask (GlGetUniformLocation pr ''canvasSize'') (\<lambda>h. env_uniformLocation E h pr ''canvasSize'');
         case canvasSize of
           None \<Rightarrow> do {
             gl_say logCb ''SolidShader - failed to find CanvasSize uniform'' (Some LogError);
             State_Monad.return None }
         | Some cs \<Rightarrow> State_Monad.return (Some \<lparr>sh_program = pr,
             sh_attribs = \<lparr>VertexPosition = vertexPosition, ShapeLocation = shapeLocation,
               ShapeRadius = shapeRadius, ShapeColor = shapeColor\<rparr>,
             sh_CanvasSize = cs\<rparr>) } }"

text \<open>The only caller passes no log callback, so failures go to the default one.\<close>

definition SolidShader_createVao ::
  "gl_env \<Rightarrow> SolidShader \<Rightarrow> nat \<Rightarrow> nat \<Rightarrow> ('l gl_state, nat option) state" where
  "SolidShader_createVao E sh geoBuffer instanceBuffer = do {
     vao \<leftarrow> gl_ask GlCreateVertexArray (env_createVertexArray E);
     case vao of
       None \<Rightarrow> do {
         gl_say_default ''Failed to allocate VAO for SolidShader'' (Some LogError);
         State_Monad.return None }
     | Some v \<Rightarrow> do {
         gl_do (GlBindVertexArray (Some v));
         gl_do (GlEnableVertexAttribArray (VertexPosition (sh_attribs sh)));
         gl_do (GlEnableVertexAttribArray (ShapeColor (sh_attribs sh)));
         gl_do (GlEnableVertexAttribArray (ShapeLocation (sh_attribs sh)));
         gl_do (GlEnableVertexAttribArray (ShapeRadius (sh_attribs sh)));
         gl_do (GlBindBuffer (Some geoBuffer));
         gl_do (GlVertexAttribPointer (VertexPosition (sh_attribs sh)) 2 GL_FLOAT False 0 0);
         gl_do (GlBindBuffer (Some instanceBuffer));
         gl_do (GlVertexAttribPointer (ShapeLocation (sh_attribs sh)) 2 GL_FLOAT False 16 0);
         gl_do (GlVertexAttribPointer (ShapeRadius (sh_attribs sh)) 1 GL_FLOAT False 16 8);
         gl_do (GlVertexAttribPointer (ShapeColor (sh_attribs sh)) 3 GL_UNSIGNED_BYTE True 16 12);
         gl_do (GlVertexAttribDivisor (ShapeLocation (sh_attribs sh)) 1);
         gl_do (GlVertexAttribDivisor (ShapeRadius (sh_attribs sh)) 1);
         gl_do (GlVertexAttribDivisor (ShapeColor (sh_attribs sh)) 1);
         gl_do (GlBindVertexArray None);
         State_Monad.return (Some v) } }"

definition SolidShader_draw ::
  "SolidShader \<Rightarrow> nat \<Rightarrow> nat \<Rightarrow> nat \<Rightarrow> real \<Rightarrow> real \<Rightarrow> ('l gl_state, unit) state" where
  "SolidShader_draw sh vao vertexCount instanceCount canvasWidth canvasHeight = do {
     gl_do (GlUseProgram (Some (sh_program sh)));
     gl_do (GlBindVertexArray (Some vao));
     gl_do (GlUniform2f (sh_CanvasSize sh) canvasWidth canvasHeight);
     gl_do (GlDrawTrianglesInstanced 0 vertexCount instanceCount);
     gl_do (GlBindVertexArray None);
     gl_do (GlUseProgram None) }"

section \<open>DemoRenderer.ts\<close>

definition CIRCLE_SEGMENT_COUNT :: nat where
  "CIRCLE_SEGMENT_COUNT = 20"

definition MAX_INSTANCE_COUNT :: nat where
  "MAX_INSTANCE_COUNT = 200"

record DemoRenderer =
  r_raf :: "nat option"
  r_solidShader :: SolidShader
  r_vao :: nat
  r_gpuInstanceBuffer :: nat
  r_cpuInstanceBuffer :: bytes
  r_instanceCt :: nat

definition float32Array :: "('f \<Rightarrow> bytes) \<Rightarrow> 'f list \<Rightarrow> bytes" where
  "float32Array enc32 xs = concat (map enc32 xs)"

definition DemoRenderer_Create ::
  "(real \<Rightarrow> bytes) \<Rightarrow> gl_env \<Rightarrow> 'l LogCb \<Rightarrow> ('l gl_state, DemoRenderer option) state" where
  "DemoRenderer_Create enc32 E logFn =
     (let logCb = WrapLogFn ''DemoRenderer'' logFn;
          circleGeo = float32Array enc32 (buildCircleVertexBufferData CIRCLE_SEGMENT_COUNT)
      in do {
        solidShader \<leftarrow> SolidShader_Create E logCb;
        case solidShader of
          None \<Rightarrow> do {
            gl_say logCb ''Failed to create solid shader, cannot create DemoRenderer'' (Some LogError);
            State_Monad.return None }
        | Some sh \<Rightarrow> do {
            circleBuffer \<leftarrow> createStaticVertexBuffer E circleGeo;
            case circleBuffer of
              None \<Rightarrow> do {
                gl_say logCb ''Failed to create dot vertex buffer, cannot create DemoRenderer'' (Some LogError);
                State_Monad.return None }
            | Some cb \<Rightarrow> do {
                instanceBuffer \<leftarrow> createDynamicVertexBuffer E (16 * MAX_INSTANCE_COUNT);
                case instanceBuffer of
                  None \<Rightarrow> do {
                    gl_say logCb ''Failed to create instance buffer, cannot create DemoRenderer'' (Some LogError);
                    State_Monad.return None }
                | Some ib \<Rightarrow> do {
                    vao \<leftarrow> SolidShader_createVao E sh cb ib;
                    case vao of
                      None \<Rightarrow> do {
                        gl_say logCb ''Failed to create dot VAO, cannot create DemoRenderer'' (Some LogError);
                        State_Monad.return None }
                    | Some v \<Rightarrow> State_Monad.return (Some \<lparr>r_raf = None, r_solidShader = sh, r_vao = v,
                        r_gpuInstanceBuffer = ib, r_cpuInstanceBuffer = replicate (16 * MAX_INSTANCE_COUNT) 0,
                        r_instanceCt = 0\<rparr>) } } } })"

text \<open>
  \<open>new Float32Array(buffer, off)\<close> gives the number of elements of the view or throws; storing
  to an index outside the view is ignored. \<open>new Uint8Array(buffer, off)\<close> likewise.
\<close>

definition f32_view :: "bytes \<Rightarrow> nat \<Rightarrow> js_error + nat" where
  "f32_view buf off = (if off mod 4 = 0 \<and> length buf mod 4 = 0 \<and> off \<le> length buf
     then Inr ((length buf - off) div 4) else Inl RangeError)"

definition f32_store :: "('f \<Rightarrow> bytes) \<Rightarrow> nat \<Rightarrow> nat \<Rightarrow> nat \<Rightarrow> 'f \<Rightarrow> bytes \<Rightarrow> bytes" where
  "f32_store enc32 off len idx v buf = (if idx < len then overwrite (off + 4 * idx) (enc32 v) buf else buf)"

definition u8_view :: "bytes \<Rightarrow> nat \<Rightarrow> js_error + nat" where
  "u8_view buf off = (if off \<le> length buf then Inr (length buf - off) else Inl RangeError)"

definition u8_store :: "nat \<Rightarrow> nat \<Rightarrow> nat \<Rightarrow> byte \<Rightarrow> bytes \<Rightarrow> bytes" where
  "u8_store off len idx v buf = (if idx < len then buf[off + idx := v] else buf)"

text \<open>\<open>color[k]\<close>; \<open>undefined\<close> is stored as zero.\<close>

definition color_at :: "bytes \<Rightarrow> nat \<Rightarrow> byte" where
  "color_at c k = (if k < length c then c ! k else 0)"

text \<open>The loop of \<open>setInstances\<close> from index \<open>i\<close> on; an exception leaves what was written.\<close>

fun instancesLoop ::
  "('f::{minus, numeral} \<Rightarrow> bytes) \<Rightarrow> nat \<Rightarrow> 'f dot list \<Rightarrow> bytes \<Rightarrow> js_error option \<times> bytes" where
  "instancesLoop enc32 i [] buf = (None, buf)"
| "instancesLoop enc32 i (inst # rest) buf = (case f32_view buf (16 * i) of
     Inl e \<Rightarrow> (Some e, buf)
   | Inr n \<Rightarrow>
      (let b1 = f32_store enc32 (16 * i) n 0 (dot_x inst) buf;
           b2 = f32_store enc32 (16 * i) n 1 (400 - dot_y inst) b1;
           b3 = f32_store enc32 (16 * i) n 2 (dot_radius inst) b2
       in case u8_view b3 (16 * i + 12) of
            Inl e \<Rightarrow> (Some e, b3)
          | Inr k \<Rightarrow>
             (let b4 = u8_store (16 * i + 12) k 0 (color_at (dot_color inst) 0) b3;
                  b5 = u8_store (16 * i + 12) k 1 (color_at (dot_color inst) 1) b4;
                  b6 = u8_store (16 * i + 12) k 2 (color_at (dot_color inst) 2) b5
              in instancesLoop enc32 (i + 1) rest b6)))"

definition setInstances ::
  "('f::{minus, numeral} \<Rightarrow> bytes) \<Rightarrow> DemoRenderer \<Rightarrow> 'f dot list \<Rightarrow>
   ('l gl_state, js_error option \<times> DemoRenderer) state" where
  "setInstances enc32 r instances =
     (let toUse = take MAX_INSTANCE_COUNT instances;
          (err, buf) = instancesLoop enc32 0 instances (r_cpuInstanceBuffer r)
      in case err of
           Some e \<Rightarrow> State_Monad.return (Some e, r\<lparr>r_cpuInstanceBuffer := buf\<rparr>)
         | None \<Rightarrow> do {
             gl_do (GlBindBuffer (Some (r_gpuInstanceBuffer r)));
             gl_do (GlBufferSubData 0 buf);
             gl_do (GlBindBuffer None);
             State_Monad.return (None, r\<lparr>r_cpuInstanceBuffer := buf, r_instanceCt := length toUse\<rparr>) })"

text \<open>Animation frames: the handles of the callbacks the browser still has to run.\<close>

record animation =
  anim_pending :: "nat list"
  anim_next :: nat

definition requestAnimationFrame :: "animation \<Rightarrow> nat \<times> animation" where
  "requestAnimationFrame a = (anim_next a, \<lparr>anim_pending = anim_pending a @ [anim_next a], anim_next = anim_next a + 1\<rparr>)"

definition cancelAnimationFrame :: "nat \<Rightarrow> animation \<Rightarrow> animation" where
  "cancelAnimationFrame h a = a\<lparr>anim_pending := filter (\<lambda>x. x \<noteq> h) (anim_pending a)\<rparr>"

definition DemoRenderer_start :: "DemoRenderer \<Rightarrow> animation \<Rightarrow> DemoRenderer \<times> animation" where
  "DemoRenderer_start r a = (let (h, a') = requestAnimationFrame a in (r\<lparr>r_raf := Some h\<rparr>, a'))"

text \<open>
  The canvas as the frame callback sees it: an element with its client size and the device's
  pixel ratio, or something else. Assigning to its size keeps the integral part.
\<close>

definition DemoRenderer_frame ::
  "(nat \<times> nat \<times> real) option \<Rightarrow> DemoRenderer \<Rightarrow> animation \<Rightarrow> ('l gl_state, DemoRenderer \<times> animation) state" where
  "DemoRenderer_frame canvas r a =
     (let (w, h) = (case canvas of
            Some (clientWidth, clientHeight, devicePixelRatio) \<Rightarrow>
              (nat \<lfloor>real clientWidth * devicePixelRatio\<rfloor>, nat \<lfloor>real clientHeight * devicePixelRatio\<rfloor>)
          | None \<Rightarrow> (400, 400))
      in do {
        gl_do (GlSetCanvasSize w h);
        gl_do (GlClearColor 0.2 0.333 0.4666 1);
        gl_do GlClearColorAndDepth;
        gl_do (GlViewport 0 0 w h);
        (if 0 < r_instanceCt r
         then SolidShader_draw (r_solidShader r) (r_vao r) (CIRCLE_SEGMENT_COUNT * 3) (r_instanceCt r) 400 400
         else State_Monad.return ());
        State_Monad.return (DemoRenderer_start r a) })"

definition DemoRenderer_destroy :: "DemoRenderer \<Rightarrow> animation \<Rightarrow> animation" where
  "DemoRenderer_destroy r a = (case r_raf r of None \<Rightarrow> a | Some h \<Rightarrow> cancelAnimationFrame h a)"

section \<open>DemoCanvas.tsx\<close>

definition DEFAULT_DOT_STATE :: "'f::numeral dot list" where
  "DEFAULT_DOT_STATE =
     [\<lparr>dot_x = 80, dot_y = 200, dot_radius = 20, dot_color = COLORS_Red\<rparr>,
      \<lparr>dot_x = 140, dot_y = 200, dot_radius = 20, dot_color = COLORS_Green\<rparr>,
      \<lparr>dot_x = 200, dot_y = 200, dot_radius = 20, dot_color = COLORS_Blue\<rparr>,
      \<lparr>dot_x = 260, dot_y = 200, dot_radius = 20, dot_color = COLORS_Indigo\<rparr>,
      \<lparr>dot_x = 320, dot_y = 200, dot_radius = 20, dot_color = COLORS_FireOrange\<rparr>]"

text \<open>The effect that depends on the context: it creates and starts a renderer.\<close>

definition DemoCanvas_createRenderer ::
  "(real \<Rightarrow> bytes) \<Rightarrow> gl_env \<Rightarrow> 'l LogCb \<Rightarrow> animation \<Rightarrow>
   ('l gl_state, js_error option \<times> DemoRenderer option \<times> animation) state" where
  "DemoCanvas_createRenderer enc32 E logFn a = do {
     gl_say (WrapLogFn ''DemoCanvas'' logFn) ''Creating new renderer!'' None;
     renderer \<leftarrow> DemoRenderer_Create enc32 E logFn;
     case renderer of
       None \<Rightarrow> State_Monad.return (None, None, a)
     | Some r \<Rightarrow>
         (let (r1, a1) = DemoRenderer_start r a
          in do {
            res \<leftarrow> setInstances enc32 r1 DEFAULT_DOT_STATE;
            State_Monad.return (fst res, Some (snd res), a1) }) }"

text \<open>The effect that depends on the dots.\<close>

definition DemoCanvas_showDots ::
  "('f::{minus, numeral} \<Rightarrow> bytes) \<Rightarrow> DemoRenderer \<Rightarrow> 'f dot list option \<Rightarrow>
   ('l gl_state, js_error option \<times> DemoRenderer) state" where
  "DemoCanvas_showDots enc32 r dots =
     setInstances enc32 r (case dots of None \<Rightarrow> DEFAULT_DOT_STATE | Some ds \<Rightarrow> ds)"

record rect =
  rect_left :: real
  rect_top :: real
  rect_width :: real
  rect_height :: real

definition DemoCanvas_onClick :: "rect \<Rightarrow> real \<times> real \<Rightarrow> real \<times> real" where
  "DemoCanvas_onClick rect client =
     ((fst client - rect_left rect) / rect_width rect * 400, (snd client - rect_top rect) / rect_height rect * 400)"

section \<open>Writing the instance buffer\<close>

lemma length_overwrite [simp]: "off + length src \<le> length dst \<Longrightarrow> length (overwrite off src dst) = length dst"
  by (simp add: overwrite_def)

lemma overwrite_join:
  assumes "off + length xs + length ys \<le> length dst"
  shows "overwrite (off + length xs) ys (overwrite off xs dst) = overwrite off (xs @ ys) dst"
  using assms by (simp add: overwrite_def ac_simps)

lemma update_overwrite: "n < length dst \<Longrightarrow> dst[n := v] = overwrite n [v] dst"
  by (simp add: overwrite_def upd_conv_take_nth_drop)

lemma read_overwrite_inside:
  assumes "off \<le> p" and "p + n \<le> off + length src" and "off + length src \<le> length dst"
  shows "take n (drop p (overwrite off src dst)) = take n (drop (p - off) src)"
  using assms by (simp add: overwrite_def)

lemma read_overwrite_before:
  assumes "p + n \<le> off" and "off \<le> length dst"
  shows "take n (drop p (overwrite off src dst)) = take n (drop p dst)"
proof -
  have "n \<le> off - p" "p \<le> off" using assms by simp_all
  then show ?thesis using assms(2) by (simp add: overwrite_def drop_take min_absorb1)
qed

definition instance_bytes :: "('f::{minus, numeral} \<Rightarrow> bytes) \<Rightarrow> 'f dot \<Rightarrow> bytes" where
  "instance_bytes enc32 d = enc32 (dot_x d) @ enc32 (400 - dot_y d) @ enc32 (dot_radius d) @
     [color_at (dot_color d) 0, color_at (dot_color d) 1, color_at (dot_color d) 2]"

lemma instancesLoop_Cons:
  assumes "\<And>v. length (enc32 v) = 4" and "length buf mod 4 = 0" and "16 * i + 16 \<le> length buf"
  shows "instancesLoop enc32 i (d # rest) buf =
    instancesLoop enc32 (Suc i) rest (overwrite (16 * i) (instance_bytes enc32 d) buf)"
proof -
  let ?x = "enc32 (dot_x d)" and ?y = "enc32 (400 - dot_y d)" and ?r = "enc32 (dot_radius d)"
  define b3 where "b3 = overwrite (16 * i) (?x @ ?y @ ?r) buf"
  have n: "2 < (length buf - 16 * i) div 4" using assms(3) by linarith
  have f32: "f32_store enc32 (16 * i) ((length buf - 16 * i) div 4) 2 (dot_radius d)
      (f32_store enc32 (16 * i) ((length buf - 16 * i) div 4) (Suc 0) (400 - dot_y d)
      (f32_store enc32 (16 * i) ((length buf - 16 * i) div 4) 0 (dot_x d) buf)) = b3"
    using n assms(1,3) overwrite_join [of "16 * i" ?x ?y buf] overwrite_join [of "16 * i" "?x @ ?y" ?r buf]
    by (simp add: f32_store_def b3_def)
  have len: "length b3 = length buf" using assms(1,3) by (simp add: b3_def)
  let ?c = "color_at (dot_color d)"
  have u8: "b3[16 * i + 12 := ?c 0, 13 + 16 * i := ?c (Suc 0), 14 + 16 * i := ?c 2] =
      overwrite (16 * i) (instance_bytes enc32 d) buf"
    using assms(1,3) len overwrite_join [of "16 * i" "?x @ ?y @ ?r" "[?c 0]" buf]
      overwrite_join [of "16 * i" "?x @ ?y @ ?r @ [?c 0]" "[?c 1]" buf]
      overwrite_join [of "16 * i" "?x @ ?y @ ?r @ [?c 0, ?c 1]" "[?c 2]" buf]
    by (simp add: update_overwrite b3_def instance_bytes_def add.commute)
  have view: "f32_view buf (16 * i) = Inr ((length buf - 16 * i) div 4)"
    using assms(2,3) by (simp add: f32_view_def)
  have "0 < length buf - (16 * i + 12)" "Suc 0 < length buf - (16 * i + 12)" "2 < length buf - (16 * i + 12)"
    using assms(3) by simp_all
  then show ?thesis
    using assms(3) len u8 by (simp add: view f32 Let_def u8_view_def u8_store_def)
qed

lemma instancesLoop_ok:
  assumes "\<And>v. length (enc32 v) = 4" and "length buf mod 4 = 0" and "16 * (i + length ds) \<le> length buf"
  shows "\<exists>buf'. instancesLoop enc32 i ds buf = (None, buf') \<and> length buf' = length buf \<and>
    (\<forall>p n. p + n \<le> 16 * i \<longrightarrow> take n (drop p buf') = take n (drop p buf)) \<and>
    (\<forall>j < length ds. take 15 (drop (16 * (i + j)) buf') = instance_bytes enc32 (ds ! j))"
  using assms(2,3)
proof (induction ds arbitrary: i buf)
  case (Cons d rest)
  let ?b = "overwrite (16 * i) (instance_bytes enc32 d) buf"
  have il: "length (instance_bytes enc32 d) = 15" by (simp add: instance_bytes_def assms(1))
  have len: "length ?b = length buf" using Cons.prems(2) il by simp
  have fits: "length ?b mod 4 = 0" "16 * (Suc i + length rest) \<le> length ?b" using Cons.prems len by simp_all
  from Cons.IH [OF fits] obtain buf' where b: "instancesLoop enc32 (Suc i) rest ?b = (None, buf')" "length buf' = length ?b"
    "\<forall>p n. p + n \<le> 16 * Suc i \<longrightarrow> take n (drop p buf') = take n (drop p ?b)"
    "\<forall>j < length rest. take 15 (drop (16 * (Suc i + j)) buf') = instance_bytes enc32 (rest ! j)"
    by (elim exE conjE)
  have "take 15 (drop (16 * i) buf') = instance_bytes enc32 d"
    using b(3) [rule_format, of "16 * i" 15] read_overwrite_inside [of "16 * i" "16 * i" 15 "instance_bytes enc32 d" buf] il Cons.prems(2)
    by simp
  then have "take 15 (drop (16 * (i + j)) buf') = instance_bytes enc32 ((d # rest) ! j)" if "j < length (d # rest)" for j
    using b(4) [rule_format, of "j - 1"] that by (cases j) simp_all
  moreover have "take n (drop p buf') = take n (drop p buf)" if "p + n \<le> 16 * i" for p n
    using b(3) [rule_format, of p n] read_overwrite_before [of p n "16 * i" buf "instance_bytes enc32 d"] that Cons.prems(2) by simp
  ultimately show ?case
    using instancesLoop_Cons [of enc32, OF assms(1) Cons.prems(1), of i d rest] Cons.prems(2) b(1,2) len
    by (simp del: instancesLoop.simps)
qed simp

section \<open>From the dots to the GPU\<close>

text \<open>
  A renderer is ready on a machine when its buffers have their size and its vertex array object
  reads the instance attributes from the instance buffer, sixteen bytes per instance.
\<close>

definition instance_pointer :: "DemoRenderer \<Rightarrow> nat \<Rightarrow> gl_type \<Rightarrow> bool \<Rightarrow> nat \<Rightarrow> attrib_pointer" where
  "instance_pointer r sz ty nrm off = \<lparr>ap_buffer = Some (r_gpuInstanceBuffer r), ap_size = sz, ap_type = ty,
     ap_normalized = nrm, ap_stride = 16, ap_offset = off\<rparr>"

definition renderer_ready :: "gl_machine \<Rightarrow> DemoRenderer \<Rightarrow> bool" where
  "renderer_ready m r \<longleftrightarrow>
     (let a = sh_attribs (r_solidShader r); v = Some (r_vao r)
      in (\<exists>d. m_buffers m (r_gpuInstanceBuffer r) = Some d \<and> length d = 3200) \<and>
         length (r_cpuInstanceBuffer r) = 3200 \<and>
         m_pointers m (v, ShapeLocation a) = Some (instance_pointer r 2 GL_FLOAT False 0) \<and>
         m_pointers m (v, ShapeRadius a) = Some (instance_pointer r 1 GL_FLOAT False 8) \<and>
         m_pointers m (v, ShapeColor a) = Some (instance_pointer r 3 GL_UNSIGNED_BYTE True 12) \<and>
         (\<forall>l \<in> {ShapeLocation a, ShapeRadius a, ShapeColor a}. m_enabled m (v, l) \<and> m_divisor m (v, l) = 1))"

definition distinct_locations :: "Attrib \<Rightarrow> bool" where
  "distinct_locations a = distinct [VertexPosition a, ShapeLocation a, ShapeRadius a, ShapeColor a]"

lemma createVao_machine:
  assumes "run_state (SolidShader_createVao E sh g ib) s = (Some v, s')" and "distinct_locations (sh_attribs sh)"
    and "m_buffers (gl_machine_after (gl_calls s)) ib = Some d" and "length d = 3200"
  shows "renderer_ready (gl_machine_after (gl_calls s')) \<lparr>r_raf = None, r_solidShader = sh, r_vao = v,
    r_gpuInstanceBuffer = ib, r_cpuInstanceBuffer = replicate 3200 0, r_instanceCt = 0\<rparr>"
  using assms
  by (auto simp: SolidShader_createVao_def renderer_ready_def instance_pointer_def distinct_locations_def Let_def
      split: option.splits)

lemma createDynamic_machine:
  assumes "run_state (createDynamicVertexBuffer E n) s = (Some b, s')"
  shows "m_buffers (gl_machine_after (gl_calls s')) b = Some (replicate n 0)"
  using assms by (auto simp: createDynamicVertexBuffer_def split: option.splits)

lemma create_ready:
  assumes "run_state (DemoRenderer_Create enc32 E logFn) s = (Some r, s')"
    and "distinct_locations (sh_attribs (r_solidShader r))"
  shows "renderer_ready (gl_machine_after (gl_calls s')) r"
proof -
  obtain sh cb ib v t1 t2 where
    ib: "run_state (createDynamicVertexBuffer E (16 * MAX_INSTANCE_COUNT)) t1 = (Some ib, t2)"
    and v: "run_state (SolidShader_createVao E sh cb ib) t2 = (Some v, s')"
    and r: "r = \<lparr>r_raf = None, r_solidShader = sh, r_vao = v, r_gpuInstanceBuffer = ib,
      r_cpuInstanceBuffer = replicate (16 * MAX_INSTANCE_COUNT) 0, r_instanceCt = 0\<rparr>"
    using assms(1) by (auto simp: DemoRenderer_Create_def Let_def prod_eq_iff split: option.splits)
  from createVao_machine [OF v _ createDynamic_machine [OF ib]] assms(2) r show ?thesis
    by (simp add: MAX_INSTANCE_COUNT_def)
qed

lemma setInstances_ready:
  assumes "renderer_ready (gl_machine_after (gl_calls s)) r" and "\<And>v. length (enc32 v) = 4"
    and "length ds \<le> MAX_INSTANCE_COUNT"
    and "run_state (setInstances enc32 r ds) s = ((err, r'), s')"
  shows "err = None" and "r_instanceCt r' = length ds"
    and "renderer_ready (gl_machine_after (gl_calls s')) r'"
    and "r_solidShader r' = r_solidShader r" and "r_vao r' = r_vao r"
    and "\<exists>buf. m_buffers (gl_machine_after (gl_calls s')) (r_gpuInstanceBuffer r') = Some buf \<and> length buf = 3200 \<and>
      (\<forall>i < length ds. take 15 (drop (16 * i) buf) = instance_bytes enc32 (ds ! i))"
proof -
  have cpu: "length (r_cpuInstanceBuffer r) = 3200" using assms(1) by (simp add: renderer_ready_def Let_def)
  obtain buf where b: "instancesLoop enc32 0 ds (r_cpuInstanceBuffer r) = (None, buf)" "length buf = 3200"
    "\<forall>i < length ds. take 15 (drop (16 * i) buf) = instance_bytes enc32 (ds ! i)"
    using instancesLoop_ok [of enc32 "r_cpuInstanceBuffer r" 0 ds] assms(2,3) cpu
    by (auto simp: MAX_INSTANCE_COUNT_def)
  obtain d where d: "m_buffers (gl_machine_after (gl_calls s)) (r_gpuInstanceBuffer r) = Some d" "length d = 3200"
    using assms(1) by (auto simp: renderer_ready_def Let_def)
  have over: "overwrite 0 buf d = buf" using b(2) d(2) by (simp add: overwrite_def)
  have res: "err = None" "r' = r\<lparr>r_cpuInstanceBuffer := buf, r_instanceCt := length ds\<rparr>"
    "gl_machine_after (gl_calls s') = (gl_machine_after (gl_calls s))\<lparr>m_array_buffer := None,
       m_buffers := (m_buffers (gl_machine_after (gl_calls s)))(r_gpuInstanceBuffer r \<mapsto> buf)\<rparr>"
    using assms(3,4) b d over by (auto simp: setInstances_def Let_def)
  show "err = None" "r_instanceCt r' = length ds" "r_solidShader r' = r_solidShader r" "r_vao r' = r_vao r"
    using res by simp_all
  show "renderer_ready (gl_machine_after (gl_calls s')) r'"
    using assms(1) b(2) unfolding res renderer_ready_def Let_def by (simp add: instance_pointer_def)
  show "\<exists>buf. m_buffers (gl_machine_after (gl_calls s')) (r_gpuInstanceBuffer r') = Some buf \<and> length buf = 3200 \<and>
      (\<forall>i < length ds. take 15 (drop (16 * i) buf) = instance_bytes enc32 (ds ! i))"
    unfolding res using b(2,3) by simp
qed

text \<open>One game state after another shown by the same renderer.\<close>

fun showAll :: "(real \<Rightarrow> bytes) \<Rightarrow> DemoRenderer \<Rightarrow> real dot list list \<Rightarrow> ('l gl_state, DemoRenderer) state" where
  "showAll enc32 r [] = State_Monad.return r"
| "showAll enc32 r (ds # dss) = do { res \<leftarrow> setInstances enc32 r ds; showAll enc32 (snd res) dss }"

lemma showAll_ready:
  assumes "\<And>v. length (enc32 v) = 4"
  shows "renderer_ready (gl_machine_after (gl_calls s)) r \<Longrightarrow> list_all (\<lambda>ds. length ds \<le> MAX_INSTANCE_COUNT) dss \<Longrightarrow>
    run_state (showAll enc32 r dss) s = (r', s') \<Longrightarrow>
    renderer_ready (gl_machine_after (gl_calls s')) r' \<and> r_solidShader r' = r_solidShader r \<and> r_vao r' = r_vao r"
proof (induction dss arbitrary: r s)
  case (Cons ds dss)
  obtain err r1 s1 where run: "run_state (setInstances enc32 r ds) s = ((err, r1), s1)"
    by (metis surj_pair)
  note one = setInstances_ready [OF Cons.prems(1) assms _ run]
  have "length ds \<le> MAX_INSTANCE_COUNT" using Cons.prems(2) by simp
  note one = one [OF this]
  have "run_state (showAll enc32 r1 dss) s1 = (r', s')" using Cons.prems(3) run by simp
  with Cons.IH [OF one(3)] Cons.prems(2) one(4,5) show ?case by simp
qed simp

lemma instance_slice:
  assumes "take 15 (drop (16 * i) buf) = b" and "off + n \<le> 15"
  shows "take n (drop (off + 16 * i) buf) = take n (drop off b)"
  using assms by (simp add: drop_take add.commute min_absorb1 flip: assms(1))

text \<open>A context that answers every request, numbering its objects by the calls made before.\<close>

definition sample_env :: gl_env where
  "sample_env = \<lparr>env_createShader = (\<lambda>h k. Some (length h)), env_createProgram = (\<lambda>h. Some (length h)),
     env_compileStatus = (\<lambda>h k. True), env_shaderInfoLog = (\<lambda>h k. []), env_linkStatus = (\<lambda>h k. True),
     env_programInfoLog = (\<lambda>h k. []), env_attribLocation = (\<lambda>h k name. int (length h)),
     env_uniformLocation = (\<lambda>h k name. Some 0), env_createBuffer = (\<lambda>h. Some (length h)),
     env_createVertexArray = (\<lambda>h. Some (length h))\<rparr>"

definition sample_enc :: "real \<Rightarrow> bytes" where
  "sample_enc v = [word_of_int \<lfloor>v\<rfloor>, word_of_int (\<lfloor>v\<rfloor> div 256), 0, 0]"

definition sample_state :: "string list gl_state" where
  "sample_state = \<lparr>gl_calls = [], gl_log = [], gl_console = []\<rparr>"

definition sample_created :: "DemoRenderer option \<times> string list gl_state" where
  "sample_created = run_state (DemoRenderer_Create sample_enc sample_env (\<lambda>m lv l. l @ [m])) sample_state"

lemma sample_created_run:
  "\<exists>r. fst sample_created = Some r \<and> distinct_locations (sh_attribs (r_solidShader r))"
  by (simp add: sample_created_def DemoRenderer_Create_def SolidShader_Create_def createProgram_def
      createStaticVertexBuffer_def createDynamicVertexBuffer_def SolidShader_createVao_def sample_env_def sample_state_def
      distinct_locations_def Let_def)

text \<open>
  C19. What the GPU reads is what the page asked to show. For a renderer that was created, with
  any game states shown before, showing at most 200 dots succeeds, makes that many instances,
  and the vertex array object then delivers for instance \<open>i\<close> the position \<open>(x, 400 - y)\<close>,
  the radius and the three colour bytes of the \<open>i\<close>-th dot: the bytes written by
  \<open>setInstances\<close> and the strides and offsets declared by \<open>createVao\<close> agree.
\<close>

theorem dots_reach_gpu:
  assumes "run_state (DemoRenderer_Create enc32 E logFn) s = (Some r, s1)"
    and "distinct_locations (sh_attribs (r_solidShader r))" and "\<And>v. length (enc32 v) = 4"
    and "list_all (\<lambda>ds. length ds \<le> 200) (before @ [ds])"
    and "run_state (showAll enc32 r before) s1 = (r1, s2)"
    and "run_state (setInstances enc32 r1 ds) s2 = ((err, r2), s3)" and "i < length ds"
  shows "err = None \<and> r_instanceCt r2 = length ds \<and>
    (let m = gl_machine_after (gl_calls s3); vao = Some (r_vao r2); a = sh_attribs (r_solidShader r2); d = ds ! i
     in gl_fetch m vao (ShapeLocation a) v i = Some (enc32 (dot_x d) @ enc32 (400 - dot_y d)) \<and>
        gl_fetch m vao (ShapeRadius a) v i = Some (enc32 (dot_radius d)) \<and>
        gl_fetch m vao (ShapeColor a) v i =
          Some [color_at (dot_color d) 0, color_at (dot_color d) 1, color_at (dot_color d) 2])"
proof -
  have "renderer_ready (gl_machine_after (gl_calls s2)) r1"
    using showAll_ready [OF assms(3) create_ready [OF assms(1,2)] _ assms(5)] assms(4) by (simp add: MAX_INSTANCE_COUNT_def)
  note set = setInstances_ready [OF this assms(3) _ assms(6)]
  have "length ds \<le> MAX_INSTANCE_COUNT" using assms(4) by (simp add: MAX_INSTANCE_COUNT_def)
  note set = set [OF this]
  let ?m = "gl_machine_after (gl_calls s3)"
  obtain buf where buf: "m_buffers ?m (r_gpuInstanceBuffer r2) = Some buf" "length buf = 3200"
    "take 15 (drop (16 * i) buf) = instance_bytes enc32 (ds ! i)"
    using set(6) assms(7) by auto
  have bound: "16 * i + 16 \<le> 3200" using assms(4,7) by simp
  note slice = instance_slice [OF buf(3), of 0 8] instance_slice [OF buf(3), of 8 4] instance_slice [OF buf(3), of 12 3]
  show ?thesis
    using set(1,2,3) buf(1,2) bound slice assms(3)
    by (simp add: renderer_ready_def Let_def gl_fetch_def instance_pointer_def instance_bytes_def)
qed

theorem dots_reach_gpu_witness:
  "\<exists>r r2 s3. fst sample_created = Some r \<and>
     run_state (setInstances sample_enc r DEFAULT_DOT_STATE) (snd sample_created) = ((None, r2), s3) \<and>
     gl_fetch (gl_machine_after (gl_calls s3)) (Some (r_vao r2)) (ShapeColor (sh_attribs (r_solidShader r2))) 0 0 =
       Some [229, 47, 15]"
proof -
  obtain r where r: "fst sample_created = Some r" "distinct_locations (sh_attribs (r_solidShader r))"
    using sample_created_run by blast
  have run: "run_state (DemoRenderer_Create sample_enc sample_env (\<lambda>m lv l. l @ [m])) sample_state =
      (Some r, snd sample_created)"
    using r(1) by (simp add: sample_created_def prod_eq_iff)
  obtain err r2 s3 where set: "run_state (setInstances sample_enc r DEFAULT_DOT_STATE) (snd sample_created) = ((err, r2), s3)"
    by (metis surj_pair)
  have "err = None \<and> gl_fetch (gl_machine_after (gl_calls s3)) (Some (r_vao r2)) (ShapeColor (sh_attribs (r_solidShader r2))) 0 0 =
      Some [229, 47, 15]"
    using dots_reach_gpu [OF run r(2) _ _ _ set, of "[]" 0 0]
    by (simp add: sample_enc_def DEFAULT_DOT_STATE_def COLORS_Red_def color_at_def Let_def)
  then show ?thesis using r(1) set by blast
qed

lemma instancesLoop_append:
  "instancesLoop enc32 i (xs @ ys) buf =
    (case instancesLoop enc32 i xs buf of (err, b) \<Rightarrow>
      if err = None then instancesLoop enc32 (i + length xs) ys b else (err, b))"
proof (induction xs arbitrary: i buf)
  case (Cons d xs)
  then show ?case
    by (cases "f32_view buf (16 * i)") (auto simp: Let_def split: sum.splits prod.splits)
qed simp

text \<open>
  C39. Showing more than 200 dots throws a \<open>RangeError\<close>: the loop runs over all dots given, not
  over the first 200, and the byte view of the 201st lies outside the buffer. Nothing is
  uploaded and the number of instances drawn stays what it was.
\<close>

theorem too_many_dots_throw:
  assumes "renderer_ready (gl_machine_after (gl_calls s)) r" and "\<And>v. length (enc32 v) = 4" and "200 < length ds"
  shows "\<exists>buf. run_state (setInstances enc32 r ds) s = ((Some RangeError, r\<lparr>r_cpuInstanceBuffer := buf\<rparr>), s)"
proof -
  have cpu: "length (r_cpuInstanceBuffer r) = 3200" using assms(1) by (simp add: renderer_ready_def Let_def)
  obtain buf where b: "instancesLoop enc32 0 (take 200 ds) (r_cpuInstanceBuffer r) = (None, buf)" "length buf = 3200"
    using instancesLoop_ok [of enc32 "r_cpuInstanceBuffer r" 0 "take 200 ds"] assms(2,3) cpu by auto
  obtain d rest where d: "drop 200 ds = d # rest" using assms(3) by (cases "drop 200 ds") auto
  have "fst (instancesLoop enc32 200 (d # rest) buf) = Some RangeError"
    by (simp add: f32_view_def u8_view_def f32_store_def b(2) Let_def)
  then obtain buf' where "instancesLoop enc32 200 (d # rest) buf = (Some RangeError, buf')"
    by (metis prod.collapse)
  then have "instancesLoop enc32 0 (take 200 ds @ drop 200 ds) (r_cpuInstanceBuffer r) = (Some RangeError, buf')"
    unfolding instancesLoop_append b(1) d using assms(3) by (simp del: instancesLoop.simps)
  then show ?thesis by (auto simp: setInstances_def Let_def)
qed

theorem too_many_dots_throw_witness:
  "\<exists>r buf. fst sample_created = Some r \<and>
     run_state (setInstances sample_enc r (replicate 201 (hd DEFAULT_DOT_STATE))) (snd sample_created) =
       ((Some RangeError, r\<lparr>r_cpuInstanceBuffer := buf\<rparr>), snd sample_created)"
proof -
  obtain r where r: "fst sample_created = Some r" "distinct_locations (sh_attribs (r_solidShader r))"
    using sample_created_run by blast
  have "run_state (DemoRenderer_Create sample_enc sample_env (\<lambda>m lv l. l @ [m])) sample_state = (Some r, snd sample_created)"
    using r(1) by (simp add: sample_created_def prod_eq_iff)
  note ready = create_ready [OF this r(2)]
  show ?thesis
    using too_many_dots_throw [OF ready, of sample_enc "replicate 201 (hd DEFAULT_DOT_STATE)"] r(1)
    by (simp add: sample_enc_def)
qed

section \<open>Clicks and dots share one coordinate system\<close>

text \<open>
  Where a point of the shader's output lands in the canvas rectangle, in the coordinates of the
  page: the viewport maps \<open>-1 .. 1\<close> to the canvas, upwards.
\<close>

definition on_screen :: "rect \<Rightarrow> real \<times> real \<Rightarrow> real \<times> real" where
  "on_screen rect ndc = (rect_left rect + (fst ndc + 1) / 2 * rect_width rect,
     rect_top rect + (1 - snd ndc) / 2 * rect_height rect)"

text \<open>
  A dot whose centre is the position reported for a click is drawn where the user clicked:
  the click mapping of the canvas, the vertical flip of the instance buffer and the projection
  of the vertex shader cancel out, for every size and place of the canvas.
\<close>

theorem click_draw_same_place:
  assumes "0 < rect_width rect" and "0 < rect_height rect" and "(x, y) = DemoCanvas_onClick rect (cx, cy)"
  shows "on_screen rect (vs_main (0, 0) radius (x, 400 - y) (400, 400)) = (cx, cy)"
  using assms by (simp add: on_screen_def vs_main_def DemoCanvas_onClick_def field_simps)

theorem click_draw_same_place_witness:
  "on_screen \<lparr>rect_left = 10, rect_top = 20, rect_width = 800, rect_height = 800\<rparr>
     (vs_main (0, 0) 20 (100, 400 - 50) (400, 400)) = (210, 120)"
  using click_draw_same_place [of "\<lparr>rect_left = 10, rect_top = 20, rect_width = 800, rect_height = 800\<rparr>" 100 50 210 120]
  by (simp add: DemoCanvas_onClick_def)

section \<open>The animation loop\<close>

text \<open>The browser runs the frame callback with a pending handle, once.\<close>

definition run_frame ::
  "nat \<Rightarrow> (nat \<times> nat \<times> real) option \<Rightarrow> DemoRenderer \<times> animation \<times> 'l gl_state \<Rightarrow> DemoRenderer \<times> animation \<times> 'l gl_state" where
  "run_frame h canvas = (\<lambda>(r, a, s).
     if h \<in> set (anim_pending a)
     then let ((r', a'), s') = run_state (DemoRenderer_frame canvas r (cancelAnimationFrame h a)) s in (r', a', s')
     else (r, a, s))"

lemma run_frame_pending:
  assumes "anim_pending a = [k]" and "r_raf r = Some k" and "k < anim_next a"
    and "run_frame h canvas (r, a, s) = (r', a', s')"
  shows "\<exists>k'. anim_pending a' = [k'] \<and> r_raf r' = Some k' \<and> k' < anim_next a'"
  using assms by (auto simp: run_frame_def DemoRenderer_frame_def DemoRenderer_start_def requestAnimationFrame_def
      cancelAnimationFrame_def SolidShader_draw_def Let_def split: if_splits prod.splits)

text \<open>
  A started renderer always has exactly one frame scheduled, whichever frames the browser
  runs; destroying it leaves none, and no later frame callback draws anything.
\<close>

theorem destroy_stops_animation:
  assumes "(r, a, s) = fold (\<lambda>(h, c). run_frame h c) frames (r1, a1, s0)"
    and "(r1, a1) = DemoRenderer_start r0 \<lparr>anim_pending = [], anim_next = n\<rparr>"
  shows "length (anim_pending a) = 1 \<and> anim_pending (DemoRenderer_destroy r a) = [] \<and>
    run_frame h c (r, DemoRenderer_destroy r a, s) = (r, DemoRenderer_destroy r a, s)"
proof -
  have "\<exists>k. anim_pending a = [k] \<and> r_raf r = Some k \<and> k < anim_next a"
    if "(r, a, s) = fold (\<lambda>(h, c). run_frame h c) fs (q, b, t)" and "\<exists>k. anim_pending b = [k] \<and> r_raf q = Some k \<and> k < anim_next b"
    for fs q b t
    using that
  proof (induction fs arbitrary: q b t)
    case (Cons f fs)
    obtain q' b' t' where run: "run_frame (fst f) (snd f) (q, b, t) = (q', b', t')" by (metis surj_pair)
    show ?case
      by (rule Cons.IH [of q' b' t']) (use Cons.prems run run_frame_pending in \<open>auto simp: case_prod_unfold\<close>)
  qed simp
  from this [OF assms(1)] assms(2) obtain k where "anim_pending a = [k]" "r_raf r = Some k"
    by (auto simp: DemoRenderer_start_def requestAnimationFrame_def)
  then show ?thesis by (simp add: DemoRenderer_destroy_def cancelAnimationFrame_def run_frame_def)
qed

theorem destroy_stops_animation_witness:
  "let r0 = the (fst sample_created); (r1, a1) = DemoRenderer_start r0 \<lparr>anim_pending = [], anim_next = 4\<rparr>;
       (r, a, s) = run_frame 4 None (r1, a1, sample_state)
   in anim_pending (DemoRenderer_destroy r a) = []"
proof -
  define r1 where "r1 = fst (DemoRenderer_start (the (fst sample_created)) \<lparr>anim_pending = [], anim_next = 4\<rparr>)"
  define a1 where "a1 = snd (DemoRenderer_start (the (fst sample_created)) \<lparr>anim_pending = [], anim_next = 4\<rparr>)"
  obtain r a s where run: "run_frame 4 None (r1, a1, sample_state) = (r, a, s)" by (metis surj_pair)
  have "anim_pending (DemoRenderer_destroy r a) = []"
    using destroy_stops_animation [of r a s "[(4, None)]" r1 a1 sample_state "the (fst sample_created)" 4] run
    by (simp add: r1_def a1_def)
  then show ?thesis using run by (simp add: r1_def a1_def Let_def case_prod_unfold)
qed

end
