(* ===== verification/Page_View.thy ===== *)
theory Page_View
  imports Widgets Demo_Page Renderer
begin

text \<open>
  The rendered page: what \<open>Console.tsx\<close>, \<open>DemoCanvas.tsx\<close>, \<open>DemoPage.tsx\<close> and \<open>App.tsx\<close> put into
  the document. The state of the page and of the components on it is the record \<open>ui\<close>; a
  step is an event on any element of the tree, the settling of a connection attempt, or
  something that the timer or the network does. The theorem at the end relates these steps to the
  transition systems of the form and of the page.
\<close>

section \<open>Console.tsx\<close>

fun console_css :: "console_style \<Rightarrow> css" where
  "console_css CONSOLE_WARN = [(''color'', ''#eed202'')]"
| "console_css CONSOLE_ERROR = [(''color'', ''#cc3300'')]"
| "console_css CONSOLE_INFO = [(''color'', ''#40a6ce'')]"
| "console_css CONSOLE_USER_CHAT = [(''color'', ''#2ced0e'')]"

definition row_element :: "console_row \<Rightarrow> 's element" where
  "row_element r =
     plain ''span'' []
       [plain ''span'' [(''color'', ''#aaa''), (''borderRight'', ''1px solid #eee''), (''marginRight'', ''1ch''),
            (''paddingRight'', ''0.25ch''), (''marginLeft'', ''0.5ch'')] [TextNode (js_nat_string (row_number r))],
        Element ''span'' [(''id'', row_id r)] (spread [] (case row_style r of None \<Rightarrow> [] | Some st \<Rightarrow> console_css st))
          inert_handlers [TextNode (row_text r)],
        plain ''br'' [] []]"

definition Console_element :: "log_line list \<Rightarrow> 's element" where
  "Console_element lines =
     plain ''div'' [(''height'', ''200px''), (''resize'', ''both''), (''width'', ''80ch''), (''maxWidth'', ''200ch''),
         (''backgroundColor'', ''#282A36''), (''borderRadius'', ''4px''), (''border'', ''1px solid #aaa''),
         (''fontFamily'', [CHR 0x27] @ ''Courier New'' @ [CHR 0x27] @ '', Courier, monospace''), (''padding'', ''4px''),
         (''margin'', ''8px''), (''overflow'', ''scroll''), (''textOverflow'', ''ellipsis''), (''whiteSpace'', ''nowrap'')]
       (map row_element (Console lines) @ [plain ''div'' [] []])"

section \<open>DemoCanvas.tsx\<close>

text \<open>
  The target of a click is the canvas itself, since its only child is the text for browsers
  without one. \<open>rect\<close> is its place on the screen.
\<close>

definition DemoCanvas_element :: "rect \<Rightarrow> (real \<Rightarrow> real \<Rightarrow> 's \<Rightarrow> 's) \<Rightarrow> 's element" where
  "DemoCanvas_element rect onClick =
     Element ''canvas'' []
       [(''backgroundColor'', ''#357''), (''width'', ''400px''), (''height'', ''400px''), (''margin'', ''12px''),
        (''alignSelf'', ''center'')]
       (\<lambda>e s. case e of
          ClickEvent client \<Rightarrow> (let (x, y) = DemoCanvas_onClick rect client in onClick x y s)
        | _ \<Rightarrow> s)
       [TextNode ''HTML5 Canvas not supported!'']"

section \<open>DemoPage.tsx\<close>

record 'f ui =
  ui_page :: "'f page"
  ui_form :: setup_form
  ui_attempts :: "attempt list"
  ui_hover :: bool         \<comment> \<open>of the button of \<open>ConnectionStateComponent\<close>\<close>
  ui_chat :: string
  ui_chatHover :: bool

definition ui_initial :: "'f ui" where
  "ui_initial = \<lparr>ui_page = DemoPage_initial, ui_form = SetupConnection_initial, ui_attempts = [], ui_hover = False,
     ui_chat = '''', ui_chatHover = False\<rparr>"

text \<open>The parts of the state that the two components on the page work on.\<close>

definition get_form :: "'f ui \<Rightarrow> 'f page setup_state \<times> bool" where
  "get_form u = ((ui_form u, ui_attempts u, ui_page u), ui_hover u)"

definition put_form :: "'f page setup_state \<times> bool \<Rightarrow> 'f ui \<Rightarrow> 'f ui" where
  "put_form = (\<lambda>((s, as, p), h) u. u\<lparr>ui_form := s, ui_attempts := as, ui_page := p, ui_hover := h\<rparr>)"

definition get_chat :: "'f ui \<Rightarrow> (string \<times> 'f page) \<times> bool" where
  "get_chat u = ((ui_chat u, ui_page u), ui_chatHover u)"

definition put_chat :: "(string \<times> 'f page) \<times> bool \<Rightarrow> 'f ui \<Rightarrow> 'f ui" where
  "put_chat = (\<lambda>((chat, p), h) u. u\<lparr>ui_chat := chat, ui_page := p, ui_chatHover := h\<rparr>)"

interpretation form_part: state_part get_form put_form
  by unfold_locales (auto simp: get_form_def put_form_def split: prod.split)

interpretation chat_part: state_part get_chat put_chat
  by unfold_locales (auto simp: get_chat_def put_chat_def split: prod.split)

definition OuterContainer :: "'s element list \<Rightarrow> 's element" where
  "OuterContainer children =
     plain ''div'' [(''border'', ''4px solid #fff''), (''borderRadius'', ''8px''), (''display'', ''flex''),
       (''flexDirection'', ''column''), (''maxWidth'', ''800px''), (''marginLeft'', ''auto''), (''marginRight'', ''auto'')]
       children"

text \<open>\<open>num\<close> is a coordinate as a number of the FlatBuffers package.\<close>

definition DemoPage_element ::
  "('s, 'f::zero) fb_builder \<Rightarrow> (real \<Rightarrow> 'f) \<Rightarrow> rect \<Rightarrow> 'f ui \<Rightarrow> 'f ui element" where
  "DemoPage_element B num rect u =
     OuterContainer
       ([plain ''span'' [(''alignSelf'', ''center''), (''fontSize'', ''24pt''), (''fontWeight'', ''700''), (''marginTop'', ''4px'')]
           [TextNode ''Hello Spanreed Client''],
         DemoCanvas_element rect (\<lambda>x y u. u\<lparr>ui_page := onClickCanvas B (num x) (num y) (ui_page u)\<rparr>),
         embed get_form put_form (ConnectionState_element LogFn setConnection (page_connection (ui_page u)) (ui_form u) (ui_hover u))] @
        (case page_connection (ui_page u) of
           None \<Rightarrow> []
         | Some c \<Rightarrow> [embed get_chat put_chat (ChatBox_element (onSubmitChat B) (conn_userName c) (ui_chat u) (ui_chatHover u))]) @
        [Console_element (page_lines (ui_page u))])"

text \<open>
  When the page goes from no connection to a connection or back, React mounts the other component and
  with it a fresh state; the chat box comes and goes with the connection.
\<close>

definition remount :: "'f ui \<Rightarrow> 'f ui \<Rightarrow> 'f ui" where
  "remount old new =
     (if (page_connection (ui_page old) = None) = (page_connection (ui_page new) = None) then new
      else new\<lparr>ui_form := SetupConnection_initial, ui_hover := False, ui_chat := '''', ui_chatHover := False\<rparr>)"

section \<open>App.tsx\<close>

text \<open>What the document's container, if there is one, is given to show.\<close>

definition bootstrapApp :: "(string \<Rightarrow> 'container option) \<Rightarrow> ('s, 'f::zero) fb_builder \<Rightarrow> (real \<Rightarrow> 'f) \<Rightarrow> rect \<Rightarrow>
    ('container \<times> 'f ui element) option" where
  "bootstrapApp getElementById B num rect =
     (case getElementById ''app'' of
        None \<Rightarrow> None
      | Some container \<Rightarrow> Some (container, DemoPage_element B num rect ui_initial))"

section \<open>The rendered page as a transition system\<close>

text \<open>
  The object of a successful attempt is a new one. Timer and network, the steps of \<open>page_step\<close>, never
  open a connection.
\<close>

inductive ui_step ::
  "('s, 'f::zero) fb_builder \<Rightarrow> ('bb, 'f) fb_reader \<Rightarrow> url_check \<Rightarrow> (real \<Rightarrow> 'f) \<Rightarrow> 'f ui \<Rightarrow> 'f ui \<Rightarrow> bool"
  for B R urlError num where
  user: "ui_step B R urlError num u (remount u (dispatch path e (DemoPage_element B num rect u) u))"
| settle:
    "ui_attempts u = before @ a # after \<Longrightarrow>
     attempt_result B R urlError k LogFn a events race resp (ui_page u) = (Some res, p1) \<Longrightarrow>
     onClickConnect_settle LogFn setConnection a res (ui_form u, p1) = (s', p2) \<Longrightarrow>
     (\<forall>c. res = Inr c \<longrightarrow> \<not> attached_by_page (ui_page u) c) \<Longrightarrow>
     ui_step B R urlError num u (remount u (u\<lparr>ui_form := s', ui_attempts := before @ after, ui_page := p2\<rparr>))"
| background:
    "page_step B R (ui_page u) p' \<Longrightarrow> page_connection p' = None \<or> page_connection p' = page_connection (ui_page u) \<Longrightarrow>
     ui_step B R urlError num u (remount u (u\<lparr>ui_page := p'\<rparr>))"

lemma inert_console [simp]: "inert (Console_element lines)"
  by (simp add: Console_element_def row_element_def list_all_iff)

definition ui_inv :: "('s, 'f::zero) fb_builder \<Rightarrow> ('bb, 'f) fb_reader \<Rightarrow> 'f ui \<Rightarrow> bool" where
  "ui_inv B R u \<longleftrightarrow> (page_step B R)\<^sup>*\<^sup>* DemoPage_initial (ui_page u) \<and>
     setup_inv (ui_form u, ui_attempts u, ui_page u) \<and>
     (ui_attempts u \<noteq> [] \<longrightarrow> page_connection (ui_page u) = None)"

lemma setup_inv_page: "setup_inv (s, as, l) \<Longrightarrow> setup_inv (s, as, l')"
  by (simp add: setup_inv_def)

lemma setup_inv_idle [simp]: "setup_inv (SetupConnection_initial, [], l)"
  by (simp add: setup_inv_def SetupConnection_initial_def)

lemma ui_inv_form: "ui_inv B R u \<Longrightarrow> setup_inv (ui_form u, ui_attempts u, l)"
  unfolding ui_inv_def by (blast intro: setup_inv_page)

text \<open>Remounting keeps the invariant when the page and the form moved by their own steps.\<close>

lemma ui_inv_remount:
  assumes "ui_inv B R u" and "(page_step B R)\<^sup>*\<^sup>* (ui_page u) (ui_page v)"
    and "setup_inv (ui_form v, ui_attempts v, ui_page v)"
    and "ui_attempts v \<noteq> [] \<Longrightarrow> page_connection (ui_page u) = None \<and> page_connection (ui_page v) = None"
  shows "ui_inv B R (remount u v)"
proof -
  have "(page_step B R)\<^sup>*\<^sup>* DemoPage_initial (ui_page v)" using assms(1,2) unfolding ui_inv_def by (meson rtranclp_trans)
  then show ?thesis using assms(3,4) by (cases "ui_attempts v = []") (auto simp: ui_inv_def remount_def)
qed

lemma log_keeps [simp]: "page_connection (LogFn m lv p) = page_connection p" "page_calls (LogFn m lv p) = page_calls p"
  by (simp_all add: LogFn_def Let_def)

text \<open>An event on an element of the page.\<close>

lemma page_event_outcome:
  obtains "dispatch path e (DemoPage_element B num rect u) u = u"
    | x y where "dispatch path e (DemoPage_element B num rect u) u = u\<lparr>ui_page := onClickCanvas B x y (ui_page u)\<rparr>"
    | p where "dispatch path e (DemoPage_element B num rect u) u = put_form (dispatch p e
        (ConnectionState_element LogFn setConnection (page_connection (ui_page u)) (ui_form u) (ui_hover u)) (get_form u)) u"
    | p c where "page_connection (ui_page u) = Some c" and "dispatch path e (DemoPage_element B num rect u) u = put_chat (dispatch p e
        (ChatBox_element (onSubmitChat B) (conn_userName c) (ui_chat u) (ui_chatHover u)) (get_chat u)) u"
proof (cases path)
  case Nil
  then show thesis by (intro that(1)) (simp add: DemoPage_element_def OuterContainer_def dispatch_plain)
next
  case (Cons i p)
  note defs = Cons DemoPage_element_def OuterContainer_def dispatch_plain
  consider "i = 0" | "i = 1" | "i = 2" | "i = 3" "page_connection (ui_page u) \<noteq> None" | "i = 3" "page_connection (ui_page u) = None"
    | "i = 4" | "5 \<le> i" by linarith
  then show thesis
  proof cases
    case 2
    have "dispatch path e (DemoPage_element B num rect u) u = (case e of
        ClickEvent client \<Rightarrow> u\<lparr>ui_page := onClickCanvas B (num (fst (DemoCanvas_onClick rect client)))
          (num (snd (DemoCanvas_onClick rect client))) (ui_page u)\<rparr> | _ \<Rightarrow> u)"
      by (simp add: 2 defs DemoCanvas_element_def dispatch_outer split_beta split: dom_event.split)
    then show thesis using that(1,2) by (cases e) auto
  next
    case 3
    show thesis by (rule that(3) [of p]) (simp add: 3 defs form_part.dispatch_embed)
  next
    case 4
    then obtain c where c: "page_connection (ui_page u) = Some c" by blast
    show thesis by (rule that(4) [OF c, of p]) (simp add: 4(1) c defs chat_part.dispatch_embed)
  qed (rule that(1), auto simp: defs split: option.split)+
qed

lemma ui_inv_connection:
  assumes inv: "ui_inv B R u"
  shows "ui_inv B R (remount u (put_form (dispatch p e
    (ConnectionState_element LogFn setConnection (page_connection (ui_page u)) (ui_form u) (ui_hover u)) (get_form u)) u))"
proof (cases "page_connection (ui_page u)")
  case None
  obtain s as l h where t: "dispatch p e (SetupConnection_element LogFn (ui_form u) (ui_hover u)) (get_form u) = ((s, as, l), h)"
    by (metis surj_pair)
  then have event: "fst (dispatch p e (SetupConnection_element LogFn (ui_form u) (ui_hover u))
      ((ui_form u, ui_attempts u, ui_page u), ui_hover u)) = (s, as, l)" by (simp add: get_form_def)
  have "setup_inv (s, as, l)"
    using form_event_step [OF event, of B R "\<lambda>_. None" setConnection] inv setup_step_inv unfolding ui_inv_def by blast
  moreover have "l = ui_page u \<or> (\<exists>m. l = LogFn m None (ui_page u))"
    using form_event_page [OF event] by (auto simp: WrapLogFn_def)
  ultimately show ?thesis using None
    by (intro ui_inv_remount [OF inv])
      (auto simp: ConnectionState_element_def t put_form_def intro: page_step.form_logs)
next
  case (Some c)
  obtain l h where t: "dispatch p e (StatusLine_element c setConnection (ui_hover u)) (ui_page u, ui_hover u) = (l, h)"
    by (metis surj_pair)
  then have "l = ui_page u \<or> l = onClickClose setConnection (ui_page u)"
    using status_dispatch [of p e c setConnection "ui_hover u" "ui_page u" "ui_hover u"] by (auto split: dom_event.splits if_splits)
  moreover have "setup_inv (ui_form u, ui_attempts u, l)" "ui_attempts u = []"
    using inv ui_inv_form [OF inv, of l] Some by (auto simp: ui_inv_def)
  ultimately show ?thesis using Some t
    by (intro ui_inv_remount [OF inv])
      (auto simp: ConnectionState_element_def status_part.dispatch_embed put_form_def get_form_def intro: page_step.close_clicked)
qed

lemma ui_inv_user:
  assumes inv: "ui_inv B R u"
  shows "ui_inv B R (remount u (dispatch path e (DemoPage_element B num rect u) u))"
proof (cases rule: page_event_outcome [of path e B num rect u])
  case 1
  then show ?thesis using inv by (simp add: remount_def)
next
  case (2 x y)
  have "page_connection (onClickCanvas B x y (ui_page u)) = page_connection (ui_page u)"
    by (simp add: onClickCanvas_def do_call_def split: option.split)
  then show ?thesis using inv ui_inv_form [OF inv, of "onClickCanvas B x y (ui_page u)"] unfolding 2
    by (intro ui_inv_remount [OF inv]) (auto simp: ui_inv_def intro: page_step.click_canvas)
next
  case (3 p)
  then show ?thesis using ui_inv_connection [OF inv] by simp
next
  case (4 p c)
  obtain chat l h where t: "dispatch p e (ChatBox_element (onSubmitChat B) (conn_userName c) (ui_chat u) (ui_chatHover u)) (get_chat u) =
      ((chat, l), h)" by (metis surj_pair)
  then have "l = ui_page u \<or> (\<exists>text. l = onSubmitChat B text (ui_page u))"
    using chat_box_dispatch [of p e "onSubmitChat B" "conn_userName c" "ui_chat u" "ui_chatHover u" "ui_page u" "ui_chatHover u"]
    by (auto simp: get_chat_def ChatBox_onClickSubmit_def ChatBox_onChange_def ChatBox_onKeyDown_def Button_onClick_def
        split: dom_event.splits if_splits)
  moreover have "ui_attempts u = []" using inv 4(1) by (auto simp: ui_inv_def)
  ultimately show ?thesis using inv ui_inv_form [OF inv, of l] unfolding 4(2) t
    by (intro ui_inv_remount [OF inv]) (auto simp: put_chat_def intro: page_step.submit_chat)
qed

lemma ui_inv_settle:
  assumes "ui_inv B R u" and "ui_attempts u = before @ a # after"
    and "attempt_result B R urlError k LogFn a events race resp (ui_page u) = (Some res, p1)"
    and "onClickConnect_settle LogFn setConnection a res (ui_form u, p1) = (s', p2)"
    and "\<forall>c. res = Inr c \<longrightarrow> \<not> attached_by_page (ui_page u) c"
  shows "ui_inv B R (remount u (u\<lparr>ui_form := s', ui_attempts := before @ after, ui_page := p2\<rparr>))"
proof -
  have closed: "page_connection (ui_page u) = None" using assms(1,2) by (simp add: ui_inv_def)
  have logs: "(page_step B R)\<^sup>*\<^sup>* (ui_page u) p1"
    using attempt_logs_keep [of "(page_step B R)\<^sup>*\<^sup>* (ui_page u)" LogFn "ui_page u" B R urlError k a events race resp] assms(3)
    by (auto intro: rtranclp.rtrancl_into_rtrancl page_step.form_logs)
  have "(page_connection p1, page_calls p1) = (page_connection (ui_page u), page_calls (ui_page u))"
    using attempt_only_logs [of "\<lambda>q. (page_connection q, page_calls q)" LogFn B R urlError k a events race resp "ui_page u"] assms(3) by simp
  then have p1: "page_connection p1 = None" "attached_by_page p1 c \<longleftrightarrow> attached_by_page (ui_page u) c" for c
    using closed by (simp_all add: attached_by_page_def)
  have "p2 = (case res of Inr c \<Rightarrow> setConnection (Some c) p1 | Inl x \<Rightarrow> p2) \<and> (isl res \<longrightarrow> (\<exists>m lv. p2 = LogFn m lv p1))"
    using assms(3,4) attempt_result_transport [of B R urlError k LogFn a events race resp "ui_page u" _ p1]
    by (cases res) (auto simp: Let_def WrapLogFn_def split: if_splits Connection.Connection.splits)
  then have "page_step B R p1 p2"
    using assms(5) p1 by (cases res) (auto intro: page_step.form_logs page_step.connected)
  with logs have reach: "(page_step B R)\<^sup>*\<^sup>* (ui_page u) p2" by (rule rtranclp.rtrancl_into_rtrancl)
  have "setup_step B R urlError LogFn setConnection (ui_form u, before @ a # after, ui_page u) (s', before @ after, p2)"
    by (rule setup_step.settle [OF assms(3,4)])
  then have inv: "setup_inv (s', before @ after, p2)"
    by (rule setup_step_inv) (use assms(1,2) in \<open>simp add: ui_inv_def\<close>)
  have "before @ after = []" using assms(1,2) by (auto simp: ui_inv_def setup_inv_def split: if_splits)
  with reach inv show ?thesis by (intro ui_inv_remount [OF assms(1)]) simp_all
qed

lemma ui_inv_step: "ui_step B R urlError num u v \<Longrightarrow> ui_inv B R u \<Longrightarrow> ui_inv B R v"
proof (induction rule: ui_step.induct)
  case (background u p')
  then show ?case using ui_inv_form [OF background(3), of p']
    by (intro ui_inv_remount [OF background(3)]) (auto simp: ui_inv_def)
qed (blast intro: ui_inv_user ui_inv_settle)+

lemma ui_reachable_inv: "(ui_step B R urlError num)\<^sup>*\<^sup>* ui_initial u \<Longrightarrow> ui_inv B R u"
proof (induction rule: rtranclp_induct)
  case base
  show ?case by (simp add: ui_inv_def ui_initial_def)
qed (rule ui_inv_step)

text \<open>
  C6. The rendered page implements the page's transition system: whatever the user does with any
  element on it, and however that interleaves with timer, network and pending connection attempts,
  the page goes through steps of \<open>page_step\<close> only. There is at most one pending attempt, it is
  for the name and the addresses on the screen, and none is pending while there is a connection.
\<close>

theorem rendered_page_refines:
  assumes "(ui_step B R urlError num)\<^sup>*\<^sup>* ui_initial u"
  shows "(page_step B R)\<^sup>*\<^sup>* DemoPage_initial (ui_page u) \<and> length (ui_attempts u) \<le> 1 \<and>
    (ui_attempts u \<noteq> [] \<longrightarrow> form_loading (ui_form u) \<and> page_connection (ui_page u) = None) \<and>
    list_all (\<lambda>a. at_userName a = form_userName (ui_form u) \<and> at_spanUrl a = form_spanUrl (ui_form u) \<and>
      at_destUrl a = form_destUrl (ui_form u)) (ui_attempts u)"
  using ui_reachable_inv [OF assms] by (auto simp: ui_inv_def setup_inv_def list_all_iff split: if_splits)

theorem rendered_page_refines_witness:
  "let u = remount ui_initial (dispatch [2, 2] (ClickEvent (0, 0)) (DemoPage_element wire_builder (\<lambda>x. 0)
     \<lparr>rect_left = 0, rect_top = 0, rect_width = 400, rect_height = 400\<rparr> (ui_initial :: f32 ui)) ui_initial)
   in length (ui_attempts u) \<le> 1 \<and> ui_attempts u \<noteq> [] \<and> form_loading (ui_form u) \<and> page_connection (ui_page u) = None"
proof -
  let ?rect = "\<lparr>rect_left = 0, rect_top = 0, rect_width = 400, rect_height = 400\<rparr>"
  let ?u = "remount ui_initial (dispatch [2, 2] (ClickEvent (0, 0)) (DemoPage_element wire_builder (\<lambda>x. 0) ?rect (ui_initial :: f32 ui)) ui_initial)"
  have reach: "(ui_step wire_builder wire_reader (\<lambda>_. None) (\<lambda>x. 0))\<^sup>*\<^sup>* ui_initial ?u"
    by (intro r_into_rtranclp ui_step.user)
  let ?t = "dispatch [2] (ClickEvent (0, 0)) (SetupConnection_element LogFn SetupConnection_initial False)
    ((SetupConnection_initial, [], DemoPage_initial :: f32 page), False)"
  have init: "ui_form ui_initial = SetupConnection_initial" "ui_attempts ui_initial = []" "ui_page ui_initial = DemoPage_initial"
    "\<not> ui_hover ui_initial" "page_connection DemoPage_initial = None"
    by (simp_all add: ui_initial_def DemoPage_initial_def)
  have "fst ?t = click_connect LogFn (SetupConnection_initial, [], DemoPage_initial)" by (simp add: form_dispatched)
  moreover have "dispatch [2, 2] (ClickEvent (0, 0)) (DemoPage_element wire_builder (\<lambda>x. 0) ?rect ui_initial) ui_initial = put_form ?t ui_initial"
    by (simp add: DemoPage_element_def OuterContainer_def dispatch_plain(2) [of 2 "[2]"] form_part.dispatch_embed
        ConnectionState_element_def init get_form_def)
  ultimately have "ui_attempts ?u = [captured SetupConnection_initial]"
    by (cases ?t) (auto simp: put_form_def remount_def setup_handler_defs SetupConnection_initial_def)
  then show ?thesis using rendered_page_refines [OF reach] by (simp add: Let_def)
qed

section \<open>What the page shows\<close>

lemma form_ids:
  "element_ids (SetupConnection_element logCb s h) = [''tb-username'', ''tb-spanreed-url'', ''tb-backend-url'']"
  using form_shows_state [of logCb s h] by blast

lemma console_ids: "element_ids (Console_element lines) = map row_id (Console lines)"
  by (simp add: Console_element_def row_element_def comp_def)

text \<open>
  No two elements of the page have the same identifier, whatever was logged and whether there
  is a connection or not: the labels of the form and the anchors of the log lines are unambiguous.
\<close>

theorem page_ids_distinct: "distinct (element_ids (DemoPage_element B num rect u))"
proof -
  have log: "distinct (element_ids (Console_element lines))" for lines
    using Console_rows [of lines] by (simp add: console_ids)
  have "set (element_ids (SetupConnection_element logCb s h)) \<inter> set (element_ids (Console_element lines)) = {}"
    for s h lines and logCb :: "'b page LogCb"
    by (auto simp: form_ids console_ids Console_def Console_row_def)
  with log show ?thesis
    by (auto simp: form_ids DemoPage_element_def OuterContainer_def DemoCanvas_element_def ConnectionState_element_def
        StatusLine_element_def ChatBox_element_def Button_element_def split: option.split)
qed

end
