(* ===== verification/Canvas.thy ===== *)
theory Canvas
  imports Renderer
begin

text \<open>
  The lifecycle of the canvas component of \<open>DemoCanvas.tsx\<close>: three effects, the first of which gets
  the WebGL context, the second creates the renderer for it and the third shows the dots. React
  runs the cleanup of an effect before it runs the effect again and when the component is
  removed; an effect that throws removes the component. The browser runs animation frames in
  between.
\<close>

section \<open>State and effects\<close>

text \<open>
  The state variables \<open>gl\<close> and \<open>renderer\<close>; whether the cleanup of the second effect is still to be
  run; the animation frames and the context's state.
\<close>

record 'l canvas_component =
  cv_gl :: "nat option"
  cv_renderer :: "DemoRenderer option"
  cv_live :: bool
  cv_animation :: animation
  cv_context :: "'l gl_state"

text \<open>The first effect: \<open>None\<close> is a reference without an element, \<open>Some None\<close> an element without WebGL 2.\<close>

definition DemoCanvas_acquire :: "nat option option \<Rightarrow> 'l canvas_component \<Rightarrow> 'l canvas_component" where
  "DemoCanvas_acquire current cv = (case current of
     None \<Rightarrow> cv
   | Some None \<Rightarrow> cv
   | Some (Some gl) \<Rightarrow> cv\<lparr>cv_gl := Some gl\<rparr>)"

definition DemoCanvas_release :: "'l canvas_component \<Rightarrow> 'l canvas_component" where
  "DemoCanvas_release cv = cv\<lparr>cv_gl := None\<rparr>"

definition DemoCanvas_destroyRenderer :: "'l canvas_component \<Rightarrow> 'l canvas_component" where
  "DemoCanvas_destroyRenderer cv =
     (if cv_live cv
      then case cv_renderer cv of
          None \<Rightarrow> cv
        | Some renderer \<Rightarrow> cv\<lparr>cv_animation := DemoRenderer_destroy renderer (cv_animation cv), cv_live := False\<rparr>
      else cv)"

text \<open>
  The second effect, with the \<open>DemoCanvas_createRenderer\<close> of theory \<open>Renderer\<close>. When it throws, neither
  the state variable nor the cleanup is set.
\<close>

definition DemoCanvas_glEffect ::
  "(real \<Rightarrow> bytes) \<Rightarrow> gl_env \<Rightarrow> 'l LogCb \<Rightarrow> 'l canvas_component \<Rightarrow> js_error option \<times> 'l canvas_component" where
  "DemoCanvas_glEffect enc32 E logFn cv =
     (case cv_gl cv of
        None \<Rightarrow> (None, cv)
      | Some gl \<Rightarrow>
         (let ((err, renderer, a), s) = run_state (DemoCanvas_createRenderer enc32 E logFn (cv_animation cv)) (cv_context cv);
              cv1 = cv\<lparr>cv_animation := a, cv_context := s\<rparr>
          in case (err, renderer) of
               (None, Some r) \<Rightarrow> (None, cv1\<lparr>cv_renderer := Some r, cv_live := True\<rparr>)
             | _ \<Rightarrow> (err, cv1)))"

text \<open>The third effect.\<close>

definition DemoCanvas_dotsEffect ::
  "('f::{minus, numeral} \<Rightarrow> bytes) \<Rightarrow> 'f dot list option \<Rightarrow> 'l canvas_component \<Rightarrow> js_error option \<times> 'l canvas_component" where
  "DemoCanvas_dotsEffect enc32 dots cv =
     (case (cv_gl cv, cv_renderer cv) of
        (Some gl, Some renderer) \<Rightarrow>
          (let ((err, r), s) = run_state (DemoCanvas_showDots enc32 renderer dots) (cv_context cv)
           in (err, cv\<lparr>cv_renderer := Some r, cv_context := s\<rparr>))
      | _ \<Rightarrow> (None, cv))"

section \<open>The component in a page\<close>

definition canvas_unmount :: "'l canvas_component \<Rightarrow> 'l canvas_component" where
  "canvas_unmount cv = DemoCanvas_destroyRenderer (DemoCanvas_release cv)"

definition canvas_frame :: "nat \<Rightarrow> (nat \<times> nat \<times> real) option \<Rightarrow> 'l canvas_component \<Rightarrow> 'l canvas_component" where
  "canvas_frame h canvas cv = (case cv_renderer cv of
     None \<Rightarrow> cv
   | Some renderer \<Rightarrow>
       (let (r, a, s) = run_frame h canvas (renderer, cv_animation cv, cv_context cv)
        in cv\<lparr>cv_renderer := Some r, cv_animation := a, cv_context := s\<rparr>))"

inductive canvas_step ::
  "(real \<Rightarrow> bytes) \<Rightarrow> gl_env \<Rightarrow> 'l LogCb \<Rightarrow> ('f::{minus, numeral} \<Rightarrow> bytes) \<Rightarrow> 'l canvas_component \<Rightarrow> 'l canvas_component \<Rightarrow> bool"
  for enc32 E logFn enc where
  mount: "\<not> cv_live cv \<Longrightarrow> DemoCanvas_glEffect enc32 E logFn (DemoCanvas_acquire current cv) = (err, cv') \<Longrightarrow>
    canvas_step enc32 E logFn enc cv (if err = None then cv' else canvas_unmount cv')"
| dots: "DemoCanvas_dotsEffect enc ds cv = (err, cv') \<Longrightarrow>
    canvas_step enc32 E logFn enc cv (if err = None then cv' else canvas_unmount cv')"
| frame: "canvas_step enc32 E logFn enc cv (canvas_frame h canvas cv)"
| unmount: "canvas_step enc32 E logFn enc cv (canvas_unmount cv)"

definition canvas_initial :: "nat \<Rightarrow> 'l gl_state \<Rightarrow> 'l canvas_component" where
  "canvas_initial n s = \<lparr>cv_gl = None, cv_renderer = None, cv_live = False,
     cv_animation = \<lparr>anim_pending = [], anim_next = n\<rparr>, cv_context = s\<rparr>"

section \<open>One frame at a time\<close>

text \<open>While the component has a renderer, the renderer's frame is the one that is scheduled.\<close>

definition canvas_inv :: "'l canvas_component \<Rightarrow> bool" where
  "canvas_inv cv \<longleftrightarrow>
     (if cv_live cv
      then \<exists>r k. cv_renderer cv = Some r \<and> anim_pending (cv_animation cv) = [k] \<and> r_raf r = Some k \<and> k < anim_next (cv_animation cv)
      else anim_pending (cv_animation cv) = [])"

lemma setInstances_raf: "r_raf (snd (fst (run_state (setInstances enc32 r ds) s))) = r_raf r"
  by (auto simp: setInstances_def Let_def split: prod.splits option.splits)

lemma Create_buffer:
  assumes "fst (run_state (DemoRenderer_Create enc32 E logFn) s) = Some r"
  shows "length (r_cpuInstanceBuffer r) = 16 * MAX_INSTANCE_COUNT"
  using assms by (auto simp: DemoRenderer_Create_def Let_def case_prod_unfold split: option.splits)

text \<open>The dots that a new renderer shows first always fit.\<close>

lemma default_dots_fit:
  assumes "\<And>v. length (enc32 v) = 4" and "length (r_cpuInstanceBuffer r) = 16 * MAX_INSTANCE_COUNT"
  shows "fst (fst (run_state (setInstances enc32 r DEFAULT_DOT_STATE) s)) = None"
  using instancesLoop_ok [of enc32 "r_cpuInstanceBuffer r" 0 DEFAULT_DOT_STATE, OF assms(1)] assms(2)
  by (auto simp: setInstances_def Let_def MAX_INSTANCE_COUNT_def DEFAULT_DOT_STATE_def case_prod_unfold split: option.splits)

lemma createRenderer_pending:
  assumes "\<And>v. length (enc32 v) = 4" and "run_state (DemoCanvas_createRenderer enc32 E logFn a) s = ((err, renderer, a'), s')"
    and "anim_pending a = []"
  shows "err = None \<and> (case renderer of None \<Rightarrow> anim_pending a' = []
    | Some r \<Rightarrow> \<exists>k. anim_pending a' = [k] \<and> r_raf r = Some k \<and> k < anim_next a')"
proof -
  let ?s = "s\<lparr>gl_log := WrapLogFn ''DemoCanvas'' logFn ''Creating new renderer!'' None (gl_log s)\<rparr>"
  show ?thesis
  proof (cases "fst (run_state (DemoRenderer_Create enc32 E logFn) ?s)")
    case None
    then show ?thesis using assms(2,3) by (simp add: DemoCanvas_createRenderer_def case_prod_unfold)
  next
    case (Some r)
    let ?r = "r\<lparr>r_raf := Some (anim_next a)\<rparr>"
    have "length (r_cpuInstanceBuffer ?r) = 16 * MAX_INSTANCE_COUNT" using Create_buffer [OF Some] by simp
    from default_dots_fit [OF assms(1) this] setInstances_raf [of enc32 ?r DEFAULT_DOT_STATE] Some assms(2,3) show ?thesis
      by (auto simp: DemoCanvas_createRenderer_def DemoRenderer_start_def requestAnimationFrame_def case_prod_unfold Let_def)
  qed
qed

lemma canvas_inv_unmount:
  assumes "canvas_inv cv"
  shows "\<not> cv_live (canvas_unmount cv)" and "anim_pending (cv_animation (canvas_unmount cv)) = []" and "cv_gl (canvas_unmount cv) = None"
  using assms by (auto simp: canvas_inv_def canvas_unmount_def DemoCanvas_release_def DemoCanvas_destroyRenderer_def
      DemoRenderer_destroy_def cancelAnimationFrame_def split: if_splits option.splits)

lemma canvas_inv_step:
  assumes "canvas_step enc32 E logFn enc cv cv'" and "canvas_inv cv" and "\<And>v. length (enc32 v) = 4"
  shows "canvas_inv cv'"
  using assms(1)
proof cases
  case (mount current err cv1)
  show ?thesis
  proof (cases "cv_gl (DemoCanvas_acquire current cv)")
    case None
    then have "err = None" "cv1 = DemoCanvas_acquire current cv" using mount(3) by (simp_all add: DemoCanvas_glEffect_def)
    then show ?thesis using mount(1,2) assms(2) by (simp add: canvas_inv_def DemoCanvas_acquire_def split: option.splits)
  next
    case (Some gl)
    let ?cv = "DemoCanvas_acquire current cv"
    have idle: "anim_pending (cv_animation ?cv) = []" "\<not> cv_live ?cv"
      using mount(2) assms(2) by (simp_all add: canvas_inv_def DemoCanvas_acquire_def split: option.splits)
    obtain err' renderer a s where run: "run_state (DemoCanvas_createRenderer enc32 E logFn (cv_animation ?cv)) (cv_context ?cv) =
        ((err', renderer, a), s)" by (metis surj_pair)
    note made = createRenderer_pending [OF assms(3) run idle(1)]
    show ?thesis
      using mount(1,3) Some made run idle(2)
      by (auto simp: DemoCanvas_glEffect_def canvas_inv_def split: option.splits)
  qed
next
  case (dots ds err cv1)
  have "canvas_inv cv1"
    using dots(2) assms(2)
    by (auto simp: setInstances_raf DemoCanvas_dotsEffect_def DemoCanvas_showDots_def canvas_inv_def Let_def case_prod_unfold split: option.splits if_splits)
  moreover from canvas_inv_unmount [OF this] have "canvas_inv (canvas_unmount cv1)" by (simp add: canvas_inv_def)
  ultimately show ?thesis using dots(1) by simp
next
  case (frame h canvas)
  show ?thesis
  proof (cases "cv_renderer cv")
    case None
    then show ?thesis using frame assms(2) by (simp add: canvas_frame_def)
  next
    case (Some r)
    obtain r' a' s' where run: "run_frame h canvas (r, cv_animation cv, cv_context cv) = (r', a', s')" by (metis surj_pair)
    show ?thesis
    proof (cases "cv_live cv")
      case True
      then obtain k where "anim_pending (cv_animation cv) = [k]" "r_raf r = Some k" "k < anim_next (cv_animation cv)"
        using assms(2) Some by (auto simp: canvas_inv_def)
      from run_frame_pending [OF this run] show ?thesis using frame True Some run by (simp add: canvas_frame_def canvas_inv_def)
    next
      case False
      then have "run_frame h canvas (r, cv_animation cv, cv_context cv) = (r, cv_animation cv, cv_context cv)"
        using assms(2) by (simp add: run_frame_def canvas_inv_def)
      then show ?thesis using frame False Some assms(2) by (simp add: canvas_frame_def canvas_inv_def)
    qed
  qed
next
  case unmount
  then show ?thesis using canvas_inv_unmount [OF assms(2)] by (simp add: canvas_inv_def)
qed

text \<open>
  C20. In every state of the canvas component, whatever frames the browser runs and whatever dots the
  page passes, exactly one frame is scheduled while a renderer is in use and none otherwise; once
  the component is removed nothing is drawn any more, whichever frames the browser still runs.
\<close>

theorem canvas_one_frame:
  assumes "(canvas_step enc32 E logFn enc)\<^sup>*\<^sup>* (canvas_initial n s) cv" and "\<And>v. length (enc32 v) = 4"
  shows "length (anim_pending (cv_animation cv)) = (if cv_live cv then 1 else 0) \<and>
    cv_context (canvas_frame h canvas (canvas_unmount cv)) = cv_context cv \<and>
    (cv_live cv \<longrightarrow> cv_renderer cv \<noteq> None)"
proof -
  have "canvas_inv cv" using assms(1)
  proof (induction rule: rtranclp_induct)
    case base
    show ?case by (simp add: canvas_inv_def canvas_initial_def)
  next
    case (step cv1 cv2)
    then show ?case using canvas_inv_step assms(2) by blast
  qed
  note inv = this canvas_inv_unmount [OF this]
  have "cv_context (canvas_unmount cv) = cv_context cv"
    by (simp add: canvas_unmount_def DemoCanvas_release_def DemoCanvas_destroyRenderer_def split: option.split)
  then have "cv_context (canvas_frame h canvas (canvas_unmount cv)) = cv_context cv"
    using inv(3) by (simp add: canvas_frame_def run_frame_def split: option.split)
  then show ?thesis using inv(1) by (auto simp: canvas_inv_def)
qed

lemma sample_mount:
  "\<exists>cv. DemoCanvas_glEffect sample_enc sample_env (\<lambda>m lv l. l @ [m]) (DemoCanvas_acquire (Some (Some 1)) (canvas_initial 0 sample_state)) =
     (None, cv) \<and> cv_live cv"
proof -
  let ?cv = "DemoCanvas_acquire (Some (Some 1)) (canvas_initial 0 sample_state)"
  let ?s = "sample_state\<lparr>gl_log := WrapLogFn ''DemoCanvas'' (\<lambda>m lv l. l @ [m]) ''Creating new renderer!'' None (gl_log sample_state)\<rparr>"
  obtain err renderer a s where run: "run_state (DemoCanvas_createRenderer sample_enc sample_env (\<lambda>m lv l. l @ [m]) (cv_animation ?cv)) (cv_context ?cv) =
      ((err, renderer, a), s)" by (metis surj_pair)
  have enc: "length (sample_enc v) = 4" for v by (simp add: sample_enc_def)
  have cv: "anim_pending (cv_animation ?cv) = []" "cv_context ?cv = sample_state" "cv_gl ?cv = Some 1"
    by (simp_all add: DemoCanvas_acquire_def canvas_initial_def)
  have err: "err = None" using createRenderer_pending [OF enc run cv(1)] by blast
  have "\<exists>r. fst (run_state (DemoRenderer_Create sample_enc sample_env (\<lambda>m lv l. l @ [m])) ?s) = Some r"
    by (simp add: DemoRenderer_Create_def SolidShader_Create_def createProgram_def
      createStaticVertexBuffer_def createDynamicVertexBuffer_def SolidShader_createVao_def sample_env_def sample_state_def Let_def)
  then obtain r where "renderer = Some r"
    using run cv(2) by (auto simp: DemoCanvas_createRenderer_def case_prod_unfold Let_def)
  then show ?thesis using run err cv(3) by (simp add: DemoCanvas_glEffect_def)
qed

theorem canvas_one_frame_witness:
  "\<exists>cv. (canvas_step sample_enc sample_env (\<lambda>m lv l. l @ [m]) sample_enc)\<^sup>*\<^sup>* (canvas_initial 0 sample_state) cv \<and>
     cv_live cv \<and> length (anim_pending (cv_animation cv)) = 1"
proof -
  obtain cv where cv: "DemoCanvas_glEffect sample_enc sample_env (\<lambda>m lv l. l @ [m])
      (DemoCanvas_acquire (Some (Some 1)) (canvas_initial 0 sample_state)) = (None, cv)" "cv_live cv" using sample_mount by blast
  have "\<not> cv_live (canvas_initial 0 sample_state)" by (simp add: canvas_initial_def)
  from canvas_step.mount [of _ _ _ _ _ _ _ sample_enc, OF this cv(1)]
  have reach: "(canvas_step sample_enc sample_env (\<lambda>m lv l. l @ [m]) sample_enc)\<^sup>*\<^sup>* (canvas_initial 0 sample_state) cv" by simp
  have "length (sample_enc v) = 4" for v by (simp add: sample_enc_def)
  from canvas_one_frame [OF reach this] reach cv(2) show ?thesis by auto
qed

end
