(* ===== verification/Client_Store.thy ===== *)
theory Client_Store
  imports Prelude "HOL-Library.AList"
begin

text \<open>
  \<open>internal/client_store.go\<close>: the table of connected clients of the proxy hub. Every method
  holds the store's mutex from its first line to its last, so that each is one atomic function
  on the store. A Go map is an association list with distinct keys; the order in which a
  \<open>range\<close> loop visits the keys is not fixed by the language and is an argument of the methods
  that loop. Timestamps are integers of microseconds.
\<close>

section \<open>Data\<close>

datatype store_error =
    DuplicateClientIdError client_id
  | MissingClientIdError client_id
  | TooManyClientsError

record ClientConnectionMetadata =
  IsConnected :: bool
  ClientHandlerName :: string
  DestinationHandlerName :: string
  CreatedTime :: int
  LastClientMsgTime :: int
  LastDestinationMsgTime :: int

record ClientStore =
  MaxConnections :: int
  nextClientId :: client_id
  clientConnections :: "(client_id \<times> ClientConnectionMetadata) list"

section \<open>Methods\<close>

definition CreateClientStore :: "int \<Rightarrow> ClientStore" where
  "CreateClientStore maxConnections =
     \<lparr>MaxConnections = maxConnections, nextClientId = 0, clientConnections = []\<rparr>"

text \<open>
  The callback works on a state of its own and may fail; \<open>order\<close> is the order of the visit.
\<close>

fun KickAllClients ::
  "(client_id \<Rightarrow> ClientConnectionMetadata \<Rightarrow> 'p \<Rightarrow> 'e option \<times> 'p) \<Rightarrow> client_id list \<Rightarrow>
   ClientStore \<Rightarrow> 'p \<Rightarrow> 'e option \<times> ClientStore \<times> 'p" where
  "KickAllClients cb [] store p = (None, store, p)"
| "KickAllClients cb (clientId # order) store p =
     (case map_of (clientConnections store) clientId of
        None \<Rightarrow> KickAllClients cb order store p
      | Some clientRecord \<Rightarrow>
         (case cb clientId clientRecord p of
            (Some err, p') \<Rightarrow> (Some err, store, p')
          | (None, p') \<Rightarrow> KickAllClients cb order
              (store\<lparr>clientConnections := AList.delete clientId (clientConnections store)\<rparr>) p'))"

definition GetNewClientId :: "ClientStore \<Rightarrow> client_id \<times> ClientStore" where
  "GetNewClientId store = (nextClientId store + 1, store\<lparr>nextClientId := nextClientId store + 1\<rparr>)"

definition HasClient :: "client_id \<Rightarrow> ClientStore \<Rightarrow> bool" where
  "HasClient clientId store = (map_of (clientConnections store) clientId \<noteq> None)"

definition CreateClient :: "client_id \<Rightarrow> string \<Rightarrow> int \<Rightarrow> ClientStore \<Rightarrow> store_error option \<times> ClientStore" where
  "CreateClient clientId clientHandlerName timestamp store =
     (if map_of (clientConnections store) clientId \<noteq> None then (Some (DuplicateClientIdError clientId), store)
      else if int (length (clientConnections store)) \<ge> MaxConnections store then (Some TooManyClientsError, store)
      else (None, store\<lparr>clientConnections := AList.update clientId
             \<lparr>IsConnected = False, ClientHandlerName = clientHandlerName, DestinationHandlerName = [],
              CreatedTime = timestamp, LastClientMsgTime = timestamp, LastDestinationMsgTime = timestamp\<rparr>
             (clientConnections store)\<rparr>))"

definition RemoveClient :: "client_id \<Rightarrow> ClientStore \<Rightarrow> ClientStore" where
  "RemoveClient clientId store = store\<lparr>clientConnections := AList.delete clientId (clientConnections store)\<rparr>"

definition Connect :: "client_id \<Rightarrow> ClientStore \<Rightarrow> store_error option \<times> ClientStore" where
  "Connect clientId store = (case map_of (clientConnections store) clientId of
     None \<Rightarrow> (Some (MissingClientIdError clientId), store)
   | Some connection \<Rightarrow> (None, store\<lparr>clientConnections :=
       AList.update clientId (connection\<lparr>IsConnected := True\<rparr>) (clientConnections store)\<rparr>))"

text \<open>The method of this name reads the record and returns \<open>true\<close> without looking at the flag.\<close>

definition ClientStore_IsConnected :: "client_id \<Rightarrow> ClientStore \<Rightarrow> bool" where
  "ClientStore_IsConnected clientId store = (case map_of (clientConnections store) clientId of
     None \<Rightarrow> False | Some connection \<Rightarrow> True)"

definition SetDestinationHandlerName :: "client_id \<Rightarrow> string \<Rightarrow> ClientStore \<Rightarrow> store_error option \<times> ClientStore" where
  "SetDestinationHandlerName clientId destinationHandlerName store =
     (case map_of (clientConnections store) clientId of
        None \<Rightarrow> (Some (MissingClientIdError clientId), store)
      | Some connection \<Rightarrow> (None, store\<lparr>clientConnections := AList.update clientId
          (connection\<lparr>DestinationHandlerName := destinationHandlerName\<rparr>) (clientConnections store)\<rparr>))"

definition GetDestinationHandlerName :: "client_id \<Rightarrow> ClientStore \<Rightarrow> store_error + string" where
  "GetDestinationHandlerName clientId store = (case map_of (clientConnections store) clientId of
     None \<Rightarrow> Inl (MissingClientIdError clientId) | Some connection \<Rightarrow> Inr (DestinationHandlerName connection))"

definition GetClientHandlerName :: "client_id \<Rightarrow> ClientStore \<Rightarrow> store_error + string" where
  "GetClientHandlerName clientId store = (case map_of (clientConnections store) clientId of
     None \<Rightarrow> Inl (MissingClientIdError clientId) | Some connection \<Rightarrow> Inr (ClientHandlerName connection))"

definition SetClientRecvTimestamp :: "client_id \<Rightarrow> int \<Rightarrow> ClientStore \<Rightarrow> store_error option \<times> ClientStore" where
  "SetClientRecvTimestamp clientId timestamp store = (case map_of (clientConnections store) clientId of
     None \<Rightarrow> (Some (MissingClientIdError clientId), store)
   | Some connection \<Rightarrow> (None, store\<lparr>clientConnections := AList.update clientId
       (connection\<lparr>LastClientMsgTime := timestamp\<rparr>) (clientConnections store)\<rparr>))"

definition SetDestinationRecvTimestamp :: "client_id \<Rightarrow> int \<Rightarrow> ClientStore \<Rightarrow> store_error option \<times> ClientStore" where
  "SetDestinationRecvTimestamp clientId timestamp store = (case map_of (clientConnections store) clientId of
     None \<Rightarrow> (Some (MissingClientIdError clientId), store)
   | Some connection \<Rightarrow> (None, store\<lparr>clientConnections := AList.update clientId
       (connection\<lparr>LastDestinationMsgTime := timestamp\<rparr>) (clientConnections store)\<rparr>))"

fun GetTimeoutClientList :: "int \<Rightarrow> int \<Rightarrow> int \<Rightarrow> client_id list \<Rightarrow> ClientStore \<Rightarrow> client_id list" where
  "GetTimeoutClientList clientMsgDeadline destinationMsgDeadline connectionDeadline [] store = []"
| "GetTimeoutClientList clientMsgDeadline destinationMsgDeadline connectionDeadline (clientId # order) store =
     (let rest = GetTimeoutClientList clientMsgDeadline destinationMsgDeadline connectionDeadline order store
      in case map_of (clientConnections store) clientId of
           None \<Rightarrow> rest
         | Some connection \<Rightarrow>
             (if CreatedTime connection < connectionDeadline \<or> LastClientMsgTime connection < clientMsgDeadline \<or>
                 LastDestinationMsgTime connection < destinationMsgDeadline
              then clientId # rest else rest))"

fun GetAuthTimeoutClientList :: "int \<Rightarrow> client_id list \<Rightarrow> ClientStore \<Rightarrow> client_id list" where
  "GetAuthTimeoutClientList connectDeadline [] store = []"
| "GetAuthTimeoutClientList connectDeadline (clientId # order) store =
     (let rest = GetAuthTimeoutClientList connectDeadline order store
      in case map_of (clientConnections store) clientId of
           None \<Rightarrow> rest
         | Some connection \<Rightarrow>
             (if \<not> IsConnected connection \<and> CreatedTime connection < connectDeadline then clientId # rest else rest))"

section \<open>The contract\<close>

text \<open>
  What the hub relies on, stated on the view of a store as a partial function from client
  identifiers to records: the answers are those of the view, every change touches one client
  only, and an unknown client is reported and changes nothing.
\<close>

definition store_view :: "ClientStore \<Rightarrow> client_id \<Rightarrow> ClientConnectionMetadata option" where
  "store_view store = map_of (clientConnections store)"

definition new_client :: "string \<Rightarrow> int \<Rightarrow> ClientConnectionMetadata" where
  "new_client handler t = \<lparr>IsConnected = False, ClientHandlerName = handler, DestinationHandlerName = [],
     CreatedTime = t, LastClientMsgTime = t, LastDestinationMsgTime = t\<rparr>"

definition store_inv :: "ClientStore \<Rightarrow> bool" where
  "store_inv store \<longleftrightarrow> distinct (map fst (clientConnections store)) \<and>
     int (length (clientConnections store)) \<le> max 0 (MaxConnections store)"

text \<open>A method that changes one record of a known client and fails for an unknown one.\<close>

definition updates_record ::
  "('s \<Rightarrow> bool) \<Rightarrow> ('s \<Rightarrow> client_id \<Rightarrow> 'm option) \<Rightarrow> client_id \<Rightarrow> ('m \<Rightarrow> 'm) \<Rightarrow> 's \<Rightarrow> store_error option \<times> 's \<Rightarrow> bool" where
  "updates_record ok view i f s res \<longleftrightarrow> ok (snd res) \<and>
     (case view s i of
        None \<Rightarrow> res = (Some (MissingClientIdError i), s)
      | Some m \<Rightarrow> fst res = None \<and> view (snd res) = (view s)(i \<mapsto> f m))"

locale client_registry =
  fixes ok :: "'s \<Rightarrow> bool"
    and view :: "'s \<Rightarrow> client_id \<Rightarrow> ClientConnectionMetadata option"
    and create :: "client_id \<Rightarrow> string \<Rightarrow> int \<Rightarrow> 's \<Rightarrow> store_error option \<times> 's"
    and remove :: "client_id \<Rightarrow> 's \<Rightarrow> 's"
    and connect :: "client_id \<Rightarrow> 's \<Rightarrow> store_error option \<times> 's"
    and set_dest :: "client_id \<Rightarrow> string \<Rightarrow> 's \<Rightarrow> store_error option \<times> 's"
    and get_dest :: "client_id \<Rightarrow> 's \<Rightarrow> store_error + string"
    and get_client :: "client_id \<Rightarrow> 's \<Rightarrow> store_error + string"
    and set_client_time :: "client_id \<Rightarrow> int \<Rightarrow> 's \<Rightarrow> store_error option \<times> 's"
    and set_dest_time :: "client_id \<Rightarrow> int \<Rightarrow> 's \<Rightarrow> store_error option \<times> 's"
  assumes finite_view: "ok s \<Longrightarrow> finite (dom (view s))"
    and create_new: "ok s \<Longrightarrow> create i h t s = (None, s') \<Longrightarrow>
      ok s' \<and> view s i = None \<and> view s' = (view s)(i \<mapsto> new_client h t)"
    and create_fails: "ok s \<Longrightarrow> create i h t s = (Some e, s') \<Longrightarrow> s' = s"
    and create_duplicate: "ok s \<Longrightarrow> view s i \<noteq> None \<Longrightarrow> create i h t s = (Some (DuplicateClientIdError i), s)"
    and remove_view: "ok s \<Longrightarrow> ok (remove i s) \<and> view (remove i s) = (view s)(i := None)"
    and connect_updates: "ok s \<Longrightarrow> updates_record ok view i (\<lambda>m. m\<lparr>IsConnected := True\<rparr>) s (connect i s)"
    and set_dest_updates: "ok s \<Longrightarrow>
      updates_record ok view i (\<lambda>m. m\<lparr>DestinationHandlerName := d\<rparr>) s (set_dest i d s)"
    and set_client_time_updates: "ok s \<Longrightarrow>
      updates_record ok view i (\<lambda>m. m\<lparr>LastClientMsgTime := t\<rparr>) s (set_client_time i t s)"
    and set_dest_time_updates: "ok s \<Longrightarrow>
      updates_record ok view i (\<lambda>m. m\<lparr>LastDestinationMsgTime := t\<rparr>) s (set_dest_time i t s)"
    and get_dest_view: "ok s \<Longrightarrow> get_dest i s = (case view s i of
      None \<Rightarrow> Inl (MissingClientIdError i) | Some m \<Rightarrow> Inr (DestinationHandlerName m))"
    and get_client_view: "ok s \<Longrightarrow> get_client i s = (case view s i of
      None \<Rightarrow> Inl (MissingClientIdError i) | Some m \<Rightarrow> Inr (ClientHandlerName m))"

context client_registry
begin

lemma update_result:
  assumes "updates_record ok view i f s res"
  shows "fst res = None \<longleftrightarrow> view s i \<noteq> None" and "ok (snd res)"
    and "view (snd res) = (view s)(i := map_option f (view s i))"
    and "view s i = None \<Longrightarrow> snd res = s"
  using assms by (auto simp: updates_record_def split: option.splits)

lemmas updated =
  update_result [OF connect_updates] update_result [OF set_dest_updates]
  update_result [OF set_client_time_updates] update_result [OF set_dest_time_updates]

lemma dest_assigned:
  assumes "ok s" and "view s i \<noteq> None"
  shows "get_dest i (snd (set_dest i d s)) = Inr d"
  using assms updated(6,7) [of s i d] get_dest_view [of "snd (set_dest i d s)" i] by auto

lemma created_record:
  assumes "ok s" and "create i h t s = (None, s')"
  shows "get_client i s' = Inr h" and "get_dest i s' = Inr []"
  using create_new [OF assms] get_client_view [of s' i] get_dest_view [of s' i] by (simp_all add: new_client_def)

lemma removed_unknown:
  assumes "ok s"
  shows "get_client i (remove i s) = Inl (MissingClientIdError i)"
    and "get_dest i (remove i s) = Inl (MissingClientIdError i)"
  using remove_view [OF assms] get_client_view [of "remove i s" i] get_dest_view [of "remove i s" i] by simp_all

end

lemma length_update_known:
  "map_of xs k \<noteq> None \<Longrightarrow> length (AList.update k v xs) = length xs"
  by (induction xs) auto

lemma length_update_new:
  "map_of xs k = None \<Longrightarrow> length (AList.update k v xs) = Suc (length xs)"
  by (induction xs) auto

lemma store_record_update:
  assumes "store_inv s" and "map_of (clientConnections s) i = Some m"
  shows "store_inv (s\<lparr>clientConnections := AList.update i m' (clientConnections s)\<rparr>)"
  using assms by (simp add: store_inv_def length_update_known distinct_update)

interpretation store: client_registry store_inv store_view CreateClient RemoveClient Connect
  SetDestinationHandlerName GetDestinationHandlerName GetClientHandlerName SetClientRecvTimestamp
  SetDestinationRecvTimestamp
proof (unfold_locales, goal_cases)
  case (1 s)
  then show ?case by (simp add: store_view_def finite_dom_map_of)
next
  case (2 s i h t s')
  then have new: "map_of (clientConnections s) i = None" and room: "int (length (clientConnections s)) < MaxConnections s"
    and s': "s' = s\<lparr>clientConnections := AList.update i (new_client h t) (clientConnections s)\<rparr>"
    by (simp_all add: CreateClient_def new_client_def split: if_splits)
  show ?case
    using 2(1) new room by (simp add: s' store_inv_def store_view_def distinct_update length_update_new update_conv')
next
  case (5 s i)
  have "length (AList.delete i (clientConnections s)) \<le> length (clientConnections s)" by (rule length_delete_le)
  with 5 show ?case
    by (auto simp: RemoveClient_def store_inv_def store_view_def distinct_delete delete_conv')
qed (auto simp: CreateClient_def updates_record_def Connect_def SetDestinationHandlerName_def SetClientRecvTimestamp_def
    SetDestinationRecvTimestamp_def GetDestinationHandlerName_def GetClientHandlerName_def store_view_def
    store_record_update update_conv' split: option.splits if_splits)

section \<open>Properties\<close>

text \<open>
  Creating a client never disturbs another one. If it succeeds, the identifier was free, the
  client is found under its handler's name without a destination, and every other client is as
  before; if it fails, the store is unchanged and the reason is a used identifier or a full
  store, respectively.
\<close>

theorem CreateClient_spec:
  assumes "store_inv s" and "CreateClient i h t s = (err, s')"
  shows "case err of
      None \<Rightarrow> \<not> HasClient i s \<and> GetClientHandlerName i s' = Inr h \<and> GetDestinationHandlerName i s' = Inr [] \<and>
        store_view s' = (store_view s)(i \<mapsto> new_client h t) \<and> store_inv s'
    | Some (DuplicateClientIdError j) \<Rightarrow> j = i \<and> HasClient i s \<and> s' = s
    | Some TooManyClientsError \<Rightarrow>
        \<not> HasClient i s \<and> MaxConnections s \<le> int (length (clientConnections s)) \<and> s' = s
    | Some (MissingClientIdError j) \<Rightarrow> False"
proof (cases err)
  case None
  with assms(2) have create: "CreateClient i h t s = (None, s')" by simp
  show ?thesis
    using None store.create_new [OF assms(1) create] store.created_record [OF assms(1) create]
    by (simp add: HasClient_def store_view_def)
next
  case (Some e)
  with assms(2) show ?thesis by (auto simp: CreateClient_def HasClient_def split: if_splits)
qed

theorem CreateClient_spec_witness:
  "GetClientHandlerName 1 (snd (CreateClient 1 ''ws'' 0 (CreateClientStore 2))) = Inr ''ws''"
  using CreateClient_spec [of "CreateClientStore 2" 1 "''ws''" 0 None "snd (CreateClient 1 ''ws'' 0 (CreateClientStore 2))"]
  by (simp add: store_inv_def CreateClientStore_def CreateClient_def)

text \<open>Every method that changes a store, as one step.\<close>

text \<open>(The callback of \<open>KickAllClients\<close> works on a list of notices.)\<close>

inductive store_step :: "ClientStore \<Rightarrow> ClientStore \<Rightarrow> bool" where
  new_id: "store_step s (snd (GetNewClientId s))"
| create: "store_step s (snd (CreateClient i h t s))"
| remove: "store_step s (RemoveClient i s)"
| connect: "store_step s (snd (Connect i s))"
| set_dest: "store_step s (snd (SetDestinationHandlerName i d s))"
| client_time: "store_step s (snd (SetClientRecvTimestamp i t s))"
| dest_time: "store_step s (snd (SetDestinationRecvTimestamp i t s))"
| kick_all: "store_step s (fst (snd (KickAllClients (cb :: client_id \<Rightarrow> _ \<Rightarrow> _ \<Rightarrow> string option \<times> _) order s (p :: (client_id \<times> string) list))))"

lemma RemoveClient_inv: "store_inv s \<Longrightarrow> store_inv (RemoveClient i s)"
  using store.remove_view by blast

lemma KickAllClients_inv: "store_inv s \<Longrightarrow> store_inv (fst (snd (KickAllClients cb order s p)))"
proof (induction order arbitrary: s p)
  case (Cons i order)
  then show ?case
    using RemoveClient_inv [of s i] by (auto simp: RemoveClient_def split: option.split prod.split)
qed simp

lemma KickAllClients_max: "MaxConnections (fst (snd (KickAllClients cb order s p))) = MaxConnections s"
  by (induction order arbitrary: s p) (auto split: option.split prod.split)

lemma store_step_max: "store_step s s' \<Longrightarrow> MaxConnections s' = MaxConnections s"
  by (induction rule: store_step.induct) (simp_all add: GetNewClientId_def CreateClient_def RemoveClient_def Connect_def
      SetDestinationHandlerName_def SetClientRecvTimestamp_def SetDestinationRecvTimestamp_def KickAllClients_max
      split: option.split)

lemma store_step_inv: "store_step s s' \<Longrightarrow> store_inv s \<Longrightarrow> store_inv s'"
proof (induction rule: store_step.induct)
  case (new_id s)
  then show ?case by (simp add: GetNewClientId_def store_inv_def)
next
  case (create s i h t)
  then show ?case
    using store.create_new [of s i h t "snd (CreateClient i h t s)"]
      store.create_fails [of s i h t _ "snd (CreateClient i h t s)"]
    by (cases "fst (CreateClient i h t s)") (metis prod.collapse)+
qed (simp_all add: RemoveClient_inv KickAllClients_inv store.updated(2,6,10,14))

text \<open>
  C29. A store never holds more clients than it was created for, and never two clients under one
  identifier, whatever sequence of methods is called on it.
\<close>

theorem store_bounded:
  assumes "store_step\<^sup>*\<^sup>* (CreateClientStore n) s"
  shows "int (length (clientConnections s)) \<le> max 0 n \<and> distinct (map fst (clientConnections s)) \<and> MaxConnections s = n"
proof -
  have "store_inv s \<and> MaxConnections s = n"
    using assms
  proof (induction rule: rtranclp_induct)
    case base
    then show ?case by (simp add: store_inv_def CreateClientStore_def)
  next
    case (step s s')
    then show ?case using store_step_inv store_step_max by metis
  qed
  then show ?thesis by (auto simp: store_inv_def)
qed

theorem store_bounded_witness:
  "length (clientConnections (snd (CreateClient 2 ''ws'' 0 (snd (CreateClient 1 ''ws'' 0 (CreateClientStore 1)))))) \<le> 1"
proof -
  have "store_step\<^sup>*\<^sup>* (CreateClientStore 1) (snd (CreateClient 2 ''ws'' 0 (snd (CreateClient 1 ''ws'' 0 (CreateClientStore 1)))))"
    by (meson store_step.create r_into_rtranclp rtranclp_trans)
  from store_bounded [OF this] show ?thesis by simp
qed

text \<open>Consecutive allocations of identifiers.\<close>

fun new_ids :: "nat \<Rightarrow> ClientStore \<Rightarrow> client_id list" where
  "new_ids 0 s = []"
| "new_ids (Suc n) s = (let (i, s') = GetNewClientId s in i # new_ids n s')"

lemma new_ids_from: "new_ids n s = map (\<lambda>k. nextClientId s + word_of_nat (Suc k)) [0..<n]"
proof (induction n arbitrary: s)
  case (Suc n)
  have "[0..<Suc n] = 0 # map Suc [0..<n]" by (simp add: map_Suc_upt upt_conv_Cons del: upt_Suc)
  then show ?case by (simp add: Suc GetNewClientId_def comp_def add.assoc del: upt_Suc)
qed simp

text \<open>
  Identifiers are not reused before the 32-bit counter has gone around: any 2^32 consecutive
  allocations, starting from any counter value, are pairwise different.
\<close>

theorem client_ids_distinct:
  assumes "n \<le> 2 ^ 32"
  shows "distinct (new_ids n s)"
proof -
  have "inj_on (\<lambda>k. nextClientId s + word_of_nat (Suc k) :: 32 word) {0..<n}"
  proof (rule inj_onI)
    fix a b assume ab: "a \<in> {0..<n}" "b \<in> {0..<n}"
      and "nextClientId s + word_of_nat (Suc a) = nextClientId s + word_of_nat (Suc b)"
    then have "word_of_nat a = (word_of_nat b :: 32 word)" by simp
    then have "a mod 2 ^ 32 = b mod 2 ^ 32" by (simp add: word_of_nat_eq_iff take_bit_eq_mod)
    with ab assms show "a = b" by simp
  qed
  then show ?thesis by (simp add: new_ids_from distinct_map)
qed

theorem client_ids_distinct_witness: "distinct (new_ids 3 (CreateClientStore 5))"
  using client_ids_distinct [of 3 "CreateClientStore 5"] by simp

text \<open>When a record is overdue.\<close>

definition overdue :: "int \<Rightarrow> int \<Rightarrow> int \<Rightarrow> ClientConnectionMetadata \<Rightarrow> bool" where
  "overdue clientDl destDl connDl m \<longleftrightarrow>
     CreatedTime m < connDl \<or> LastClientMsgTime m < clientDl \<or> LastDestinationMsgTime m < destDl"

lemma GetTimeoutClientList_filter:
  "GetTimeoutClientList c d n order s =
     filter (\<lambda>i. case store_view s i of None \<Rightarrow> False | Some m \<Rightarrow> overdue c d n m) order"
  by (induction order) (simp_all add: Let_def store_view_def overdue_def split: option.split)

lemma GetAuthTimeoutClientList_filter:
  "GetAuthTimeoutClientList c order s =
     filter (\<lambda>i. case store_view s i of None \<Rightarrow> False | Some m \<Rightarrow> \<not> IsConnected m \<and> CreatedTime m < c) order"
  by (induction order) (simp_all add: Let_def store_view_def split: option.split)

text \<open>An order in which a loop over the map may visit its keys.\<close>

definition visits_all :: "client_id list \<Rightarrow> ClientStore \<Rightarrow> bool" where
  "visits_all order s \<longleftrightarrow> distinct order \<and> set order = dom (store_view s)"

text \<open>
  The two timeout lists are exact, in whatever order the map is visited: each overdue client
  is listed once and no other client is, and the authentication list never names a client that
  is marked connected.
\<close>

theorem timeout_lists_exact:
  assumes "visits_all order s"
  shows "distinct (GetTimeoutClientList c d n order s) \<and>
    set (GetTimeoutClientList c d n order s) = {i. \<exists>m. store_view s i = Some m \<and> overdue c d n m} \<and>
    distinct (GetAuthTimeoutClientList a order s) \<and>
    set (GetAuthTimeoutClientList a order s) =
      {i. \<exists>m. store_view s i = Some m \<and> \<not> IsConnected m \<and> CreatedTime m < a}"
  using assms by (auto simp: visits_all_def GetTimeoutClientList_filter GetAuthTimeoutClientList_filter
      split: option.splits)

theorem timeout_lists_exact_witness:
  "set (GetAuthTimeoutClientList 10 [1] (snd (CreateClient 1 ''ws'' 0 (CreateClientStore 2)))) =
   {i. \<exists>m. store_view (snd (CreateClient 1 ''ws'' 0 (CreateClientStore 2))) i = Some m \<and> \<not> IsConnected m \<and> CreatedTime m < 10}"
  using timeout_lists_exact [of "[1]" "snd (CreateClient 1 ''ws'' 0 (CreateClientStore 2))"]
  by (simp add: visits_all_def store_view_def CreateClient_def CreateClientStore_def)

lemma KickAllClients_ok:
  assumes "\<And>i m p. fst (cb i m p) = None" and "set order = dom (store_view s)" and "distinct order"
  shows "store_view (fst (snd (KickAllClients cb order s p))) = Map.empty \<and> fst (KickAllClients cb order s p) = None \<and>
    snd (snd (KickAllClients cb order s p)) = fold (\<lambda>i p. snd (cb i (the (store_view s i)) p)) order p"
  using assms(2,3)
proof (induction order arbitrary: s p)
  case (Cons i order)
  obtain m where m: "store_view s i = Some m" using Cons.prems(1) by auto
  let ?s = "s\<lparr>clientConnections := AList.delete i (clientConnections s)\<rparr>"
  have view: "store_view ?s = (store_view s)(i := None)" by (simp add: store_view_def delete_conv')
  have step: "KickAllClients cb (i # order) s p = KickAllClients cb order ?s (snd (cb i m p))"
    using m assms(1) [of i m p] by (cases "cb i m p") (simp add: store_view_def)
  have dom: "set order = dom (store_view ?s)" "distinct order" using Cons.prems by (auto simp: view)
  have "fold (\<lambda>i p. snd (cb i (the (store_view ?s i)) p)) order q =
      fold (\<lambda>i p. snd (cb i (the (store_view s i)) p)) order q" for q
    using Cons.prems(2) by (intro fold_cong) (auto simp: view)
  then show ?case unfolding step using Cons.IH [OF dom] m by simp
qed (auto dest!: sym [of "{}"])

end
