(* ===== verification/Proxy.thy ===== *)
theory Proxy
  imports Client_Store
begin

text \<open>
  \<open>pkg/proxy/proxy.go\<close>: the hub between client handlers (WebSocket, WebTransport) and
  destination handlers (UDP). A channel is the list of the values sent on it, oldest first;
  that a send may have to wait for room in the channel's buffer is not represented. Each
  message a goroutine of \<open>Start\<close> takes from its channels is handled in one step. A reading of
  the clock is an argument, one per call of \<open>getNowTime\<close>; log output is left out.
\<close>

section \<open>Messages and errors\<close>

datatype go_error =
    StoreError store_error
  | MissingDestinationHandler string
  | MissingClientHandler string
  | NoMatchingHandlerForConnectionString string
  | NameCollision string string
  | ConnectionTimeout
  | AuthTimeout
  | PlainError string

record OpenClientConnectionCommand =
  open_ClientId :: client_id
  open_RecvTimestamp :: int
  open_RouteTimestamp :: int
  open_ConnectionString :: string
  open_AppData :: "bytes option"

record OpenClientConnectionVerdict =
  verdict_ClientId :: client_id
  verdict_Verdict :: bool
  verdict_Error :: "go_error option"
  verdict_AppData :: "bytes option"

record ClientCloseCommand =
  close_ClientId :: client_id
  close_Reason :: string
  close_Error :: "go_error option"
  close_AppData :: "bytes option"

text \<open>A byte slice may be \<open>nil\<close>, which is \<open>None\<close>. \<open>ClientMessage\<close> and \<open>DestinationMessage\<close> have the same fields.\<close>

record RoutedMessage =
  msg_ClientId :: client_id
  msg_RecvTimestamp :: int
  msg_RouteTimestamp :: int
  msg_Data :: "bytes option"

section \<open>State\<close>

record clientHandlerChannels =
  cc_connectionVerdicts :: "OpenClientConnectionVerdict list"
  cc_outgoingMessages :: "RoutedMessage list"
  cc_closeRequests :: "ClientCloseCommand list"

record destinationHandlerChannels =
  dc_outgoingMessages :: "RoutedMessage list"
  dc_openConnections :: "OpenClientConnectionCommand list"
  dc_closeRequests :: "ClientCloseCommand list"

text \<open>The configuration without the buffer lengths of the channels and the logger.\<close>

record ProxyConfig =
  cfg_MagicNumber :: "32 word"
  cfg_Version :: "8 word"
  cfg_MaxConcurrentConnections :: int
  cfg_ClientMessageTimeoutMilliseconds :: int
  cfg_ClientAuthTimeoutMilliseconds :: int
  cfg_DestinationMessageTimeoutMilliseconds :: int
  cfg_MaxConnectionLengthMilliseconds :: int
  cfg_ConnectionKickLoopMilliseconds :: int

record proxy =
  px_magicNumber :: "32 word"
  px_version :: "8 word"
  px_clientStore :: ClientStore
  px_clientChannels :: "string \<Rightarrow> clientHandlerChannels option"
  px_destChannels :: "string \<Rightarrow> destinationHandlerChannels option"
  px_destHandlers :: "(string \<times> (string \<Rightarrow> bool)) list"
  px_clientMessageTimeout :: int
  px_clientAuthTimeout :: int
  px_destinationMessageTimeout :: int
  px_maxConnectionLength :: int
  px_connectionKickLoopTime :: int

text \<open>Durations in microseconds.\<close>

definition CreateProxy :: "ProxyConfig \<Rightarrow> proxy" where
  "CreateProxy config =
     (let ms = (\<lambda>configured default. if configured > 0 then 1000 * configured else default)
      in \<lparr>px_magicNumber = (if cfg_MagicNumber config \<noteq> 0 then cfg_MagicNumber config else 0x52554259),
          px_version = (if cfg_Version config > 0 then cfg_Version config else 0),
          px_clientStore = CreateClientStore
            (if cfg_MaxConcurrentConnections config > 0 then cfg_MaxConcurrentConnections config else 512),
          px_clientChannels = Map.empty, px_destChannels = Map.empty, px_destHandlers = [],
          px_clientMessageTimeout = ms (cfg_ClientMessageTimeoutMilliseconds config) 60000000,
          px_clientAuthTimeout = ms (cfg_ClientAuthTimeoutMilliseconds config) 10000000,
          px_destinationMessageTimeout = ms (cfg_DestinationMessageTimeoutMilliseconds config) 15000000,
          px_maxConnectionLength = ms (cfg_MaxConnectionLengthMilliseconds config) 21600000000,
          px_connectionKickLoopTime = ms (cfg_ConnectionKickLoopMilliseconds config) 3000000\<rparr>)"

definition GetMagicNumberAndVersion :: "proxy \<Rightarrow> 32 word \<times> 8 word" where
  "GetMagicNumberAndVersion p = (px_magicNumber p, px_version p)"

section \<open>Registering handlers\<close>

definition CreateClientMessageHandler :: "string \<Rightarrow> proxy \<Rightarrow> go_error option \<times> proxy" where
  "CreateClientMessageHandler name p =
     (if px_clientChannels p name \<noteq> None then (Some (NameCollision ''CreateClientMessageHandler'' name), p)
      else (None, p\<lparr>px_clientChannels := (px_clientChannels p)(name \<mapsto>
        \<lparr>cc_connectionVerdicts = [], cc_outgoingMessages = [], cc_closeRequests = []\<rparr>)\<rparr>))"

definition getClientIdCbForMessageHandler :: "int \<Rightarrow> string \<Rightarrow> proxy \<Rightarrow> (go_error + client_id) \<times> proxy" where
  "getClientIdCbForMessageHandler now name p =
     (let (clientId, store1) = GetNewClientId (px_clientStore p);
          (err, store2) = CreateClient clientId name now store1
      in (case err of Some e \<Rightarrow> Inl (StoreError e) | None \<Rightarrow> Inr clientId, p\<lparr>px_clientStore := store2\<rparr>))"

definition CreateDestinationMessageHandler ::
  "string \<Rightarrow> (string \<Rightarrow> bool) \<Rightarrow> proxy \<Rightarrow> go_error option \<times> proxy" where
  "CreateDestinationMessageHandler name matchConnectionStringFn p =
     (if px_destChannels p name \<noteq> None then (Some (NameCollision ''CreateDestinationMessageHandler'' name), p)
      else (None, p\<lparr>px_destChannels := (px_destChannels p)(name \<mapsto>
        \<lparr>dc_outgoingMessages = [], dc_openConnections = [], dc_closeRequests = []\<rparr>),
        px_destHandlers := px_destHandlers p @ [(name, matchConnectionStringFn)]\<rparr>))"

section \<open>Forwarding\<close>

definition send_dest :: "string \<Rightarrow> (destinationHandlerChannels \<Rightarrow> destinationHandlerChannels) \<Rightarrow> proxy \<Rightarrow> proxy" where
  "send_dest name f p = p\<lparr>px_destChannels := (px_destChannels p)(name := map_option f (px_destChannels p name))\<rparr>"

definition send_client :: "string \<Rightarrow> (clientHandlerChannels \<Rightarrow> clientHandlerChannels) \<Rightarrow> proxy \<Rightarrow> proxy" where
  "send_client name f p = p\<lparr>px_clientChannels := (px_clientChannels p)(name := map_option f (px_clientChannels p name))\<rparr>"

definition forwardClientMessage :: "int \<Rightarrow> RoutedMessage \<Rightarrow> proxy \<Rightarrow> go_error option \<times> proxy" where
  "forwardClientMessage deqTime m p =
     (case GetDestinationHandlerName (msg_ClientId m) (px_clientStore p) of
        Inl e \<Rightarrow> (Some (StoreError e), p)
      | Inr destHandlerName \<Rightarrow>
         (case px_destChannels p destHandlerName of
            None \<Rightarrow> (Some (MissingDestinationHandler destHandlerName), p)
          | Some sendChannels \<Rightarrow> (None, send_dest destHandlerName (\<lambda>c. c\<lparr>dc_outgoingMessages :=
              dc_outgoingMessages c @ [m\<lparr>msg_RouteTimestamp := deqTime\<rparr>]\<rparr>) p)))"

definition forwardDestinationMessage :: "int \<Rightarrow> RoutedMessage \<Rightarrow> proxy \<Rightarrow> go_error option \<times> proxy" where
  "forwardDestinationMessage deqTime m p =
     (case GetClientHandlerName (msg_ClientId m) (px_clientStore p) of
        Inl e \<Rightarrow> (Some (StoreError e), p)
      | Inr clientHandlerName \<Rightarrow>
         (case px_clientChannels p clientHandlerName of
            None \<Rightarrow> (Some (MissingClientHandler clientHandlerName), p)
          | Some sendChannels \<Rightarrow> (None, send_client clientHandlerName (\<lambda>c. c\<lparr>cc_outgoingMessages :=
              cc_outgoingMessages c @ [m\<lparr>msg_RouteTimestamp := deqTime\<rparr>]\<rparr>) p)))"

section \<open>Disconnecting\<close>

definition sendClientDisconnect :: "client_id \<Rightarrow> string \<Rightarrow> go_error option \<Rightarrow> proxy \<Rightarrow> proxy" where
  "sendClientDisconnect clientId clientHandlerName reason p =
     (if clientHandlerName = [] then p
      else case px_clientChannels p clientHandlerName of
        None \<Rightarrow> p
      | Some clientHandler \<Rightarrow> send_client clientHandlerName (\<lambda>c. c\<lparr>cc_closeRequests :=
          cc_closeRequests c @ [\<lparr>close_ClientId = clientId, close_Reason = [], close_Error = reason, close_AppData = None\<rparr>]\<rparr>) p)"

definition sendDestinationDisconnect :: "client_id \<Rightarrow> string \<Rightarrow> go_error option \<Rightarrow> proxy \<Rightarrow> proxy" where
  "sendDestinationDisconnect clientId destinationHandlerName reason p =
     (if destinationHandlerName = [] then p
      else case px_destChannels p destinationHandlerName of
        None \<Rightarrow> p
      | Some destinationHandler \<Rightarrow> send_dest destinationHandlerName (\<lambda>c. c\<lparr>dc_closeRequests :=
          dc_closeRequests c @ [\<lparr>close_ClientId = clientId, close_Reason = [], close_Error = reason, close_AppData = None\<rparr>]\<rparr>) p)"

text \<open>A failed lookup leaves the empty name.\<close>

definition kickClient :: "client_id \<Rightarrow> go_error option \<Rightarrow> proxy \<Rightarrow> proxy" where
  "kickClient clientId reason p =
     (let clientHandlerName = (case GetClientHandlerName clientId (px_clientStore p) of Inl e \<Rightarrow> [] | Inr n \<Rightarrow> n);
          destinationHandlerName = (case GetDestinationHandlerName clientId (px_clientStore p) of Inl e \<Rightarrow> [] | Inr n \<Rightarrow> n);
          p1 = sendClientDisconnect clientId clientHandlerName reason p;
          p2 = sendDestinationDisconnect clientId destinationHandlerName reason p1
      in p2\<lparr>px_clientStore := RemoveClient clientId (px_clientStore p2)\<rparr>)"

definition kickOldClients :: "int \<Rightarrow> int \<Rightarrow> int \<Rightarrow> client_id list \<Rightarrow> proxy \<Rightarrow> proxy" where
  "kickOldClients now1 now2 now3 order p =
     (let clientMsgDeadline = now1 - px_clientMessageTimeout p;
          destinationMsgDeadline = now2 - px_destinationMessageTimeout p;
          connectionDeadline = now3 - px_maxConnectionLength p;
          clientsToKick = GetTimeoutClientList clientMsgDeadline destinationMsgDeadline connectionDeadline order (px_clientStore p)
      in fold (\<lambda>clientId. kickClient clientId (Some ConnectionTimeout)) clientsToKick p)"

definition checkForAuthTimeouts :: "int \<Rightarrow> client_id list \<Rightarrow> proxy \<Rightarrow> proxy" where
  "checkForAuthTimeouts now order p =
     (let authDeadline = now - px_clientAuthTimeout p;
          clientsToTimeout = GetAuthTimeoutClientList authDeadline order (px_clientStore p)
      in fold (\<lambda>clientId. kickClient clientId (Some AuthTimeout)) clientsToTimeout p)"

section \<open>Opening connections\<close>

text \<open>The loop over the registered destination handlers.\<close>

fun attachDestinationHandler ::
  "int \<Rightarrow> OpenClientConnectionCommand \<Rightarrow> (string \<times> (string \<Rightarrow> bool)) list \<Rightarrow> proxy \<Rightarrow> go_error option \<times> proxy" where
  "attachDestinationHandler dequeTimestamp c [] p =
     (Some (NoMatchingHandlerForConnectionString (open_ConnectionString c)), p)"
| "attachDestinationHandler dequeTimestamp c ((name, matches) # rest) p =
     (if matches (open_ConnectionString c)
      then (case px_destChannels p name of
          None \<Rightarrow> (Some (MissingDestinationHandler name), p)
        | Some destSendChannels \<Rightarrow>
            (case SetDestinationHandlerName (open_ClientId c) name (px_clientStore p) of
               (Some e, store) \<Rightarrow> (Some (StoreError e), p\<lparr>px_clientStore := store\<rparr>)
             | (None, store) \<Rightarrow>
                 (None, send_dest name (\<lambda>ch. ch\<lparr>dc_openConnections := dc_openConnections ch @
                   [c\<lparr>open_RouteTimestamp := dequeTimestamp\<rparr>]\<rparr>) (p\<lparr>px_clientStore := store\<rparr>))))
      else attachDestinationHandler dequeTimestamp c rest p)"

definition handleClientConnectionRequestMessage ::
  "int \<Rightarrow> OpenClientConnectionCommand \<Rightarrow> proxy \<Rightarrow> go_error option \<times> proxy" where
  "handleClientConnectionRequestMessage dequeTimestamp c p =
     (case GetDestinationHandlerName (open_ClientId c) (px_clientStore p) of
        Inl e \<Rightarrow> (Some (StoreError e), p)
      | Inr rsl \<Rightarrow>
         (if rsl \<noteq> [] then (None, p)
          else case attachDestinationHandler dequeTimestamp c (px_destHandlers p) p of
            (None, p') \<Rightarrow> (None, p')
          | (Some err, p') \<Rightarrow> (Some err, kickClient (open_ClientId c) (Some err) p')))"

definition forwardDestinationVerdict :: "OpenClientConnectionVerdict \<Rightarrow> proxy \<Rightarrow> go_error option \<times> proxy" where
  "forwardDestinationVerdict v p =
     (case GetClientHandlerName (verdict_ClientId v) (px_clientStore p) of
        Inl e \<Rightarrow> (Some (StoreError e), p)
      | Inr clientName \<Rightarrow>
         (case px_clientChannels p clientName of
            None \<Rightarrow> (Some (MissingClientHandler clientName), p)
          | Some outgoingChannels \<Rightarrow>
              (None, send_client clientName (\<lambda>c. c\<lparr>cc_connectionVerdicts := cc_connectionVerdicts c @ [v]\<rparr>)
                (p\<lparr>px_clientStore := snd (Connect (verdict_ClientId v) (px_clientStore p))\<rparr>))))"

section \<open>The goroutines of Start\<close>

definition onClientMessage :: "int \<Rightarrow> int \<Rightarrow> RoutedMessage \<Rightarrow> proxy \<Rightarrow> proxy" where
  "onClientMessage now1 now2 clientMsg p = (case forwardClientMessage now1 clientMsg p of
     (None, p') \<Rightarrow> p'\<lparr>px_clientStore := snd (SetClientRecvTimestamp (msg_ClientId clientMsg) now2 (px_clientStore p'))\<rparr>
   | (Some err, p') \<Rightarrow> p')"

definition onDestinationMessage :: "int \<Rightarrow> int \<Rightarrow> RoutedMessage \<Rightarrow> proxy \<Rightarrow> proxy" where
  "onDestinationMessage now1 now2 destinationMsg p = (case forwardDestinationMessage now1 destinationMsg p of
     (None, p') \<Rightarrow> p'\<lparr>px_clientStore := snd (SetDestinationRecvTimestamp (msg_ClientId destinationMsg) now2 (px_clientStore p'))\<rparr>
   | (Some err, p') \<Rightarrow> p')"

text \<open>The end of \<open>Start\<close>, after all goroutines have stopped.\<close>

definition shutdown :: "client_id list \<Rightarrow> proxy \<Rightarrow> proxy" where
  "shutdown order p =
     (let dcErr = Some (PlainError ''disconnecting due to proxy shutdown request'');
          (err, store, p') = KickAllClients (\<lambda>clientId meta q.
            (None :: go_error option, sendDestinationDisconnect clientId (DestinationHandlerName meta) dcErr
              (sendClientDisconnect clientId (ClientHandlerName meta) dcErr q))) order (px_clientStore p) p
      in p'\<lparr>px_clientStore := store\<rparr>)"

section \<open>The hub as a transition system\<close>

text \<open>
  One step of the hub: a handler registers, a registered client handler asks for an identifier,
  one of the goroutines handles what it received, or the ticker fires.
\<close>

inductive proxy_step :: "proxy \<Rightarrow> proxy \<Rightarrow> bool" where
  client_handler: "proxy_step p (snd (CreateClientMessageHandler name p))"
| dest_handler: "proxy_step p (snd (CreateDestinationMessageHandler name f p))"
| new_client: "px_clientChannels p name \<noteq> None \<Longrightarrow> proxy_step p (snd (getClientIdCbForMessageHandler now name p))"
| client_msg: "proxy_step p (onClientMessage now1 now2 m p)"
| open_request: "proxy_step p (snd (handleClientConnectionRequestMessage now c p))"
| client_close: "proxy_step p (kickClient i reason p)"
| dest_msg: "proxy_step p (onDestinationMessage now1 now2 m p)"
| verdict: "proxy_step p (snd (forwardDestinationVerdict v p))"
| tick: "proxy_step p (checkForAuthTimeouts now order' (kickOldClients now1 now2 now3 order p))"

text \<open>Every name in the store or in the list of handlers is the name of a registered handler.\<close>

definition routes_ok :: "proxy \<Rightarrow> bool" where
  "routes_ok p \<longleftrightarrow> (\<forall>i m. store_view (px_clientStore p) i = Some m \<longrightarrow>
       px_clientChannels p (ClientHandlerName m) \<noteq> None \<and>
       (DestinationHandlerName m \<noteq> [] \<longrightarrow> px_destChannels p (DestinationHandlerName m) \<noteq> None)) \<and>
     (\<forall>(name, f) \<in> set (px_destHandlers p). px_destChannels p name \<noteq> None)"

definition proxy_inv :: "proxy \<Rightarrow> bool" where
  "proxy_inv p \<longleftrightarrow> store_inv (px_clientStore p) \<and> routes_ok p"

lemma send_keeps [simp]:
  "px_clientStore (send_dest n f p) = px_clientStore p" "px_clientStore (send_client n g p) = px_clientStore p"
  "px_clientChannels (send_dest n f p) = px_clientChannels p" "px_destChannels (send_client n g p) = px_destChannels p"
  "px_destHandlers (send_dest n f p) = px_destHandlers p" "px_destHandlers (send_client n g p) = px_destHandlers p"
  "px_destChannels (send_dest n f p) k = None \<longleftrightarrow> px_destChannels p k = None"
  "px_clientChannels (send_client n g p) k = None \<longleftrightarrow> px_clientChannels p k = None"
  by (simp_all add: send_dest_def send_client_def)

lemma disconnect_keeps [simp]:
  "px_clientStore (sendClientDisconnect i n r p) = px_clientStore p"
  "px_clientStore (sendDestinationDisconnect i n r p) = px_clientStore p"
  "px_destHandlers (sendClientDisconnect i n r p) = px_destHandlers p"
  "px_destHandlers (sendDestinationDisconnect i n r p) = px_destHandlers p"
  "px_clientChannels (sendDestinationDisconnect i n r p) = px_clientChannels p"
  "px_destChannels (sendClientDisconnect i n r p) = px_destChannels p"
  "px_clientChannels (sendClientDisconnect i n r p) k = None \<longleftrightarrow> px_clientChannels p k = None"
  "px_destChannels (sendDestinationDisconnect i n r p) k = None \<longleftrightarrow> px_destChannels p k = None"
  by (simp_all add: sendClientDisconnect_def sendDestinationDisconnect_def split: option.split)

lemma kickClient_keeps [simp]:
  "px_clientStore (kickClient i r p) = RemoveClient i (px_clientStore p)"
  "px_destHandlers (kickClient i r p) = px_destHandlers p"
  "px_clientChannels (kickClient i r p) k = None \<longleftrightarrow> px_clientChannels p k = None"
  "px_destChannels (kickClient i r p) k = None \<longleftrightarrow> px_destChannels p k = None"
  by (simp_all add: kickClient_def Let_def)

text \<open>A change that keeps the registered names and leaves of each client at most its old record.\<close>

lemma routes_ok_mono:
  assumes "routes_ok p"
    and "\<And>i m. store_view (px_clientStore p') i = Some m \<Longrightarrow> \<exists>m'. store_view (px_clientStore p) i = Some m' \<and>
      ClientHandlerName m = ClientHandlerName m' \<and> DestinationHandlerName m = DestinationHandlerName m'"
    and "\<And>k. px_clientChannels p' k = None \<longleftrightarrow> px_clientChannels p k = None"
    and "\<And>k. px_destChannels p' k = None \<longleftrightarrow> px_destChannels p k = None"
    and "px_destHandlers p' = px_destHandlers p"
  shows "routes_ok p'"
proof -
  have "px_clientChannels p' (ClientHandlerName m) \<noteq> None \<and>
      (DestinationHandlerName m \<noteq> [] \<longrightarrow> px_destChannels p' (DestinationHandlerName m) \<noteq> None)"
    if "store_view (px_clientStore p') i = Some m" for i m
  proof -
    from assms(2) [OF that] obtain m' where "store_view (px_clientStore p) i = Some m'"
      "ClientHandlerName m = ClientHandlerName m'" "DestinationHandlerName m = DestinationHandlerName m'" by blast
    with assms(1) show ?thesis unfolding routes_ok_def by (simp add: assms(3,4) del: not_None_eq)
  qed
  moreover have "\<forall>(name, f) \<in> set (px_destHandlers p'). px_destChannels p' name \<noteq> None"
    using assms(1) unfolding routes_ok_def by (simp add: assms(4,5) del: not_None_eq)
  ultimately show ?thesis unfolding routes_ok_def by blast
qed

lemma proxy_inv_kick: "proxy_inv p \<Longrightarrow> proxy_inv (kickClient i r p)"
  unfolding proxy_inv_def
  by (auto simp: RemoveClient_inv store.remove_view elim!: routes_ok_mono split: if_splits)

lemma proxy_inv_kicks: "proxy_inv p \<Longrightarrow> proxy_inv (fold (\<lambda>i. kickClient i r) is p)"
  by (induction "is" arbitrary: p) (simp_all add: proxy_inv_kick)

lemma proxy_inv_send:
  assumes "proxy_inv p"
  shows "proxy_inv (send_dest n f p)" and "proxy_inv (send_client n g p)"
  using assms unfolding proxy_inv_def by (auto elim!: routes_ok_mono)

lemma proxy_inv_store:
  assumes "proxy_inv p" and "store_inv s"
    and "\<And>i m. store_view s i = Some m \<Longrightarrow> \<exists>m'. store_view (px_clientStore p) i = Some m' \<and>
      ClientHandlerName m = ClientHandlerName m' \<and> DestinationHandlerName m = DestinationHandlerName m'"
  shows "proxy_inv (p\<lparr>px_clientStore := s\<rparr>)"
  using assms unfolding proxy_inv_def by (auto elim!: routes_ok_mono)

lemma proxy_inv_record:
  assumes "proxy_inv p" and "updates_record store_inv store_view i f (px_clientStore p) res"
    and "\<And>m. ClientHandlerName (f m) = ClientHandlerName m" and "\<And>m. DestinationHandlerName (f m) = DestinationHandlerName m"
  shows "proxy_inv (p\<lparr>px_clientStore := snd res\<rparr>)"
proof (rule proxy_inv_store [OF assms(1)])
  show "store_inv (snd res)" by (rule store.update_result(2) [OF assms(2)])
  show "\<exists>m'. store_view (px_clientStore p) j = Some m' \<and> ClientHandlerName m = ClientHandlerName m' \<and>
      DestinationHandlerName m = DestinationHandlerName m'" if "store_view (snd res) j = Some m" for j m
    using that store.update_result(3) [OF assms(2)] assms(3,4) by (auto split: if_splits)
qed

lemma proxy_inv_set_dest:
  assumes "proxy_inv p" and "px_destChannels p name \<noteq> None"
  shows "proxy_inv (p\<lparr>px_clientStore := snd (SetDestinationHandlerName i name (px_clientStore p))\<rparr>)"
proof -
  have inv: "store_inv (px_clientStore p)" "routes_ok p" using assms(1) by (simp_all add: proxy_inv_def)
  note up = store.updated(6,7) [OF inv(1), of i name]
  have "routes_ok (p\<lparr>px_clientStore := snd (SetDestinationHandlerName i name (px_clientStore p))\<rparr>)"
    using inv(2) assms(2) unfolding routes_ok_def by (auto simp: up(2))
  then show ?thesis using up(1) by (simp add: proxy_inv_def)
qed

lemma proxy_inv_attach: "proxy_inv p \<Longrightarrow> proxy_inv (snd (attachDestinationHandler t c hs p))"
proof (induction t c hs p rule: attachDestinationHandler.induct)
  case (2 t c name matches rest p)
  show ?case
  proof (cases "matches (open_ConnectionString c) \<and> px_destChannels p name \<noteq> None")
    case True
    obtain e s where set: "SetDestinationHandlerName (open_ClientId c) name (px_clientStore p) = (e, s)"
      by (metis surj_pair)
    have "proxy_inv (p\<lparr>px_clientStore := s\<rparr>)"
      using proxy_inv_set_dest [OF "2.prems", of name "open_ClientId c"] True set by simp
    with True set show ?thesis by (auto simp: proxy_inv_send split: option.split)
  qed (use 2 in auto)
qed simp

lemma proxy_inv_new_client:
  assumes "proxy_inv p" and "px_clientChannels p name \<noteq> None"
  shows "proxy_inv (snd (getClientIdCbForMessageHandler now name p))"
proof -
  define i where "i = nextClientId (px_clientStore p) + 1"
  define s1 where "s1 = snd (GetNewClientId (px_clientStore p))"
  obtain e s2 where create: "CreateClient i name now s1 = (e, s2)" by (metis surj_pair)
  have p': "snd (getClientIdCbForMessageHandler now name p) = p\<lparr>px_clientStore := s2\<rparr>"
    using create by (simp add: getClientIdCbForMessageHandler_def GetNewClientId_def i_def s1_def Let_def)
  have inv: "store_inv s1" and view: "store_view s1 = store_view (px_clientStore p)" and routes: "routes_ok p"
    using assms(1) by (simp_all add: proxy_inv_def s1_def GetNewClientId_def store_inv_def store_view_def)
  show ?thesis
  proof (cases e)
    case None
    note new = store.create_new [OF inv create [unfolded None]]
    have "routes_ok (p\<lparr>px_clientStore := s2\<rparr>)"
      using routes assms(2) new unfolding routes_ok_def
      by (simp add: view new_client_def del: not_None_eq)
    then show ?thesis using new by (simp add: p' proxy_inv_def)
  next
    case (Some err)
    then have "s2 = s1" using store.create_fails [OF inv] create by blast
    then show ?thesis unfolding p' by (intro proxy_inv_store [OF assms(1)]) (auto simp: inv view)
  qed
qed

lemma proxy_inv_register:
  assumes "proxy_inv p"
  shows "proxy_inv (snd (CreateClientMessageHandler name p))" and "proxy_inv (snd (CreateDestinationMessageHandler name f p))"
  using assms unfolding proxy_inv_def routes_ok_def CreateClientMessageHandler_def CreateDestinationMessageHandler_def
  by (auto simp del: not_None_eq)

lemma proxy_inv_messages:
  assumes "proxy_inv p"
  shows "proxy_inv (onClientMessage now1 now2 m p)" and "proxy_inv (onDestinationMessage now1 now2 m p)"
    and "proxy_inv (snd (forwardDestinationVerdict v p))"
proof -
  have inv: "store_inv (px_clientStore q)" if "proxy_inv q" for q using that by (simp add: proxy_inv_def)
  have client_time: "proxy_inv (q\<lparr>px_clientStore := snd (SetClientRecvTimestamp i t (px_clientStore q))\<rparr>)" if "proxy_inv q" for q i t
    by (rule proxy_inv_record [OF that store.set_client_time_updates [OF inv [OF that]]]) simp_all
  have dest_time: "proxy_inv (q\<lparr>px_clientStore := snd (SetDestinationRecvTimestamp i t (px_clientStore q))\<rparr>)" if "proxy_inv q" for q i t
    by (rule proxy_inv_record [OF that store.set_dest_time_updates [OF inv [OF that]]]) simp_all
  have connect: "proxy_inv (q\<lparr>px_clientStore := snd (Connect i (px_clientStore q))\<rparr>)" if "proxy_inv q" for q i
    by (rule proxy_inv_record [OF that store.connect_updates [OF inv [OF that]]]) simp_all
  show "proxy_inv (onClientMessage now1 now2 m p)"
    using assms client_time [OF proxy_inv_send(1) [OF assms]]
    by (auto simp: onClientMessage_def forwardClientMessage_def split: sum.split option.split)
  show "proxy_inv (onDestinationMessage now1 now2 m p)"
    using assms dest_time [OF proxy_inv_send(2) [OF assms]]
    by (auto simp: onDestinationMessage_def forwardDestinationMessage_def split: sum.split option.split)
  show "proxy_inv (snd (forwardDestinationVerdict v p))"
    using assms proxy_inv_send(2) [OF connect [OF assms]]
    by (auto simp: forwardDestinationVerdict_def split: sum.split option.split)
qed

lemma proxy_inv_open: "proxy_inv p \<Longrightarrow> proxy_inv (snd (handleClientConnectionRequestMessage t c p))"
  using proxy_inv_attach [of p t c "px_destHandlers p"]
  by (auto simp: handleClientConnectionRequestMessage_def proxy_inv_kick split: sum.split option.split prod.split)

lemma proxy_step_inv: "proxy_step p p' \<Longrightarrow> proxy_inv p \<Longrightarrow> proxy_inv p'"
  by (induction rule: proxy_step.induct)
    (simp_all add: proxy_inv_register proxy_inv_new_client proxy_inv_messages proxy_inv_open proxy_inv_kick
      kickOldClients_def checkForAuthTimeouts_def Let_def proxy_inv_kicks del: not_None_eq)

lemma proxy_inv_initial: "proxy_inv (CreateProxy config)"
  by (simp add: proxy_inv_def routes_ok_def CreateProxy_def store_inv_def CreateClientStore_def store_view_def Let_def)

lemma proxy_reachable_inv: "proxy_step\<^sup>*\<^sup>* p p' \<Longrightarrow> proxy_inv p \<Longrightarrow> proxy_inv p'"
  by (induction rule: rtranclp_induct) (auto dest: proxy_step_inv)

section \<open>Properties of the hub\<close>

text \<open>A run of the hub from its creation.\<close>

abbreviation hub_reaches :: "ProxyConfig \<Rightarrow> proxy \<Rightarrow> bool" where
  "hub_reaches config p \<equiv> proxy_step\<^sup>*\<^sup>* (CreateProxy config) p"

lemma routes_okD:
  assumes "routes_ok p" and "store_view (px_clientStore p) i = Some m"
  shows "\<exists>cc. px_clientChannels p (ClientHandlerName m) = Some cc"
    and "DestinationHandlerName m \<noteq> [] \<Longrightarrow> \<exists>dc. px_destChannels p (DestinationHandlerName m) = Some dc"
  using assms unfolding routes_ok_def by blast+

lemma hub_inv: "hub_reaches config p \<Longrightarrow> store_inv (px_clientStore p) \<and> routes_ok p"
  using proxy_reachable_inv [OF _ proxy_inv_initial] by (simp add: proxy_inv_def)

text \<open>
  C28. In every state the hub can reach, each client's handler is registered, and so is its
  destination handler once it has one: no message of a connected client can fail for want of a
  handler.
\<close>

theorem hub_routes_registered:
  assumes "hub_reaches config p" and "store_view (px_clientStore p) i = Some m"
  shows "px_clientChannels p (ClientHandlerName m) \<noteq> None \<and>
    (DestinationHandlerName m \<noteq> [] \<longrightarrow> px_destChannels p (DestinationHandlerName m) \<noteq> None)"
  using hub_inv [OF assms(1)] assms(2) by (simp add: routes_ok_def)

lemma messages_forwarded:
  assumes "hub_reaches config p" and "store_view (px_clientStore p) (msg_ClientId x) = Some m"
    and "DestinationHandlerName m \<noteq> []"
  shows "\<exists>dc cc. px_destChannels p (DestinationHandlerName m) = Some dc \<and>
    px_clientChannels p (ClientHandlerName m) = Some cc \<and>
    forwardClientMessage t x p = (None, p\<lparr>px_destChannels := (px_destChannels p)(DestinationHandlerName m \<mapsto>
      dc\<lparr>dc_outgoingMessages := dc_outgoingMessages dc @ [\<lparr>msg_ClientId = msg_ClientId x,
        msg_RecvTimestamp = msg_RecvTimestamp x, msg_RouteTimestamp = t, msg_Data = msg_Data x\<rparr>]\<rparr>)\<rparr>) \<and>
    forwardDestinationMessage t x p = (None, p\<lparr>px_clientChannels := (px_clientChannels p)(ClientHandlerName m \<mapsto>
      cc\<lparr>cc_outgoingMessages := cc_outgoingMessages cc @ [\<lparr>msg_ClientId = msg_ClientId x,
        msg_RecvTimestamp = msg_RecvTimestamp x, msg_RouteTimestamp = t, msg_Data = msg_Data x\<rparr>]\<rparr>)\<rparr>)"
proof -
  have inv: "store_inv (px_clientStore p)" "routes_ok p" using hub_inv [OF assms(1)] by simp_all
  then obtain dc cc where "px_destChannels p (DestinationHandlerName m) = Some dc"
    "px_clientChannels p (ClientHandlerName m) = Some cc"
    using routes_okD [OF inv(2) assms(2)] assms(3) by blast
  then show ?thesis
    using assms(2) store.get_dest_view [OF inv(1), of "msg_ClientId x"] store.get_client_view [OF inv(1), of "msg_ClientId x"]
    by (cases x) (simp add: forwardClientMessage_def forwardDestinationMessage_def send_dest_def send_client_def)
qed

text \<open>
  C22. A message from a known client with a destination is appended, with its data, identifier and
  receive time unchanged and the routing time filled in, to the queue of that destination
  handler; nothing else in the hub changes. The same holds the other way for a message from a
  destination to a known client.
\<close>

theorem messages_delivered:
  assumes "hub_reaches config p" and "store_view (px_clientStore p) (msg_ClientId x) = Some m"
    and "DestinationHandlerName m \<noteq> []"
  shows "\<exists>dc cc. px_destChannels p (DestinationHandlerName m) = Some dc \<and>
    px_clientChannels p (ClientHandlerName m) = Some cc \<and>
    forwardClientMessage t x p = (None, p\<lparr>px_destChannels := (px_destChannels p)(DestinationHandlerName m \<mapsto>
      dc\<lparr>dc_outgoingMessages := dc_outgoingMessages dc @ [\<lparr>msg_ClientId = msg_ClientId x,
        msg_RecvTimestamp = msg_RecvTimestamp x, msg_RouteTimestamp = t, msg_Data = msg_Data x\<rparr>]\<rparr>)\<rparr>) \<and>
    forwardDestinationMessage t x p = (None, p\<lparr>px_clientChannels := (px_clientChannels p)(ClientHandlerName m \<mapsto>
      cc\<lparr>cc_outgoingMessages := cc_outgoingMessages cc @ [\<lparr>msg_ClientId = msg_ClientId x,
        msg_RecvTimestamp = msg_RecvTimestamp x, msg_RouteTimestamp = t, msg_Data = msg_Data x\<rparr>]\<rparr>)\<rparr>)"
  using assms by (rule messages_forwarded)

text \<open>
  For an identifier the store does not know, messages in both directions, verdicts and
  connection requests are answered with the missing-client error and change nothing.
\<close>

theorem unknown_client_rejected:
  assumes "hub_reaches config p" and "\<not> HasClient i (px_clientStore p)"
  shows "(msg_ClientId x = i \<longrightarrow> forwardClientMessage t x p = (Some (StoreError (MissingClientIdError i)), p) \<and>
      forwardDestinationMessage t x p = (Some (StoreError (MissingClientIdError i)), p)) \<and>
    (verdict_ClientId v = i \<longrightarrow> forwardDestinationVerdict v p = (Some (StoreError (MissingClientIdError i)), p)) \<and>
    (open_ClientId c = i \<longrightarrow>
      handleClientConnectionRequestMessage t c p = (Some (StoreError (MissingClientIdError i)), p))"
proof -
  have inv: "store_inv (px_clientStore p)" using hub_inv [OF assms(1)] by simp
  have "store_view (px_clientStore p) i = None" using assms(2) by (simp add: HasClient_def store_view_def)
  then show ?thesis
    using store.get_dest_view [OF inv, of i] store.get_client_view [OF inv, of i]
    by (auto simp: forwardClientMessage_def forwardDestinationMessage_def forwardDestinationVerdict_def
        handleClientConnectionRequestMessage_def)
qed

lemma kick_known:
  assumes "proxy_inv p" and "store_view (px_clientStore p) i = Some m" and "ClientHandlerName m \<noteq> []"
  shows "\<exists>cc. px_clientChannels p (ClientHandlerName m) = Some cc \<and>
    px_clientChannels (kickClient i r p) = (px_clientChannels p)(ClientHandlerName m \<mapsto>
      cc\<lparr>cc_closeRequests := cc_closeRequests cc @ [\<lparr>close_ClientId = i, close_Reason = [], close_Error = r, close_AppData = None\<rparr>]\<rparr>)"
    and "px_destChannels (kickClient i r p) = (if DestinationHandlerName m = [] then px_destChannels p
      else (px_destChannels p)(DestinationHandlerName m := map_option (\<lambda>dc. dc\<lparr>dc_closeRequests :=
        dc_closeRequests dc @ [\<lparr>close_ClientId = i, close_Reason = [], close_Error = r, close_AppData = None\<rparr>]\<rparr>) (px_destChannels p (DestinationHandlerName m))))"
proof -
  have inv: "store_inv (px_clientStore p)" "routes_ok p" using assms(1) by (simp_all add: proxy_inv_def)
  then obtain cc where cc: "px_clientChannels p (ClientHandlerName m) = Some cc"
    using routes_okD(1) [OF _ assms(2)] by blast
  have names: "GetClientHandlerName i (px_clientStore p) = Inr (ClientHandlerName m)"
    "GetDestinationHandlerName i (px_clientStore p) = Inr (DestinationHandlerName m)"
    using assms(2) store.get_client_view [OF inv(1)] store.get_dest_view [OF inv(1)] by simp_all
  show "\<exists>cc. px_clientChannels p (ClientHandlerName m) = Some cc \<and>
      px_clientChannels (kickClient i r p) = (px_clientChannels p)(ClientHandlerName m \<mapsto>
      cc\<lparr>cc_closeRequests := cc_closeRequests cc @ [\<lparr>close_ClientId = i, close_Reason = [], close_Error = r, close_AppData = None\<rparr>]\<rparr>)"
    using cc assms(3) by (simp add: kickClient_def names Let_def) (simp add: sendClientDisconnect_def send_client_def)
  show "px_destChannels (kickClient i r p) = (if DestinationHandlerName m = [] then px_destChannels p
      else (px_destChannels p)(DestinationHandlerName m := map_option (\<lambda>dc. dc\<lparr>dc_closeRequests :=
        dc_closeRequests dc @ [\<lparr>close_ClientId = i, close_Reason = [], close_Error = r, close_AppData = None\<rparr>]\<rparr>) (px_destChannels p (DestinationHandlerName m))))"
    by (simp add: kickClient_def names Let_def)
      (auto simp: sendDestinationDisconnect_def send_dest_def fun_eq_iff split: option.split)
qed

lemma kick_unknown:
  assumes "store_inv (px_clientStore p)" and "store_view (px_clientStore p) i = None"
  shows "kickClient i r p = p"
proof -
  have "RemoveClient i (px_clientStore p) = px_clientStore p"
    using assms(2) by (simp add: RemoveClient_def store_view_def delete_idem map_of_eq_None_iff)
  then show ?thesis
    using assms store.get_client_view [OF assms(1), of i] store.get_dest_view [OF assms(1), of i]
    by (simp add: kickClient_def Let_def sendClientDisconnect_def sendDestinationDisconnect_def)
qed

text \<open>
  Kicking a client tells its handler once, tells its destination handler once if it has one,
  removes the client and leaves every other client alone; kicking it again, as several
  goroutines may do, has no further effect.
\<close>

theorem kick_once:
  assumes "hub_reaches config p" and "store_view (px_clientStore p) i = Some m" and "ClientHandlerName m \<noteq> []"
  shows "store_view (px_clientStore (kickClient i r p)) = (store_view (px_clientStore p))(i := None) \<and>
    (\<exists>cc. px_clientChannels p (ClientHandlerName m) = Some cc \<and>
      px_clientChannels (kickClient i r p) = (px_clientChannels p)(ClientHandlerName m \<mapsto>
        cc\<lparr>cc_closeRequests := cc_closeRequests cc @ [\<lparr>close_ClientId = i, close_Reason = [], close_Error = r, close_AppData = None\<rparr>]\<rparr>)) \<and>
    px_destChannels (kickClient i r p) = (if DestinationHandlerName m = [] then px_destChannels p
      else (px_destChannels p)(DestinationHandlerName m := map_option (\<lambda>dc. dc\<lparr>dc_closeRequests :=
        dc_closeRequests dc @ [\<lparr>close_ClientId = i, close_Reason = [], close_Error = r, close_AppData = None\<rparr>]\<rparr>) (px_destChannels p (DestinationHandlerName m)))) \<and>
    kickClient i r' (kickClient i r p) = kickClient i r p"
proof -
  have inv: "proxy_inv p" using hub_inv [OF assms(1)] by (simp add: proxy_inv_def)
  then have store: "store_inv (px_clientStore p)" by (simp add: proxy_inv_def)
  have view: "store_view (px_clientStore (kickClient i r p)) = (store_view (px_clientStore p))(i := None)"
    using store.remove_view [OF store] by simp
  have "kickClient i r' (kickClient i r p) = kickClient i r p"
    using kick_unknown [of "kickClient i r p" i r'] proxy_inv_kick [OF inv, of i r] view by (simp add: proxy_inv_def)
  then show ?thesis using view kick_known [OF inv assms(2,3), of r] by simp
qed

lemma attach_find:
  assumes "\<forall>h \<in> set hs. px_destChannels p (fst h) \<noteq> None" and "store_inv (px_clientStore p)"
    and "store_view (px_clientStore p) (open_ClientId c) = Some m"
  shows "case find (\<lambda>(n, f). f (open_ConnectionString c)) hs of
      None \<Rightarrow> attachDestinationHandler t c hs p = (Some (NoMatchingHandlerForConnectionString (open_ConnectionString c)), p)
    | Some (n, f) \<Rightarrow> (\<exists>s'. store_view s' = (store_view (px_clientStore p))(open_ClientId c \<mapsto> m\<lparr>DestinationHandlerName := n\<rparr>) \<and>
        attachDestinationHandler t c hs p = (None, send_dest n (\<lambda>ch. ch\<lparr>dc_openConnections := dc_openConnections ch @
          [c\<lparr>open_RouteTimestamp := t\<rparr>]\<rparr>) (p\<lparr>px_clientStore := s'\<rparr>)))"
  using assms(1)
proof (induction hs)
  case (Cons h hs)
  obtain n f where h: "h = (n, f)" by (cases h)
  show ?case
  proof (cases "f (open_ConnectionString c)")
    case True
    obtain e s' where set: "SetDestinationHandlerName (open_ClientId c) n (px_clientStore p) = (e, s')" by (metis surj_pair)
    have "e = None" "store_view s' = (store_view (px_clientStore p))(open_ClientId c \<mapsto> m\<lparr>DestinationHandlerName := n\<rparr>)"
      using store.updated(5,7) [OF assms(2), of "open_ClientId c" n] set assms(3) by simp_all
    moreover obtain ch where "px_destChannels p n = Some ch" using Cons.prems h by auto
    ultimately show ?thesis using True set h by auto
  next
    case False
    have "\<forall>h \<in> set hs. px_destChannels p (fst h) \<noteq> None" using Cons.prems by simp
    note IH = Cons.IH [OF this]
    have "attachDestinationHandler t c (h # hs) p = attachDestinationHandler t c hs p" using False h by simp
    with IH show ?thesis using False h by (simp only:) simp
  qed
qed simp

lemma verdict_forwarded:
  assumes "hub_reaches config p" and "store_view (px_clientStore p) (verdict_ClientId v) = Some m"
  shows "\<exists>cc p'. px_clientChannels p (ClientHandlerName m) = Some cc \<and> forwardDestinationVerdict v p = (None, p') \<and>
    px_clientChannels p' (ClientHandlerName m) = Some (cc\<lparr>cc_connectionVerdicts := cc_connectionVerdicts cc @ [v]\<rparr>)"
proof -
  have inv: "store_inv (px_clientStore p)" "routes_ok p" using hub_inv [OF assms(1)] by simp_all
  then obtain cc where "px_clientChannels p (ClientHandlerName m) = Some cc" using routes_okD [OF inv(2) assms(2)] by blast
  then show ?thesis
    using assms(2) store.get_client_view [OF inv(1), of "verdict_ClientId v"]
    by (simp add: forwardDestinationVerdict_def send_client_def)
qed

lemma open_request_cases:
  assumes "hub_reaches config p" and "store_view (px_clientStore p) (open_ClientId c) = Some m"
    and "handleClientConnectionRequestMessage t c p = (err, p')"
  shows "if DestinationHandlerName m \<noteq> [] then err = None \<and> p' = p
    else case find (\<lambda>(n, f). f (open_ConnectionString c)) (px_destHandlers p) of
      None \<Rightarrow> err = Some (NoMatchingHandlerForConnectionString (open_ConnectionString c)) \<and>
        p' = kickClient (open_ClientId c) err p \<and> \<not> HasClient (open_ClientId c) (px_clientStore p')
    | Some (n, f) \<Rightarrow> err = None \<and> (\<exists>dc. px_destChannels p n = Some dc \<and>
        px_destChannels p' = (px_destChannels p)(n \<mapsto> dc\<lparr>dc_openConnections := dc_openConnections dc @
          [c\<lparr>open_RouteTimestamp := t\<rparr>]\<rparr>)) \<and>
        GetDestinationHandlerName (open_ClientId c) (px_clientStore p') = Inr n"
proof -
  have inv: "store_inv (px_clientStore p)" "routes_ok p" using hub_inv [OF assms(1)] by simp_all
  have dest: "GetDestinationHandlerName (open_ClientId c) (px_clientStore p) = Inr (DestinationHandlerName m)"
    using store.get_dest_view [OF inv(1)] assms(2) by simp
  have registered: "\<forall>h \<in> set (px_destHandlers p). px_destChannels p (fst h) \<noteq> None"
    using inv(2) unfolding routes_ok_def by auto
  note attach = attach_find [of "px_destHandlers p" p c m t, OF registered inv(1) assms(2)]
  show ?thesis
  proof (cases "find (\<lambda>(n, f). f (open_ConnectionString c)) (px_destHandlers p)")
    case None
    have "\<not> HasClient (open_ClientId c) (RemoveClient (open_ClientId c) (px_clientStore p))"
      using store.remove_view [OF inv(1), of "open_ClientId c"] by (simp add: HasClient_def store_view_def)
    with None show ?thesis
      using attach assms(3) dest by (auto simp: handleClientConnectionRequestMessage_def)
  next
    case (Some nf)
    obtain n f where nf: "nf = (n, f)" by (cases nf)
    have "(n, f) \<in> set (px_destHandlers p)" using Some nf by (metis find_Some_iff nth_mem)
    then obtain dc where "px_destChannels p n = Some dc" using registered by fastforce
    moreover from attach Some nf obtain s'
      where "store_view s' = (store_view (px_clientStore p))(open_ClientId c \<mapsto> m\<lparr>DestinationHandlerName := n\<rparr>)"
        and "attachDestinationHandler t c (px_destHandlers p) p = (None, send_dest n (\<lambda>ch. ch\<lparr>dc_openConnections :=
          dc_openConnections ch @ [c\<lparr>open_RouteTimestamp := t\<rparr>]\<rparr>) (p\<lparr>px_clientStore := s'\<rparr>))"
      by auto
    ultimately show ?thesis
      using assms(3) dest Some nf
      by (auto simp: handleClientConnectionRequestMessage_def send_dest_def GetDestinationHandlerName_def store_view_def)
  qed
qed

text \<open>
  C23. A connection request of a client without a destination goes to the first registered
  destination handler that matches the connection string, is recorded for the client and queued
  once for that handler; if none matches, the client is kicked with that error and forgotten. A
  client that already has a destination is left alone.
\<close>

theorem open_request_routed:
  assumes "hub_reaches config p" and "store_view (px_clientStore p) (open_ClientId c) = Some m"
    and "handleClientConnectionRequestMessage t c p = (err, p')"
  shows "if DestinationHandlerName m \<noteq> [] then err = None \<and> p' = p
    else case find (\<lambda>(n, f). f (open_ConnectionString c)) (px_destHandlers p) of
      None \<Rightarrow> err = Some (NoMatchingHandlerForConnectionString (open_ConnectionString c)) \<and>
        p' = kickClient (open_ClientId c) err p \<and> \<not> HasClient (open_ClientId c) (px_clientStore p')
    | Some (n, f) \<Rightarrow> err = None \<and> (\<exists>dc. px_destChannels p n = Some dc \<and>
        px_destChannels p' = (px_destChannels p)(n \<mapsto> dc\<lparr>dc_openConnections := dc_openConnections dc @
          [c\<lparr>open_RouteTimestamp := t\<rparr>]\<rparr>)) \<and>
        GetDestinationHandlerName (open_ClientId c) (px_clientStore p') = Inr n"
  by (rule open_request_cases [OF assms])

lemma kicks_view:
  "store_inv (px_clientStore p) \<Longrightarrow>
   store_view (px_clientStore (fold (\<lambda>i. kickClient i r) is p)) = (\<lambda>j. if j \<in> set is then None else store_view (px_clientStore p) j)"
proof (induction "is" arbitrary: p)
  case (Cons i "is")
  then show ?case
    using store.remove_view [of "px_clientStore p" i] by (auto simp: fun_eq_iff)
qed simp

text \<open>
  C34. The periodic check removes exactly the clients that are overdue at its deadlines: after it
  no remaining client has been silent too long on either side or connected for too long, and
  every client that was in time is still there with its record unchanged.
\<close>

theorem kickOldClients_exact:
  assumes "hub_reaches config p" and "visits_all order (px_clientStore p)"
  shows "store_view (px_clientStore (kickOldClients now1 now2 now3 order p)) =
    (\<lambda>i. case store_view (px_clientStore p) i of None \<Rightarrow> None
      | Some m \<Rightarrow> if overdue (now1 - px_clientMessageTimeout p) (now2 - px_destinationMessageTimeout p)
                       (now3 - px_maxConnectionLength p) m then None else Some m)"
  using kicks_view [of p] hub_inv [OF assms(1)] assms(2)
  by (auto simp: kickOldClients_def Let_def GetTimeoutClientList_filter visits_all_def fun_eq_iff split: option.splits)

text \<open>
  A refused client is marked as connected: the hub records every verdict as a connection,
  also a negative one, so that the client keeps its place in the store and is no longer subject
  to the authentication timeout.
\<close>

theorem refused_client_stays:
  assumes "hub_reaches config p" and "store_view (px_clientStore p) (verdict_ClientId v) = Some m"
    and "\<not> verdict_Verdict v"
  shows "\<exists>p'. forwardDestinationVerdict v p = (None, p') \<and>
    store_view (px_clientStore p') (verdict_ClientId v) = Some (m\<lparr>IsConnected := True\<rparr>) \<and>
    verdict_ClientId v \<notin> set (GetAuthTimeoutClientList now order (px_clientStore p'))"
proof -
  have inv: "store_inv (px_clientStore p)" "routes_ok p" using hub_inv [OF assms(1)] by simp_all
  obtain cc where "px_clientChannels p (ClientHandlerName m) = Some cc" using routes_okD(1) [OF inv(2) assms(2)] by blast
  moreover have "GetClientHandlerName (verdict_ClientId v) (px_clientStore p) = Inr (ClientHandlerName m)"
    using store.get_client_view [OF inv(1)] assms(2) by simp
  moreover have "store_view (snd (Connect (verdict_ClientId v) (px_clientStore p))) (verdict_ClientId v) =
      Some (m\<lparr>IsConnected := True\<rparr>)"
    using store.updated(3) [OF inv(1), of "verdict_ClientId v"] assms(2) by simp
  ultimately show ?thesis
    by (auto simp: forwardDestinationVerdict_def GetAuthTimeoutClientList_filter)
qed

section \<open>A concrete run\<close>

definition sample_config :: ProxyConfig where
  "sample_config = \<lparr>cfg_MagicNumber = 0, cfg_Version = 0, cfg_MaxConcurrentConnections = 2,
     cfg_ClientMessageTimeoutMilliseconds = 0, cfg_ClientAuthTimeoutMilliseconds = 0,
     cfg_DestinationMessageTimeoutMilliseconds = 0, cfg_MaxConnectionLengthMilliseconds = 0,
     cfg_ConnectionKickLoopMilliseconds = 0\<rparr>"

definition sample_idle :: proxy where
  "sample_idle = snd (getClientIdCbForMessageHandler 5 ''ws''
     (snd (CreateDestinationMessageHandler ''udp'' (\<lambda>s. s = ''udp:x'')
       (snd (CreateClientMessageHandler ''ws'' (CreateProxy sample_config))))))"

definition sample_open :: OpenClientConnectionCommand where
  "sample_open = \<lparr>open_ClientId = 1, open_RecvTimestamp = 6, open_RouteTimestamp = 0,
     open_ConnectionString = ''udp:x'', open_AppData = None\<rparr>"

definition sample_hub :: proxy where
  "sample_hub = snd (handleClientConnectionRequestMessage 7 sample_open sample_idle)"

lemmas sample_defs = sample_hub_def sample_idle_def sample_open_def sample_config_def CreateProxy_def
  CreateClientStore_def CreateClientMessageHandler_def CreateDestinationMessageHandler_def
  getClientIdCbForMessageHandler_def GetNewClientId_def CreateClient_def handleClientConnectionRequestMessage_def
  GetDestinationHandlerName_def SetDestinationHandlerName_def send_dest_def Let_def store_view_def

lemma sample_reached: "hub_reaches sample_config sample_idle" "hub_reaches sample_config sample_hub"
proof -
  let ?p1 = "snd (CreateClientMessageHandler ''ws'' (CreateProxy sample_config))"
  let ?p2 = "snd (CreateDestinationMessageHandler ''udp'' (\<lambda>s. s = ''udp:x'') ?p1)"
  have "proxy_step (CreateProxy sample_config) ?p1" by (rule proxy_step.client_handler)
  moreover have "proxy_step ?p1 ?p2" by (rule proxy_step.dest_handler)
  moreover have "proxy_step ?p2 sample_idle" unfolding sample_idle_def
    by (rule proxy_step.new_client) (simp add: sample_defs)
  ultimately show idle: "hub_reaches sample_config sample_idle" by (meson r_into_rtranclp rtranclp_trans)
  show "hub_reaches sample_config sample_hub" unfolding sample_hub_def
    by (rule rtranclp.rtrancl_into_rtrancl [OF idle proxy_step.open_request])
qed

lemma sample_view:
  "store_view (px_clientStore sample_idle) 1 = Some (new_client ''ws'' 5)"
  "store_view (px_clientStore sample_hub) 1 = Some ((new_client ''ws'' 5)\<lparr>DestinationHandlerName := ''udp''\<rparr>)"
  by (simp_all add: sample_defs new_client_def)

theorem hub_routes_registered_witness: "px_destChannels sample_hub ''udp'' \<noteq> None"
  using hub_routes_registered [OF sample_reached(2) sample_view(2)] by (simp add: new_client_def)

theorem messages_delivered_witness:
  "\<exists>p'. forwardClientMessage 9 \<lparr>msg_ClientId = 1, msg_RecvTimestamp = 8, msg_RouteTimestamp = 0, msg_Data = Some [1, 2]\<rparr> sample_hub =
     (None, p')"
  using messages_delivered [OF sample_reached(2), of "\<lparr>msg_ClientId = 1, msg_RecvTimestamp = 8, msg_RouteTimestamp = 0,
      msg_Data = Some [1, 2]\<rparr>" "(new_client ''ws'' 5)\<lparr>DestinationHandlerName := ''udp''\<rparr>" 9] sample_view(2) by auto

theorem unknown_client_rejected_witness:
  "handleClientConnectionRequestMessage 9 (sample_open\<lparr>open_ClientId := 7\<rparr>) sample_hub =
     (Some (StoreError (MissingClientIdError 7)), sample_hub)"
proof -
  have "\<not> HasClient 7 (px_clientStore sample_hub)" by (simp add: HasClient_def sample_defs)
  from unknown_client_rejected [OF sample_reached(2) this] show ?thesis by simp
qed

theorem kick_once_witness:
  "kickClient 1 None (kickClient 1 (Some ConnectionTimeout) sample_hub) = kickClient 1 (Some ConnectionTimeout) sample_hub"
  using kick_once [OF sample_reached(2) sample_view(2)] by (simp add: new_client_def)

theorem open_request_routed_witness:
  "GetDestinationHandlerName 1 (px_clientStore (snd (handleClientConnectionRequestMessage 7 sample_open sample_idle))) = Inr ''udp''"
proof -
  have find: "find (\<lambda>(n, f). f (open_ConnectionString sample_open)) (px_destHandlers sample_idle) = Some (''udp'', \<lambda>s. s = ''udp:x'')"
    and view: "store_view (px_clientStore sample_idle) (open_ClientId sample_open) = Some (new_client ''ws'' 5)"
    using sample_view(1) by (simp_all add: sample_defs)
  from open_request_routed [OF sample_reached(1) view surjective_pairing, of 7] find show ?thesis
    by (simp add: new_client_def) (simp add: sample_open_def)
qed

theorem kickOldClients_exact_witness:
  "store_view (px_clientStore (kickOldClients 60000006 0 0 [1] sample_hub)) 1 = None"
proof -
  have "visits_all [1] (px_clientStore sample_hub)" by (simp add: visits_all_def sample_defs)
  from kickOldClients_exact [OF sample_reached(2) this, of 60000006 0 0] show ?thesis
    by (simp add: sample_view(2)) (simp add: overdue_def new_client_def sample_defs)
qed

theorem refused_client_stays_witness:
  "\<exists>p'. forwardDestinationVerdict \<lparr>verdict_ClientId = 1, verdict_Verdict = False, verdict_Error = None, verdict_AppData = None\<rparr>
     sample_hub = (None, p') \<and> 1 \<notin> set (GetAuthTimeoutClientList 100000000 [1] (px_clientStore p'))"
  using refused_client_stays [OF sample_reached(2), of "\<lparr>verdict_ClientId = 1, verdict_Verdict = False, verdict_Error = None,
      verdict_AppData = None\<rparr>" "(new_client ''ws'' 5)\<lparr>DestinationHandlerName := ''udp''\<rparr>" 100000000 "[1]"]
    sample_view(2) by auto

end
