(* ===== verification/Router.thy ===== *)
theory Router
  imports Proxy Server_Messages
begin

text \<open>
  \<open>pkg/transport/client_connection_router.go\<close>: the part of a client front end that connects one
  transport session to the hub. \<open>OpenConnection\<close> starts a goroutine per client that waits for the
  connection request, then for the verdict, and then splits into one goroutine for each
  direction. A route is the state of those goroutines and of the channels between them and the
  transport; every step is one \<open>select\<close> together with the body of the chosen case. Channels have
  the capacities of the source: a goroutine that would have to wait for room has not taken its
  step yet. The channels to the hub are unbounded lists, as in theory \<open>Proxy\<close>. A route is found by
  its client identifier; the channels of a client whose identifier is used again after \<open>Remove\<close>
  are replaced.
\<close>

section \<open>Errors as text\<close>

text \<open>
  The \<open>Error\<close> methods of \<open>proxy.go\<close>, \<open>client_store.go\<close> and \<open>pkg/errors\<close>; \<open>None\<close> is a panic.
\<close>

fun error_text :: "go_error \<Rightarrow> string option" where
  "error_text (StoreError (DuplicateClientIdError i)) =
     Some (''Attempted to create client with duplicate ID '' @ js_nat_string (unat i))"
| "error_text (StoreError (MissingClientIdError i)) = Some (''Missing client with id='' @ js_nat_string (unat i))"
| "error_text (StoreError TooManyClientsError) = Some ''Too many clients are connected - cannot create new client''"
| "error_text (MissingDestinationHandler n) = Some (''Missing destination handler with name '' @ n)"
| "error_text (MissingClientHandler n) = Some (''Missing client message handler with name '' @ n)"
| "error_text (NoMatchingHandlerForConnectionString s) =
     (if length s < 32 then None
      else Some (''No destination handler can match connection string '' @ take 32 s))"
| "error_text (NameCollision c n) = Some (''Name collision for name '' @ [CHR 0x27] @ n @ [CHR 0x27] @ '' in context '' @ [CHR 0x27] @ c @ [CHR 0x27])"
| "error_text ConnectionTimeout = Some ''Connection timed out''"
| "error_text AuthTimeout = Some ''Auth timeout''"
| "error_text (PlainError s) = Some s"

section \<open>State\<close>

datatype route_phase =
    WaitAuth          \<comment> \<open>the first select\<close>
  | WaitVerdict       \<comment> \<open>the second select\<close>
  | Routing bool bool  \<comment> \<open>which of the two goroutines, outgoing and incoming, still run\<close>
  | Ended

record client_route =
  route_phase :: route_phase
  route_ctxDone :: bool
  route_OutgoingMessages :: "RoutedMessage list"
  route_CloseRequest :: "ClientCloseCommand list"
  route_Verdict :: "OpenClientConnectionVerdict list"
  outgoingPackets :: "bytes option list"
  incomingPackets :: "bytes list"
  clientCloseChannel :: nat
  proxyCloseChannel :: nat
  delivered :: "bytes option list"

record ClientConnectionRouterParams =
  IncomingMessageQueueLength :: nat
  OutgoingMessageQueueLength :: nat

text \<open>\<open>connections\<close> holds the \<open>IsConnected\<close> flag; the channels are in the route.\<close>

record clientConnectionRouter =
  rt_params :: ClientConnectionRouterParams
  connections :: "client_id \<Rightarrow> bool option"
  routes :: "client_id \<Rightarrow> client_route option"
  rt_opens :: "OpenClientConnectionCommand list"
  rt_incoming :: "RoutedMessage list"
  rt_closes :: "ClientCloseCommand list"

definition CreateClientConnectionRouter :: "ClientConnectionRouterParams \<Rightarrow> clientConnectionRouter" where
  "CreateClientConnectionRouter params =
     \<lparr>rt_params = \<lparr>
        IncomingMessageQueueLength = (if IncomingMessageQueueLength params = 0 then 16 else IncomingMessageQueueLength params),
        OutgoingMessageQueueLength = (if OutgoingMessageQueueLength params = 0 then 16 else OutgoingMessageQueueLength params)\<rparr>,
      connections = Map.empty, routes = Map.empty, rt_opens = [], rt_incoming = [], rt_closes = []\<rparr>"

definition new_route :: client_route where
  "new_route = \<lparr>route_phase = WaitAuth, route_ctxDone = False, route_OutgoingMessages = [], route_CloseRequest = [],
     route_Verdict = [], outgoingPackets = [], incomingPackets = [], clientCloseChannel = 0, proxyCloseChannel = 0,
     delivered = []\<rparr>"

text \<open>The identifier comes from \<open>GetNextClientId\<close> of the hub and may be an error.\<close>

definition OpenConnection ::
  "go_error + client_id \<Rightarrow> clientConnectionRouter \<Rightarrow> (go_error + client_id) \<times> clientConnectionRouter" where
  "OpenConnection nextId r =
     (case nextId of
        Inl err \<Rightarrow> (Inl err, r)
      | Inr clientId \<Rightarrow>
         (if connections r clientId \<noteq> None then (Inl (StoreError (DuplicateClientIdError clientId)), r)
          else (Inr clientId, r\<lparr>connections := (connections r)(clientId \<mapsto> False),
            routes := (routes r)(clientId \<mapsto> new_route)\<rparr>)))"

definition Remove :: "client_id \<Rightarrow> clientConnectionRouter \<Rightarrow> clientConnectionRouter" where
  "Remove clientId r = r\<lparr>connections := (connections r)(clientId := None)\<rparr>"

section \<open>What the hub sends\<close>

text \<open>\<open>None\<close>: the send has to wait for room in the client's channel.\<close>

definition handleProxyCloseRequest :: "ClientCloseCommand \<Rightarrow> clientConnectionRouter \<Rightarrow> clientConnectionRouter option" where
  "handleProxyCloseRequest closeRequest r =
     (case connections r (close_ClientId closeRequest) of
        None \<Rightarrow> Some r
      | Some flag \<Rightarrow>
         (case routes r (close_ClientId closeRequest) of
            None \<Rightarrow> None
          | Some c \<Rightarrow>
             (if length (route_CloseRequest c) < 1
              then Some (r\<lparr>routes := (routes r)(close_ClientId closeRequest \<mapsto>
                c\<lparr>route_CloseRequest := route_CloseRequest c @ [closeRequest]\<rparr>)\<rparr>)
              else None)))"

definition handleOutgoingMessageRequest :: "RoutedMessage \<Rightarrow> clientConnectionRouter \<Rightarrow> clientConnectionRouter option" where
  "handleOutgoingMessageRequest msgRequest r =
     (case connections r (msg_ClientId msgRequest) of
        None \<Rightarrow> Some r
      | Some flag \<Rightarrow>
         (case routes r (msg_ClientId msgRequest) of
            None \<Rightarrow> None
          | Some c \<Rightarrow>
             (if length (route_OutgoingMessages c) < OutgoingMessageQueueLength (rt_params r)
              then Some (r\<lparr>routes := (routes r)(msg_ClientId msgRequest \<mapsto>
                c\<lparr>route_OutgoingMessages := route_OutgoingMessages c @ [msgRequest]\<rparr>)\<rparr>)
              else None)))"

definition handleIncomingVerdict :: "OpenClientConnectionVerdict \<Rightarrow> clientConnectionRouter \<Rightarrow> clientConnectionRouter option" where
  "handleIncomingVerdict verdictMsg r =
     (case connections r (verdict_ClientId verdictMsg) of
        None \<Rightarrow> Some r
      | Some flag \<Rightarrow>
         (case routes r (verdict_ClientId verdictMsg) of
            None \<Rightarrow> None
          | Some c \<Rightarrow>
             (if length (route_Verdict c) < 1
              then Some (r\<lparr>routes := (routes r)(verdict_ClientId verdictMsg \<mapsto>
                c\<lparr>route_Verdict := route_Verdict c @ [verdictMsg]\<rparr>)\<rparr>)
              else None)))"

section \<open>The goroutines of a route\<close>

datatype select_case = CtxDone | ClientClosed | CloseRequested | PacketIn | VerdictIn | MessageOut

text \<open>
  \<open>safeParseConnectClientMessage\<close>: whether the runtime panics on the bytes is a parameter; the
  panic is recovered and becomes an error.
\<close>

definition safeParseConnectClientMessage ::
  "('bb, 'f) fb_reader \<Rightarrow> (bytes \<Rightarrow> bool) \<Rightarrow> bytes \<Rightarrow> (string \<times> bytes option) option" where
  "safeParseConnectClientMessage R deformed payload =
     (if deformed payload then None
      else
        let msg = go_GetRootAsConnectClientMessage R payload
        in case go_ConnectClientMessage_AppDataBytes R msg of
          None \<Rightarrow> None
        | Some app \<Rightarrow> Some (go_ConnectClientMessage_ConnectionString R msg, app))"

definition close_command :: "client_id \<Rightarrow> string \<Rightarrow> ClientCloseCommand" where
  "close_command clientId reason =
     \<lparr>close_ClientId = clientId, close_Reason = reason, close_Error = None, close_AppData = None\<rparr>"

text \<open>Each of the following takes a route and yields the route and what it sends to the hub.\<close>

definition await_auth ::
  "('bb, 'f) fb_reader \<Rightarrow> (bytes \<Rightarrow> bool) \<Rightarrow> int \<Rightarrow> select_case \<Rightarrow> client_id \<Rightarrow> client_route \<Rightarrow>
   (client_route \<times> OpenClientConnectionCommand list \<times> ClientCloseCommand list) option" where
  "await_auth R deformed now chosen clientId c =
     (case chosen of
        CtxDone \<Rightarrow>
          (if route_ctxDone c
           then Some (c\<lparr>route_phase := Ended\<rparr>, [], [close_command clientId ''Proxy shutdown request'']) else None)
      | ClientClosed \<Rightarrow>
          (if clientCloseChannel c > 0
           then Some (c\<lparr>clientCloseChannel := clientCloseChannel c - 1, route_phase := Ended\<rparr>, [],
             [close_command clientId ''Proxy shutdown request'']) else None)
      | CloseRequested \<Rightarrow>
          (case route_CloseRequest c of
             [] \<Rightarrow> None
           | q # qs \<Rightarrow> Some (c\<lparr>route_CloseRequest := qs, route_phase := Ended\<rparr>, [],
               [close_command clientId ''Proxy shutdown request'']))
      | PacketIn \<Rightarrow>
          (case incomingPackets c of
             [] \<Rightarrow> None
           | packet # ps \<Rightarrow>
              (case safeParseConnectClientMessage R deformed packet of
                 None \<Rightarrow> Some (c\<lparr>incomingPackets := ps, route_phase := Ended\<rparr>, [], [])
               | Some (connectionString, app) \<Rightarrow>
                   Some (c\<lparr>incomingPackets := ps, route_phase := WaitVerdict\<rparr>,
                     [\<lparr>open_ClientId = clientId, open_RecvTimestamp = now, open_RouteTimestamp = 0,
                       open_ConnectionString = connectionString, open_AppData = app\<rparr>], [])))
      | _ \<Rightarrow> None)"

text \<open>
  Writing to the transport needs room for the packet and, where the route ends, for the close
  signal. A panic in \<open>Error\<close> stops the proxy; such a step does not happen.
\<close>

definition await_verdict :: "('s, 'f) fb_builder \<Rightarrow> nat \<Rightarrow> select_case \<Rightarrow> client_route \<Rightarrow> client_route option" where
  "await_verdict B outLength chosen c =
     (case chosen of
        CtxDone \<Rightarrow>
          (if route_ctxDone c \<and> length (outgoingPackets c) < outLength \<and> proxyCloseChannel c < 1
           then Some (c\<lparr>outgoingPackets := outgoingPackets c @ [Some (createVerdictMsg B False ''Proxy shutdown'' None)],
             proxyCloseChannel := proxyCloseChannel c + 1, route_phase := Ended\<rparr>) else None)
      | ClientClosed \<Rightarrow>
          (if clientCloseChannel c > 0 \<and> proxyCloseChannel c < 1
           then Some (c\<lparr>clientCloseChannel := clientCloseChannel c - 1,
             proxyCloseChannel := proxyCloseChannel c + 1, route_phase := Ended\<rparr>) else None)
      | CloseRequested \<Rightarrow>
          (case route_CloseRequest c of
             [] \<Rightarrow> None
           | q # qs \<Rightarrow>
              (if length (outgoingPackets c) < outLength \<and> proxyCloseChannel c < 1
               then Some (c\<lparr>route_CloseRequest := qs,
                 outgoingPackets := outgoingPackets c @ [Some (createVerdictMsg B False ''Auth timeout'' None)],
                 proxyCloseChannel := proxyCloseChannel c + 1, route_phase := Ended\<rparr>) else None))
      | VerdictIn \<Rightarrow>
          (case route_Verdict c of
             [] \<Rightarrow> None
           | verdictMsg # vs \<Rightarrow>
              (case (case verdict_Error verdictMsg of None \<Rightarrow> Some [] | Some e \<Rightarrow> error_text e) of
                 None \<Rightarrow> None
               | Some verdictString \<Rightarrow>
                  (if length (outgoingPackets c) < outLength \<and> (verdict_Verdict verdictMsg \<or> proxyCloseChannel c < 1)
                   then
                     let c1 = c\<lparr>route_Verdict := vs, outgoingPackets := outgoingPackets c @
                       [Some (createVerdictMsg B (verdict_Verdict verdictMsg) verdictString (verdict_AppData verdictMsg))]\<rparr>
                     in if \<not> verdict_Verdict verdictMsg
                        then Some (c1\<lparr>proxyCloseChannel := proxyCloseChannel c1 + 1, route_phase := Ended\<rparr>)
                        else Some (c1\<lparr>route_phase := Routing True True\<rparr>)
                   else None)))
      | _ \<Rightarrow> None)"

text \<open>The loop from the hub to the transport: the case for the cancelled context is empty.\<close>

definition route_out :: "nat \<Rightarrow> select_case \<Rightarrow> bool \<Rightarrow> client_route \<Rightarrow> client_route option" where
  "route_out outLength chosen inRuns c =
     (case chosen of
        CtxDone \<Rightarrow> (if route_ctxDone c then Some c else None)
      | CloseRequested \<Rightarrow>
          (case route_CloseRequest c of
             [] \<Rightarrow> None
           | q # qs \<Rightarrow>
              (if proxyCloseChannel c < 1
               then Some (c\<lparr>route_CloseRequest := qs, proxyCloseChannel := proxyCloseChannel c + 1,
                 route_phase := Routing False inRuns\<rparr>) else None))
      | MessageOut \<Rightarrow>
          (case route_OutgoingMessages c of
             [] \<Rightarrow> None
           | m # ms \<Rightarrow>
              (if length (outgoingPackets c) < outLength
               then Some (c\<lparr>route_OutgoingMessages := ms, outgoingPackets := outgoingPackets c @ [msg_Data m]\<rparr>) else None))
      | _ \<Rightarrow> None)"

text \<open>The loop from the transport to the hub: the case for the client's close signal is empty.\<close>

definition route_in ::
  "int \<Rightarrow> select_case \<Rightarrow> bool \<Rightarrow> client_id \<Rightarrow> client_route \<Rightarrow>
   (client_route \<times> RoutedMessage list \<times> ClientCloseCommand list) option" where
  "route_in now chosen outRuns clientId c =
     (case chosen of
        CtxDone \<Rightarrow>
          (if route_ctxDone c
           then Some (c\<lparr>route_phase := Routing outRuns False\<rparr>, [], [close_command clientId ''Proxy shutdown request'']) else None)
      | ClientClosed \<Rightarrow>
          (if clientCloseChannel c > 0
           then Some (c\<lparr>clientCloseChannel := clientCloseChannel c - 1\<rparr>, [], []) else None)
      | CloseRequested \<Rightarrow>
          (case route_CloseRequest c of
             [] \<Rightarrow> None
           | q # qs \<Rightarrow> Some (c\<lparr>route_CloseRequest := qs, route_phase := Routing outRuns False\<rparr>, [],
               [close_command clientId ''Close request received from transport'']))
      | PacketIn \<Rightarrow>
          (case incomingPackets c of
             [] \<Rightarrow> None
           | packet # ps \<Rightarrow> Some (c\<lparr>incomingPackets := ps\<rparr>,
               [\<lparr>msg_ClientId = clientId, msg_RecvTimestamp = now, msg_RouteTimestamp = 0, msg_Data = Some packet\<rparr>], []))
      | _ \<Rightarrow> None)"

datatype goroutine = MainLoop | OutLoop | InLoop

text \<open>
  One step of one of a client's goroutines. When the verdict was positive, the client is marked
  as connected if it is still registered.
\<close>

definition run_route ::
  "('s, 'f) fb_builder \<Rightarrow> ('bb, 'f) fb_reader \<Rightarrow> (bytes \<Rightarrow> bool) \<Rightarrow> int \<Rightarrow> goroutine \<Rightarrow> select_case \<Rightarrow> client_id \<Rightarrow>
   clientConnectionRouter \<Rightarrow> clientConnectionRouter option" where
  "run_route B R deformed now g chosen clientId r =
     (case routes r clientId of
        None \<Rightarrow> None
      | Some c \<Rightarrow>
         (case (route_phase c, g) of
            (WaitAuth, MainLoop) \<Rightarrow>
              map_option (\<lambda>(c', opens, closes). r\<lparr>routes := (routes r)(clientId \<mapsto> c'),
                  rt_opens := rt_opens r @ opens, rt_closes := rt_closes r @ closes\<rparr>)
                (await_auth R deformed now chosen clientId c)
          | (WaitVerdict, MainLoop) \<Rightarrow>
              map_option (\<lambda>c'. r\<lparr>routes := (routes r)(clientId \<mapsto> c'),
                  connections := (if route_phase c' = Ended then connections r
                    else (connections r)(clientId := map_option (\<lambda>flag. True) (connections r clientId)))\<rparr>)
                (await_verdict B (OutgoingMessageQueueLength (rt_params r)) chosen c)
          | (Routing True inRuns, OutLoop) \<Rightarrow>
              map_option (\<lambda>c'. r\<lparr>routes := (routes r)(clientId \<mapsto> c')\<rparr>)
                (route_out (OutgoingMessageQueueLength (rt_params r)) chosen inRuns c)
          | (Routing outRuns True, InLoop) \<Rightarrow>
              map_option (\<lambda>(c', msgs, closes). r\<lparr>routes := (routes r)(clientId \<mapsto> c'),
                  rt_incoming := rt_incoming r @ msgs, rt_closes := rt_closes r @ closes\<rparr>)
                (route_in now chosen outRuns clientId c)
          | _ \<Rightarrow> None))"

section \<open>The transport's side of the channels\<close>

text \<open>
  What \<open>onWsRequest\<close> and its WebTransport counterpart do with the channels they get: send what the
  client sent, signal that the client closed, cancel the route's context, take a packet to write
  it to the client, take the close signal.
\<close>

datatype transport_event = TransportPacket bytes | TransportClosed | TransportCancel | TransportWrite | TransportTakeClose

definition transport_step :: "transport_event \<Rightarrow> nat \<Rightarrow> client_route \<Rightarrow> client_route option" where
  "transport_step e inLength c =
     (case e of
        TransportPacket p \<Rightarrow>
          (if length (incomingPackets c) < inLength then Some (c\<lparr>incomingPackets := incomingPackets c @ [p]\<rparr>) else None)
      | TransportClosed \<Rightarrow>
          (if clientCloseChannel c < 1 then Some (c\<lparr>clientCloseChannel := clientCloseChannel c + 1\<rparr>) else None)
      | TransportCancel \<Rightarrow> Some (c\<lparr>route_ctxDone := True\<rparr>)
      | TransportWrite \<Rightarrow>
          (case outgoingPackets c of [] \<Rightarrow> None
           | p # ps \<Rightarrow> Some (c\<lparr>outgoingPackets := ps, delivered := delivered c @ [p]\<rparr>))
      | TransportTakeClose \<Rightarrow>
          (if proxyCloseChannel c > 0 then Some (c\<lparr>proxyCloseChannel := proxyCloseChannel c - 1\<rparr>) else None))"

section \<open>The router as a transition system\<close>

text \<open>
  The hub's identifiers are those of its client store, which does not use one again before its
  counter has gone around, so that a new connection finds no route under its identifier.
\<close>

inductive router_step ::
  "('s, 'f) fb_builder \<Rightarrow> ('bb, 'f) fb_reader \<Rightarrow> (bytes \<Rightarrow> bool) \<Rightarrow> clientConnectionRouter \<Rightarrow> clientConnectionRouter \<Rightarrow> bool"
  for B R deformed where
  open_connection: "routes r i = None \<Longrightarrow> router_step B R deformed r (snd (OpenConnection (Inr i) r))"
| removal: "router_step B R deformed r (Remove i r)"
| hub_close: "handleProxyCloseRequest q r = Some r' \<Longrightarrow> router_step B R deformed r r'"
| hub_message: "handleOutgoingMessageRequest m r = Some r' \<Longrightarrow> router_step B R deformed r r'"
| hub_verdict: "handleIncomingVerdict v r = Some r' \<Longrightarrow> router_step B R deformed r r'"
| goroutine: "run_route B R deformed now g chosen i r = Some r' \<Longrightarrow> router_step B R deformed r r'"
| transport: "routes r i = Some c \<Longrightarrow> transport_step e (IncomingMessageQueueLength (rt_params r)) c = Some c' \<Longrightarrow>
    router_step B R deformed r (r\<lparr>routes := (routes r)(i \<mapsto> c')\<rparr>)"

section \<open>Well-formed routes\<close>

text \<open>No channel holds more than its capacity, and nobody asks the transport to close before a verdict.\<close>

definition channels_ok :: "ClientConnectionRouterParams \<Rightarrow> client_route \<Rightarrow> bool" where
  "channels_ok params c \<longleftrightarrow>
     length (route_OutgoingMessages c) \<le> OutgoingMessageQueueLength params \<and>
     length (outgoingPackets c) \<le> OutgoingMessageQueueLength params \<and>
     length (incomingPackets c) \<le> IncomingMessageQueueLength params \<and>
     length (route_CloseRequest c) \<le> 1 \<and> length (route_Verdict c) \<le> 1 \<and>
     clientCloseChannel c \<le> 1 \<and> proxyCloseChannel c \<le> 1 \<and>
     (route_phase c = WaitAuth \<or> route_phase c = WaitVerdict \<longrightarrow> proxyCloseChannel c = 0)"

text \<open>All the client gets before its verdict is nothing, and a refused client gets nothing else.\<close>

definition is_verdict :: "('s, 'f) fb_builder \<Rightarrow> bool \<Rightarrow> bytes option \<Rightarrow> bool" where
  "is_verdict B ok p \<longleftrightarrow> (\<exists>reason app. p = Some (createVerdictMsg B ok reason app))"

lemma is_verdict_created [simp]: "is_verdict B ok (Some (createVerdictMsg B ok reason app))"
  by (auto simp: is_verdict_def)

definition packets_ok :: "('s, 'f) fb_builder \<Rightarrow> client_route \<Rightarrow> bool" where
  "packets_ok B c = (case (route_phase c, delivered c @ outgoingPackets c) of
     (Routing a b, p # rest) \<Rightarrow> is_verdict B True p
   | (Routing a b, []) \<Rightarrow> False
   | (Ended, p # rest) \<Rightarrow> is_verdict B False p \<and> rest = []
   | (_, packets) \<Rightarrow> packets = [])"

definition is_routing :: "client_route \<Rightarrow> bool" where
  "is_routing c = (case route_phase c of Routing a b \<Rightarrow> True | _ \<Rightarrow> False)"

lemma is_routing_iff: "is_routing c \<longleftrightarrow> (\<exists>a b. route_phase c = Routing a b)"
  by (simp add: is_routing_def split: route_phase.split)

lemmas route_defs = channels_ok_def packets_ok_def is_routing_def

lemma await_auth_ok:
  assumes "await_auth R deformed now chosen i c = Some (c', opens, closes)" and "route_phase c = WaitAuth"
    and "channels_ok P c" and "packets_ok B c"
  shows "channels_ok P c' \<and> packets_ok B c' \<and> \<not> is_routing c' \<and> route_phase c' \<noteq> WaitAuth"
  using assms by (auto simp: await_auth_def route_defs split: select_case.splits if_splits list.splits option.splits)

lemma await_auth_opens:
  assumes "await_auth R deformed now chosen i c = Some (c', opens, closes)"
  shows "opens = [] \<or> (\<exists>x. opens = [x] \<and> open_ClientId x = i)"
  using assms by (auto simp: await_auth_def split: select_case.splits if_splits list.splits option.splits)

lemma await_verdict_ok:
  assumes "await_verdict B (OutgoingMessageQueueLength P) chosen c = Some c'" and "route_phase c = WaitVerdict"
    and "channels_ok P c" and "packets_ok B c"
  shows "channels_ok P c' \<and> packets_ok B c' \<and> (route_phase c' = Ended \<or> is_routing c')"
  using assms by (auto simp: await_verdict_def route_defs Let_def split: select_case.splits if_splits list.splits option.splits)

lemma route_out_ok:
  assumes "route_out (OutgoingMessageQueueLength P) chosen b c = Some c'" and "route_phase c = Routing True b"
    and "channels_ok P c" and "packets_ok B c"
  shows "channels_ok P c' \<and> packets_ok B c' \<and> is_routing c'"
  using assms by (auto simp: route_out_def route_defs append_assoc [symmetric] simp del: append_assoc
      split: select_case.splits if_splits list.splits)

lemma route_in_ok:
  assumes "route_in now chosen a i c = Some (c', msgs, closes)" and "route_phase c = Routing a True"
    and "channels_ok P c" and "packets_ok B c"
  shows "channels_ok P c' \<and> packets_ok B c' \<and> is_routing c' \<and> (\<forall>m \<in> set msgs. msg_ClientId m = i)"
  using assms by (auto simp: route_in_def route_defs split: select_case.splits if_splits list.splits)

lemma transport_ok:
  assumes "transport_step e (IncomingMessageQueueLength P) c = Some c'" and "channels_ok P c" and "packets_ok B c"
  shows "channels_ok P c' \<and> packets_ok B c' \<and> route_phase c' = route_phase c"
proof -
  have "route_phase c' = route_phase c \<and> delivered c' @ outgoingPackets c' = delivered c @ outgoingPackets c \<and> channels_ok P c'"
    using assms(1,2) by (cases e) (auto simp: transport_step_def channels_ok_def split: if_splits list.splits)
  then show ?thesis using assms(3) by (simp add: packets_ok_def)
qed

section \<open>The router's invariant\<close>

definition router_inv :: "('s, 'f) fb_builder \<Rightarrow> clientConnectionRouter \<Rightarrow> bool" where
  "router_inv B r \<longleftrightarrow> 0 < OutgoingMessageQueueLength (rt_params r) \<and>
     (\<forall>i c. routes r i = Some c \<longrightarrow> channels_ok (rt_params r) c \<and> packets_ok B c) \<and>
     (\<forall>i. connections r i \<noteq> None \<longrightarrow> routes r i \<noteq> None) \<and>
     (\<forall>i. connections r i = Some True \<longrightarrow> (\<exists>c. routes r i = Some c \<and> is_routing c)) \<and>
     (\<forall>m \<in> set (rt_incoming r). \<exists>c. routes r (msg_ClientId m) = Some c \<and> is_routing c) \<and>
     (\<forall>x \<in> set (rt_opens r). \<exists>c. routes r (open_ClientId x) = Some c \<and> route_phase c \<noteq> WaitAuth) \<and>
     distinct (map open_ClientId (rt_opens r))"

text \<open>One route changes, and may send to the hub.\<close>

lemma router_inv_update:
  assumes inv: "router_inv B r" and c: "routes r i = Some c"
    and ok: "channels_ok (rt_params r) c'" "packets_ok B c'" and mono: "is_routing c \<longrightarrow> is_routing c'"
      "route_phase c \<noteq> WaitAuth \<longrightarrow> route_phase c' \<noteq> WaitAuth"
    and r': "rt_params r' = rt_params r" "routes r' = (routes r)(i \<mapsto> c')"
    and ms: "rt_incoming r' = rt_incoming r @ ms" "\<forall>m \<in> set ms. msg_ClientId m = i \<and> is_routing c'"
    and os: "rt_opens r' = rt_opens r @ os"
      "os = [] \<or> (\<exists>x. os = [x] \<and> open_ClientId x = i) \<and> route_phase c = WaitAuth \<and> route_phase c' \<noteq> WaitAuth"
    and conn: "\<forall>j. connections r' j \<noteq> None \<longrightarrow> connections r j \<noteq> None"
      "\<forall>j. connections r' j = Some True \<longrightarrow> connections r j = Some True \<or> j = i \<and> is_routing c'"
  shows "router_inv B r'"
proof -
  have opened: "\<exists>d. routes r' (open_ClientId x) = Some d \<and> route_phase d \<noteq> WaitAuth" if "x \<in> set (rt_opens r')" for x
  proof (cases "open_ClientId x = i")
    case True
    have "route_phase c' \<noteq> WaitAuth"
    proof (cases "x \<in> set (rt_opens r)")
      case x: True
      with inv c True have "route_phase c \<noteq> WaitAuth" unfolding router_inv_def by auto
      then show ?thesis using mono(2) by simp
    next
      case False
      with that os show ?thesis by auto
    qed
    then show ?thesis using True r'(2) by simp
  next
    case False
    then have "x \<in> set (rt_opens r)" using that os by auto
    with inv False show ?thesis unfolding router_inv_def r'(2) by simp
  qed
  have fresh: "\<forall>x \<in> set (rt_opens r). open_ClientId x \<noteq> i" if "route_phase c = WaitAuth"
    using inv c that unfolding router_inv_def by auto
  have "distinct (map open_ClientId (rt_opens r))" using inv unfolding router_inv_def by blast
  then have dist: "distinct (map open_ClientId (rt_opens r'))" using os fresh by auto
  have routed: "\<exists>d. routes r' (msg_ClientId m) = Some d \<and> is_routing d" if "m \<in> set (rt_incoming r')" for m
  proof (cases "m \<in> set (rt_incoming r)")
    case True
    with inv obtain d where "routes r (msg_ClientId m) = Some d" "is_routing d" unfolding router_inv_def by blast
    then show ?thesis using c mono(1) r'(2) by (cases "msg_ClientId m = i") auto
  next
    case False
    with that ms show ?thesis by (auto simp: r'(2))
  qed
  have connected: "\<exists>d. routes r' j = Some d \<and> is_routing d" if "connections r' j = Some True" for j
  proof (cases "j = i")
    case True
    have "is_routing c'"
      using conn(2) that True inv c mono(1) unfolding router_inv_def by force
    then show ?thesis by (simp add: True r'(2))
  next
    case False
    then have "connections r j = Some True" using conn(2) that by blast
    with inv False show ?thesis unfolding router_inv_def r'(2) by simp
  qed
  have kept: "routes r' j \<noteq> None" if "connections r' j \<noteq> None" for j
    using conn(1) that inv c unfolding router_inv_def r'(2) by auto
  have "channels_ok (rt_params r') d \<and> packets_ok B d" if "routes r' j = Some d" for j d
    using that inv ok unfolding router_inv_def r' by (auto split: if_splits)
  moreover have "0 < OutgoingMessageQueueLength (rt_params r')" using inv by (simp add: r'(1) router_inv_def)
  ultimately show ?thesis using opened dist routed connected kept unfolding router_inv_def by blast
qed

text \<open>A channel of a route gets a value that there is room for.\<close>

lemma router_inv_push:
  assumes "router_inv B r" and "routes r i = Some c" and "channels_ok (rt_params r) c'"
    and "route_phase c' = route_phase c" and "delivered c' @ outgoingPackets c' = delivered c @ outgoingPackets c"
  shows "router_inv B (r\<lparr>routes := (routes r)(i \<mapsto> c')\<rparr>)"
proof (rule router_inv_update [OF assms(1,2,3), where ms = "[]" and os = "[]"])
  have "packets_ok B c" using assms(1,2) unfolding router_inv_def by blast
  then show "packets_ok B c'" using assms(4,5) by (simp add: packets_ok_def)
qed (simp_all add: assms(4) is_routing_def)

lemma router_inv_hub:
  assumes "router_inv B r"
  shows "handleProxyCloseRequest q r = Some r' \<Longrightarrow> router_inv B r'"
    and "handleOutgoingMessageRequest m r = Some r' \<Longrightarrow> router_inv B r'"
    and "handleIncomingVerdict v r = Some r' \<Longrightarrow> router_inv B r'"
proof -
  have ok: "channels_ok (rt_params r) c" if "routes r i = Some c" for i c using assms that unfolding router_inv_def by blast
  show "router_inv B r'" if "handleProxyCloseRequest q r = Some r'"
    using that assms ok by (auto simp: handleProxyCloseRequest_def channels_ok_def split: option.splits if_splits intro!: router_inv_push)
  show "router_inv B r'" if "handleOutgoingMessageRequest m r = Some r'"
    using that assms ok by (auto simp: handleOutgoingMessageRequest_def channels_ok_def split: option.splits if_splits intro!: router_inv_push)
  show "router_inv B r'" if "handleIncomingVerdict v r = Some r'"
    using that assms ok by (auto simp: handleIncomingVerdict_def channels_ok_def split: option.splits if_splits intro!: router_inv_push)
qed

lemma router_inv_open:
  assumes "router_inv B r" and "routes r i = None"
  shows "router_inv B (snd (OpenConnection (Inr i) r))"
proof -
  have "connections r i = None" using assms unfolding router_inv_def by (metis option.exhaust)
  moreover have "channels_ok (rt_params r) new_route" "packets_ok B new_route"
    by (simp_all add: new_route_def channels_ok_def packets_ok_def)
  ultimately show ?thesis using assms unfolding router_inv_def OpenConnection_def by (auto split: if_splits)
qed

lemma router_inv_run:
  assumes "router_inv B r" and "run_route B R deformed now g chosen i r = Some r'"
  shows "router_inv B r'"
proof -
  obtain c where c: "routes r i = Some c" using assms(2) by (cases "routes r i") (simp_all add: run_route_def)
  have ok: "channels_ok (rt_params r) c" "packets_ok B c" using assms(1) c unfolding router_inv_def by auto
  note upd = router_inv_update [OF assms(1) c]
  show ?thesis
  proof (cases "route_phase c")
    case WaitAuth
    then obtain c' opens closes where run: "await_auth R deformed now chosen i c = Some (c', opens, closes)"
      and r': "r' = r\<lparr>routes := (routes r)(i \<mapsto> c'), rt_opens := rt_opens r @ opens, rt_closes := rt_closes r @ closes\<rparr>"
      using assms(2) c by (auto simp: run_route_def split: goroutine.splits)
    show ?thesis using await_auth_ok [OF run WaitAuth ok] await_auth_opens [OF run] WaitAuth
      by (intro upd [where c' = c' and ms = "[]" and os = opens]) (auto simp: r' is_routing_def)
  next
    case WaitVerdict
    then obtain c' where run: "await_verdict B (OutgoingMessageQueueLength (rt_params r)) chosen c = Some c'"
      and r': "r' = r\<lparr>routes := (routes r)(i \<mapsto> c'), connections := (if route_phase c' = Ended then connections r
        else (connections r)(i := map_option (\<lambda>flag. True) (connections r i)))\<rparr>"
      using assms(2) c by (auto simp: run_route_def split: goroutine.splits)
    show ?thesis using await_verdict_ok [OF run WaitVerdict ok] WaitVerdict
      by (intro upd [where c' = c' and ms = "[]" and os = "[]"])
        (auto simp: r' is_routing_def split: if_splits)
  next
    case (Routing a b)
    show ?thesis
    proof (cases g)
      case OutLoop
      then obtain c' where run: "route_out (OutgoingMessageQueueLength (rt_params r)) chosen b c = Some c'"
        and r': "r' = r\<lparr>routes := (routes r)(i \<mapsto> c')\<rparr>" and a: "a = True"
        using assms(2) c Routing by (auto simp: run_route_def split: bool.splits)
      show ?thesis using route_out_ok [OF run Routing [unfolded a] ok] Routing
        by (intro upd [where c' = c' and ms = "[]" and os = "[]"]) (auto simp: r' is_routing_def)
    next
      case InLoop
      then obtain c' msgs closes where run: "route_in now chosen a i c = Some (c', msgs, closes)"
        and r': "r' = r\<lparr>routes := (routes r)(i \<mapsto> c'), rt_incoming := rt_incoming r @ msgs, rt_closes := rt_closes r @ closes\<rparr>"
        and b: "b = True"
        using assms(2) c Routing by (auto simp: run_route_def split: bool.splits)
      show ?thesis using route_in_ok [OF run Routing [unfolded b] ok] Routing
        by (intro upd [where c' = c' and ms = msgs and os = "[]"]) (auto simp: r' is_routing_def)
    qed (use assms(2) c Routing in \<open>auto simp: run_route_def split: bool.splits\<close>)
  qed (use assms(2) c in \<open>auto simp: run_route_def\<close>)
qed

lemma router_inv_step: "router_step B R deformed r r' \<Longrightarrow> router_inv B r \<Longrightarrow> router_inv B r'"
proof (induction rule: router_step.induct)
  case (removal r i)
  then show ?case unfolding router_inv_def Remove_def by auto
next
  case (transport r i c e c')
  then have "channels_ok (rt_params r) c" "packets_ok B c" unfolding router_inv_def by auto
  note ok = transport_ok [OF transport(2) this]
  show ?case using ok
    by (intro router_inv_update [OF transport(3,1), where ms = "[]" and os = "[]"]) (auto simp: is_routing_def)
next
  case (open_connection r i)
  then show ?case by (intro router_inv_open)
next
  case (hub_close q r r')
  then show ?case by (blast intro: router_inv_hub(1))
next
  case (hub_message m r r')
  then show ?case by (blast intro: router_inv_hub(2))
next
  case (hub_verdict v r r')
  then show ?case by (blast intro: router_inv_hub(3))
next
  case (goroutine now g chosen i r r')
  then show ?case by (blast intro: router_inv_run)
qed

lemma router_reachable_inv:
  "(router_step B R deformed)\<^sup>*\<^sup>* (CreateClientConnectionRouter params) r \<Longrightarrow> router_inv B r"
proof (induction rule: rtranclp_induct)
  case base
  show ?case by (simp add: router_inv_def CreateClientConnectionRouter_def)
qed (rule router_inv_step)

text \<open>A router with one client, for the concrete instances below.\<close>

definition sample_router :: clientConnectionRouter where
  "sample_router = CreateClientConnectionRouter \<lparr>IncomingMessageQueueLength = 0, OutgoingMessageQueueLength = 0\<rparr>"

definition with_route :: "client_route \<Rightarrow> clientConnectionRouter" where
  "with_route c = sample_router\<lparr>connections := [1 \<mapsto> False], routes := [1 \<mapsto> c]\<rparr>"

lemma with_new_route: "(router_step B R deformed)\<^sup>*\<^sup>* sample_router (with_route new_route)"
proof -
  have "with_route new_route = snd (OpenConnection (Inr 1) sample_router)" and none: "routes sample_router 1 = None"
    by (simp_all add: with_route_def OpenConnection_def sample_router_def CreateClientConnectionRouter_def)
  then show ?thesis using router_step.open_connection [OF none] by auto
qed

lemma with_transport:
  assumes "(router_step B R deformed)\<^sup>*\<^sup>* sample_router (with_route c)" and "transport_step e 16 c = Some c'"
  shows "(router_step B R deformed)\<^sup>*\<^sup>* sample_router (with_route c')"
proof -
  have "routes (with_route c) 1 = Some c" "IncomingMessageQueueLength (rt_params (with_route c)) = 16"
    by (simp_all add: with_route_def sample_router_def CreateClientConnectionRouter_def)
  from router_step.transport [OF this(1), of e c' B R deformed] assms(2) this(2)
  have "router_step B R deformed (with_route c) (with_route c')" by (simp add: with_route_def)
  with assms(1) show ?thesis by auto
qed



text \<open>
  C12. A client's session has the order of the protocol: the first packet it is sent is a verdict
  and a refused client is sent nothing more; the hub gets at most one connection request from it,
  and messages only once the verdict was positive.
\<close>

theorem verdict_comes_first:
  assumes "(router_step B R deformed)\<^sup>*\<^sup>* (CreateClientConnectionRouter params) r" and "routes r i = Some c"
  shows "(delivered c = [] \<or> (\<exists>ok reason app rest.
       delivered c = Some (createVerdictMsg B ok reason app) # rest \<and> (ok \<or> rest = []))) \<and>
    length (filter (\<lambda>x. open_ClientId x = i) (rt_opens r)) \<le> 1 \<and>
    (\<forall>m \<in> set (rt_incoming r). msg_ClientId m = i \<longrightarrow> (\<exists>a b. route_phase c = Routing a b))"
proof -
  note inv = router_reachable_inv [OF assms(1)]
  then have packets: "packets_ok B c" using assms(2) unfolding router_inv_def by blast
  have "delivered c = [] \<or> (\<exists>ok p rest. delivered c = p # rest \<and> is_verdict B ok p \<and> (ok \<or> rest = []))"
    using packets by (cases "delivered c") (auto simp: packets_ok_def split: route_phase.splits)
  then have first: "delivered c = [] \<or> (\<exists>ok reason app rest.
       delivered c = Some (createVerdictMsg B ok reason app) # rest \<and> (ok \<or> rest = []))"
    unfolding is_verdict_def by blast
  have "distinct (map open_ClientId (rt_opens r))" using inv unfolding router_inv_def by blast
  then have "length (filter (\<lambda>x. open_ClientId x = i) (rt_opens r)) \<le> 1" by (rule distinct_filter_le1)
  moreover have "\<exists>a b. route_phase c = Routing a b" if "m \<in> set (rt_incoming r)" "msg_ClientId m = i" for m
    using inv that assms(2) unfolding router_inv_def is_routing_iff by fastforce
  ultimately show ?thesis using first by blast
qed

theorem verdict_comes_first_witness:
  "(router_step wire_builder wire_reader (\<lambda>d. False))\<^sup>*\<^sup>* sample_router (with_route new_route) \<and>
   length (filter (\<lambda>x. open_ClientId x = 1) (rt_opens (with_route new_route))) \<le> 1"
proof -
  have reach: "(router_step wire_builder wire_reader (\<lambda>d. False))\<^sup>*\<^sup>* sample_router (with_route new_route)" by (rule with_new_route)
  with verdict_comes_first [OF reach [unfolded sample_router_def], of 1 new_route] show ?thesis
    by (simp add: with_route_def)
qed

text \<open>
  Cancelling the context of a client that still waits always ends its goroutine, without
  waiting for room in any channel: before its request the hub is told to close the client, after
  it the client is sent a negative verdict with the reason and the transport is told to close.
\<close>

theorem cancelled_wait_ends:
  assumes "(router_step B R deformed)\<^sup>*\<^sup>* (CreateClientConnectionRouter params) r" and "routes r i = Some c"
    and "route_ctxDone c" and "route_phase c = WaitAuth \<or> route_phase c = WaitVerdict"
  shows "\<exists>r' c'. run_route B R deformed now MainLoop CtxDone i r = Some r' \<and> routes r' i = Some c' \<and> route_phase c' = Ended \<and>
    (route_phase c = WaitAuth \<longrightarrow> rt_closes r' = rt_closes r @ [close_command i ''Proxy shutdown request'']) \<and>
    (route_phase c = WaitVerdict \<longrightarrow> proxyCloseChannel c' = 1 \<and>
       outgoingPackets c' = [Some (createVerdictMsg B False ''Proxy shutdown'' None)])"
proof -
  note inv = router_reachable_inv [OF assms(1)]
  have ok: "channels_ok (rt_params r) c" "packets_ok B c" "0 < OutgoingMessageQueueLength (rt_params r)"
    using inv assms(2) unfolding router_inv_def by auto
  from assms(4) show ?thesis
  proof
    assume "route_phase c = WaitAuth"
    then show ?thesis using assms(2,3) by (simp add: run_route_def await_auth_def)
  next
    assume phase: "route_phase c = WaitVerdict"
    then have "proxyCloseChannel c = 0" "outgoingPackets c = []" using ok(1,2) by (auto simp: channels_ok_def packets_ok_def)
    then show ?thesis using assms(2,3) phase ok(3) by (simp add: run_route_def await_verdict_def)
  qed
qed

theorem cancelled_wait_ends_witness:
  "\<exists>r' c'. run_route wire_builder wire_reader (\<lambda>d. False) 0 MainLoop CtxDone 1 (with_route (new_route\<lparr>route_ctxDone := True\<rparr>)) = Some r' \<and>
     routes r' 1 = Some c' \<and> route_phase c' = Ended"
proof -
  have "transport_step TransportCancel 16 new_route = Some (new_route\<lparr>route_ctxDone := True\<rparr>)"
    by (simp add: transport_step_def)
  from with_transport [OF with_new_route this]
  have "(router_step wire_builder wire_reader (\<lambda>d. False))\<^sup>*\<^sup>* sample_router (with_route (new_route\<lparr>route_ctxDone := True\<rparr>))" .
  from cancelled_wait_ends [OF this [unfolded sample_router_def], of 1 "new_route\<lparr>route_ctxDone := True\<rparr>" 0] show ?thesis
    by (auto simp: with_route_def new_route_def)
qed

section \<open>Routes that are left behind\<close>

text \<open>What a step of one route does to the others.\<close>

lemma run_route_other:
  assumes "run_route B R deformed now g chosen i r = Some r'" and "j \<noteq> i"
  shows "routes r' j = routes r j" and "connections r' j = connections r j"
  using assms by (auto simp: run_route_def split: option.splits route_phase.splits goroutine.splits bool.splits prod.splits)

lemma run_route_ended:
  assumes "run_route B R deformed now g chosen i r = Some r'" and "routes r i = Some c"
  shows "route_phase c \<noteq> Ended"
  using assms by (auto simp: run_route_def)

text \<open>A route that has ended without a word is never heard of again.\<close>

definition silent :: "client_id \<Rightarrow> clientConnectionRouter \<Rightarrow> bool" where
  "silent i r \<longleftrightarrow> (\<exists>c. routes r i = Some c \<and> route_phase c = Ended \<and> delivered c = [] \<and> outgoingPackets c = [] \<and>
     proxyCloseChannel c = 0)"

lemma silent_other: "silent i r \<Longrightarrow> routes r' i = routes r i \<Longrightarrow> silent i r'"
  by (simp add: silent_def)

lemma silent_step:
  assumes "router_step B R deformed r r'" and "silent i r"
  shows "silent i r'"
  using assms
proof (cases rule: router_step.cases)
  case (open_connection j)
  then show ?thesis using assms(2) by (auto simp: OpenConnection_def silent_def)
next
  case (removal j)
  then show ?thesis using assms(2) by (simp add: Remove_def silent_def)
next
  case (hub_close q)
  then show ?thesis using assms(2) by (auto simp: handleProxyCloseRequest_def silent_def split: option.splits if_splits)
next
  case (hub_message m)
  then show ?thesis using assms(2) by (auto simp: handleOutgoingMessageRequest_def silent_def split: option.splits if_splits)
next
  case (hub_verdict v)
  then show ?thesis using assms(2) by (auto simp: handleIncomingVerdict_def silent_def split: option.splits if_splits)
next
  case (goroutine now g chosen j)
  have "i \<noteq> j" using run_route_ended [OF goroutine] assms(2) by (auto simp: silent_def)
  then show ?thesis using run_route_other(1) [OF goroutine, of i] silent_other [OF assms(2)] by simp
next
  case (transport j c e c')
  then show ?thesis using assms(2)
    by (cases "j = i") (auto simp: silent_def transport_step_def split: transport_event.splits if_splits list.splits)
qed

text \<open>
  When the first packet of a client is not a connection request, or the hub closes the client
  before that packet, the client is never told: whatever happens afterwards, no packet and no
  close signal reaches its transport.
\<close>

theorem auth_failure_never_told:
  assumes "(router_step B R deformed)\<^sup>*\<^sup>* (CreateClientConnectionRouter params) r"
    and "routes r i = Some c" and "route_phase c = WaitAuth"
    and "run_route B R deformed now MainLoop chosen i r = Some r1" and "rt_opens r1 = rt_opens r"
    and "(router_step B R deformed)\<^sup>*\<^sup>* r1 r2"
  shows "\<exists>c2. routes r2 i = Some c2 \<and> delivered c2 = [] \<and> outgoingPackets c2 = [] \<and> proxyCloseChannel c2 = 0"
proof -
  have ok: "channels_ok (rt_params r) c" "packets_ok B c"
    using router_reachable_inv [OF assms(1)] assms(2) unfolding router_inv_def by auto
  then have start: "delivered c = []" "outgoingPackets c = []" "proxyCloseChannel c = 0"
    using assms(3) by (simp_all add: channels_ok_def packets_ok_def)
  have "silent i r1"
    using assms(2-5) start unfolding silent_def
    by (auto simp: run_route_def await_auth_def split: select_case.splits if_splits list.splits option.splits)
  with assms(6) have "silent i r2" by (induction rule: rtranclp_induct) (auto intro: silent_step)
  then show ?thesis unfolding silent_def by blast
qed

theorem auth_failure_never_told_witness:
  "\<exists>r1 c1. run_route wire_builder wire_reader (\<lambda>d. True) 0 MainLoop PacketIn 1 (with_route (new_route\<lparr>incomingPackets := [[1]]\<rparr>)) = Some r1 \<and>
     routes r1 1 = Some c1 \<and> delivered c1 = [] \<and> proxyCloseChannel c1 = 0"
proof -
  let ?c = "new_route\<lparr>incomingPackets := [[1]]\<rparr>"
  have "transport_step (TransportPacket [1]) 16 new_route = Some ?c" by (simp add: transport_step_def new_route_def)
  from with_transport [OF with_new_route this]
  have reach: "(router_step wire_builder wire_reader (\<lambda>d. True))\<^sup>*\<^sup>* sample_router (with_route ?c)" .
  have c: "routes (with_route ?c) 1 = Some ?c" "route_phase ?c = WaitAuth" by (simp_all add: with_route_def new_route_def)
  obtain r1 where run: "run_route wire_builder wire_reader (\<lambda>d. True) 0 MainLoop PacketIn 1 (with_route ?c) = Some r1"
      "rt_opens r1 = rt_opens (with_route ?c)"
    using c by (simp add: run_route_def await_auth_def safeParseConnectClientMessage_def)
  from auth_failure_never_told [OF reach [unfolded sample_router_def] c run, of r1] run(1) show ?thesis by auto
qed

text \<open>The outgoing goroutine of a client that is no longer registered.\<close>

definition orphaned :: "client_id \<Rightarrow> clientConnectionRouter \<Rightarrow> bool" where
  "orphaned i r \<longleftrightarrow> connections r i = None \<and>
     (\<exists>c b. routes r i = Some c \<and> route_phase c = Routing True b \<and> route_CloseRequest c = [])"

lemma orphaned_step:
  assumes "router_step B R deformed r r'" and "orphaned i r"
  shows "orphaned i r'"
  using assms
proof (cases rule: router_step.cases)
  case (open_connection j)
  then show ?thesis using assms(2) by (auto simp: OpenConnection_def orphaned_def)
next
  case (removal j)
  then show ?thesis using assms(2) by (auto simp: Remove_def orphaned_def)
next
  case (hub_close q)
  then show ?thesis using assms(2) by (auto simp: handleProxyCloseRequest_def orphaned_def split: option.splits if_splits)
next
  case (hub_message m)
  then show ?thesis using assms(2) by (auto simp: handleOutgoingMessageRequest_def orphaned_def split: option.splits if_splits)
next
  case (hub_verdict v)
  then show ?thesis using assms(2) by (auto simp: handleIncomingVerdict_def orphaned_def split: option.splits if_splits)
next
  case (goroutine now g chosen j)
  show ?thesis
  proof (cases "j = i")
    case True
    with goroutine assms(2) show ?thesis
      by (cases g) (auto simp: orphaned_def run_route_def route_out_def route_in_def ex_bool_eq
        split: select_case.splits if_splits list.splits bool.splits)
  next
    case False
    then show ?thesis using run_route_other [OF goroutine, of i] assms(2) by (simp add: orphaned_def)
  qed
next
  case (transport j c e c')
  then show ?thesis using assms(2)
    by (cases "j = i") (auto simp: orphaned_def transport_step_def split: transport_event.splits if_splits list.splits)
qed

text \<open>
  A client that is removed while no close request of the hub is waiting for it leaves its
  outgoing goroutine running for good: on no continuation does that goroutine stop, also not
  after its context was cancelled.
\<close>

theorem removed_client_leaks:
  assumes "routes r i = Some c" and "route_phase c = Routing True b" and "route_CloseRequest c = []"
    and "(router_step B R deformed)\<^sup>*\<^sup>* (Remove i r) r'"
  shows "\<exists>c' b'. routes r' i = Some c' \<and> route_phase c' = Routing True b'"
proof -
  have "orphaned i (Remove i r)" using assms(1-3) by (simp add: orphaned_def Remove_def)
  with assms(4) have "orphaned i r'" by (induction rule: rtranclp_induct) (auto intro: orphaned_step)
  then show ?thesis unfolding orphaned_def by blast
qed

theorem removed_client_leaks_witness:
  "\<exists>c' b'. routes (Remove 1 (with_route (new_route\<lparr>route_phase := Routing True True, route_ctxDone := True\<rparr>))) 1 = Some c' \<and>
     route_phase c' = Routing True b'"
  using removed_client_leaks [of "with_route (new_route\<lparr>route_phase := Routing True True, route_ctxDone := True\<rparr>)" 1
      "new_route\<lparr>route_phase := Routing True True, route_ctxDone := True\<rparr>" True wire_builder wire_reader "\<lambda>d. False"]
  by (simp add: with_route_def new_route_def)

end
