(* ===== verification/Library_Messages.thy ===== *)
theory Library_Messages
  imports Message_Codecs
begin

text \<open>
  The messages of the proxy protocol as the repository ships them for other programs,
  \<open>flatbuffers/generated/ts/spanreed-message\<close>. The demo client has its own generated copy (theory
  \<open>Spanreed_Messages\<close>); the two were generated at different times, and only this one has the
  object interface of \<open>ConnectClientMessage\<close> (\<open>unpack\<close>, \<open>unpackTo\<close>, \<open>ConnectClientMessageT\<close>). The
  definitions carry the prefix \<open>lib_\<close>. The lemmas show that a destination server or client that
  uses these classes and one that uses the demo's classes understand each other.
\<close>

section \<open>Definitions\<close>

subsection \<open>\<open>inner-msg.ts\<close>\<close>

datatype lib_InnerMsg = lib_InnerMsg_NONE | lib_InnerMsg_ProxyMessage | lib_InnerMsg_ConnectionVerdict | lib_InnerMsg_CloseConnection

fun lib_InnerMsg_num :: "lib_InnerMsg \<Rightarrow> int" where
  "lib_InnerMsg_num lib_InnerMsg_NONE = 0"
| "lib_InnerMsg_num lib_InnerMsg_ProxyMessage = 1"
| "lib_InnerMsg_num lib_InnerMsg_ConnectionVerdict = 2"
| "lib_InnerMsg_num lib_InnerMsg_CloseConnection = 3"

definition lib_InnerMsg_at :: "int \<Rightarrow> lib_InnerMsg option" where
  "lib_InnerMsg_at n =
     (if n = 0 then Some lib_InnerMsg_NONE
      else if n = 1 then Some lib_InnerMsg_ProxyMessage
      else if n = 2 then Some lib_InnerMsg_ConnectionVerdict
      else if n = 3 then Some lib_InnerMsg_CloseConnection
      else None)"

definition lib_unionToInnerMsg :: "int \<Rightarrow> (lib_InnerMsg \<Rightarrow> 'bb fb_table option) \<Rightarrow> 'bb fb_table option" where
  "lib_unionToInnerMsg type accessor =
     (case lib_InnerMsg_at type of
        Some lib_InnerMsg_NONE \<Rightarrow> None
      | Some lib_InnerMsg_ProxyMessage \<Rightarrow> accessor lib_InnerMsg_ProxyMessage
      | Some lib_InnerMsg_ConnectionVerdict \<Rightarrow> accessor lib_InnerMsg_ConnectionVerdict
      | Some lib_InnerMsg_CloseConnection \<Rightarrow> accessor lib_InnerMsg_CloseConnection
      | None \<Rightarrow> None)"

definition lib_unionListToInnerMsg ::
  "int \<Rightarrow> (int \<Rightarrow> lib_InnerMsg \<Rightarrow> 'bb fb_table option) \<Rightarrow> int \<Rightarrow> 'bb fb_table option" where
  "lib_unionListToInnerMsg type accessor index =
     (case lib_InnerMsg_at type of
        Some lib_InnerMsg_NONE \<Rightarrow> None
      | Some lib_InnerMsg_ProxyMessage \<Rightarrow> accessor index lib_InnerMsg_ProxyMessage
      | Some lib_InnerMsg_ConnectionVerdict \<Rightarrow> accessor index lib_InnerMsg_ConnectionVerdict
      | Some lib_InnerMsg_CloseConnection \<Rightarrow> accessor index lib_InnerMsg_CloseConnection
      | None \<Rightarrow> None)"

subsection \<open>\<open>proxy-dest-inner-msg.ts\<close>\<close>

datatype lib_ProxyDestInnerMsg = lib_ProxyDestInnerMsg_NONE | lib_ProxyDestInnerMsg_ProxyDestConnectionRequest | lib_ProxyDestInnerMsg_ProxyDestClientMessage | lib_ProxyDestInnerMsg_ProxyDestCloseConnection

fun lib_ProxyDestInnerMsg_num :: "lib_ProxyDestInnerMsg \<Rightarrow> int" where
  "lib_ProxyDestInnerMsg_num lib_ProxyDestInnerMsg_NONE = 0"
| "lib_ProxyDestInnerMsg_num lib_ProxyDestInnerMsg_ProxyDestConnectionRequest = 1"
| "lib_ProxyDestInnerMsg_num lib_ProxyDestInnerMsg_ProxyDestClientMessage = 2"
| "lib_ProxyDestInnerMsg_num lib_ProxyDestInnerMsg_ProxyDestCloseConnection = 3"

definition lib_ProxyDestInnerMsg_at :: "int \<Rightarrow> lib_ProxyDestInnerMsg option" where
  "lib_ProxyDestInnerMsg_at n =
     (if n = 0 then Some lib_ProxyDestInnerMsg_NONE
      else if n = 1 then Some lib_ProxyDestInnerMsg_ProxyDestConnectionRequest
      else if n = 2 then Some lib_ProxyDestInnerMsg_ProxyDestClientMessage
      else if n = 3 then Some lib_ProxyDestInnerMsg_ProxyDestCloseConnection
      else None)"

definition lib_unionToProxyDestInnerMsg :: "int \<Rightarrow> (lib_ProxyDestInnerMsg \<Rightarrow> 'bb fb_table option) \<Rightarrow> 'bb fb_table option" where
  "lib_unionToProxyDestInnerMsg type accessor =
     (case lib_ProxyDestInnerMsg_at type of
        Some lib_ProxyDestInnerMsg_NONE \<Rightarrow> None
      | Some lib_ProxyDestInnerMsg_ProxyDestConnectionRequest \<Rightarrow> accessor lib_ProxyDestInnerMsg_ProxyDestConnectionRequest
      | Some lib_ProxyDestInnerMsg_ProxyDestClientMessage \<Rightarrow> accessor lib_ProxyDestInnerMsg_ProxyDestClientMessage
      | Some lib_ProxyDestInnerMsg_ProxyDestCloseConnection \<Rightarrow> accessor lib_ProxyDestInnerMsg_ProxyDestCloseConnection
      | None \<Rightarrow> None)"

definition lib_unionListToProxyDestInnerMsg ::
  "int \<Rightarrow> (int \<Rightarrow> lib_ProxyDestInnerMsg \<Rightarrow> 'bb fb_table option) \<Rightarrow> int \<Rightarrow> 'bb fb_table option" where
  "lib_unionListToProxyDestInnerMsg type accessor index =
     (case lib_ProxyDestInnerMsg_at type of
        Some lib_ProxyDestInnerMsg_NONE \<Rightarrow> None
      | Some lib_ProxyDestInnerMsg_ProxyDestConnectionRequest \<Rightarrow> accessor index lib_ProxyDestInnerMsg_ProxyDestConnectionRequest
      | Some lib_ProxyDestInnerMsg_ProxyDestClientMessage \<Rightarrow> accessor index lib_ProxyDestInnerMsg_ProxyDestClientMessage
      | Some lib_ProxyDestInnerMsg_ProxyDestCloseConnection \<Rightarrow> accessor index lib_ProxyDestInnerMsg_ProxyDestCloseConnection
      | None \<Rightarrow> None)"

subsection \<open>\<open>connect-client-message.ts\<close>\<close>

definition lib_ConnectClientMessage_init :: "int \<Rightarrow> 'bb \<Rightarrow> 'bb fb_table" where
  "lib_ConnectClientMessage_init i b = \<lparr>bb = b, bb_pos = i\<rparr>"

definition lib_getRootAsConnectClientMessage :: "('bb, 'f) fb_reader \<Rightarrow> 'bb \<Rightarrow> 'bb fb_table" where
  "lib_getRootAsConnectClientMessage R b = lib_ConnectClientMessage_init (readInt32 R b (position R b) + position R b) b"

definition lib_getSizePrefixedRootAsConnectClientMessage :: "('bb, 'f) fb_reader \<Rightarrow> 'bb \<Rightarrow> 'bb fb_table" where
  "lib_getSizePrefixedRootAsConnectClientMessage R b =
     (let b' = setPosition R b (position R b + SIZE_PREFIX_LENGTH)
      in lib_ConnectClientMessage_init (readInt32 R b' (position R b') + position R b') b')"

definition lib_ConnectClientMessage_connectionString :: "('bb, 'f) fb_reader \<Rightarrow> 'bb fb_table \<Rightarrow> string option" where
  "lib_ConnectClientMessage_connectionString R t =
     (let offset = fb_offset R (bb t) (bb_pos t) 4
      in if offset \<noteq> 0 then Some (fb_string R (bb t) (bb_pos t + offset)) else None)"

definition lib_ConnectClientMessage_appData :: "('bb, 'f) fb_reader \<Rightarrow> 'bb fb_table \<Rightarrow> int \<Rightarrow> int" where
  "lib_ConnectClientMessage_appData R t index =
     (let offset = fb_offset R (bb t) (bb_pos t) 6
      in if offset \<noteq> 0 then readUint8 R (bb t) (fb_vector R (bb t) (bb_pos t + offset) + index) else 0)"

definition lib_ConnectClientMessage_appDataLength :: "('bb, 'f) fb_reader \<Rightarrow> 'bb fb_table \<Rightarrow> int" where
  "lib_ConnectClientMessage_appDataLength R t =
     (let offset = fb_offset R (bb t) (bb_pos t) 6
      in if offset \<noteq> 0 then fb_vector_len R (bb t) (bb_pos t + offset) else 0)"

definition lib_ConnectClientMessage_appDataArray :: "('bb, 'f) fb_reader \<Rightarrow> 'bb fb_table \<Rightarrow> js_error + bytes option" where
  "lib_ConnectClientMessage_appDataArray R t =
     (let offset = fb_offset R (bb t) (bb_pos t) 6
      in if offset \<noteq> 0
         then map_sum id Some (uint8_view (fb_buffer R (bb t))
           (fb_byteOffset R (bb t) + fb_vector R (bb t) (bb_pos t + offset)) (fb_vector_len R (bb t) (bb_pos t + offset)))
         else Inr None)"

definition lib_startConnectClientMessage :: "('s, 'f) fb_builder \<Rightarrow> ('s, unit) state" where
  "lib_startConnectClientMessage B = startObject B 2"

definition lib_ConnectClientMessage_addConnectionString :: "('s, 'f) fb_builder \<Rightarrow> int \<Rightarrow> ('s, unit) state" where
  "lib_ConnectClientMessage_addConnectionString B connectionStringOffset = addFieldOffset B 0 connectionStringOffset 0"

definition lib_ConnectClientMessage_addAppData :: "('s, 'f) fb_builder \<Rightarrow> int \<Rightarrow> ('s, unit) state" where
  "lib_ConnectClientMessage_addAppData B appDataOffset = addFieldOffset B 1 appDataOffset 0"

definition lib_ConnectClientMessage_createAppDataVector :: "('s, 'f) fb_builder \<Rightarrow> int list \<Rightarrow> ('s, int) state" where
  "lib_ConnectClientMessage_createAppDataVector B data =
     do { startVector B 1 (int (length data)) 1; addInt8Loop B data (length data); endVector B }"

definition lib_ConnectClientMessage_startAppDataVector :: "('s, 'f) fb_builder \<Rightarrow> int \<Rightarrow> ('s, unit) state" where
  "lib_ConnectClientMessage_startAppDataVector B numElems = startVector B 1 numElems 1"

definition lib_endConnectClientMessage :: "('s, 'f) fb_builder \<Rightarrow> ('s, int) state" where
  "lib_endConnectClientMessage B = endObject B"

definition lib_finishConnectClientMessageBuffer :: "('s, 'f) fb_builder \<Rightarrow> int \<Rightarrow> ('s, unit) state" where
  "lib_finishConnectClientMessageBuffer B offset = finish B offset False"

definition lib_finishSizePrefixedConnectClientMessageBuffer :: "('s, 'f) fb_builder \<Rightarrow> int \<Rightarrow> ('s, unit) state" where
  "lib_finishSizePrefixedConnectClientMessageBuffer B offset = finish B offset True"

definition lib_createConnectClientMessage :: "('s, 'f) fb_builder \<Rightarrow> int \<Rightarrow> int \<Rightarrow> ('s, int) state" where
  "lib_createConnectClientMessage B connectionStringOffset appDataOffset =
     do { lib_startConnectClientMessage B;
          lib_ConnectClientMessage_addConnectionString B connectionStringOffset;
          lib_ConnectClientMessage_addAppData B appDataOffset;
          lib_endConnectClientMessage B }"

subsection \<open>\<open>connect-client-verdict.ts\<close>\<close>

definition lib_ConnectClientVerdict_init :: "int \<Rightarrow> 'bb \<Rightarrow> 'bb fb_table" where
  "lib_ConnectClientVerdict_init i b = \<lparr>bb = b, bb_pos = i\<rparr>"

definition lib_getRootAsConnectClientVerdict :: "('bb, 'f) fb_reader \<Rightarrow> 'bb \<Rightarrow> 'bb fb_table" where
  "lib_getRootAsConnectClientVerdict R b = lib_ConnectClientVerdict_init (readInt32 R b (position R b) + position R b) b"

definition lib_getSizePrefixedRootAsConnectClientVerdict :: "('bb, 'f) fb_reader \<Rightarrow> 'bb \<Rightarrow> 'bb fb_table" where
  "lib_getSizePrefixedRootAsConnectClientVerdict R b =
     (let b' = setPosition R b (position R b + SIZE_PREFIX_LENGTH)
      in lib_ConnectClientVerdict_init (readInt32 R b' (position R b') + position R b') b')"

definition lib_ConnectClientVerdict_accepted :: "('bb, 'f) fb_reader \<Rightarrow> 'bb fb_table \<Rightarrow> bool" where
  "lib_ConnectClientVerdict_accepted R t =
     (let offset = fb_offset R (bb t) (bb_pos t) 4
      in if offset \<noteq> 0 then readInt8 R (bb t) (bb_pos t + offset) \<noteq> 0 else False)"

definition lib_ConnectClientVerdict_errorReason :: "('bb, 'f) fb_reader \<Rightarrow> 'bb fb_table \<Rightarrow> string option" where
  "lib_ConnectClientVerdict_errorReason R t =
     (let offset = fb_offset R (bb t) (bb_pos t) 6
      in if offset \<noteq> 0 then Some (fb_string R (bb t) (bb_pos t + offset)) else None)"

definition lib_ConnectClientVerdict_appData :: "('bb, 'f) fb_reader \<Rightarrow> 'bb fb_table \<Rightarrow> int \<Rightarrow> int" where
  "lib_ConnectClientVerdict_appData R t index =
     (let offset = fb_offset R (bb t) (bb_pos t) 8
      in if offset \<noteq> 0 then readUint8 R (bb t) (fb_vector R (bb t) (bb_pos t + offset) + index) else 0)"

definition lib_ConnectClientVerdict_appDataLength :: "('bb, 'f) fb_reader \<Rightarrow> 'bb fb_table \<Rightarrow> int" where
  "lib_ConnectClientVerdict_appDataLength R t =
     (let offset = fb_offset R (bb t) (bb_pos t) 8
      in if offset \<noteq> 0 then fb_vector_len R (bb t) (bb_pos t + offset) else 0)"

definition lib_ConnectClientVerdict_appDataArray :: "('bb, 'f) fb_reader \<Rightarrow> 'bb fb_table \<Rightarrow> js_error + bytes option" where
  "lib_ConnectClientVerdict_appDataArray R t =
     (let offset = fb_offset R (bb t) (bb_pos t) 8
      in if offset \<noteq> 0
         then map_sum id Some (uint8_view (fb_buffer R (bb t))
           (fb_byteOffset R (bb t) + fb_vector R (bb t) (bb_pos t + offset)) (fb_vector_len R (bb t) (bb_pos t + offset)))
         else Inr None)"

definition lib_startConnectClientVerdict :: "('s, 'f) fb_builder \<Rightarrow> ('s, unit) state" where
  "lib_startConnectClientVerdict B = startObject B 3"

definition lib_ConnectClientVerdict_addAccepted :: "('s, 'f) fb_builder \<Rightarrow> bool \<Rightarrow> ('s, unit) state" where
  "lib_ConnectClientVerdict_addAccepted B accepted = addFieldInt8 B 0 (of_bool accepted) (of_bool False)"

definition lib_ConnectClientVerdict_addErrorReason :: "('s, 'f) fb_builder \<Rightarrow> int \<Rightarrow> ('s, unit) state" where
  "lib_ConnectClientVerdict_addErrorReason B errorReasonOffset = addFieldOffset B 1 errorReasonOffset 0"

definition lib_ConnectClientVerdict_addAppData :: "('s, 'f) fb_builder \<Rightarrow> int \<Rightarrow> ('s, unit) state" where
  "lib_ConnectClientVerdict_addAppData B appDataOffset = addFieldOffset B 2 appDataOffset 0"

definition lib_ConnectClientVerdict_createAppDataVector :: "('s, 'f) fb_builder \<Rightarrow> int list \<Rightarrow> ('s, int) state" where
  "lib_ConnectClientVerdict_createAppDataVector B data =
     do { startVector B 1 (int (length data)) 1; addInt8Loop B data (length data); endVector B }"

definition lib_ConnectClientVerdict_startAppDataVector :: "('s, 'f) fb_builder \<Rightarrow> int \<Rightarrow> ('s, unit) state" where
  "lib_ConnectClientVerdict_startAppDataVector B numElems = startVector B 1 numElems 1"

definition lib_endConnectClientVerdict :: "('s, 'f) fb_builder \<Rightarrow> ('s, int) state" where
  "lib_endConnectClientVerdict B = endObject B"

definition lib_finishConnectClientVerdictBuffer :: "('s, 'f) fb_builder \<Rightarrow> int \<Rightarrow> ('s, unit) state" where
  "lib_finishConnectClientVerdictBuffer B offset = finish B offset False"

definition lib_finishSizePrefixedConnectClientVerdictBuffer :: "('s, 'f) fb_builder \<Rightarrow> int \<Rightarrow> ('s, unit) state" where
  "lib_finishSizePrefixedConnectClientVerdictBuffer B offset = finish B offset True"

definition lib_createConnectClientVerdict :: "('s, 'f) fb_builder \<Rightarrow> bool \<Rightarrow> int \<Rightarrow> int \<Rightarrow> ('s, int) state" where
  "lib_createConnectClientVerdict B accepted errorReasonOffset appDataOffset =
     do { lib_startConnectClientVerdict B;
          lib_ConnectClientVerdict_addAccepted B accepted;
          lib_ConnectClientVerdict_addErrorReason B errorReasonOffset;
          lib_ConnectClientVerdict_addAppData B appDataOffset;
          lib_endConnectClientVerdict B }"

subsection \<open>\<open>connect-destination-verdict.ts\<close>\<close>

definition lib_ConnectDestinationVerdict_init :: "int \<Rightarrow> 'bb \<Rightarrow> 'bb fb_table" where
  "lib_ConnectDestinationVerdict_init i b = \<lparr>bb = b, bb_pos = i\<rparr>"

definition lib_getRootAsConnectDestinationVerdict :: "('bb, 'f) fb_reader \<Rightarrow> 'bb \<Rightarrow> 'bb fb_table" where
  "lib_getRootAsConnectDestinationVerdict R b = lib_ConnectDestinationVerdict_init (readInt32 R b (position R b) + position R b) b"

definition lib_getSizePrefixedRootAsConnectDestinationVerdict :: "('bb, 'f) fb_reader \<Rightarrow> 'bb \<Rightarrow> 'bb fb_table" where
  "lib_getSizePrefixedRootAsConnectDestinationVerdict R b =
     (let b' = setPosition R b (position R b + SIZE_PREFIX_LENGTH)
      in lib_ConnectDestinationVerdict_init (readInt32 R b' (position R b') + position R b') b')"

definition lib_ConnectDestinationVerdict_clientId :: "('bb, 'f) fb_reader \<Rightarrow> 'bb fb_table \<Rightarrow> int" where
  "lib_ConnectDestinationVerdict_clientId R t =
     (let offset = fb_offset R (bb t) (bb_pos t) 4
      in if offset \<noteq> 0 then readUint32 R (bb t) (bb_pos t + offset) else 0)"

definition lib_ConnectDestinationVerdict_accepted :: "('bb, 'f) fb_reader \<Rightarrow> 'bb fb_table \<Rightarrow> bool" where
  "lib_ConnectDestinationVerdict_accepted R t =
     (let offset = fb_offset R (bb t) (bb_pos t) 6
      in if offset \<noteq> 0 then readInt8 R (bb t) (bb_pos t + offset) \<noteq> 0 else False)"

definition lib_ConnectDestinationVerdict_errorReason :: "('bb, 'f) fb_reader \<Rightarrow> 'bb fb_table \<Rightarrow> string option" where
  "lib_ConnectDestinationVerdict_errorReason R t =
     (let offset = fb_offset R (bb t) (bb_pos t) 8
      in if offset \<noteq> 0 then Some (fb_string R (bb t) (bb_pos t + offset)) else None)"

definition lib_ConnectDestinationVerdict_appData :: "('bb, 'f) fb_reader \<Rightarrow> 'bb fb_table \<Rightarrow> int \<Rightarrow> int" where
  "lib_ConnectDestinationVerdict_appData R t index =
     (let offset = fb_offset R (bb t) (bb_pos t) 10
      in if offset \<noteq> 0 then readUint8 R (bb t) (fb_vector R (bb t) (bb_pos t + offset) + index) else 0)"

definition lib_ConnectDestinationVerdict_appDataLength :: "('bb, 'f) fb_reader \<Rightarrow> 'bb fb_table \<Rightarrow> int" where
  "lib_ConnectDestinationVerdict_appDataLength R t =
     (let offset = fb_offset R (bb t) (bb_pos t) 10
      in if offset \<noteq> 0 then fb_vector_len R (bb t) (bb_pos t + offset) else 0)"

definition lib_ConnectDestinationVerdict_appDataArray :: "('bb, 'f) fb_reader \<Rightarrow> 'bb fb_table \<Rightarrow> js_error + bytes option" where
  "lib_ConnectDestinationVerdict_appDataArray R t =
     (let offset = fb_offset R (bb t) (bb_pos t) 10
      in if offset \<noteq> 0
         then map_sum id Some (uint8_view (fb_buffer R (bb t))
           (fb_byteOffset R (bb t) + fb_vector R (bb t) (bb_pos t + offset)) (fb_vector_len R (bb t) (bb_pos t + offset)))
         else Inr None)"

definition lib_startConnectDestinationVerdict :: "('s, 'f) fb_builder \<Rightarrow> ('s, unit) state" where
  "lib_startConnectDestinationVerdict B = startObject B 4"

definition lib_ConnectDestinationVerdict_addClientId :: "('s, 'f) fb_builder \<Rightarrow> int \<Rightarrow> ('s, unit) state" where
  "lib_ConnectDestinationVerdict_addClientId B clientId = addFieldInt32 B 0 clientId 0"

definition lib_ConnectDestinationVerdict_addAccepted :: "('s, 'f) fb_builder \<Rightarrow> bool \<Rightarrow> ('s, unit) state" where
  "lib_ConnectDestinationVerdict_addAccepted B accepted = addFieldInt8 B 1 (of_bool accepted) (of_bool False)"

definition lib_ConnectDestinationVerdict_addErrorReason :: "('s, 'f) fb_builder \<Rightarrow> int \<Rightarrow> ('s, unit) state" where
  "lib_ConnectDestinationVerdict_addErrorReason B errorReasonOffset = addFieldOffset B 2 errorReasonOffset 0"

definition lib_ConnectDestinationVerdict_addAppData :: "('s, 'f) fb_builder \<Rightarrow> int \<Rightarrow> ('s, unit) state" where
  "lib_ConnectDestinationVerdict_addAppData B appDataOffset = addFieldOffset B 3 appDataOffset 0"

definition lib_ConnectDestinationVerdict_createAppDataVector :: "('s, 'f) fb_builder \<Rightarrow> int list \<Rightarrow> ('s, int) state" where
  "lib_ConnectDestinationVerdict_createAppDataVector B data =
     do { startVector B 1 (int (length data)) 1; addInt8Loop B data (length data); endVector B }"

definition lib_ConnectDestinationVerdict_startAppDataVector :: "('s, 'f) fb_builder \<Rightarrow> int \<Rightarrow> ('s, unit) state" where
  "lib_ConnectDestinationVerdict_startAppDataVector B numElems = startVector B 1 numElems 1"

definition lib_endConnectDestinationVerdict :: "('s, 'f) fb_builder \<Rightarrow> ('s, int) state" where
  "lib_endConnectDestinationVerdict B = endObject B"

definition lib_finishConnectDestinationVerdictBuffer :: "('s, 'f) fb_builder \<Rightarrow> int \<Rightarrow> ('s, unit) state" where
  "lib_finishConnectDestinationVerdictBuffer B offset = finish B offset False"

definition lib_finishSizePrefixedConnectDestinationVerdictBuffer :: "('s, 'f) fb_builder \<Rightarrow> int \<Rightarrow> ('s, unit) state" where
  "lib_finishSizePrefixedConnectDestinationVerdictBuffer B offset = finish B offset True"

definition lib_createConnectDestinationVerdict :: "('s, 'f) fb_builder \<Rightarrow> int \<Rightarrow> bool \<Rightarrow> int \<Rightarrow> int \<Rightarrow> ('s, int) state" where
  "lib_createConnectDestinationVerdict B clientId accepted errorReasonOffset appDataOffset =
     do { lib_startConnectDestinationVerdict B;
          lib_ConnectDestinationVerdict_addClientId B clientId;
          lib_ConnectDestinationVerdict_addAccepted B accepted;
          lib_ConnectDestinationVerdict_addErrorReason B errorReasonOffset;
          lib_ConnectDestinationVerdict_addAppData B appDataOffset;
          lib_endConnectDestinationVerdict B }"

subsection \<open>\<open>proxy-message.ts\<close>\<close>

definition lib_ProxyMessage_init :: "int \<Rightarrow> 'bb \<Rightarrow> 'bb fb_table" where
  "lib_ProxyMessage_init i b = \<lparr>bb = b, bb_pos = i\<rparr>"

definition lib_getRootAsProxyMessage :: "('bb, 'f) fb_reader \<Rightarrow> 'bb \<Rightarrow> 'bb fb_table" where
  "lib_getRootAsProxyMessage R b = lib_ProxyMessage_init (readInt32 R b (position R b) + position R b) b"

definition lib_getSizePrefixedRootAsProxyMessage :: "('bb, 'f) fb_reader \<Rightarrow> 'bb \<Rightarrow> 'bb fb_table" where
  "lib_getSizePrefixedRootAsProxyMessage R b =
     (let b' = setPosition R b (position R b + SIZE_PREFIX_LENGTH)
      in lib_ProxyMessage_init (readInt32 R b' (position R b') + position R b') b')"

definition lib_ProxyMessage_clientId :: "('bb, 'f) fb_reader \<Rightarrow> 'bb fb_table \<Rightarrow> int" where
  "lib_ProxyMessage_clientId R t =
     (let offset = fb_offset R (bb t) (bb_pos t) 4
      in if offset \<noteq> 0 then readUint32 R (bb t) (bb_pos t + offset) else 0)"

definition lib_startProxyMessage :: "('s, 'f) fb_builder \<Rightarrow> ('s, unit) state" where
  "lib_startProxyMessage B = startObject B 1"

definition lib_ProxyMessage_addClientId :: "('s, 'f) fb_builder \<Rightarrow> int \<Rightarrow> ('s, unit) state" where
  "lib_ProxyMessage_addClientId B clientId = addFieldInt32 B 0 clientId 0"

definition lib_endProxyMessage :: "('s, 'f) fb_builder \<Rightarrow> ('s, int) state" where
  "lib_endProxyMessage B = endObject B"

definition lib_createProxyMessage :: "('s, 'f) fb_builder \<Rightarrow> int \<Rightarrow> ('s, int) state" where
  "lib_createProxyMessage B clientId =
     do { lib_startProxyMessage B;
          lib_ProxyMessage_addClientId B clientId;
          lib_endProxyMessage B }"

subsection \<open>\<open>connection-verdict.ts\<close>\<close>

definition lib_ConnectionVerdict_init :: "int \<Rightarrow> 'bb \<Rightarrow> 'bb fb_table" where
  "lib_ConnectionVerdict_init i b = \<lparr>bb = b, bb_pos = i\<rparr>"

definition lib_getRootAsConnectionVerdict :: "('bb, 'f) fb_reader \<Rightarrow> 'bb \<Rightarrow> 'bb fb_table" where
  "lib_getRootAsConnectionVerdict R b = lib_ConnectionVerdict_init (readInt32 R b (position R b) + position R b) b"

definition lib_getSizePrefixedRootAsConnectionVerdict :: "('bb, 'f) fb_reader \<Rightarrow> 'bb \<Rightarrow> 'bb fb_table" where
  "lib_getSizePrefixedRootAsConnectionVerdict R b =
     (let b' = setPosition R b (position R b + SIZE_PREFIX_LENGTH)
      in lib_ConnectionVerdict_init (readInt32 R b' (position R b') + position R b') b')"

definition lib_ConnectionVerdict_clientId :: "('bb, 'f) fb_reader \<Rightarrow> 'bb fb_table \<Rightarrow> int" where
  "lib_ConnectionVerdict_clientId R t =
     (let offset = fb_offset R (bb t) (bb_pos t) 4
      in if offset \<noteq> 0 then readUint32 R (bb t) (bb_pos t + offset) else 0)"

definition lib_ConnectionVerdict_accepted :: "('bb, 'f) fb_reader \<Rightarrow> 'bb fb_table \<Rightarrow> bool" where
  "lib_ConnectionVerdict_accepted R t =
     (let offset = fb_offset R (bb t) (bb_pos t) 6
      in if offset \<noteq> 0 then readInt8 R (bb t) (bb_pos t + offset) \<noteq> 0 else False)"

definition lib_startConnectionVerdict :: "('s, 'f) fb_builder \<Rightarrow> ('s, unit) state" where
  "lib_startConnectionVerdict B = startObject B 2"

definition lib_ConnectionVerdict_addClientId :: "('s, 'f) fb_builder \<Rightarrow> int \<Rightarrow> ('s, unit) state" where
  "lib_ConnectionVerdict_addClientId B clientId = addFieldInt32 B 0 clientId 0"

definition lib_ConnectionVerdict_addAccepted :: "('s, 'f) fb_builder \<Rightarrow> bool \<Rightarrow> ('s, unit) state" where
  "lib_ConnectionVerdict_addAccepted B accepted = addFieldInt8 B 1 (of_bool accepted) (of_bool False)"

definition lib_endConnectionVerdict :: "('s, 'f) fb_builder \<Rightarrow> ('s, int) state" where
  "lib_endConnectionVerdict B = endObject B"

definition lib_createConnectionVerdict :: "('s, 'f) fb_builder \<Rightarrow> int \<Rightarrow> bool \<Rightarrow> ('s, int) state" where
  "lib_createConnectionVerdict B clientId accepted =
     do { lib_startConnectionVerdict B;
          lib_ConnectionVerdict_addClientId B clientId;
          lib_ConnectionVerdict_addAccepted B accepted;
          lib_endConnectionVerdict B }"

subsection \<open>\<open>close-connection.ts\<close>\<close>

definition lib_CloseConnection_init :: "int \<Rightarrow> 'bb \<Rightarrow> 'bb fb_table" where
  "lib_CloseConnection_init i b = \<lparr>bb = b, bb_pos = i\<rparr>"

definition lib_getRootAsCloseConnection :: "('bb, 'f) fb_reader \<Rightarrow> 'bb \<Rightarrow> 'bb fb_table" where
  "lib_getRootAsCloseConnection R b = lib_CloseConnection_init (readInt32 R b (position R b) + position R b) b"

definition lib_getSizePrefixedRootAsCloseConnection :: "('bb, 'f) fb_reader \<Rightarrow> 'bb \<Rightarrow> 'bb fb_table" where
  "lib_getSizePrefixedRootAsCloseConnection R b =
     (let b' = setPosition R b (position R b + SIZE_PREFIX_LENGTH)
      in lib_CloseConnection_init (readInt32 R b' (position R b') + position R b') b')"

definition lib_CloseConnection_clientId :: "('bb, 'f) fb_reader \<Rightarrow> 'bb fb_table \<Rightarrow> int" where
  "lib_CloseConnection_clientId R t =
     (let offset = fb_offset R (bb t) (bb_pos t) 4
      in if offset \<noteq> 0 then readUint32 R (bb t) (bb_pos t + offset) else 0)"

definition lib_CloseConnection_reason :: "('bb, 'f) fb_reader \<Rightarrow> 'bb fb_table \<Rightarrow> string option" where
  "lib_CloseConnection_reason R t =
     (let offset = fb_offset R (bb t) (bb_pos t) 6
      in if offset \<noteq> 0 then Some (fb_string R (bb t) (bb_pos t + offset)) else None)"

definition lib_startCloseConnection :: "('s, 'f) fb_builder \<Rightarrow> ('s, unit) state" where
  "lib_startCloseConnection B = startObject B 2"

definition lib_CloseConnection_addClientId :: "('s, 'f) fb_builder \<Rightarrow> int \<Rightarrow> ('s, unit) state" where
  "lib_CloseConnection_addClientId B clientId = addFieldInt32 B 0 clientId 0"

definition lib_CloseConnection_addReason :: "('s, 'f) fb_builder \<Rightarrow> int \<Rightarrow> ('s, unit) state" where
  "lib_CloseConnection_addReason B reasonOffset = addFieldOffset B 1 reasonOffset 0"

definition lib_endCloseConnection :: "('s, 'f) fb_builder \<Rightarrow> ('s, int) state" where
  "lib_endCloseConnection B = endObject B"

definition lib_createCloseConnection :: "('s, 'f) fb_builder \<Rightarrow> int \<Rightarrow> int \<Rightarrow> ('s, int) state" where
  "lib_createCloseConnection B clientId reasonOffset =
     do { lib_startCloseConnection B;
          lib_CloseConnection_addClientId B clientId;
          lib_CloseConnection_addReason B reasonOffset;
          lib_endCloseConnection B }"

subsection \<open>\<open>destination-message.ts\<close>\<close>

definition lib_DestinationMessage_init :: "int \<Rightarrow> 'bb \<Rightarrow> 'bb fb_table" where
  "lib_DestinationMessage_init i b = \<lparr>bb = b, bb_pos = i\<rparr>"

definition lib_getRootAsDestinationMessage :: "('bb, 'f) fb_reader \<Rightarrow> 'bb \<Rightarrow> 'bb fb_table" where
  "lib_getRootAsDestinationMessage R b = lib_DestinationMessage_init (readInt32 R b (position R b) + position R b) b"

definition lib_getSizePrefixedRootAsDestinationMessage :: "('bb, 'f) fb_reader \<Rightarrow> 'bb \<Rightarrow> 'bb fb_table" where
  "lib_getSizePrefixedRootAsDestinationMessage R b =
     (let b' = setPosition R b (position R b + SIZE_PREFIX_LENGTH)
      in lib_DestinationMessage_init (readInt32 R b' (position R b') + position R b') b')"

definition lib_DestinationMessage_msgType :: "('bb, 'f) fb_reader \<Rightarrow> 'bb fb_table \<Rightarrow> int" where
  "lib_DestinationMessage_msgType R t =
     (let offset = fb_offset R (bb t) (bb_pos t) 4
      in if offset \<noteq> 0 then readUint8 R (bb t) (bb_pos t + offset) else lib_InnerMsg_num lib_InnerMsg_NONE)"

definition lib_DestinationMessage_msg :: "('bb, 'f) fb_reader \<Rightarrow> 'bb fb_table \<Rightarrow> 'bb fb_table option" where
  "lib_DestinationMessage_msg R t =
     (let offset = fb_offset R (bb t) (bb_pos t) 6
      in if offset \<noteq> 0 then Some \<lparr>bb = bb t, bb_pos = fb_union R (bb t) (bb_pos t + offset)\<rparr> else None)"

definition lib_DestinationMessage_appData :: "('bb, 'f) fb_reader \<Rightarrow> 'bb fb_table \<Rightarrow> int \<Rightarrow> int" where
  "lib_DestinationMessage_appData R t index =
     (let offset = fb_offset R (bb t) (bb_pos t) 8
      in if offset \<noteq> 0 then readUint8 R (bb t) (fb_vector R (bb t) (bb_pos t + offset) + index) else 0)"

definition lib_DestinationMessage_appDataLength :: "('bb, 'f) fb_reader \<Rightarrow> 'bb fb_table \<Rightarrow> int" where
  "lib_DestinationMessage_appDataLength R t =
     (let offset = fb_offset R (bb t) (bb_pos t) 8
      in if offset \<noteq> 0 then fb_vector_len R (bb t) (bb_pos t + offset) else 0)"

definition lib_DestinationMessage_appDataArray :: "('bb, 'f) fb_reader \<Rightarrow> 'bb fb_table \<Rightarrow> js_error + bytes option" where
  "lib_DestinationMessage_appDataArray R t =
     (let offset = fb_offset R (bb t) (bb_pos t) 8
      in if offset \<noteq> 0
         then map_sum id Some (uint8_view (fb_buffer R (bb t))
           (fb_byteOffset R (bb t) + fb_vector R (bb t) (bb_pos t + offset)) (fb_vector_len R (bb t) (bb_pos t + offset)))
         else Inr None)"

definition lib_startDestinationMessage :: "('s, 'f) fb_builder \<Rightarrow> ('s, unit) state" where
  "lib_startDestinationMessage B = startObject B 3"

definition lib_DestinationMessage_addMsgType :: "('s, 'f) fb_builder \<Rightarrow> lib_InnerMsg \<Rightarrow> ('s, unit) state" where
  "lib_DestinationMessage_addMsgType B msgType = addFieldInt8 B 0 (lib_InnerMsg_num msgType) (lib_InnerMsg_num lib_InnerMsg_NONE)"

definition lib_DestinationMessage_addMsg :: "('s, 'f) fb_builder \<Rightarrow> int \<Rightarrow> ('s, unit) state" where
  "lib_DestinationMessage_addMsg B msgOffset = addFieldOffset B 1 msgOffset 0"

definition lib_DestinationMessage_addAppData :: "('s, 'f) fb_builder \<Rightarrow> int \<Rightarrow> ('s, unit) state" where
  "lib_DestinationMessage_addAppData B appDataOffset = addFieldOffset B 2 appDataOffset 0"

definition lib_DestinationMessage_createAppDataVector :: "('s, 'f) fb_builder \<Rightarrow> int list \<Rightarrow> ('s, int) state" where
  "lib_DestinationMessage_createAppDataVector B data =
     do { startVector B 1 (int (length data)) 1; addInt8Loop B data (length data); endVector B }"

definition lib_DestinationMessage_startAppDataVector :: "('s, 'f) fb_builder \<Rightarrow> int \<Rightarrow> ('s, unit) state" where
  "lib_DestinationMessage_startAppDataVector B numElems = startVector B 1 numElems 1"

definition lib_endDestinationMessage :: "('s, 'f) fb_builder \<Rightarrow> ('s, int) state" where
  "lib_endDestinationMessage B = endObject B"

definition lib_finishDestinationMessageBuffer :: "('s, 'f) fb_builder \<Rightarrow> int \<Rightarrow> ('s, unit) state" where
  "lib_finishDestinationMessageBuffer B offset = finish B offset False"

definition lib_finishSizePrefixedDestinationMessageBuffer :: "('s, 'f) fb_builder \<Rightarrow> int \<Rightarrow> ('s, unit) state" where
  "lib_finishSizePrefixedDestinationMessageBuffer B offset = finish B offset True"

definition lib_createDestinationMessage :: "('s, 'f) fb_builder \<Rightarrow> lib_InnerMsg \<Rightarrow> int \<Rightarrow> int \<Rightarrow> ('s, int) state" where
  "lib_createDestinationMessage B msgType msgOffset appDataOffset =
     do { lib_startDestinationMessage B;
          lib_DestinationMessage_addMsgType B msgType;
          lib_DestinationMessage_addMsg B msgOffset;
          lib_DestinationMessage_addAppData B appDataOffset;
          lib_endDestinationMessage B }"

subsection \<open>\<open>proxy-dest-connection-request.ts\<close>\<close>

definition lib_ProxyDestConnectionRequest_init :: "int \<Rightarrow> 'bb \<Rightarrow> 'bb fb_table" where
  "lib_ProxyDestConnectionRequest_init i b = \<lparr>bb = b, bb_pos = i\<rparr>"

definition lib_getRootAsProxyDestConnectionRequest :: "('bb, 'f) fb_reader \<Rightarrow> 'bb \<Rightarrow> 'bb fb_table" where
  "lib_getRootAsProxyDestConnectionRequest R b = lib_ProxyDestConnectionRequest_init (readInt32 R b (position R b) + position R b) b"

definition lib_getSizePrefixedRootAsProxyDestConnectionRequest :: "('bb, 'f) fb_reader \<Rightarrow> 'bb \<Rightarrow> 'bb fb_table" where
  "lib_getSizePrefixedRootAsProxyDestConnectionRequest R b =
     (let b' = setPosition R b (position R b + SIZE_PREFIX_LENGTH)
      in lib_ProxyDestConnectionRequest_init (readInt32 R b' (position R b') + position R b') b')"

definition lib_ProxyDestConnectionRequest_clientId :: "('bb, 'f) fb_reader \<Rightarrow> 'bb fb_table \<Rightarrow> int" where
  "lib_ProxyDestConnectionRequest_clientId R t =
     (let offset = fb_offset R (bb t) (bb_pos t) 4
      in if offset \<noteq> 0 then readUint32 R (bb t) (bb_pos t + offset) else 0)"

definition lib_startProxyDestConnectionRequest :: "('s, 'f) fb_builder \<Rightarrow> ('s, unit) state" where
  "lib_startProxyDestConnectionRequest B = startObject B 1"

definition lib_ProxyDestConnectionRequest_addClientId :: "('s, 'f) fb_builder \<Rightarrow> int \<Rightarrow> ('s, unit) state" where
  "lib_ProxyDestConnectionRequest_addClientId B clientId = addFieldInt32 B 0 clientId 0"

definition lib_endProxyDestConnectionRequest :: "('s, 'f) fb_builder \<Rightarrow> ('s, int) state" where
  "lib_endProxyDestConnectionRequest B = endObject B"

definition lib_createProxyDestConnectionRequest :: "('s, 'f) fb_builder \<Rightarrow> int \<Rightarrow> ('s, int) state" where
  "lib_createProxyDestConnectionRequest B clientId =
     do { lib_startProxyDestConnectionRequest B;
          lib_ProxyDestConnectionRequest_addClientId B clientId;
          lib_endProxyDestConnectionRequest B }"

subsection \<open>\<open>proxy-dest-client-message.ts\<close>\<close>

definition lib_ProxyDestClientMessage_init :: "int \<Rightarrow> 'bb \<Rightarrow> 'bb fb_table" where
  "lib_ProxyDestClientMessage_init i b = \<lparr>bb = b, bb_pos = i\<rparr>"

definition lib_getRootAsProxyDestClientMessage :: "('bb, 'f) fb_reader \<Rightarrow> 'bb \<Rightarrow> 'bb fb_table" where
  "lib_getRootAsProxyDestClientMessage R b = lib_ProxyDestClientMessage_init (readInt32 R b (position R b) + position R b) b"

definition lib_getSizePrefixedRootAsProxyDestClientMessage :: "('bb, 'f) fb_reader \<Rightarrow> 'bb \<Rightarrow> 'bb fb_table" where
  "lib_getSizePrefixedRootAsProxyDestClientMessage R b =
     (let b' = setPosition R b (position R b + SIZE_PREFIX_LENGTH)
      in lib_ProxyDestClientMessage_init (readInt32 R b' (position R b') + position R b') b')"

definition lib_ProxyDestClientMessage_clientId :: "('bb, 'f) fb_reader \<Rightarrow> 'bb fb_table \<Rightarrow> int" where
  "lib_ProxyDestClientMessage_clientId R t =
     (let offset = fb_offset R (bb t) (bb_pos t) 4
      in if offset \<noteq> 0 then readUint32 R (bb t) (bb_pos t + offset) else 0)"

definition lib_startProxyDestClientMessage :: "('s, 'f) fb_builder \<Rightarrow> ('s, unit) state" where
  "lib_startProxyDestClientMessage B = startObject B 1"

definition lib_ProxyDestClientMessage_addClientId :: "('s, 'f) fb_builder \<Rightarrow> int \<Rightarrow> ('s, unit) state" where
  "lib_ProxyDestClientMessage_addClientId B clientId = addFieldInt32 B 0 clientId 0"

definition lib_endProxyDestClientMessage :: "('s, 'f) fb_builder \<Rightarrow> ('s, int) state" where
  "lib_endProxyDestClientMessage B = endObject B"

definition lib_createProxyDestClientMessage :: "('s, 'f) fb_builder \<Rightarrow> int \<Rightarrow> ('s, int) state" where
  "lib_createProxyDestClientMessage B clientId =
     do { lib_startProxyDestClientMessage B;
          lib_ProxyDestClientMessage_addClientId B clientId;
          lib_endProxyDestClientMessage B }"

subsection \<open>\<open>proxy-dest-close-connection.ts\<close>\<close>

definition lib_ProxyDestCloseConnection_init :: "int \<Rightarrow> 'bb \<Rightarrow> 'bb fb_table" where
  "lib_ProxyDestCloseConnection_init i b = \<lparr>bb = b, bb_pos = i\<rparr>"

definition lib_getRootAsProxyDestCloseConnection :: "('bb, 'f) fb_reader \<Rightarrow> 'bb \<Rightarrow> 'bb fb_table" where
  "lib_getRootAsProxyDestCloseConnection R b = lib_ProxyDestCloseConnection_init (readInt32 R b (position R b) + position R b) b"

definition lib_getSizePrefixedRootAsProxyDestCloseConnection :: "('bb, 'f) fb_reader \<Rightarrow> 'bb \<Rightarrow> 'bb fb_table" where
  "lib_getSizePrefixedRootAsProxyDestCloseConnection R b =
     (let b' = setPosition R b (position R b + SIZE_PREFIX_LENGTH)
      in lib_ProxyDestCloseConnection_init (readInt32 R b' (position R b') + position R b') b')"

definition lib_ProxyDestCloseConnection_clientId :: "('bb, 'f) fb_reader \<Rightarrow> 'bb fb_table \<Rightarrow> int" where
  "lib_ProxyDestCloseConnection_clientId R t =
     (let offset = fb_offset R (bb t) (bb_pos t) 4
      in if offset \<noteq> 0 then readUint32 R (bb t) (bb_pos t + offset) else 0)"

definition lib_startProxyDestCloseConnection :: "('s, 'f) fb_builder \<Rightarrow> ('s, unit) state" where
  "lib_startProxyDestCloseConnection B = startObject B 1"

definition lib_ProxyDestCloseConnection_addClientId :: "('s, 'f) fb_builder \<Rightarrow> int \<Rightarrow> ('s, unit) state" where
  "lib_ProxyDestCloseConnection_addClientId B clientId = addFieldInt32 B 0 clientId 0"

definition lib_endProxyDestCloseConnection :: "('s, 'f) fb_builder \<Rightarrow> ('s, int) state" where
  "lib_endProxyDestCloseConnection B = endObject B"

definition lib_createProxyDestCloseConnection :: "('s, 'f) fb_builder \<Rightarrow> int \<Rightarrow> ('s, int) state" where
  "lib_createProxyDestCloseConnection B clientId =
     do { lib_startProxyDestCloseConnection B;
          lib_ProxyDestCloseConnection_addClientId B clientId;
          lib_endProxyDestCloseConnection B }"

subsection \<open>\<open>proxy-destination-message.ts\<close>\<close>

definition lib_ProxyDestinationMessage_init :: "int \<Rightarrow> 'bb \<Rightarrow> 'bb fb_table" where
  "lib_ProxyDestinationMessage_init i b = \<lparr>bb = b, bb_pos = i\<rparr>"

definition lib_getRootAsProxyDestinationMessage :: "('bb, 'f) fb_reader \<Rightarrow> 'bb \<Rightarrow> 'bb fb_table" where
  "lib_getRootAsProxyDestinationMessage R b = lib_ProxyDestinationMessage_init (readInt32 R b (position R b) + position R b) b"

definition lib_getSizePrefixedRootAsProxyDestinationMessage :: "('bb, 'f) fb_reader \<Rightarrow> 'bb \<Rightarrow> 'bb fb_table" where
  "lib_getSizePrefixedRootAsProxyDestinationMessage R b =
     (let b' = setPosition R b (position R b + SIZE_PREFIX_LENGTH)
      in lib_ProxyDestinationMessage_init (readInt32 R b' (position R b') + position R b') b')"

definition lib_ProxyDestinationMessage_innerMessageType :: "('bb, 'f) fb_reader \<Rightarrow> 'bb fb_table \<Rightarrow> int" where
  "lib_ProxyDestinationMessage_innerMessageType R t =
     (let offset = fb_offset R (bb t) (bb_pos t) 4
      in if offset \<noteq> 0 then readUint8 R (bb t) (bb_pos t + offset) else lib_ProxyDestInnerMsg_num lib_ProxyDestInnerMsg_NONE)"

definition lib_ProxyDestinationMessage_innerMessage :: "('bb, 'f) fb_reader \<Rightarrow> 'bb fb_table \<Rightarrow> 'bb fb_table option" where
  "lib_ProxyDestinationMessage_innerMessage R t =
     (let offset = fb_offset R (bb t) (bb_pos t) 6
      in if offset \<noteq> 0 then Some \<lparr>bb = bb t, bb_pos = fb_union R (bb t) (bb_pos t + offset)\<rparr> else None)"

definition lib_ProxyDestinationMessage_appData :: "('bb, 'f) fb_reader \<Rightarrow> 'bb fb_table \<Rightarrow> int \<Rightarrow> int" where
  "lib_ProxyDestinationMessage_appData R t index =
     (let offset = fb_offset R (bb t) (bb_pos t) 8
      in if offset \<noteq> 0 then readUint8 R (bb t) (fb_vector R (bb t) (bb_pos t + offset) + index) else 0)"

definition lib_ProxyDestinationMessage_appDataLength :: "('bb, 'f) fb_reader \<Rightarrow> 'bb fb_table \<Rightarrow> int" where
  "lib_ProxyDestinationMessage_appDataLength R t =
     (let offset = fb_offset R (bb t) (bb_pos t) 8
      in if offset \<noteq> 0 then fb_vector_len R (bb t) (bb_pos t + offset) else 0)"

definition lib_ProxyDestinationMessage_appDataArray :: "('bb, 'f) fb_reader \<Rightarrow> 'bb fb_table \<Rightarrow> js_error + bytes option" where
  "lib_ProxyDestinationMessage_appDataArray R t =
     (let offset = fb_offset R (bb t) (bb_pos t) 8
      in if offset \<noteq> 0
         then map_sum id Some (uint8_view (fb_buffer R (bb t))
           (fb_byteOffset R (bb t) + fb_vector R (bb t) (bb_pos t + offset)) (fb_vector_len R (bb t) (bb_pos t + offset)))
         else Inr None)"

definition lib_startProxyDestinationMessage :: "('s, 'f) fb_builder \<Rightarrow> ('s, unit) state" where
  "lib_startProxyDestinationMessage B = startObject B 3"

definition lib_ProxyDestinationMessage_addInnerMessageType :: "('s, 'f) fb_builder \<Rightarrow> lib_ProxyDestInnerMsg \<Rightarrow> ('s, unit) state" where
  "lib_ProxyDestinationMessage_addInnerMessageType B innerMessageType = addFieldInt8 B 0 (lib_ProxyDestInnerMsg_num innerMessageType) (lib_ProxyDestInnerMsg_num lib_ProxyDestInnerMsg_NONE)"

definition lib_ProxyDestinationMessage_addInnerMessage :: "('s, 'f) fb_builder \<Rightarrow> int \<Rightarrow> ('s, unit) state" where
  "lib_ProxyDestinationMessage_addInnerMessage B innerMessageOffset = addFieldOffset B 1 innerMessageOffset 0"

definition lib_ProxyDestinationMessage_addAppData :: "('s, 'f) fb_builder \<Rightarrow> int \<Rightarrow> ('s, unit) state" where
  "lib_ProxyDestinationMessage_addAppData B appDataOffset = addFieldOffset B 2 appDataOffset 0"

definition lib_ProxyDestinationMessage_createAppDataVector :: "('s, 'f) fb_builder \<Rightarrow> int list \<Rightarrow> ('s, int) state" where
  "lib_ProxyDestinationMessage_createAppDataVector B data =
     do { startVector B 1 (int (length data)) 1; addInt8Loop B data (length data); endVector B }"

definition lib_ProxyDestinationMessage_startAppDataVector :: "('s, 'f) fb_builder \<Rightarrow> int \<Rightarrow> ('s, unit) state" where
  "lib_ProxyDestinationMessage_startAppDataVector B numElems = startVector B 1 numElems 1"

definition lib_endProxyDestinationMessage :: "('s, 'f) fb_builder \<Rightarrow> ('s, int) state" where
  "lib_endProxyDestinationMessage B = endObject B"

definition lib_finishProxyDestinationMessageBuffer :: "('s, 'f) fb_builder \<Rightarrow> int \<Rightarrow> ('s, unit) state" where
  "lib_finishProxyDestinationMessageBuffer B offset = finish B offset False"

definition lib_finishSizePrefixedProxyDestinationMessageBuffer :: "('s, 'f) fb_builder \<Rightarrow> int \<Rightarrow> ('s, unit) state" where
  "lib_finishSizePrefixedProxyDestinationMessageBuffer B offset = finish B offset True"

definition lib_createProxyDestinationMessage :: "('s, 'f) fb_builder \<Rightarrow> lib_ProxyDestInnerMsg \<Rightarrow> int \<Rightarrow> int \<Rightarrow> ('s, int) state" where
  "lib_createProxyDestinationMessage B innerMessageType innerMessageOffset appDataOffset =
     do { lib_startProxyDestinationMessage B;
          lib_ProxyDestinationMessage_addInnerMessageType B innerMessageType;
          lib_ProxyDestinationMessage_addInnerMessage B innerMessageOffset;
          lib_ProxyDestinationMessage_addAppData B appDataOffset;
          lib_endProxyDestinationMessage B }"

subsection \<open>The object interface of \<open>connect-client-message.ts\<close>\<close>

text \<open>
  \<open>connectionString\<close> is a string or \<open>null\<close>; that it may also be given as bytes is left out.
  \<open>createScalarList\<close> belongs to the \<open>flatbuffers\<close> package and is a parameter.
\<close>

record ConnectClientMessageT =
  obj_connectionString :: "string option"
  obj_appData :: "int list"

definition new_ConnectClientMessageT :: ConnectClientMessageT where
  "new_ConnectClientMessageT = \<lparr>obj_connectionString = None, obj_appData = []\<rparr>"

definition lib_ConnectClientMessage_unpack ::
  "((int \<Rightarrow> int) \<Rightarrow> int \<Rightarrow> int list) \<Rightarrow> ('bb, 'f) fb_reader \<Rightarrow> 'bb fb_table \<Rightarrow> ConnectClientMessageT" where
  "lib_ConnectClientMessage_unpack createScalarList R t =
     \<lparr>obj_connectionString = lib_ConnectClientMessage_connectionString R t,
      obj_appData = createScalarList (lib_ConnectClientMessage_appData R t) (lib_ConnectClientMessage_appDataLength R t)\<rparr>"

definition lib_ConnectClientMessage_unpackTo ::
  "((int \<Rightarrow> int) \<Rightarrow> int \<Rightarrow> int list) \<Rightarrow> ('bb, 'f) fb_reader \<Rightarrow> 'bb fb_table \<Rightarrow>
   ConnectClientMessageT \<Rightarrow> ConnectClientMessageT" where
  "lib_ConnectClientMessage_unpackTo createScalarList R t obj =
     (let obj1 = obj\<lparr>obj_connectionString := lib_ConnectClientMessage_connectionString R t\<rparr>
      in obj1\<lparr>obj_appData := createScalarList (lib_ConnectClientMessage_appData R t)
        (lib_ConnectClientMessage_appDataLength R t)\<rparr>)"

definition ConnectClientMessageT_pack :: "('s, 'f) fb_builder \<Rightarrow> ConnectClientMessageT \<Rightarrow> ('s, int) state" where
  "ConnectClientMessageT_pack B obj =
     do { s \<leftarrow> (case obj_connectionString obj of Some str \<Rightarrow> createString B str | None \<Rightarrow> State_Monad.return 0);
          d \<leftarrow> lib_ConnectClientMessage_createAppDataVector B (obj_appData obj);
          lib_createConnectClientMessage B s d }"

text \<open>A program that sends an object: the packed table is finished as the root of the buffer.\<close>

definition packed_buffer :: "('s, 'f) fb_builder \<Rightarrow> int \<Rightarrow> ConnectClientMessageT \<Rightarrow> 's" where
  "packed_buffer B n obj = snd (run_state
     (do { p \<leftarrow> ConnectClientMessageT_pack B obj; lib_finishConnectClientMessageBuffer B p }) (newBuilder B n))"

section \<open>Both copies of the classes agree\<close>

named_theorems lib_same \<open>the library's classes are the client's classes\<close>

lemma lib_readers_same [lib_same]:
  "lib_ConnectClientMessage_init = ConnectClientMessage_init"
  "lib_getRootAsConnectClientMessage = getRootAsConnectClientMessage"
  "lib_getSizePrefixedRootAsConnectClientMessage = getSizePrefixedRootAsConnectClientMessage"
  "lib_ConnectClientMessage_connectionString = ConnectClientMessage_connectionString"
  "lib_ConnectClientMessage_appData = ConnectClientMessage_appData"
  "lib_ConnectClientMessage_appDataLength = ConnectClientMessage_appDataLength"
  "lib_ConnectClientMessage_appDataArray = ConnectClientMessage_appDataArray"
  "lib_ConnectClientVerdict_init = ConnectClientVerdict_init"
  "lib_getRootAsConnectClientVerdict = getRootAsConnectClientVerdict"
  "lib_getSizePrefixedRootAsConnectClientVerdict = getSizePrefixedRootAsConnectClientVerdict"
  "lib_ConnectClientVerdict_accepted = ConnectClientVerdict_accepted"
  "lib_ConnectClientVerdict_errorReason = ConnectClientVerdict_errorReason"
  "lib_ConnectClientVerdict_appData = ConnectClientVerdict_appData"
  "lib_ConnectClientVerdict_appDataLength = ConnectClientVerdict_appDataLength"
  "lib_ConnectClientVerdict_appDataArray = ConnectClientVerdict_appDataArray"
  "lib_ConnectDestinationVerdict_init = ConnectDestinationVerdict_init"
  "lib_getRootAsConnectDestinationVerdict = getRootAsConnectDestinationVerdict"
  "lib_getSizePrefixedRootAsConnectDestinationVerdict = getSizePrefixedRootAsConnectDestinationVerdict"
  "lib_ConnectDestinationVerdict_clientId = ConnectDestinationVerdict_clientId"
  "lib_ConnectDestinationVerdict_accepted = ConnectDestinationVerdict_accepted"
  "lib_ConnectDestinationVerdict_errorReason = ConnectDestinationVerdict_errorReason"
  "lib_ConnectDestinationVerdict_appData = ConnectDestinationVerdict_appData"
  "lib_ConnectDestinationVerdict_appDataLength = ConnectDestinationVerdict_appDataLength"
  "lib_ConnectDestinationVerdict_appDataArray = ConnectDestinationVerdict_appDataArray"
  "lib_ProxyMessage_init = ProxyMessage_init"
  "lib_getRootAsProxyMessage = getRootAsProxyMessage"
  "lib_getSizePrefixedRootAsProxyMessage = getSizePrefixedRootAsProxyMessage"
  "lib_ProxyMessage_clientId = ProxyMessage_clientId"
  "lib_ConnectionVerdict_init = ConnectionVerdict_init"
  "lib_getRootAsConnectionVerdict = getRootAsConnectionVerdict"
  "lib_getSizePrefixedRootAsConnectionVerdict = getSizePrefixedRootAsConnectionVerdict"
  "lib_ConnectionVerdict_clientId = ConnectionVerdict_clientId"
  "lib_ConnectionVerdict_accepted = ConnectionVerdict_accepted"
  "lib_CloseConnection_init = CloseConnection_init"
  "lib_getRootAsCloseConnection = getRootAsCloseConnection"
  "lib_getSizePrefixedRootAsCloseConnection = getSizePrefixedRootAsCloseConnection"
  "lib_CloseConnection_clientId = CloseConnection_clientId"
  "lib_CloseConnection_reason = CloseConnection_reason"
  "lib_DestinationMessage_init = DestinationMessage_init"
  "lib_getRootAsDestinationMessage = getRootAsDestinationMessage"
  "lib_getSizePrefixedRootAsDestinationMessage = getSizePrefixedRootAsDestinationMessage"
  "lib_DestinationMessage_msgType = DestinationMessage_msgType"
  "lib_DestinationMessage_msg = DestinationMessage_msg"
  "lib_DestinationMessage_appData = DestinationMessage_appData"
  "lib_DestinationMessage_appDataLength = DestinationMessage_appDataLength"
  "lib_DestinationMessage_appDataArray = DestinationMessage_appDataArray"
  "lib_ProxyDestConnectionRequest_init = ProxyDestConnectionRequest_init"
  "lib_getRootAsProxyDestConnectionRequest = getRootAsProxyDestConnectionRequest"
  "lib_getSizePrefixedRootAsProxyDestConnectionRequest = getSizePrefixedRootAsProxyDestConnectionRequest"
  "lib_ProxyDestConnectionRequest_clientId = ProxyDestConnectionRequest_clientId"
  "lib_ProxyDestClientMessage_init = ProxyDestClientMessage_init"
  "lib_getRootAsProxyDestClientMessage = getRootAsProxyDestClientMessage"
  "lib_getSizePrefixedRootAsProxyDestClientMessage = getSizePrefixedRootAsProxyDestClientMessage"
  "lib_ProxyDestClientMessage_clientId = ProxyDestClientMessage_clientId"
  "lib_ProxyDestCloseConnection_init = ProxyDestCloseConnection_init"
  "lib_getRootAsProxyDestCloseConnection = getRootAsProxyDestCloseConnection"
  "lib_getSizePrefixedRootAsProxyDestCloseConnection = getSizePrefixedRootAsProxyDestCloseConnection"
  "lib_ProxyDestCloseConnection_clientId = ProxyDestCloseConnection_clientId"
  "lib_ProxyDestinationMessage_init = ProxyDestinationMessage_init"
  "lib_getRootAsProxyDestinationMessage = getRootAsProxyDestinationMessage"
  "lib_getSizePrefixedRootAsProxyDestinationMessage = getSizePrefixedRootAsProxyDestinationMessage"
  "lib_ProxyDestinationMessage_innerMessageType = ProxyDestinationMessage_innerMessageType"
  "lib_ProxyDestinationMessage_innerMessage = ProxyDestinationMessage_innerMessage"
  "lib_ProxyDestinationMessage_appData = ProxyDestinationMessage_appData"
  "lib_ProxyDestinationMessage_appDataLength = ProxyDestinationMessage_appDataLength"
  "lib_ProxyDestinationMessage_appDataArray = ProxyDestinationMessage_appDataArray"
  by (simp_all add: fun_eq_iff Let_def
    lib_ConnectClientMessage_init_def ConnectClientMessage_init_def lib_getRootAsConnectClientMessage_def
    getRootAsConnectClientMessage_def lib_getSizePrefixedRootAsConnectClientMessage_def
    getSizePrefixedRootAsConnectClientMessage_def lib_ConnectClientMessage_connectionString_def
    ConnectClientMessage_connectionString_def lib_ConnectClientMessage_appData_def
    ConnectClientMessage_appData_def lib_ConnectClientMessage_appDataLength_def
    ConnectClientMessage_appDataLength_def lib_ConnectClientMessage_appDataArray_def
    ConnectClientMessage_appDataArray_def lib_ConnectClientVerdict_init_def ConnectClientVerdict_init_def
    lib_getRootAsConnectClientVerdict_def getRootAsConnectClientVerdict_def
    lib_getSizePrefixedRootAsConnectClientVerdict_def getSizePrefixedRootAsConnectClientVerdict_def
    lib_ConnectClientVerdict_accepted_def ConnectClientVerdict_accepted_def
    lib_ConnectClientVerdict_errorReason_def ConnectClientVerdict_errorReason_def
    lib_ConnectClientVerdict_appData_def ConnectClientVerdict_appData_def
    lib_ConnectClientVerdict_appDataLength_def ConnectClientVerdict_appDataLength_def
    lib_ConnectClientVerdict_appDataArray_def ConnectClientVerdict_appDataArray_def
    lib_ConnectDestinationVerdict_init_def ConnectDestinationVerdict_init_def
    lib_getRootAsConnectDestinationVerdict_def getRootAsConnectDestinationVerdict_def
    lib_getSizePrefixedRootAsConnectDestinationVerdict_def getSizePrefixedRootAsConnectDestinationVerdict_def
    lib_ConnectDestinationVerdict_clientId_def ConnectDestinationVerdict_clientId_def
    lib_ConnectDestinationVerdict_accepted_def ConnectDestinationVerdict_accepted_def
    lib_ConnectDestinationVerdict_errorReason_def ConnectDestinationVerdict_errorReason_def
    lib_ConnectDestinationVerdict_appData_def ConnectDestinationVerdict_appData_def
    lib_ConnectDestinationVerdict_appDataLength_def ConnectDestinationVerdict_appDataLength_def
    lib_ConnectDestinationVerdict_appDataArray_def ConnectDestinationVerdict_appDataArray_def
    lib_ProxyMessage_init_def ProxyMessage_init_def lib_getRootAsProxyMessage_def getRootAsProxyMessage_def
    lib_getSizePrefixedRootAsProxyMessage_def getSizePrefixedRootAsProxyMessage_def
    lib_ProxyMessage_clientId_def ProxyMessage_clientId_def lib_ConnectionVerdict_init_def
    ConnectionVerdict_init_def lib_getRootAsConnectionVerdict_def getRootAsConnectionVerdict_def
    lib_getSizePrefixedRootAsConnectionVerdict_def getSizePrefixedRootAsConnectionVerdict_def
    lib_ConnectionVerdict_clientId_def ConnectionVerdict_clientId_def lib_ConnectionVerdict_accepted_def
    ConnectionVerdict_accepted_def lib_CloseConnection_init_def CloseConnection_init_def
    lib_getRootAsCloseConnection_def getRootAsCloseConnection_def lib_getSizePrefixedRootAsCloseConnection_def
    getSizePrefixedRootAsCloseConnection_def lib_CloseConnection_clientId_def CloseConnection_clientId_def
    lib_CloseConnection_reason_def CloseConnection_reason_def lib_DestinationMessage_init_def
    DestinationMessage_init_def lib_getRootAsDestinationMessage_def getRootAsDestinationMessage_def
    lib_getSizePrefixedRootAsDestinationMessage_def getSizePrefixedRootAsDestinationMessage_def
    lib_DestinationMessage_msgType_def DestinationMessage_msgType_def lib_DestinationMessage_msg_def
    DestinationMessage_msg_def lib_DestinationMessage_appData_def DestinationMessage_appData_def
    lib_DestinationMessage_appDataLength_def DestinationMessage_appDataLength_def
    lib_DestinationMessage_appDataArray_def DestinationMessage_appDataArray_def
    lib_ProxyDestConnectionRequest_init_def ProxyDestConnectionRequest_init_def
    lib_getRootAsProxyDestConnectionRequest_def getRootAsProxyDestConnectionRequest_def
    lib_getSizePrefixedRootAsProxyDestConnectionRequest_def
    getSizePrefixedRootAsProxyDestConnectionRequest_def lib_ProxyDestConnectionRequest_clientId_def
    ProxyDestConnectionRequest_clientId_def lib_ProxyDestClientMessage_init_def
    ProxyDestClientMessage_init_def lib_getRootAsProxyDestClientMessage_def
    getRootAsProxyDestClientMessage_def lib_getSizePrefixedRootAsProxyDestClientMessage_def
    getSizePrefixedRootAsProxyDestClientMessage_def lib_ProxyDestClientMessage_clientId_def
    ProxyDestClientMessage_clientId_def lib_ProxyDestCloseConnection_init_def
    ProxyDestCloseConnection_init_def lib_getRootAsProxyDestCloseConnection_def
    getRootAsProxyDestCloseConnection_def lib_getSizePrefixedRootAsProxyDestCloseConnection_def
    getSizePrefixedRootAsProxyDestCloseConnection_def lib_ProxyDestCloseConnection_clientId_def
    ProxyDestCloseConnection_clientId_def lib_ProxyDestinationMessage_init_def
    ProxyDestinationMessage_init_def lib_getRootAsProxyDestinationMessage_def
    getRootAsProxyDestinationMessage_def lib_getSizePrefixedRootAsProxyDestinationMessage_def
    getSizePrefixedRootAsProxyDestinationMessage_def lib_ProxyDestinationMessage_innerMessageType_def
    ProxyDestinationMessage_innerMessageType_def lib_ProxyDestinationMessage_innerMessage_def
    ProxyDestinationMessage_innerMessage_def lib_ProxyDestinationMessage_appData_def
    ProxyDestinationMessage_appData_def lib_ProxyDestinationMessage_appDataLength_def
    ProxyDestinationMessage_appDataLength_def lib_ProxyDestinationMessage_appDataArray_def
    ProxyDestinationMessage_appDataArray_def)

lemma lib_builders_same [lib_same]:
  "lib_startConnectClientMessage = startConnectClientMessage"
  "lib_ConnectClientMessage_addConnectionString = ConnectClientMessage_addConnectionString"
  "lib_ConnectClientMessage_addAppData = ConnectClientMessage_addAppData"
  "lib_ConnectClientMessage_createAppDataVector = ConnectClientMessage_createAppDataVector"
  "lib_ConnectClientMessage_startAppDataVector = ConnectClientMessage_startAppDataVector"
  "lib_endConnectClientMessage = endConnectClientMessage"
  "lib_finishConnectClientMessageBuffer = finishConnectClientMessageBuffer"
  "lib_finishSizePrefixedConnectClientMessageBuffer = finishSizePrefixedConnectClientMessageBuffer"
  "lib_createConnectClientMessage = createConnectClientMessage"
  "lib_startConnectClientVerdict = startConnectClientVerdict"
  "lib_ConnectClientVerdict_addAccepted = ConnectClientVerdict_addAccepted"
  "lib_ConnectClientVerdict_addErrorReason = ConnectClientVerdict_addErrorReason"
  "lib_ConnectClientVerdict_addAppData = ConnectClientVerdict_addAppData"
  "lib_ConnectClientVerdict_createAppDataVector = ConnectClientVerdict_createAppDataVector"
  "lib_ConnectClientVerdict_startAppDataVector = ConnectClientVerdict_startAppDataVector"
  "lib_endConnectClientVerdict = endConnectClientVerdict"
  "lib_finishConnectClientVerdictBuffer = finishConnectClientVerdictBuffer"
  "lib_finishSizePrefixedConnectClientVerdictBuffer = finishSizePrefixedConnectClientVerdictBuffer"
  "lib_createConnectClientVerdict = createConnectClientVerdict"
  "lib_startConnectDestinationVerdict = startConnectDestinationVerdict"
  "lib_ConnectDestinationVerdict_addClientId = ConnectDestinationVerdict_addClientId"
  "lib_ConnectDestinationVerdict_addAccepted = ConnectDestinationVerdict_addAccepted"
  "lib_ConnectDestinationVerdict_addErrorReason = ConnectDestinationVerdict_addErrorReason"
  "lib_ConnectDestinationVerdict_addAppData = ConnectDestinationVerdict_addAppData"
  "lib_ConnectDestinationVerdict_createAppDataVector = ConnectDestinationVerdict_createAppDataVector"
  "lib_ConnectDestinationVerdict_startAppDataVector = ConnectDestinationVerdict_startAppDataVector"
  "lib_endConnectDestinationVerdict = endConnectDestinationVerdict"
  "lib_finishConnectDestinationVerdictBuffer = finishConnectDestinationVerdictBuffer"
  "lib_finishSizePrefixedConnectDestinationVerdictBuffer = finishSizePrefixedConnectDestinationVerdictBuffer"
  "lib_createConnectDestinationVerdict = createConnectDestinationVerdict"
  "lib_startProxyMessage = startProxyMessage"
  "lib_ProxyMessage_addClientId = ProxyMessage_addClientId"
  "lib_endProxyMessage = endProxyMessage"
  "lib_createProxyMessage = createProxyMessage"
  "lib_startConnectionVerdict = startConnectionVerdict"
  "lib_ConnectionVerdict_addClientId = ConnectionVerdict_addClientId"
  "lib_ConnectionVerdict_addAccepted = ConnectionVerdict_addAccepted"
  "lib_endConnectionVerdict = endConnectionVerdict"
  "lib_createConnectionVerdict = createConnectionVerdict"
  "lib_startCloseConnection = startCloseConnection"
  "lib_CloseConnection_addClientId = CloseConnection_addClientId"
  "lib_CloseConnection_addReason = CloseConnection_addReason"
  "lib_endCloseConnection = endCloseConnection"
  "lib_createCloseConnection = createCloseConnection"
  "lib_startDestinationMessage = startDestinationMessage"
  "lib_DestinationMessage_addMsg = DestinationMessage_addMsg"
  "lib_DestinationMessage_addAppData = DestinationMessage_addAppData"
  "lib_DestinationMessage_createAppDataVector = DestinationMessage_createAppDataVector"
  "lib_DestinationMessage_startAppDataVector = DestinationMessage_startAppDataVector"
  "lib_endDestinationMessage = endDestinationMessage"
  "lib_finishDestinationMessageBuffer = finishDestinationMessageBuffer"
  "lib_finishSizePrefixedDestinationMessageBuffer = finishSizePrefixedDestinationMessageBuffer"
  "lib_startProxyDestConnectionRequest = startProxyDestConnectionRequest"
  "lib_ProxyDestConnectionRequest_addClientId = ProxyDestConnectionRequest_addClientId"
  "lib_endProxyDestConnectionRequest = endProxyDestConnectionRequest"
  "lib_createProxyDestConnectionRequest = createProxyDestConnectionRequest"
  "lib_startProxyDestClientMessage = startProxyDestClientMessage"
  "lib_ProxyDestClientMessage_addClientId = ProxyDestClientMessage_addClientId"
  "lib_endProxyDestClientMessage = endProxyDestClientMessage"
  "lib_createProxyDestClientMessage = createProxyDestClientMessage"
  "lib_startProxyDestCloseConnection = startProxyDestCloseConnection"
  "lib_ProxyDestCloseConnection_addClientId = ProxyDestCloseConnection_addClientId"
  "lib_endProxyDestCloseConnection = endProxyDestCloseConnection"
  "lib_createProxyDestCloseConnection = createProxyDestCloseConnection"
  "lib_startProxyDestinationMessage = startProxyDestinationMessage"
  "lib_ProxyDestinationMessage_addInnerMessage = ProxyDestinationMessage_addInnerMessage"
  "lib_ProxyDestinationMessage_addAppData = ProxyDestinationMessage_addAppData"
  "lib_ProxyDestinationMessage_createAppDataVector = ProxyDestinationMessage_createAppDataVector"
  "lib_ProxyDestinationMessage_startAppDataVector = ProxyDestinationMessage_startAppDataVector"
  "lib_endProxyDestinationMessage = endProxyDestinationMessage"
  "lib_finishProxyDestinationMessageBuffer = finishProxyDestinationMessageBuffer"
  "lib_finishSizePrefixedProxyDestinationMessageBuffer = finishSizePrefixedProxyDestinationMessageBuffer"
  by (simp_all add: fun_eq_iff Let_def
    lib_startConnectClientMessage_def startConnectClientMessage_def
    lib_ConnectClientMessage_addConnectionString_def ConnectClientMessage_addConnectionString_def
    lib_ConnectClientMessage_addAppData_def ConnectClientMessage_addAppData_def
    lib_ConnectClientMessage_createAppDataVector_def ConnectClientMessage_createAppDataVector_def
    lib_ConnectClientMessage_startAppDataVector_def ConnectClientMessage_startAppDataVector_def
    lib_endConnectClientMessage_def endConnectClientMessage_def lib_finishConnectClientMessageBuffer_def
    finishConnectClientMessageBuffer_def lib_finishSizePrefixedConnectClientMessageBuffer_def
    finishSizePrefixedConnectClientMessageBuffer_def lib_createConnectClientMessage_def
    createConnectClientMessage_def lib_startConnectClientVerdict_def startConnectClientVerdict_def
    lib_ConnectClientVerdict_addAccepted_def ConnectClientVerdict_addAccepted_def
    lib_ConnectClientVerdict_addErrorReason_def ConnectClientVerdict_addErrorReason_def
    lib_ConnectClientVerdict_addAppData_def ConnectClientVerdict_addAppData_def
    lib_ConnectClientVerdict_createAppDataVector_def ConnectClientVerdict_createAppDataVector_def
    lib_ConnectClientVerdict_startAppDataVector_def ConnectClientVerdict_startAppDataVector_def
    lib_endConnectClientVerdict_def endConnectClientVerdict_def lib_finishConnectClientVerdictBuffer_def
    finishConnectClientVerdictBuffer_def lib_finishSizePrefixedConnectClientVerdictBuffer_def
    finishSizePrefixedConnectClientVerdictBuffer_def lib_createConnectClientVerdict_def
    createConnectClientVerdict_def lib_startConnectDestinationVerdict_def startConnectDestinationVerdict_def
    lib_ConnectDestinationVerdict_addClientId_def ConnectDestinationVerdict_addClientId_def
    lib_ConnectDestinationVerdict_addAccepted_def ConnectDestinationVerdict_addAccepted_def
    lib_ConnectDestinationVerdict_addErrorReason_def ConnectDestinationVerdict_addErrorReason_def
    lib_ConnectDestinationVerdict_addAppData_def ConnectDestinationVerdict_addAppData_def
    lib_ConnectDestinationVerdict_createAppDataVector_def ConnectDestinationVerdict_createAppDataVector_def
    lib_ConnectDestinationVerdict_startAppDataVector_def ConnectDestinationVerdict_startAppDataVector_def
    lib_endConnectDestinationVerdict_def endConnectDestinationVerdict_def
    lib_finishConnectDestinationVerdictBuffer_def finishConnectDestinationVerdictBuffer_def
    lib_finishSizePrefixedConnectDestinationVerdictBuffer_def
    finishSizePrefixedConnectDestinationVerdictBuffer_def lib_createConnectDestinationVerdict_def
    createConnectDestinationVerdict_def lib_startProxyMessage_def startProxyMessage_def
    lib_ProxyMessage_addClientId_def ProxyMessage_addClientId_def lib_endProxyMessage_def endProxyMessage_def
    lib_createProxyMessage_def createProxyMessage_def lib_startConnectionVerdict_def
    startConnectionVerdict_def lib_ConnectionVerdict_addClientId_def ConnectionVerdict_addClientId_def
    lib_ConnectionVerdict_addAccepted_def ConnectionVerdict_addAccepted_def lib_endConnectionVerdict_def
    endConnectionVerdict_def lib_createConnectionVerdict_def createConnectionVerdict_def
    lib_startCloseConnection_def startCloseConnection_def lib_CloseConnection_addClientId_def
    CloseConnection_addClientId_def lib_CloseConnection_addReason_def CloseConnection_addReason_def
    lib_endCloseConnection_def endCloseConnection_def lib_createCloseConnection_def createCloseConnection_def
    lib_startDestinationMessage_def startDestinationMessage_def lib_DestinationMessage_addMsg_def
    DestinationMessage_addMsg_def lib_DestinationMessage_addAppData_def DestinationMessage_addAppData_def
    lib_DestinationMessage_createAppDataVector_def DestinationMessage_createAppDataVector_def
    lib_DestinationMessage_startAppDataVector_def DestinationMessage_startAppDataVector_def
    lib_endDestinationMessage_def endDestinationMessage_def lib_finishDestinationMessageBuffer_def
    finishDestinationMessageBuffer_def lib_finishSizePrefixedDestinationMessageBuffer_def
    finishSizePrefixedDestinationMessageBuffer_def lib_startProxyDestConnectionRequest_def
    startProxyDestConnectionRequest_def lib_ProxyDestConnectionRequest_addClientId_def
    ProxyDestConnectionRequest_addClientId_def lib_endProxyDestConnectionRequest_def
    endProxyDestConnectionRequest_def lib_createProxyDestConnectionRequest_def
    createProxyDestConnectionRequest_def lib_startProxyDestClientMessage_def startProxyDestClientMessage_def
    lib_ProxyDestClientMessage_addClientId_def ProxyDestClientMessage_addClientId_def
    lib_endProxyDestClientMessage_def endProxyDestClientMessage_def lib_createProxyDestClientMessage_def
    createProxyDestClientMessage_def lib_startProxyDestCloseConnection_def startProxyDestCloseConnection_def
    lib_ProxyDestCloseConnection_addClientId_def ProxyDestCloseConnection_addClientId_def
    lib_endProxyDestCloseConnection_def endProxyDestCloseConnection_def lib_createProxyDestCloseConnection_def
    createProxyDestCloseConnection_def lib_startProxyDestinationMessage_def startProxyDestinationMessage_def
    lib_ProxyDestinationMessage_addInnerMessage_def ProxyDestinationMessage_addInnerMessage_def
    lib_ProxyDestinationMessage_addAppData_def ProxyDestinationMessage_addAppData_def
    lib_ProxyDestinationMessage_createAppDataVector_def ProxyDestinationMessage_createAppDataVector_def
    lib_ProxyDestinationMessage_startAppDataVector_def ProxyDestinationMessage_startAppDataVector_def
    lib_endProxyDestinationMessage_def endProxyDestinationMessage_def
    lib_finishProxyDestinationMessageBuffer_def finishProxyDestinationMessageBuffer_def
    lib_finishSizePrefixedProxyDestinationMessageBuffer_def
    finishSizePrefixedProxyDestinationMessageBuffer_def)

text \<open>The two union types correspond by their numbers.\<close>

lemma lib_union_types:
  "lib_InnerMsg_num lib_InnerMsg_NONE = InnerMsg_num InnerMsg_NONE"
  "lib_InnerMsg_num lib_InnerMsg_ProxyMessage = InnerMsg_num InnerMsg_ProxyMessage"
  "lib_InnerMsg_num lib_InnerMsg_ConnectionVerdict = InnerMsg_num InnerMsg_ConnectionVerdict"
  "lib_InnerMsg_num lib_InnerMsg_CloseConnection = InnerMsg_num InnerMsg_CloseConnection"
  "lib_ProxyDestInnerMsg_num lib_ProxyDestInnerMsg_NONE = ProxyDestInnerMsg_num ProxyDestInnerMsg_NONE"
  "lib_ProxyDestInnerMsg_num lib_ProxyDestInnerMsg_ProxyDestConnectionRequest = ProxyDestInnerMsg_num ProxyDestInnerMsg_ProxyDestConnectionRequest"
  "lib_ProxyDestInnerMsg_num lib_ProxyDestInnerMsg_ProxyDestClientMessage = ProxyDestInnerMsg_num ProxyDestInnerMsg_ProxyDestClientMessage"
  "lib_ProxyDestInnerMsg_num lib_ProxyDestInnerMsg_ProxyDestCloseConnection = ProxyDestInnerMsg_num ProxyDestInnerMsg_ProxyDestCloseConnection"
  by simp_all

lemma lib_union_at [simp]:
  "lib_InnerMsg_at (lib_InnerMsg_num k) = Some k" "lib_ProxyDestInnerMsg_at (lib_ProxyDestInnerMsg_num j) = Some j"
  by (cases k; simp add: lib_InnerMsg_at_def) (cases j; simp add: lib_ProxyDestInnerMsg_at_def)

section \<open>The object interface\<close>

context flatbuffers
begin

lemma addInt8Loop_run:
  assumes "valid s" and "mode s = InVector n al cs" and "i \<le> length data"
  shows "valid (snd (run_state (addInt8Loop B data i) s)) \<and>
    mode (snd (run_state (addInt8Loop B data i) s)) = InVector n al (map CInt8 (take i data) @ cs) \<and>
    nodes (snd (run_state (addInt8Loop B data i) s)) = nodes s"
  using assms
  by (induction i arbitrary: s cs) (simp_all add: take_Suc_conv_app_nth)

lemma app_data_vector_added:
  assumes "valid s" and "mode s = Idle"
    and "q = fst (run_state (lib_ConnectClientMessage_createAppDataVector B data) s)"
    and "s' = snd (run_state (lib_ConnectClientMessage_createAppDataVector B data) s)"
  shows "valid s'" and "mode s' = Idle" and "nodes s \<subseteq>\<^sub>m nodes s'"
    and "nodes s' q = Some (FVec (int (length data)) (map CInt8 data))"
proof -
  define s0 where "s0 = snd (run_state (startVector B 1 (int (length data)) 1) s)"
  define s1 where "s1 = snd (run_state (addInt8Loop B data (length data)) s0)"
  have s0: "valid s0" "mode s0 = InVector (int (length data)) 1 []" "nodes s0 = nodes s"
    using assms(1,2) by (simp_all add: s0_def)
  have s1: "valid s1" "mode s1 = InVector (int (length data)) 1 (map CInt8 data)" "nodes s1 = nodes s"
    using addInt8Loop_run [OF s0(1,2), of "length data" data] s0(3) by (simp_all add: s1_def)
  have run: "q = fst (run_state (endVector B) s1)" "s' = snd (run_state (endVector B) s1)"
    using assms(3,4) by (simp_all add: lib_ConnectClientMessage_createAppDataVector_def s0_def s1_def)
  show "valid s'" "mode s' = Idle" "nodes s \<subseteq>\<^sub>m nodes s'" "nodes s' q = Some (FVec (int (length data)) (map CInt8 data))"
    using end_vector_run [of s1] s1 by (auto simp: run map_le_def)
qed

lemma lib_createConnectClientMessage_adds:
  assumes "valid s" and "mode s = Idle" and "p \<noteq> 0 \<longrightarrow> nodes s p \<noteq> None" and "nodes s r = Some nd"
  shows "adds_table (lib_createConnectClientMessage B p r) s
    (FTable 2 (Map.empty(0 := if p = 0 then None else Some (FRef p), 1 := Some (FRef r))))"
  using assms nodes_nonzero [OF assms(1,4)] by (cases "p = 0") (simp_all add: lib_same msg_defs)

text \<open>The byte at each index of a vector of small integers.\<close>

lemma vector_index_field:
  assumes "t = \<lparr>bb = b, bb_pos = addr s p\<rparr>" and "views s b" and "nodes s p = Some (FTable n fs)" and "0 \<le> i" and "i < n" and "k = 4 + 2 * i"
    and "fs i = Some (FRef q)" and "nodes s q = Some (FVec (int (length vs)) (map CInt8 vs))" and "j < length vs"
  shows "(let offset = fb_offset R (bb t) (bb_pos t) k
          in if offset \<noteq> 0 then readUint8 R (bb t) (fb_vector R (bb t) (bb_pos t + offset) + int j) else 0) = vs ! j mod 256"
proof -
  have cells: "cells_size (map CInt8 us :: 'f fb_cell list) = length us" for us by (induction us) simp_all
  have "nodes s q = Some (FVec (int (length vs)) (map CInt8 (take j vs) @ CInt8 (vs ! j) # map CInt8 (drop (Suc j) vs)))"
    using assms(8,9) by (metis id_take_nth_drop list.simps(9) map_append)
  from read_vector_uint8 [OF assms(2-5,7) this] show ?thesis
    using assms offset_present [OF assms(2-5,7)] by (simp add: cells Let_def)
qed

lemma vector_length_field:
  assumes "t = \<lparr>bb = b, bb_pos = addr s p\<rparr>" and "views s b" and "nodes s p = Some (FTable n fs)" and "0 \<le> i" and "i < n" and "k = 4 + 2 * i"
    and "fs i = Some (FRef q)" and "nodes s q = Some (FVec (int (length vs)) (map CInt8 vs))"
  shows "(let offset = fb_offset R (bb t) (bb_pos t) k
          in if offset \<noteq> 0 then fb_vector_len R (bb t) (bb_pos t + offset) else 0) = int (length vs)"
proof -
  have "cells_size (map CInt8 vs :: 'f fb_cell list) = length vs" by (induction vs) simp_all
  with read_vector_len [OF assms(2-5,7,8)] show ?thesis
    using assms offset_present [OF assms(2-5,7)] by (simp add: Let_def)
qed

lemma packed_read:
  assumes "length (asUint8Array B (packed_buffer B n obj)) < 2 ^ 31"
    and "t = lib_getRootAsConnectClientMessage R (newByteBuffer R (asUint8Array B (packed_buffer B n obj)))"
  shows "lib_ConnectClientMessage_connectionString R t = obj_connectionString obj"
    and "lib_ConnectClientMessage_appDataLength R t = int (length (obj_appData obj))"
    and "\<And>j. j < length (obj_appData obj) \<Longrightarrow> lib_ConnectClientMessage_appData R t (int j) = obj_appData obj ! j mod 256"
proof -
  let ?str = "case obj_connectionString obj of Some str \<Rightarrow> createString B str | None \<Rightarrow> State_Monad.return 0"
  define s0 where "s0 = newBuilder B n"
  have s0: "valid s0" "mode s0 = Idle" by (simp_all add: s0_def)
  define p where "p = fst (run_state ?str s0)"
  define s1 where "s1 = snd (run_state ?str s0)"
  have s1: "valid s1" "mode s1 = Idle"
    and p: "p = 0 \<and> obj_connectionString obj = None \<or>
      (\<exists>str. obj_connectionString obj = Some str \<and> nodes s1 p = Some (FString str))"
    using s0 by (cases "obj_connectionString obj"; auto simp: s1_def p_def)+
  define q where "q = fst (run_state (lib_ConnectClientMessage_createAppDataVector B (obj_appData obj)) s1)"
  define s2 where "s2 = snd (run_state (lib_ConnectClientMessage_createAppDataVector B (obj_appData obj)) s1)"
  note v = app_data_vector_added [OF s1 q_def s2_def]
  have "p \<noteq> 0 \<longrightarrow> nodes s2 p \<noteq> None" using p kept [OF v(3)] by auto
  note adds = lib_createConnectClientMessage_adds [OF v(1,2) this v(4)]
  define c where "c = fst (run_state (lib_createConnectClientMessage B p q) s2)"
  define s3 where "s3 = snd (run_state (lib_createConnectClientMessage B p q) s2)"
  note a = adds_tableD [OF adds c_def s3_def]
  define s4 where "s4 = snd (run_state (finish B c False) s3)"
  have data: "packed_buffer B n obj = s4"
    by (simp add: packed_buffer_def ConnectClientMessageT_pack_def lib_finishConnectClientMessageBuffer_def
      s0_def p_def s1_def q_def s2_def c_def s3_def s4_def)
  note f = finish_open [OF a(1,2,4) s4_def assms(1) [unfolded data] refl]
  have root: "t = \<lparr>bb = newByteBuffer R (asUint8Array B s4), bb_pos = addr s4 c\<rparr>"
    by (simp add: assms(2) data lib_getRootAsConnectClientMessage_def lib_ConnectClientMessage_init_def f(3))
  note tab = a(4) [folded f(2)]
  have vec: "nodes s4 q = Some (FVec (int (length (obj_appData obj))) (map CInt8 (obj_appData obj)))"
    using kept [OF a(3) v(4)] f(2) by simp
  have str: "obj_connectionString obj = Some str \<Longrightarrow> nodes s4 p = Some (FString str) \<and> p \<noteq> 0" for str
    using p kept [OF v(3)] kept [OF a(3)] f(2) nodes_nonzero [OF s1(1)] by auto
  show "lib_ConnectClientMessage_connectionString R t = obj_connectionString obj"
    using str p string_field [OF root f(1) tab, of 0] string_field_absent [OF root f(1) tab, of 0]
    by (cases "obj_connectionString obj") (auto simp: lib_ConnectClientMessage_connectionString_def)
  show "lib_ConnectClientMessage_appDataLength R t = int (length (obj_appData obj))"
    unfolding lib_ConnectClientMessage_appDataLength_def
    by (rule vector_length_field [OF root f(1) tab, of 1 _ q]) (simp_all add: vec)
  show "lib_ConnectClientMessage_appData R t (int j) = obj_appData obj ! j mod 256" if "j < length (obj_appData obj)" for j
    unfolding lib_ConnectClientMessage_appData_def
    by (rule vector_index_field [OF root f(1) tab, of 1 _ q]) (simp_all add: vec that)
qed

end

text \<open>
  C36. An object packed with the library's object interface comes back unchanged: \<open>unpack\<close> of the
  finished buffer returns the object, also when the connection string is \<open>null\<close>, \<open>unpackTo\<close>
  overwrites any other object with it, and the demo client's own class reads the same connection
  string, provided that the application data are bytes and the buffer stays below two gigabytes.
\<close>

theorem connect_object_roundtrip:
  assumes "flatbuffers B R valid mode nodes addr views fround feq"
    and "\<And>f k. 0 \<le> k \<Longrightarrow> createScalarList f k = map (\<lambda>j. f (int j)) [0..<nat k]"
    and "length (asUint8Array B (packed_buffer B n obj)) < 2 ^ 31"
    and "b = newByteBuffer R (asUint8Array B (packed_buffer B n obj))"
    and "\<forall>v \<in> set (obj_appData obj). 0 \<le> v \<and> v < 256"
  shows "lib_ConnectClientMessage_unpack createScalarList R (lib_getRootAsConnectClientMessage R b) = obj \<and>
    lib_ConnectClientMessage_unpackTo createScalarList R (lib_getRootAsConnectClientMessage R b) other = obj \<and>
    ConnectClientMessage_connectionString R (getRootAsConnectClientMessage R b) = obj_connectionString obj"
proof -
  let ?t = "lib_getRootAsConnectClientMessage R b"
  note read = flatbuffers.packed_read [OF assms(1,3) refl, folded assms(4)]
  have "createScalarList (lib_ConnectClientMessage_appData R ?t) (lib_ConnectClientMessage_appDataLength R ?t) = obj_appData obj"
    using assms(5) by (intro nth_equalityI) (simp_all add: assms(2) read)
  then show ?thesis
    using read(1) by (simp add: lib_ConnectClientMessage_unpack_def lib_ConnectClientMessage_unpackTo_def lib_same)
qed

theorem connect_object_roundtrip_witness:
  "lib_ConnectClientMessage_unpack (\<lambda>f k. map (\<lambda>j. f (int j)) [0..<nat k]) wire_reader
     (lib_getRootAsConnectClientMessage wire_reader (newByteBuffer wire_reader (asUint8Array wire_builder
       (packed_buffer wire_builder 64 \<lparr>obj_connectionString = Some ''udp:a'', obj_appData = [7, 200]\<rparr>)))) =
   \<lparr>obj_connectionString = Some ''udp:a'', obj_appData = [7, 200]\<rparr>"
proof -
  have "length (asUint8Array wire_builder (packed_buffer wire_builder 64 \<lparr>obj_connectionString = Some ''udp:a'', obj_appData = [7, 200]\<rparr>)) < 2 ^ 31"
    by (simp add: packed_buffer_def ConnectClientMessageT_pack_def ConnectClientMessage_createAppDataVector_def
      finishConnectClientMessageBuffer_def lib_same msg_defs wire_lengths del: node_bytes.simps)
  from connect_object_roundtrip [OF wire.flatbuffers_axioms _ this refl, of "\<lambda>f k. map (\<lambda>j. f (int j)) [0..<nat k]"]
  show ?thesis by simp
qed

section \<open>The messages between the proxy and a destination\<close>

text \<open>
  \<open>DestinationMessage\<close> and \<open>ProxyDestinationMessage\<close> have the same layout: a union with its type,
  and application data that may be absent.
\<close>

context flatbuffers
begin

definition envelope :: "int \<Rightarrow> int \<Rightarrow> int option \<Rightarrow> 'f fb_node" where
  "envelope k m d = FTable 3 (Map.empty(0 := Some (FInt8 k), 1 := Some (FRef m), 2 := map_option FRef d))"

lemma envelope_read:
  assumes "adds_table P s (envelope k m d)" and "nodes s m = Some (FTable n fs)" and "0 \<le> k" and "k < 256"
    and "\<And>a. d = Some a \<Longrightarrow> nodes s a = Some (FVec (int (length (the app))) (byte_cells (the app)))"
    and "d = None \<longleftrightarrow> app = None"
    and "s' = snd (run_state (do { c \<leftarrow> P; finish B c False }) s)"
    and "length (asUint8Array B s') < 2 ^ 31" and "b = newByteBuffer R (asUint8Array B s')"
    and "t = \<lparr>bb = b, bb_pos = readInt32 R b (position R b) + position R b\<rparr>"
  shows "views s' b" and "nodes s \<subseteq>\<^sub>m nodes s'"
    and "(let offset = fb_offset R (bb t) (bb_pos t) 4
          in if offset \<noteq> 0 then readUint8 R (bb t) (bb_pos t + offset) else j) = k"
    and "(let offset = fb_offset R (bb t) (bb_pos t) 6
          in if offset \<noteq> 0 then Some \<lparr>bb = bb t, bb_pos = fb_union R (bb t) (bb_pos t + offset)\<rparr> else None) =
         Some \<lparr>bb = b, bb_pos = addr s' m\<rparr>"
    and "(let offset = fb_offset R (bb t) (bb_pos t) 8
          in if offset \<noteq> 0
             then map_sum id Some (uint8_view (fb_buffer R (bb t))
               (fb_byteOffset R (bb t) + fb_vector R (bb t) (bb_pos t + offset)) (fb_vector_len R (bb t) (bb_pos t + offset)))
             else Inr None) = Inr app"
proof -
  define c where "c = fst (run_state P s)"
  define s1 where "s1 = snd (run_state P s)"
  note a = adds_tableD [OF assms(1) c_def s1_def]
  have s': "s' = snd (run_state (finish B c False) s1)" by (simp add: assms(7) c_def s1_def)
  note f = finish_open [OF a(1,2,4) s' assms(8,9)]
  have root: "t = \<lparr>bb = b, bb_pos = addr s' c\<rparr>" by (simp add: assms(10) f(3))
  have tab: "nodes s' c = Some (FTable 3 (Map.empty(0 := Some (FInt8 k), 1 := Some (FRef m), 2 := map_option FRef d)))"
    using a(4) f(2) by (simp add: envelope_def)
  show "views s' b" by (rule f(1))
  show "nodes s \<subseteq>\<^sub>m nodes s'" using a(3) f(2) by simp
  show "(let offset = fb_offset R (bb t) (bb_pos t) 4
          in if offset \<noteq> 0 then readUint8 R (bb t) (bb_pos t + offset) else j) = k"
    using assms(3,4) by (simp add: uint8_field [OF root f(1) tab, of 0])
  have "nodes s' m = Some (FTable n fs)" using kept [OF a(3) assms(2)] f(2) by simp
  then show "(let offset = fb_offset R (bb t) (bb_pos t) 6
          in if offset \<noteq> 0 then Some \<lparr>bb = bb t, bb_pos = fb_union R (bb t) (bb_pos t + offset)\<rparr> else None) =
         Some \<lparr>bb = b, bb_pos = addr s' m\<rparr>"
    by (intro union_field [OF root f(1) tab, of 1]) simp_all
  show "(let offset = fb_offset R (bb t) (bb_pos t) 8
          in if offset \<noteq> 0
             then map_sum id Some (uint8_view (fb_buffer R (bb t))
               (fb_byteOffset R (bb t) + fb_vector R (bb t) (bb_pos t + offset)) (fb_vector_len R (bb t) (bb_pos t + offset)))
             else Inr None) = Inr app"
  proof (cases d)
    case None
    with assms(6) show ?thesis by (intro no_byte_vector_field [OF root f(1) tab, of 2, THEN trans]) simp_all
  next
    case (Some v)
    then obtain bs where "app = Some bs" using assms(6) by auto
    then show ?thesis
      using byte_vector_field [OF root f(1) tab, of 2 _ v bs] Some kept [OF a(3) assms(5)] f(2) by simp
  qed
qed

end

end
