(* ===== verification/Udp_Destination.thy ===== *)
theory Udp_Destination
  imports Library_Messages Go_Messages Proxy
begin

text \<open>
  \<open>pkg/transport/udp_destination.go\<close>: the handler that speaks to destination servers by UDP. It
  keeps the address of every client's destination, wraps the hub's requests into datagrams and
  unwraps the datagrams of the servers into messages for the hub. \<open>net.ResolveUDPAddr\<close> is the
  parameter \<open>resolveAddr\<close>, addresses are values of the type variable \<open>'a\<close>. Channels are lists,
  oldest value first, as in theory \<open>Proxy\<close>. A panic that the code does not recover from stops the
  whole proxy and is the result \<open>None\<close>; log output is left out.
\<close>

section \<open>Configuration\<close>

record UdpSpanreedDestinationParams =
  UdpServerPort :: int
  AllowAllDestinations :: bool
  AllowlistedDestinations :: "string list"
  DenylistedDestinations :: "string list"
  ud_MagicNumber :: "32 word"
  ud_Version :: "8 word"
  MaxReadMessageSize :: "64 word"
  MaxWriteMessageSize :: "64 word"
  ResolveUdpHost :: "(string \<Rightarrow> (go_error + string) option) option"

fun Contains :: "string \<Rightarrow> string list \<Rightarrow> bool" where
  "Contains s [] = False"
| "Contains s (c # list) = (if c = s then True else Contains s list)"

definition isDestinationAllowed :: "bool \<Rightarrow> string list \<Rightarrow> string list \<Rightarrow> string \<Rightarrow> bool" where
  "isDestinationAllowed allowAll allowlist denylist destination =
     (if Contains destination denylist then False
      else if allowAll then True
      else Contains destination allowlist)"

text \<open>\<open>connStr[0:4]\<close> panics when the string is shorter than four bytes.\<close>

definition DefaultUdpDestinationHandlerMatchConnectionStringFn :: "string \<Rightarrow> bool option" where
  "DefaultUdpDestinationHandlerMatchConnectionStringFn connStr =
     (if length connStr < 4 then None else Some (take 4 connStr = ''udp:''))"

definition defaultHostResolution :: "string \<Rightarrow> (go_error + string) option" where
  "defaultHostResolution connStr =
     (if length connStr < 4 then None
      else if take 4 connStr \<noteq> ''udp:'' then Some (Inl (PlainError ''not a UDP connection string''))
      else Some (Inr (drop 4 connStr)))"

section \<open>State\<close>

text \<open>
  The map of connections, the channel of outgoing datagrams, the three channels to the hub, and
  the datagrams handed to the socket.
\<close>

record 'a udpSpanreedDestination =
  ud_params :: UdpSpanreedDestinationParams
  ud_resolveUdpHost :: "string \<Rightarrow> (go_error + string) option"
  destinationConnections :: "client_id \<Rightarrow> 'a option"
  outgoingMessages :: "('a \<times> bytes) list"
  ud_verdicts :: "OpenClientConnectionVerdict list"
  ud_incomingMessages :: "RoutedMessage list"
  ud_closeRequests :: "ClientCloseCommand list"
  ud_written :: "('a \<times> bytes) list"

definition CreateUdpDestinationHandler :: "UdpSpanreedDestinationParams \<Rightarrow> 'a udpSpanreedDestination" where
  "CreateUdpDestinationHandler params =
     \<lparr>ud_params = params,
      ud_resolveUdpHost = (case ResolveUdpHost params of None \<Rightarrow> defaultHostResolution | Some f \<Rightarrow> f),
      destinationConnections = Map.empty, outgoingMessages = [],
      ud_verdicts = [], ud_incomingMessages = [], ud_closeRequests = [], ud_written = []\<rparr>"

section \<open>Requests of the hub\<close>

text \<open>The datagrams, as the handlers compose them.\<close>

definition connection_request_datagram :: "('s, 'f) fb_builder \<Rightarrow> client_id \<Rightarrow> bytes option \<Rightarrow> bytes" where
  "connection_request_datagram B clientId appData =
     (let b = newBuilder B (64 + int (length (case appData of None \<Rightarrow> [] | Some d \<Rightarrow> d)))
      in asUint8Array B (snd (run_state
        (do { go_ProxyDestConnectionRequestStart B;
              go_ProxyDestConnectionRequestAddClientId B clientId;
              inner_msg \<leftarrow> go_ProxyDestConnectionRequestEnd B;
              appDataLoc \<leftarrow> (case appData of None \<Rightarrow> State_Monad.return 0 | Some d \<Rightarrow> createByteVector B d);
              go_ProxyDestinationMessageStart B;
              go_ProxyDestinationMessageAddInnerMessageType B go_ProxyDestInnerMsgProxyDestConnectionRequest;
              go_ProxyDestinationMessageAddInnerMessage B inner_msg;
              (if appData \<noteq> None then go_ProxyDestinationMessageAddAppData B appDataLoc else State_Monad.return ());
              cmsg \<leftarrow> go_ProxyDestinationMessageEnd B;
              finish B cmsg False }) b)))"

definition client_message_datagram :: "('s, 'f) fb_builder \<Rightarrow> client_id \<Rightarrow> bytes option \<Rightarrow> bytes" where
  "client_message_datagram B clientId data =
     (let b = newBuilder B (64 + int (length (case data of None \<Rightarrow> [] | Some d \<Rightarrow> d)))
      in asUint8Array B (snd (run_state
        (do { go_ProxyDestClientMessageStart B;
              go_ProxyDestClientMessageAddClientId B clientId;
              inner_msg \<leftarrow> go_ProxyDestClientMessageEnd B;
              appDataLoc \<leftarrow> (case data of None \<Rightarrow> State_Monad.return 0 | Some d \<Rightarrow> createByteVector B d);
              go_ProxyDestinationMessageStart B;
              go_ProxyDestinationMessageAddInnerMessageType B go_ProxyDestInnerMsgProxyDestClientMessage;
              go_ProxyDestinationMessageAddInnerMessage B inner_msg;
              (if data \<noteq> None then go_ProxyDestinationMessageAddAppData B appDataLoc else State_Monad.return ());
              cmsg \<leftarrow> go_ProxyDestinationMessageEnd B;
              finish B cmsg False }) b)))"

definition close_connection_datagram :: "('s, 'f) fb_builder \<Rightarrow> client_id \<Rightarrow> bytes" where
  "close_connection_datagram B clientId =
     asUint8Array B (snd (run_state
       (do { go_ProxyDestCloseConnectionStart B;
             go_ProxyDestCloseConnectionAddClientId B clientId;
             inner_msg \<leftarrow> go_ProxyDestCloseConnectionEnd B;
             go_ProxyDestinationMessageStart B;
             go_ProxyDestinationMessageAddInnerMessageType B go_ProxyDestInnerMsgProxyDestCloseConnection;
             go_ProxyDestinationMessageAddInnerMessage B inner_msg;
             cmsg \<leftarrow> go_ProxyDestinationMessageEnd B;
             finish B cmsg False }) (newBuilder B 64)))"

definition udp_onConnectClient ::
  "('s, 'f) fb_builder \<Rightarrow> (string \<Rightarrow> go_error + 'a) \<Rightarrow> OpenClientConnectionCommand \<Rightarrow>
   'a udpSpanreedDestination \<Rightarrow> (go_error option \<times> 'a udpSpanreedDestination) option" where
  "udp_onConnectClient B resolveAddr outgoingMsg s =
     (case ud_resolveUdpHost s (open_ConnectionString outgoingMsg) of
        None \<Rightarrow> None
      | Some (Inl udpHostErr) \<Rightarrow> Some (Some udpHostErr, s)
      | Some (Inr udpHost) \<Rightarrow>
         (if \<not> isDestinationAllowed (AllowAllDestinations (ud_params s)) (AllowlistedDestinations (ud_params s))
               (DenylistedDestinations (ud_params s)) udpHost
          then Some (Some (PlainError ''cannot connect to denied destination''), s)
          else case resolveAddr udpHost of
            Inl udpAddrErr \<Rightarrow> Some (Some udpAddrErr, s)
          | Inr udpAddr \<Rightarrow>
             (let s1 = s\<lparr>destinationConnections := (destinationConnections s)(open_ClientId outgoingMsg \<mapsto> udpAddr)\<rparr>
              in Some (None, s1\<lparr>outgoingMessages := outgoingMessages s1 @
                [(udpAddr, connection_request_datagram B (open_ClientId outgoingMsg) (open_AppData outgoingMsg))]\<rparr>))))"

definition udp_onOpenRequest ::
  "('s, 'f) fb_builder \<Rightarrow> (string \<Rightarrow> go_error + 'a) \<Rightarrow> OpenClientConnectionCommand \<Rightarrow>
   'a udpSpanreedDestination \<Rightarrow> 'a udpSpanreedDestination option" where
  "udp_onOpenRequest B resolveAddr openConnectionRequest s =
     (case udp_onConnectClient B resolveAddr openConnectionRequest s of
        None \<Rightarrow> None
      | Some (None, s') \<Rightarrow> Some s'
      | Some (Some err, s') \<Rightarrow> Some (s'\<lparr>ud_verdicts := ud_verdicts s' @
          [\<lparr>verdict_ClientId = open_ClientId openConnectionRequest, verdict_Verdict = False,
            verdict_Error = Some err, verdict_AppData = None\<rparr>]\<rparr>))"

definition udp_onClientMessage ::
  "('s, 'f) fb_builder \<Rightarrow> RoutedMessage \<Rightarrow> 'a udpSpanreedDestination \<Rightarrow> 'a udpSpanreedDestination" where
  "udp_onClientMessage B msg s =
     (case destinationConnections s (msg_ClientId msg) of
        None \<Rightarrow> s
      | Some addr \<Rightarrow> s\<lparr>outgoingMessages := outgoingMessages s @
          [(addr, client_message_datagram B (msg_ClientId msg) (msg_Data msg))]\<rparr>)"

definition udp_onProxyRequestClose ::
  "('s, 'f) fb_builder \<Rightarrow> ClientCloseCommand \<Rightarrow> 'a udpSpanreedDestination \<Rightarrow> 'a udpSpanreedDestination" where
  "udp_onProxyRequestClose B msg s =
     (case destinationConnections s (close_ClientId msg) of
        None \<Rightarrow> s
      | Some addr \<Rightarrow>
          (let s1 = s\<lparr>outgoingMessages := outgoingMessages s @ [(addr, close_connection_datagram B (close_ClientId msg))]\<rparr>
           in s1\<lparr>destinationConnections := (destinationConnections s1)(close_ClientId msg := None)\<rparr>))"

section \<open>Datagrams of the destination servers\<close>

definition udp_onReceiveVerdict ::
  "client_id \<Rightarrow> bool \<Rightarrow> bytes option \<Rightarrow> 'a udpSpanreedDestination \<Rightarrow> 'a udpSpanreedDestination" where
  "udp_onReceiveVerdict clientId accepted appData s =
     (case destinationConnections s clientId of
        None \<Rightarrow> s
      | Some addr \<Rightarrow> s\<lparr>ud_verdicts := ud_verdicts s @
          [\<lparr>verdict_ClientId = clientId, verdict_Verdict = accepted, verdict_Error = None, verdict_AppData = appData\<rparr>]\<rparr>)"

definition udp_onReceiveProxyMessage ::
  "int \<Rightarrow> client_id \<Rightarrow> bytes option \<Rightarrow> 'a udpSpanreedDestination \<Rightarrow> 'a udpSpanreedDestination" where
  "udp_onReceiveProxyMessage now clientId appData s =
     (case destinationConnections s clientId of
        None \<Rightarrow> s
      | Some addr \<Rightarrow> s\<lparr>ud_incomingMessages := ud_incomingMessages s @
          [\<lparr>msg_ClientId = clientId, msg_RecvTimestamp = now, msg_RouteTimestamp = 0, msg_Data = appData\<rparr>]\<rparr>)"

definition udp_onReceiveCloseRequest ::
  "client_id \<Rightarrow> string \<Rightarrow> bytes option \<Rightarrow> 'a udpSpanreedDestination \<Rightarrow> 'a udpSpanreedDestination" where
  "udp_onReceiveCloseRequest clientId reason appData s =
     (case destinationConnections s clientId of
        None \<Rightarrow> s
      | Some addr \<Rightarrow> s\<lparr>ud_closeRequests := ud_closeRequests s @
          [\<lparr>close_ClientId = clientId, close_Reason = reason, close_Error = None, close_AppData = appData\<rparr>]\<rparr>)"

text \<open>
  The body of the listening loop for one datagram. Where the bytes are not a flatbuffer, the
  runtime reads outside of them and panics: either in \<open>GetRootAsDestinationMessage\<close>, which
  \<open>safeParseDestinationMessage\<close> recovers from, or in a later accessor, which nothing recovers from.
  Which datagrams do so is a parameter.
\<close>

datatype datagram_fault = NoFault | RootFault | AccessorFault

definition udp_onDatagram ::
  "('bb, 'f) fb_reader \<Rightarrow> (bytes \<Rightarrow> datagram_fault) \<Rightarrow> int \<Rightarrow> bytes \<Rightarrow> 'a udpSpanreedDestination \<Rightarrow>
   'a udpSpanreedDestination option" where
  "udp_onDatagram R fault now rawMsg s =
     (case fault rawMsg of
        RootFault \<Rightarrow> Some s
      | AccessorFault \<Rightarrow> None
      | NoFault \<Rightarrow>
         (let parsedMsg = go_GetRootAsDestinationMessage R rawMsg
          in case go_DestinationMessage_Msg R parsedMsg of
            None \<Rightarrow> Some s
          | Some ut \<Rightarrow>
              (let msgType = go_DestinationMessage_MsgType R parsedMsg;
                   appData = go_DestinationMessage_AppDataBytes R parsedMsg
               in if msgType = go_InnerMsgConnectionVerdict
                  then map_option (\<lambda>d. udp_onReceiveVerdict (go_ConnectionVerdict_ClientId R ut)
                         (go_ConnectionVerdict_Accepted R ut) d s) appData
                  else if msgType = go_InnerMsgProxyMessage
                  then map_option (\<lambda>d. udp_onReceiveProxyMessage now (go_ProxyMessage_ClientId R ut) d s) appData
                  else if msgType = go_InnerMsgCloseConnection
                  then map_option (\<lambda>d. udp_onReceiveCloseRequest (go_CloseConnection_ClientId R ut)
                         (go_CloseConnection_Reason R ut) d s) appData
                  else Some s)))"

section \<open>Sending and shutdown\<close>

definition udp_dispatch :: "'a udpSpanreedDestination \<Rightarrow> 'a udpSpanreedDestination" where
  "udp_dispatch s = (case outgoingMessages s of
     [] \<Rightarrow> s
   | m # ms \<Rightarrow> s\<lparr>outgoingMessages := ms, ud_written := ud_written s @ [m]\<rparr>)"

text \<open>The loop over the map at shutdown; \<open>order\<close> is the order in which Go visits the keys.\<close>

fun udp_closeAll :: "('s, 'f) fb_builder \<Rightarrow> client_id list \<Rightarrow> 'a udpSpanreedDestination \<Rightarrow> 'a udpSpanreedDestination" where
  "udp_closeAll B [] s = s"
| "udp_closeAll B (clientId # order) s =
     (case destinationConnections s clientId of
        None \<Rightarrow> udp_closeAll B order s
      | Some addr \<Rightarrow> udp_closeAll B order
          (s\<lparr>ud_written := ud_written s @ [(addr, close_connection_datagram B clientId)],
             destinationConnections := (destinationConnections s)(clientId := None)\<rparr>))"

section \<open>What the datagrams say\<close>

text \<open>
  The three kinds of datagram are one builder program with different union types. The reader is
  the library's TypeScript class; a C++ server reads the same fields.
\<close>

context flatbuffers
begin

definition proxy_datagram :: "int \<Rightarrow> client_id \<Rightarrow> bytes option \<Rightarrow> int \<Rightarrow> bytes" where
  "proxy_datagram kind clientId app n = asUint8Array B (snd (run_state
     (do { startObject B 1;
           addFieldInt32 B 0 (uint clientId) 0;
           inner \<leftarrow> endObject B;
           loc \<leftarrow> (case app of None \<Rightarrow> State_Monad.return 0 | Some d \<Rightarrow> createByteVector B d);
           startObject B 3;
           addFieldInt8 B 0 kind 0;
           addFieldOffset B 1 inner 0;
           (if app \<noteq> None then addFieldOffset B 2 loc 0 else State_Monad.return ());
           c \<leftarrow> endObject B;
           finish B c False }) (newBuilder B n)))"

lemma datagrams_as_proxy_datagram:
  "connection_request_datagram B i app =
     proxy_datagram 1 i app (64 + int (length (case app of None \<Rightarrow> [] | Some d \<Rightarrow> d)))"
  "client_message_datagram B i app =
     proxy_datagram 2 i app (64 + int (length (case app of None \<Rightarrow> [] | Some d \<Rightarrow> d)))"
  "close_connection_datagram B i = proxy_datagram 3 i None 64"
  by (simp_all add: connection_request_datagram_def client_message_datagram_def close_connection_datagram_def
      proxy_datagram_def msg_defs Let_def)

lemma client_id_table_adds:
  assumes "valid s" and "mode s = Idle"
  shows "adds_table (do { startObject B 1; addFieldInt32 B 0 v 0; endObject B }) s
    (FTable 1 (Map.empty(0 := if v = 0 then None else Some (FInt32 v))))"
  using assms by (simp add: fun_eq_iff)

definition wraps :: "(int \<Rightarrow> int \<Rightarrow> ('s, int) state) \<Rightarrow> int \<Rightarrow> bytes option \<Rightarrow> bool" where
  "wraps W kind app \<longleftrightarrow> (\<forall>s m loc nd nd'. valid s \<longrightarrow> mode s = Idle \<longrightarrow> nodes s m = Some nd \<longrightarrow>
     (app \<noteq> None \<longrightarrow> nodes s loc = Some nd') \<longrightarrow>
     adds_table (W m loc) s (envelope kind m (if app = None then None else Some loc)))"

lemma envelope_wraps:
  assumes "kind \<noteq> 0"
  shows "wraps (\<lambda>m loc. do { startObject B 3; addFieldInt8 B 0 kind 0; addFieldOffset B 1 m 0;
      (if app \<noteq> None then addFieldOffset B 2 loc 0 else State_Monad.return ()); endObject B }) kind app"
proof -
  have "adds_table (do { startObject B 3; addFieldInt8 B 0 kind 0; addFieldOffset B 1 m 0;
      (if app \<noteq> None then addFieldOffset B 2 loc 0 else State_Monad.return ()); endObject B }) s
    (envelope kind m (if app = None then None else Some loc))"
    if "valid s" "mode s = Idle" "nodes s m = Some nd" "app \<noteq> None \<longrightarrow> nodes s loc = Some nd'" for s m loc nd nd'
    using that assms nodes_nonzero [OF that(1,3)] nodes_nonzero [OF that(1), of loc nd']
    by (cases app) (simp_all add: envelope_def fun_eq_iff)
  then show ?thesis unfolding wraps_def by blast
qed

text \<open>The client identifier of a table whose first field it is.\<close>

lemma client_id_field:
  assumes "t = \<lparr>bb = b, bb_pos = addr s p\<rparr>" and "views s b"
    and "nodes s p = Some (FTable n (Map.empty(0 := if v = 0 then None else Some (FInt32 v), 1 := other)))" and "0 < n"
    and "0 \<le> v" and "v < 2 ^ 32"
  shows "(let offset = fb_offset R (bb t) (bb_pos t) 4
          in if offset \<noteq> 0 then readUint32 R (bb t) (bb_pos t + offset) else 0) = v"
  using uint32_field [OF assms(1-3), of 0 4 v] assms(4-6) by simp

text \<open>
  An inner table, optional application data and an envelope around both, written in this order
  by whatever programs, can be read back from the finished buffer.
\<close>

lemma wrapped_read:
  assumes "adds_table I (newBuilder B n) (FTable k fs)"
    and "wraps W kind app"
    and "0 < kind" and "kind < 256"
    and "data = asUint8Array B (snd (run_state (do { m \<leftarrow> I;
           loc \<leftarrow> (case app of None \<Rightarrow> State_Monad.return 0 | Some d \<Rightarrow> createByteVector B d);
           c \<leftarrow> W m loc; finish B c False }) (newBuilder B n)))"
    and "length data < 2 ^ 31" and "b = newByteBuffer R data"
    and "t = \<lparr>bb = b, bb_pos = readInt32 R b (position R b) + position R b\<rparr>"
  obtains s m where "views s b" and "nodes s m = Some (FTable k fs)"
    and "(let offset = fb_offset R (bb t) (bb_pos t) 6
          in if offset \<noteq> 0 then Some \<lparr>bb = bb t, bb_pos = fb_union R (bb t) (bb_pos t + offset)\<rparr> else None) =
         Some \<lparr>bb = b, bb_pos = addr s m\<rparr>"
    and "\<And>j. (let offset = fb_offset R (bb t) (bb_pos t) 4
          in if offset \<noteq> 0 then readUint8 R (bb t) (bb_pos t + offset) else j) = kind"
    and "(let offset = fb_offset R (bb t) (bb_pos t) 8
          in if offset \<noteq> 0
             then map_sum id Some (uint8_view (fb_buffer R (bb t))
               (fb_byteOffset R (bb t) + fb_vector R (bb t) (bb_pos t + offset)) (fb_vector_len R (bb t) (bb_pos t + offset)))
             else Inr None) = Inr app"
proof -
  let ?A = "case app of None \<Rightarrow> State_Monad.return 0 | Some d \<Rightarrow> createByteVector B d"
  define m where "m = fst (run_state I (newBuilder B n))"
  define s1 where "s1 = snd (run_state I (newBuilder B n))"
  note a = adds_tableD [OF assms(1) m_def s1_def]
  define loc where "loc = fst (run_state ?A s1)"
  define s2 where "s2 = snd (run_state ?A s1)"
  have s2: "valid s2" "mode s2 = Idle" and le: "nodes s1 \<subseteq>\<^sub>m nodes s2"
    and vec: "app \<noteq> None \<Longrightarrow> nodes s2 loc = Some (FVec (int (length (the app))) (byte_cells (the app)))"
    using a(1,2) bytes_added [OF a(1,2)] by (cases app; simp add: s2_def loc_def)+
  note m2 = kept [OF le a(4)]
  have adds: "adds_table (W m loc) s2 (envelope kind m (if app = None then None else Some loc))"
    using assms(2) s2 m2 vec unfolding wraps_def by blast
  define s3 where "s3 = snd (run_state (do { c \<leftarrow> W m loc; finish B c False }) s2)"
  have data: "data = asUint8Array B s3" by (simp add: assms(5) m_def s1_def loc_def s2_def s3_def)
  have loc': "(if app = None then None else Some loc) = Some x \<Longrightarrow>
      nodes s2 x = Some (FVec (int (length (the app))) (byte_cells (the app)))" for x
    using vec by (auto split: if_splits)
  have none: "(if app = None then None else Some loc) = None \<longleftrightarrow> app = None" by simp
  have "0 \<le> kind" using assms(3) by simp
  note r = envelope_read [OF adds m2 this assms(4) loc' none s3_def assms(6,7) [unfolded data] assms(8)]
  show thesis by (rule that [OF r(1) kept [OF r(2) m2] r(4) r(3) r(5)])
qed

lemma proxy_datagram_read:
  assumes "0 < kind" and "kind < 256" and "length (proxy_datagram kind i app n) < 2 ^ 31"
    and "t = lib_getRootAsProxyDestinationMessage R (newByteBuffer R (proxy_datagram kind i app n))"
  shows "lib_ProxyDestinationMessage_innerMessageType R t = kind"
    and "\<exists>ut. lib_ProxyDestinationMessage_innerMessage R t = Some ut \<and>
      lib_ProxyDestConnectionRequest_clientId R ut = uint i \<and> lib_ProxyDestClientMessage_clientId R ut = uint i \<and>
      lib_ProxyDestCloseConnection_clientId R ut = uint i"
    and "lib_ProxyDestinationMessage_appDataArray R t = Inr app"
proof -
  have "kind \<noteq> 0" using assms(1) by simp
  note outer = envelope_wraps [OF this, of app]
  have t: "t = \<lparr>bb = newByteBuffer R (proxy_datagram kind i app n), bb_pos = readInt32 R (newByteBuffer R (proxy_datagram kind i app n))
      (position R (newByteBuffer R (proxy_datagram kind i app n))) + position R (newByteBuffer R (proxy_datagram kind i app n))\<rparr>"
    by (simp add: assms(4) lib_getRootAsProxyDestinationMessage_def lib_ProxyDestinationMessage_init_def)
  have inner: "adds_table (do { startObject B 1; addFieldInt32 B 0 (uint i) 0; endObject B }) (newBuilder B n)
      (FTable 1 (Map.empty(0 := if uint i = 0 then None else Some (FInt32 (uint i)), 1 := None)))"
    using client_id_table_adds [of "newBuilder B n"] by simp
  have "proxy_datagram kind i app n = asUint8Array B (snd (run_state
      (do { m \<leftarrow> (do { startObject B 1; addFieldInt32 B 0 (uint i) 0; endObject B });
            loc \<leftarrow> (case app of None \<Rightarrow> State_Monad.return 0 | Some d \<Rightarrow> createByteVector B d);
            c \<leftarrow> (do { startObject B 3; addFieldInt8 B 0 kind 0; addFieldOffset B 1 m 0;
              (if app \<noteq> None then addFieldOffset B 2 loc 0 else State_Monad.return ()); endObject B });
            finish B c False }) (newBuilder B n)))" by (simp add: proxy_datagram_def)
  from wrapped_read [OF inner outer assms(1,2) this assms(3) refl t]
  obtain s m where r: "views s (newByteBuffer R (proxy_datagram kind i app n))"
      "nodes s m = Some (FTable 1 (Map.empty(0 := if uint i = 0 then None else Some (FInt32 (uint i)), 1 := None)))"
      "lib_ProxyDestinationMessage_innerMessage R t = Some \<lparr>bb = newByteBuffer R (proxy_datagram kind i app n), bb_pos = addr s m\<rparr>"
    and type: "lib_ProxyDestinationMessage_innerMessageType R t = kind"
    and app: "lib_ProxyDestinationMessage_appDataArray R t = Inr app"
    unfolding lib_ProxyDestinationMessage_innerMessage_def lib_ProxyDestinationMessage_innerMessageType_def
      lib_ProxyDestinationMessage_appDataArray_def by blast
  note cid = client_id_field [OF refl r(1,2), simplified]
  show "lib_ProxyDestinationMessage_innerMessageType R t = kind" by (rule type)
  show "lib_ProxyDestinationMessage_appDataArray R t = Inr app" by (rule app)
  show "\<exists>ut. lib_ProxyDestinationMessage_innerMessage R t = Some ut \<and>
      lib_ProxyDestConnectionRequest_clientId R ut = uint i \<and> lib_ProxyDestClientMessage_clientId R ut = uint i \<and>
      lib_ProxyDestCloseConnection_clientId R ut = uint i"
    using r(3) cid uint_lt2p [of i] unfolding
      lib_ProxyDestConnectionRequest_clientId_def lib_ProxyDestClientMessage_clientId_def lib_ProxyDestCloseConnection_clientId_def
    by simp
qed

end

lemma Contains_iff [simp]: "Contains s list \<longleftrightarrow> s \<in> set list"
  by (induction list) auto

lemma isDestinationAllowed_iff:
  "isDestinationAllowed allowAll allow deny d \<longleftrightarrow> d \<notin> set deny \<and> (allowAll \<or> d \<in> set allow)"
  by (simp add: isDestinationAllowed_def)

text \<open>
  Every datagram for a destination can be decoded there: with the library's message classes the
  destination reads the kind of the request (connection request, client message or close), the
  identifier of the client and exactly the application data of the request, or none where the
  request had none.
\<close>

theorem proxy_datagrams_decode:
  assumes "flatbuffers B R valid mode nodes addr views fround feq"
    and "kind = lib_ProxyDestInnerMsg_ProxyDestConnectionRequest \<and> d = connection_request_datagram B i app \<or>
      kind = lib_ProxyDestInnerMsg_ProxyDestClientMessage \<and> d = client_message_datagram B i app \<or>
      kind = lib_ProxyDestInnerMsg_ProxyDestCloseConnection \<and> d = close_connection_datagram B i \<and> app = None"
    and "length d < 2 ^ 31" and "t = lib_getRootAsProxyDestinationMessage R (newByteBuffer R d)"
  shows "lib_ProxyDestinationMessage_innerMessageType R t = lib_ProxyDestInnerMsg_num kind \<and>
    (\<exists>ut. lib_ProxyDestinationMessage_innerMessage R t = Some ut \<and>
      lib_ProxyDestConnectionRequest_clientId R ut = uint i \<and> lib_ProxyDestClientMessage_clientId R ut = uint i \<and>
      lib_ProxyDestCloseConnection_clientId R ut = uint i) \<and>
    lib_ProxyDestinationMessage_appDataArray R t = Inr app"
proof -
  obtain n where d: "d = flatbuffers.proxy_datagram B (lib_ProxyDestInnerMsg_num kind) i app n"
    using assms(2) by (auto simp: flatbuffers.datagrams_as_proxy_datagram [OF assms(1)])
  have k: "0 < lib_ProxyDestInnerMsg_num kind" "lib_ProxyDestInnerMsg_num kind < 256" using assms(2) by auto
  show ?thesis
    using flatbuffers.proxy_datagram_read [OF assms(1) k assms(3) [unfolded d] refl] unfolding assms(4) d by blast
qed

lemma wire_datagram_length:
  "length (client_message_datagram wire_builder 5 (Some [1, 2])) < 2 ^ 31"
  "length (connection_request_datagram wire_builder 5 None) < 2 ^ 31"
  by (simp_all add: client_message_datagram_def connection_request_datagram_def Let_def msg_defs wire_lengths
      del: node_bytes.simps)

theorem proxy_datagrams_decode_witness:
  "lib_ProxyDestinationMessage_appDataArray wire_reader (lib_getRootAsProxyDestinationMessage wire_reader
     (newByteBuffer wire_reader (client_message_datagram wire_builder 5 (Some [1, 2])))) = Inr (Some [1, 2])"
  using proxy_datagrams_decode [OF wire.flatbuffers_axioms, of lib_ProxyDestInnerMsg_ProxyDestClientMessage
      "client_message_datagram wire_builder 5 (Some [1, 2])" 5 "Some [1, 2]", OF _ wire_datagram_length(1) refl]
  by blast

section \<open>The handler as a transition system\<close>

text \<open>One step: one of the goroutines of \<open>Start\<close> handles what it received, or the handler shuts down.\<close>

inductive udp_step ::
  "('s, 'f) fb_builder \<Rightarrow> ('bb, 'f) fb_reader \<Rightarrow> (bytes \<Rightarrow> datagram_fault) \<Rightarrow> (string \<Rightarrow> go_error + 'a) \<Rightarrow>
   'a udpSpanreedDestination \<Rightarrow> 'a udpSpanreedDestination \<Rightarrow> bool"
  for B R fault resolveAddr where
  open_request: "udp_onOpenRequest B resolveAddr c s = Some s' \<Longrightarrow> udp_step B R fault resolveAddr s s'"
| close_request: "udp_step B R fault resolveAddr s (udp_onProxyRequestClose B m s)"
| client_message: "udp_step B R fault resolveAddr s (udp_onClientMessage B msg s)"
| datagram: "udp_onDatagram R fault now d s = Some s' \<Longrightarrow> udp_step B R fault resolveAddr s s'"
| dispatch: "udp_step B R fault resolveAddr s (udp_dispatch s)"
| shutdown: "udp_step B R fault resolveAddr s (udp_closeAll B order s)"

text \<open>The addresses the handler knows or has written to.\<close>

definition udp_addresses :: "'a udpSpanreedDestination \<Rightarrow> 'a set" where
  "udp_addresses s = ran (destinationConnections s) \<union> fst ` set (outgoingMessages s) \<union> fst ` set (ud_written s)"

definition allowed_address :: "(string \<Rightarrow> go_error + 'a) \<Rightarrow> UdpSpanreedDestinationParams \<Rightarrow> 'a \<Rightarrow> bool" where
  "allowed_address resolveAddr params a \<longleftrightarrow> (\<exists>host. resolveAddr host = Inr a \<and> host \<notin> set (DenylistedDestinations params) \<and>
     (AllowAllDestinations params \<or> host \<in> set (AllowlistedDestinations params)))"

definition udp_inv :: "(string \<Rightarrow> go_error + 'a) \<Rightarrow> UdpSpanreedDestinationParams \<Rightarrow> 'a udpSpanreedDestination \<Rightarrow> bool" where
  "udp_inv resolveAddr params s \<longleftrightarrow> ud_params s = params \<and> (\<forall>a \<in> udp_addresses s. allowed_address resolveAddr params a)"

lemma udp_inv_mono:
  "udp_inv f params s \<Longrightarrow> ud_params s' = ud_params s \<Longrightarrow> udp_addresses s' \<subseteq> udp_addresses s \<Longrightarrow> udp_inv f params s'"
  unfolding udp_inv_def by auto

lemma connect_outcome:
  assumes "udp_onConnectClient B resolveAddr c s = Some (e, s')"
  shows "e \<noteq> None \<and> s' = s \<or> (\<exists>host a. e = None \<and> ud_resolveUdpHost s (open_ConnectionString c) = Some (Inr host) \<and>
    resolveAddr host = Inr a \<and> isDestinationAllowed (AllowAllDestinations (ud_params s))
      (AllowlistedDestinations (ud_params s)) (DenylistedDestinations (ud_params s)) host \<and>
    s' = s\<lparr>destinationConnections := (destinationConnections s)(open_ClientId c \<mapsto> a),
      outgoingMessages := outgoingMessages s @ [(a, connection_request_datagram B (open_ClientId c) (open_AppData c))]\<rparr>)"
  using assms by (auto simp: udp_onConnectClient_def Let_def split: option.splits sum.splits if_splits)

lemma ran_upd: "ran (m(k \<mapsto> v)) \<subseteq> insert v (ran m)" "ran (m(k := None)) \<subseteq> ran m"
  by (auto simp: ran_def)

lemma udp_inv_open:
  assumes "udp_inv resolveAddr params s" and "udp_onOpenRequest B resolveAddr c s = Some s'"
  shows "udp_inv resolveAddr params s'"
proof -
  obtain e s1 where run: "udp_onConnectClient B resolveAddr c s = Some (e, s1)"
    using assms(2) by (auto simp: udp_onOpenRequest_def split: option.splits)
  then have s': "ud_params s' = ud_params s1 \<and> udp_addresses s' = udp_addresses s1"
    using assms(2) by (cases e) (auto simp: udp_onOpenRequest_def udp_addresses_def)
  from connect_outcome [OF run] show ?thesis
  proof
    assume "e \<noteq> None \<and> s1 = s"
    then show ?thesis using s' by (intro udp_inv_mono [OF assms(1)]) auto
  next
    assume "\<exists>host a. e = None \<and> ud_resolveUdpHost s (open_ConnectionString c) = Some (Inr host) \<and>
      resolveAddr host = Inr a \<and> isDestinationAllowed (AllowAllDestinations (ud_params s))
        (AllowlistedDestinations (ud_params s)) (DenylistedDestinations (ud_params s)) host \<and>
      s1 = s\<lparr>destinationConnections := (destinationConnections s)(open_ClientId c \<mapsto> a),
        outgoingMessages := outgoingMessages s @ [(a, connection_request_datagram B (open_ClientId c) (open_AppData c))]\<rparr>"
    then obtain host a where ok: "resolveAddr host = Inr a" "isDestinationAllowed (AllowAllDestinations (ud_params s))
        (AllowlistedDestinations (ud_params s)) (DenylistedDestinations (ud_params s)) host"
      and s1: "ud_params s1 = ud_params s" "destinationConnections s1 = (destinationConnections s)(open_ClientId c \<mapsto> a)"
        "fst ` set (outgoingMessages s1) = insert a (fst ` set (outgoingMessages s))" "ud_written s1 = ud_written s"
      by auto
    have "allowed_address resolveAddr params a"
      using ok assms(1) by (auto simp: allowed_address_def udp_inv_def isDestinationAllowed_iff)
    moreover have "udp_addresses s1 \<subseteq> insert a (udp_addresses s)"
      using ran_upd(1) [of "destinationConnections s"] s1 by (auto simp: udp_addresses_def)
    ultimately show ?thesis using assms(1) s' s1(1) unfolding udp_inv_def by auto
  qed
qed

lemma receive_keeps [simp]:
  "udp_addresses (udp_onReceiveVerdict i acc d s) = udp_addresses s" "ud_params (udp_onReceiveVerdict i acc d s) = ud_params s"
  "udp_addresses (udp_onReceiveProxyMessage now i d s) = udp_addresses s" "ud_params (udp_onReceiveProxyMessage now i d s) = ud_params s"
  "udp_addresses (udp_onReceiveCloseRequest i r d s) = udp_addresses s" "ud_params (udp_onReceiveCloseRequest i r d s) = ud_params s"
  by (simp_all add: udp_onReceiveVerdict_def udp_onReceiveProxyMessage_def udp_onReceiveCloseRequest_def
      udp_addresses_def split: option.split)

text \<open>What a datagram can do to the handler.\<close>

lemma datagram_outcome:
  assumes "udp_onDatagram R fault now d s = Some s'"
  obtains "s' = s" | i acc app where "s' = udp_onReceiveVerdict i acc app s"
    | i app where "s' = udp_onReceiveProxyMessage now i app s"
    | i r app where "s' = udp_onReceiveCloseRequest i r app s"
proof (cases "fault d")
  case NoFault
  show thesis
  proof (cases "go_DestinationMessage_Msg R (go_GetRootAsDestinationMessage R d)")
    case None
    with assms NoFault show thesis by (simp add: udp_onDatagram_def that(1))
  next
    case (Some ut)
    define k where "k = go_DestinationMessage_MsgType R (go_GetRootAsDestinationMessage R d)"
    define app where "app = go_DestinationMessage_AppDataBytes R (go_GetRootAsDestinationMessage R d)"
    have run: "(if k = go_InnerMsgConnectionVerdict
       then map_option (\<lambda>d. udp_onReceiveVerdict (go_ConnectionVerdict_ClientId R ut) (go_ConnectionVerdict_Accepted R ut) d s) app
       else if k = go_InnerMsgProxyMessage
       then map_option (\<lambda>d. udp_onReceiveProxyMessage now (go_ProxyMessage_ClientId R ut) d s) app
       else if k = go_InnerMsgCloseConnection
       then map_option (\<lambda>d. udp_onReceiveCloseRequest (go_CloseConnection_ClientId R ut) (go_CloseConnection_Reason R ut) d s) app
       else Some s) = Some s'"
      using assms unfolding udp_onDatagram_def Let_def k_def app_def NoFault Some datagram_fault.case option.case .
    consider "app = None" | a where "app = Some a" by blast
    then show thesis using run that by cases (auto split: if_splits)
  qed
qed (use assms in \<open>simp_all add: udp_onDatagram_def that(1)\<close>)

lemma datagram_keeps:
  assumes "udp_onDatagram R fault now d s = Some s'"
  shows "udp_addresses s' = udp_addresses s \<and> ud_params s' = ud_params s"
  using assms by (cases rule: datagram_outcome) simp_all

lemma closeAll_keeps:
  "udp_addresses (udp_closeAll B order s) \<subseteq> udp_addresses s \<and> ud_params (udp_closeAll B order s) = ud_params s"
proof (induction B order s rule: udp_closeAll.induct)
  case (2 B clientId order s)
  show ?case
  proof (cases "destinationConnections s clientId")
    case (Some a)
    let ?s = "s\<lparr>ud_written := ud_written s @ [(a, close_connection_datagram B clientId)],
      destinationConnections := (destinationConnections s)(clientId := None)\<rparr>"
    have "udp_addresses ?s \<subseteq> udp_addresses s"
      using Some ran_upd(2) [of "destinationConnections s" clientId] by (auto simp: udp_addresses_def intro: ranI)
    then show ?thesis using 2(2) [OF Some] Some by auto
  qed (use 2 in simp)
qed simp

lemma udp_inv_step: "udp_step B R fault resolveAddr s s' \<Longrightarrow> udp_inv resolveAddr params s \<Longrightarrow> udp_inv resolveAddr params s'"
proof (induction rule: udp_step.induct)
  case (open_request c s s')
  then show ?case by (blast intro: udp_inv_open)
next
  case (close_request s m)
  then show ?case using ran_upd(2) [of "destinationConnections s" "close_ClientId m"]
    by (elim udp_inv_mono) (auto simp: udp_onProxyRequestClose_def udp_addresses_def Let_def intro: ranI split: option.split)
next
  case (client_message s msg)
  then show ?case by (elim udp_inv_mono)
    (auto simp: udp_onClientMessage_def udp_addresses_def intro: ranI split: option.split)
next
  case (datagram now d s s')
  then show ?case using datagram_keeps [OF datagram(1)] by (elim udp_inv_mono) auto
next
  case (dispatch s)
  then show ?case by (elim udp_inv_mono) (auto simp: udp_dispatch_def udp_addresses_def split: list.split)
next
  case (shutdown s order)
  then show ?case using closeAll_keeps [of B order s] by (elim udp_inv_mono) auto
qed

text \<open>
  C24. Whatever clients ask for and destinations send, a UDP handler only ever stores, queues and
  writes datagrams for addresses that some host name on no deny list, and on the allow list unless
  every destination is allowed, resolves to.
\<close>

theorem udp_only_allowed:
  assumes "(udp_step B R fault resolveAddr)\<^sup>*\<^sup>* (CreateUdpDestinationHandler params) s"
    and "a \<in> ran (destinationConnections s) \<union> fst ` set (outgoingMessages s) \<union> fst ` set (ud_written s)"
  shows "\<exists>host. resolveAddr host = Inr a \<and> host \<notin> set (DenylistedDestinations params) \<and>
    (AllowAllDestinations params \<or> host \<in> set (AllowlistedDestinations params))"
proof -
  have "udp_inv resolveAddr params s" using assms(1)
    by (induction rule: rtranclp_induct)
      (auto simp: udp_inv_def CreateUdpDestinationHandler_def udp_addresses_def dest: udp_inv_step [unfolded udp_inv_def udp_addresses_def])
  with assms(2) show ?thesis unfolding udp_inv_def udp_addresses_def allowed_address_def by blast
qed

text \<open>A handler that allows one destination, and the request of a client for it.\<close>

definition udp_sample_params :: UdpSpanreedDestinationParams where
  "udp_sample_params = \<lparr>UdpServerPort = 30321, AllowAllDestinations = False, AllowlistedDestinations = [''h:1''], DenylistedDestinations = [],
     ud_MagicNumber = 0x52554259, ud_Version = 0, MaxReadMessageSize = 0, MaxWriteMessageSize = 0,
     ResolveUdpHost = None\<rparr>"

definition udp_sample_open :: OpenClientConnectionCommand where
  "udp_sample_open = \<lparr>open_ClientId = 1, open_RecvTimestamp = 0, open_RouteTimestamp = 0,
     open_ConnectionString = ''udp:h:1'', open_AppData = None\<rparr>"

theorem udp_only_allowed_witness:
  "\<exists>s. (udp_step wire_builder wire_reader (\<lambda>d. NoFault) Inr)\<^sup>*\<^sup>* (CreateUdpDestinationHandler udp_sample_params) s \<and>
    ''h:1'' \<in> ran (destinationConnections s) \<and>
    (AllowAllDestinations udp_sample_params \<or> ''h:1'' \<in> set (AllowlistedDestinations udp_sample_params))"
proof -
  obtain s where run: "udp_onOpenRequest wire_builder Inr udp_sample_open (CreateUdpDestinationHandler udp_sample_params) = Some s"
    and a: "''h:1'' \<in> ran (destinationConnections s)"
    by (simp add: udp_onOpenRequest_def udp_onConnectClient_def CreateUdpDestinationHandler_def defaultHostResolution_def
        isDestinationAllowed_def udp_sample_params_def udp_sample_open_def Let_def)
  have reach: "(udp_step wire_builder wire_reader (\<lambda>d. NoFault) Inr)\<^sup>*\<^sup>* (CreateUdpDestinationHandler udp_sample_params) s"
    using udp_step.open_request [OF run] by blast
  with udp_only_allowed [OF reach, of "''h:1''"] a show ?thesis by auto
qed

text \<open>
  C35. What becomes of a client's request to open a connection, by the default resolution of the
  connection string: a string of fewer than four bytes stops the proxy with a panic; otherwise a
  string \<open>udp:host\<close> with an allowed host that resolves registers the client with that address
  and queues exactly one connection request for it, and every other string leaves the handler
  as it was but for one negative verdict to the hub, with an error.
\<close>

theorem udp_open_outcome:
  assumes "ud_resolveUdpHost s = defaultHostResolution" and "cs = open_ConnectionString c"
  shows "(udp_onOpenRequest B resolveAddr c s = None \<longleftrightarrow> length cs < 4) \<and>
    (\<forall>a. take 4 cs = ''udp:'' \<and> drop 4 cs \<notin> set (DenylistedDestinations (ud_params s)) \<and>
       (AllowAllDestinations (ud_params s) \<or> drop 4 cs \<in> set (AllowlistedDestinations (ud_params s))) \<and>
       resolveAddr (drop 4 cs) = Inr a \<longrightarrow>
       udp_onOpenRequest B resolveAddr c s = Some (s\<lparr>
         destinationConnections := (destinationConnections s)(open_ClientId c \<mapsto> a),
         outgoingMessages := outgoingMessages s @ [(a, connection_request_datagram B (open_ClientId c) (open_AppData c))]\<rparr>)) \<and>
    (4 \<le> length cs \<and> (take 4 cs = ''udp:'' \<longrightarrow> drop 4 cs \<in> set (DenylistedDestinations (ud_params s)) \<or>
       \<not> AllowAllDestinations (ud_params s) \<and> drop 4 cs \<notin> set (AllowlistedDestinations (ud_params s)) \<or>
       (\<exists>e. resolveAddr (drop 4 cs) = Inl e)) \<longrightarrow>
       (\<exists>e. udp_onOpenRequest B resolveAddr c s = Some (s\<lparr>ud_verdicts := ud_verdicts s @
         [\<lparr>verdict_ClientId = open_ClientId c, verdict_Verdict = False, verdict_Error = Some e, verdict_AppData = None\<rparr>]\<rparr>)))"
proof -
  have long: "\<not> length cs < 4" if "take 4 cs = ''udp:''"
    using arg_cong [OF that, of length] by simp
  show ?thesis
  proof (cases "length cs < 4 \<or> take 4 cs \<noteq> ''udp:''")
    case True
    then show ?thesis using long assms
      by (auto simp: udp_onOpenRequest_def udp_onConnectClient_def defaultHostResolution_def)
  next
    case False
    then show ?thesis using assms
      by (cases "resolveAddr (drop 4 cs)")
        (auto simp: udp_onOpenRequest_def udp_onConnectClient_def defaultHostResolution_def isDestinationAllowed_iff Let_def)
  qed
qed

theorem udp_open_outcome_witness:
  "udp_onOpenRequest wire_builder Inr (udp_sample_open\<lparr>open_ConnectionString := ''ws''\<rparr>) (CreateUdpDestinationHandler udp_sample_params) = None"
  using udp_open_outcome [of "CreateUdpDestinationHandler udp_sample_params" "''ws''" "udp_sample_open\<lparr>open_ConnectionString := ''ws''\<rparr>"
      wire_builder Inr]
  by (simp add: CreateUdpDestinationHandler_def udp_sample_params_def)

text \<open>
  At shutdown the loop over the connections ends with none left, and every client that was
  registered has its destination sent exactly one close datagram, whatever order Go visits the
  map in; no other datagram is written.
\<close>

theorem udp_shutdown_closes:
  assumes "distinct order" and "set order = dom (destinationConnections s)"
  shows "destinationConnections (udp_closeAll B order s) = Map.empty \<and>
    ud_written (udp_closeAll B order s) = ud_written s @
      map (\<lambda>i. (the (destinationConnections s i), close_connection_datagram B i)) order \<and>
    ud_verdicts (udp_closeAll B order s) = ud_verdicts s \<and> outgoingMessages (udp_closeAll B order s) = outgoingMessages s"
  using assms
proof (induction order arbitrary: s)
  case Nil
  then have "destinationConnections s = Map.empty" by (metis dom_eq_empty_conv list.set(1))
  then show ?case by simp
next
  case (Cons i order)
  then obtain a where a: "destinationConnections s i = Some a" by (metis domD list.set_intros(1))
  let ?s = "s\<lparr>ud_written := ud_written s @ [(a, close_connection_datagram B i)],
    destinationConnections := (destinationConnections s)(i := None)\<rparr>"
  have "set order = dom (destinationConnections ?s)" using Cons.prems by auto
  moreover have "map (\<lambda>j. (the (destinationConnections ?s j), close_connection_datagram B j)) order =
      map (\<lambda>j. (the (destinationConnections s j), close_connection_datagram B j)) order"
    using Cons.prems(1) by (intro map_cong) auto
  moreover have "distinct order" using Cons.prems(1) by simp
  ultimately have IH: "destinationConnections (udp_closeAll B order ?s) = Map.empty \<and>
      ud_written (udp_closeAll B order ?s) = ud_written ?s @
        map (\<lambda>j. (the (destinationConnections s j), close_connection_datagram B j)) order \<and>
      ud_verdicts (udp_closeAll B order ?s) = ud_verdicts ?s \<and> outgoingMessages (udp_closeAll B order ?s) = outgoingMessages ?s"
    using Cons.IH [of ?s] by presburger
  have "udp_closeAll B (i # order) s = udp_closeAll B order ?s" by (simp add: a)
  with IH a show ?case by simp
qed

theorem udp_shutdown_closes_witness:
  "ud_written (udp_closeAll wire_builder [1] ((CreateUdpDestinationHandler udp_sample_params)\<lparr>destinationConnections := [1 \<mapsto> ''h:1'']\<rparr>)) =
   [(''h:1'', close_connection_datagram wire_builder 1)]"
  using udp_shutdown_closes [of "[1]" "(CreateUdpDestinationHandler udp_sample_params)\<lparr>destinationConnections := [1 \<mapsto> ''h:1'']\<rparr>"]
  by (simp add: CreateUdpDestinationHandler_def)

end
