(* ===== verification/Front_Ends.thy ===== *)
theory Front_Ends
  imports Router Udp_Destination Connection "HOL-Library.Sublist"
begin

text \<open>
  \<open>pkg/transport/websocket_client.go\<close> and \<open>pkg/transport/webtransport_client.go\<close>: what the two front
  ends are configured with, which origins they accept, and a client's session. A session has two
  goroutines, one that writes what the router sends to the client and one that reads what the
  client sends, and ends when both have returned. Its steps are interleaved with those of the
  router of theory \<open>Router\<close>. The network is an environment: reads and writes succeed or fail as it
  decides, but not successfully on a closed connection.
\<close>

section \<open>Parameters\<close>

record WebsocketSpanreedClientParams =
  wsp_ListenAddress :: string
  wsp_ListenEndpoint :: string
  wsp_AllowAllHosts :: bool
  wsp_AllowlistedHosts :: "string list"
  wsp_DenylistedHosts :: "string list"
  wsp_CertPath :: string
  wsp_KeyPath :: string
  wsp_IncomingMessageQueueLength :: "32 word"
  wsp_OutgoingMessageQueueLength :: "32 word"
  wsp_IncomingMessageReadLimit :: "32 word"
  wsp_OutgoingMessageWriteLimit :: "32 word"
  wsp_HandshakeTimeoutMilliseconds :: "32 word"

record WebtransportSpanreedClientParams =
  wtp_ListenAddress :: string
  wtp_ListenEndpoint :: string
  wtp_CertPath :: string
  wtp_KeyPath :: string
  wtp_AllowAllHosts :: bool
  wtp_AllowlistedHosts :: "string list"
  wtp_DenylistedHosts :: "string list"
  wtp_IncomingMessageQueueLength :: "32 word"
  wtp_OutgoingMessageQueueLength :: "32 word"

text \<open>The upgrader with its buffer sizes in bytes and its time limit in nanoseconds.\<close>

record websocket_upgrader =
  up_CheckOrigin :: "string \<Rightarrow> bool"
  up_ReadBufferSize :: nat
  up_WriteBufferSize :: nat
  up_HandshakeTimeout :: nat

record websocketSpanreedClient =
  wsc_upgrader :: websocket_upgrader
  wsc_params :: WebsocketSpanreedClientParams
  wsc_router :: clientConnectionRouter

record webtransportSpanreedClient =
  wtc_params :: WebtransportSpanreedClientParams
  wtc_router :: clientConnectionRouter

definition websocket_CheckOrigin :: "WebsocketSpanreedClientParams \<Rightarrow> string \<Rightarrow> bool" where
  "websocket_CheckOrigin params origin =
     (if Contains origin (wsp_DenylistedHosts params) then False
      else if wsp_AllowAllHosts params then True
      else Contains origin (wsp_AllowlistedHosts params))"

definition webtransport_CheckOrigin :: "WebtransportSpanreedClientParams \<Rightarrow> string \<Rightarrow> bool" where
  "webtransport_CheckOrigin params origin =
     (if Contains origin (wtp_DenylistedHosts params) then False
      else if wtp_AllowAllHosts params then True
      else Contains origin (wtp_AllowlistedHosts params))"

definition CreateWebsocketHandler :: "WebsocketSpanreedClientParams \<Rightarrow> websocketSpanreedClient" where
  "CreateWebsocketHandler params0 =
     (let params1 = (if wsp_IncomingMessageReadLimit params0 = 0
            then params0\<lparr>wsp_IncomingMessageReadLimit := 10240\<rparr> else params0);
          params2 = (if wsp_OutgoingMessageWriteLimit params1 = 0
            then params1\<lparr>wsp_OutgoingMessageWriteLimit := 10240\<rparr> else params1);
          params = (if wsp_HandshakeTimeoutMilliseconds params2 = 0
            then params2\<lparr>wsp_HandshakeTimeoutMilliseconds := 1500\<rparr> else params2);
          router = CreateClientConnectionRouter \<lparr>
            IncomingMessageQueueLength = unat (wsp_IncomingMessageQueueLength params),
            OutgoingMessageQueueLength = unat (wsp_OutgoingMessageQueueLength params)\<rparr>
      in \<lparr>wsc_upgrader = \<lparr>up_CheckOrigin = websocket_CheckOrigin params,
            up_ReadBufferSize = unat (wsp_IncomingMessageQueueLength params),
            up_WriteBufferSize = unat (wsp_OutgoingMessageQueueLength params),
            up_HandshakeTimeout = unat (wsp_HandshakeTimeoutMilliseconds params) * 1000000\<rparr>,
          wsc_params = params, wsc_router = router\<rparr>)"

definition CreateWebtransportHandler :: "WebtransportSpanreedClientParams \<Rightarrow> webtransportSpanreedClient" where
  "CreateWebtransportHandler params =
     \<lparr>wtc_params = params,
      wtc_router = CreateClientConnectionRouter \<lparr>
        IncomingMessageQueueLength = unat (wtp_IncomingMessageQueueLength params),
        OutgoingMessageQueueLength = unat (wtp_OutgoingMessageQueueLength params)\<rparr>\<rparr>"

section \<open>Listening\<close>

text \<open>
  How \<open>Start\<close> listens. \<open>loadPair\<close> stands for \<open>tls.LoadX509KeyPair\<close>; a failure to load ends \<open>Start\<close>.
\<close>

datatype listen_mode = ListenPlain | ListenTLS

definition websocket_listen ::
  "(string \<Rightarrow> string \<Rightarrow> go_error + 'cert) \<Rightarrow> WebsocketSpanreedClientParams \<Rightarrow> go_error + 'cert option \<times> listen_mode" where
  "websocket_listen loadPair params =
     (case (if wsp_CertPath params = '''' \<or> wsp_KeyPath params = '''' then Inr None
            else map_sum id Some (loadPair (wsp_CertPath params) (wsp_KeyPath params))) of
        Inl err \<Rightarrow> Inl err
      | Inr tlsConfig \<Rightarrow>
          Inr (tlsConfig, if wsp_KeyPath params \<noteq> '''' \<and> wsp_CertPath params \<noteq> '''' then ListenTLS else ListenPlain))"

definition webtransport_listen ::
  "(string \<Rightarrow> string \<Rightarrow> go_error + 'cert) \<Rightarrow> WebtransportSpanreedClientParams \<Rightarrow> go_error + 'cert" where
  "webtransport_listen loadPair params = loadPair (wtp_CertPath params) (wtp_KeyPath params)"

section \<open>A session\<close>

datatype transport_kind = OverWebSocket | OverWebTransport

datatype reader_state =
    Reading
  | Returning   \<comment> \<open>has returned; the context is cancelled, the close signal not sent yet\<close>
  | Signalled

record session =
  ses_open :: bool
  ses_shutdown :: bool
  ses_listener :: bool
  ses_reader :: reader_state
  ses_written :: "bytes option list"
  ses_finished :: bool

definition new_session :: session where
  "new_session = \<lparr>ses_open = True, ses_shutdown = False, ses_listener = True, ses_reader = Reading,
     ses_written = [], ses_finished = False\<rparr>"

text \<open>
  One turn of the goroutine that listens to the proxy, with the case its \<open>select\<close> chose; \<open>ok\<close> is
  whether the write succeeded. The cases for a finished context are empty, so that the loop goes
  on. The WebSocket ignores a failed write; WebTransport gives up when the session has ended.
\<close>

datatype listener_case = ShutdownSeen | SessionDoneSeen | RouteDoneSeen | CloseSeen | MessageSeen bool

definition websocket_listener :: "listener_case \<Rightarrow> session \<times> client_route \<Rightarrow> (session \<times> client_route) option" where
  "websocket_listener chosen = (\<lambda>(s, c).
     if \<not> ses_listener s then None
     else case chosen of
        ShutdownSeen \<Rightarrow> (if ses_shutdown s then Some (s, c) else None)
      | CloseSeen \<Rightarrow>
          (if proxyCloseChannel c > 0
           then Some (s\<lparr>ses_open := False, ses_listener := False\<rparr>,
             c\<lparr>proxyCloseChannel := proxyCloseChannel c - 1, route_ctxDone := True\<rparr>) else None)
      | MessageSeen ok \<Rightarrow>
          (case outgoingPackets c of
             [] \<Rightarrow> None
           | p # ps \<Rightarrow>
               (if ok \<longrightarrow> ses_open s
                then Some (if ok then s\<lparr>ses_written := ses_written s @ [p]\<rparr> else s,
                  c\<lparr>outgoingPackets := ps, delivered := delivered c @ [p]\<rparr>) else None))
      | _ \<Rightarrow> None)"

definition webtransport_listener :: "listener_case \<Rightarrow> session \<times> client_route \<Rightarrow> (session \<times> client_route) option" where
  "webtransport_listener chosen = (\<lambda>(s, c).
     if \<not> ses_listener s then None
     else case chosen of
        SessionDoneSeen \<Rightarrow> (if \<not> ses_open s then Some (s, c) else None)
      | RouteDoneSeen \<Rightarrow> (if route_ctxDone c then Some (s, c) else None)
      | CloseSeen \<Rightarrow>
          (if proxyCloseChannel c > 0
           then Some (s\<lparr>ses_open := False, ses_listener := False\<rparr>,
             c\<lparr>proxyCloseChannel := proxyCloseChannel c - 1, route_ctxDone := True\<rparr>) else None)
      | MessageSeen ok \<Rightarrow>
          (case outgoingPackets c of
             [] \<Rightarrow> None
           | p # ps \<Rightarrow>
               (let c1 = c\<lparr>outgoingPackets := ps, delivered := delivered c @ [p]\<rparr>
                in if ok then (if ses_open s then Some (s\<lparr>ses_written := ses_written s @ [p]\<rparr>, c1) else None)
                   else if \<not> ses_open s then Some (s\<lparr>ses_listener := False\<rparr>, c1\<lparr>route_ctxDone := True\<rparr>)
                   else Some (s, c1)))
      | _ \<Rightarrow> None)"

text \<open>
  The goroutine that reads from the client: a message, which waits for room in the channel, a
  text message, which the WebSocket ignores, or a failed read, after which the deferred calls
  cancel the context and then signal the close.
\<close>

datatype reader_event = ReadBinary bytes | ReadText | ReadError | SignalClose

definition websocket_reader :: "nat \<Rightarrow> reader_event \<Rightarrow> session \<times> client_route \<Rightarrow> (session \<times> client_route) option" where
  "websocket_reader inLength e = (\<lambda>(s, c).
     case e of
       ReadBinary payload \<Rightarrow>
         (if ses_reader s = Reading \<and> ses_open s \<and> length (incomingPackets c) < inLength
          then Some (s, c\<lparr>incomingPackets := incomingPackets c @ [payload]\<rparr>) else None)
     | ReadText \<Rightarrow> (if ses_reader s = Reading \<and> ses_open s then Some (s, c) else None)
     | ReadError \<Rightarrow>
         (if ses_reader s = Reading then Some (s\<lparr>ses_reader := Returning\<rparr>, c\<lparr>route_ctxDone := True\<rparr>) else None)
     | SignalClose \<Rightarrow>
         (if ses_reader s = Returning \<and> clientCloseChannel c < 1
          then Some (s\<lparr>ses_reader := Signalled\<rparr>, c\<lparr>clientCloseChannel := clientCloseChannel c + 1\<rparr>) else None))"

definition webtransport_reader :: "nat \<Rightarrow> reader_event \<Rightarrow> session \<times> client_route \<Rightarrow> (session \<times> client_route) option" where
  "webtransport_reader inLength e = (\<lambda>(s, c).
     case e of
       ReadBinary readBuffer \<Rightarrow>
         (if ses_reader s = Reading \<and> ses_open s \<and> length (incomingPackets c) < inLength
          then Some (s, c\<lparr>incomingPackets := incomingPackets c @ [readBuffer]\<rparr>) else None)
     | ReadText \<Rightarrow> None
     | ReadError \<Rightarrow>
         (if ses_reader s = Reading then Some (s\<lparr>ses_reader := Returning\<rparr>, c\<lparr>route_ctxDone := True\<rparr>) else None)
     | SignalClose \<Rightarrow>
         (if ses_reader s = Returning \<and> clientCloseChannel c < 1
          then Some (s\<lparr>ses_reader := Signalled\<rparr>, c\<lparr>clientCloseChannel := clientCloseChannel c + 1\<rparr>) else None))"

definition listener_step :: "transport_kind \<Rightarrow> listener_case \<Rightarrow> session \<times> client_route \<Rightarrow> (session \<times> client_route) option" where
  "listener_step k = (case k of OverWebSocket \<Rightarrow> websocket_listener | OverWebTransport \<Rightarrow> webtransport_listener)"

definition reader_step :: "transport_kind \<Rightarrow> nat \<Rightarrow> reader_event \<Rightarrow> session \<times> client_route \<Rightarrow> (session \<times> client_route) option" where
  "reader_step k = (case k of OverWebSocket \<Rightarrow> websocket_reader | OverWebTransport \<Rightarrow> webtransport_reader)"

section \<open>A front end with its router\<close>

record front_end =
  fe_router :: clientConnectionRouter
  fe_sessions :: "client_id \<Rightarrow> session option"

definition put_session :: "client_id \<Rightarrow> session \<times> client_route \<Rightarrow> front_end \<Rightarrow> front_end" where
  "put_session i = (\<lambda>(s, c) fe. fe\<lparr>fe_sessions := (fe_sessions fe)(i \<mapsto> s),
     fe_router := (fe_router fe)\<lparr>routes := (routes (fe_router fe))(i \<mapsto> c)\<rparr>\<rparr>)"

definition run_listener :: "transport_kind \<Rightarrow> listener_case \<Rightarrow> client_id \<Rightarrow> front_end \<Rightarrow> front_end option" where
  "run_listener k chosen i fe =
     (case (fe_sessions fe i, routes (fe_router fe) i) of
        (Some s, Some c) \<Rightarrow> map_option (\<lambda>x. put_session i x fe) (listener_step k chosen (s, c))
      | _ \<Rightarrow> None)"

definition run_reader :: "transport_kind \<Rightarrow> reader_event \<Rightarrow> client_id \<Rightarrow> front_end \<Rightarrow> front_end option" where
  "run_reader k e i fe =
     (case (fe_sessions fe i, routes (fe_router fe) i) of
        (Some s, Some c) \<Rightarrow>
          map_option (\<lambda>x. put_session i x fe)
            (reader_step k (IncomingMessageQueueLength (rt_params (fe_router fe))) e (s, c))
      | _ \<Rightarrow> None)"

text \<open>
  \<open>onWsRequest\<close> and \<open>onWtRequest\<close> up to the two goroutines: the connection is upgraded when its origin
  passes and opened at the router, which may refuse it.
\<close>

definition onRequest :: "bool \<Rightarrow> go_error + client_id \<Rightarrow> front_end \<Rightarrow> front_end" where
  "onRequest upgraded nextId fe =
     (if \<not> upgraded then fe
      else case OpenConnection nextId (fe_router fe) of
        (Inl err, r) \<Rightarrow> fe\<lparr>fe_router := r\<rparr>
      | (Inr clientId, r) \<Rightarrow> fe\<lparr>fe_router := r, fe_sessions := (fe_sessions fe)(clientId \<mapsto> new_session)\<rparr>)"

text \<open>And after them: the deferred calls remove the client, cancel its context and close the connection.\<close>

definition finish_session :: "client_id \<Rightarrow> front_end \<Rightarrow> front_end option" where
  "finish_session i fe =
     (case (fe_sessions fe i, routes (fe_router fe) i) of
        (Some s, Some c) \<Rightarrow>
          (if \<not> ses_listener s \<and> ses_reader s = Signalled \<and> \<not> ses_finished s
           then let fe1 = fe\<lparr>fe_router := Remove i (fe_router fe)\<rparr>
                in Some (put_session i (s\<lparr>ses_finished := True, ses_open := False\<rparr>, c\<lparr>route_ctxDone := True\<rparr>) fe1)
           else None)
      | _ \<Rightarrow> None)"

inductive front_step ::
  "transport_kind \<Rightarrow> ('s, 'f) fb_builder \<Rightarrow> ('bb, 'f) fb_reader \<Rightarrow> (bytes \<Rightarrow> bool) \<Rightarrow> front_end \<Rightarrow> front_end \<Rightarrow> bool"
  for k B R deformed where
  request: "(\<And>i. nextId = Inr i \<Longrightarrow> routes (fe_router fe) i = None) \<Longrightarrow>
    front_step k B R deformed fe (onRequest upgraded nextId fe)"
| listener: "run_listener k chosen i fe = Some fe' \<Longrightarrow> front_step k B R deformed fe fe'"
| reader: "run_reader k e i fe = Some fe' \<Longrightarrow> front_step k B R deformed fe fe'"
| client_closes: "fe_sessions fe i = Some s \<Longrightarrow>
    front_step k B R deformed fe (fe\<lparr>fe_sessions := (fe_sessions fe)(i \<mapsto> s\<lparr>ses_open := False\<rparr>)\<rparr>)"
| shutdown: "fe_sessions fe i = Some s \<Longrightarrow> routes (fe_router fe) i = Some c \<Longrightarrow>
    front_step k B R deformed fe (put_session i (s\<lparr>ses_shutdown := True\<rparr>, c\<lparr>route_ctxDone := True\<rparr>) fe)"
| finished: "finish_session i fe = Some fe' \<Longrightarrow> front_step k B R deformed fe fe'"
| hub_close: "handleProxyCloseRequest q (fe_router fe) = Some r \<Longrightarrow> front_step k B R deformed fe (fe\<lparr>fe_router := r\<rparr>)"
| hub_message: "handleOutgoingMessageRequest m (fe_router fe) = Some r \<Longrightarrow> front_step k B R deformed fe (fe\<lparr>fe_router := r\<rparr>)"
| hub_verdict: "handleIncomingVerdict v (fe_router fe) = Some r \<Longrightarrow> front_step k B R deformed fe (fe\<lparr>fe_router := r\<rparr>)"
| goroutine: "run_route B R deformed now g chosen i (fe_router fe) = Some r \<Longrightarrow> front_step k B R deformed fe (fe\<lparr>fe_router := r\<rparr>)"

definition front_initial :: "clientConnectionRouter \<Rightarrow> front_end" where
  "front_initial r = \<lparr>fe_router = r, fe_sessions = Map.empty\<rparr>"

section \<open>A front end is a router with a transport\<close>

text \<open>Every turn of a session is at most two of the moves that the router allows its transport.\<close>

definition transport_move :: "nat \<Rightarrow> client_route \<Rightarrow> client_route \<Rightarrow> bool" where
  "transport_move n c c' \<longleftrightarrow> (\<exists>e. transport_step e n c = Some c')"

lemma transport_moveI:
  "length (incomingPackets c) < n \<Longrightarrow> transport_move n c (c\<lparr>incomingPackets := incomingPackets c @ [p]\<rparr>)"
  "clientCloseChannel c = 0 \<Longrightarrow> transport_move n c (c\<lparr>clientCloseChannel := Suc 0\<rparr>)"
  "transport_move n c (c\<lparr>route_ctxDone := True\<rparr>)"
  "outgoingPackets c = q # qs \<Longrightarrow> transport_move n c (c\<lparr>outgoingPackets := qs, delivered := delivered c @ [q]\<rparr>)"
  "0 < proxyCloseChannel c \<Longrightarrow> transport_move n c (c\<lparr>proxyCloseChannel := proxyCloseChannel c - 1\<rparr>)"
  unfolding transport_move_def
  by (rule exI [of _ "TransportPacket p"], simp add: transport_step_def)
    (rule exI [of _ TransportClosed] exI [of _ TransportCancel] exI [of _ TransportWrite] exI [of _ TransportTakeClose],
      simp add: transport_step_def)+

lemma take_close_moves:
  "0 < proxyCloseChannel c \<Longrightarrow>
   (transport_move n)\<^sup>*\<^sup>* c (c\<lparr>proxyCloseChannel := proxyCloseChannel c - 1, route_ctxDone := True\<rparr>)"
  by (rule rtranclp.rtrancl_into_rtrancl [OF r_into_rtranclp [of "transport_move n", OF transport_moveI(5)]])
    (use transport_moveI(3) [of n "c\<lparr>proxyCloseChannel := proxyCloseChannel c - 1\<rparr>"] in simp_all)

lemma failed_write_moves:
  "outgoingPackets c = q # qs \<Longrightarrow>
   (transport_move n)\<^sup>*\<^sup>* c (c\<lparr>outgoingPackets := qs, delivered := delivered c @ [q], route_ctxDone := True\<rparr>)"
  by (rule rtranclp.rtrancl_into_rtrancl [OF r_into_rtranclp [of "transport_move n", OF transport_moveI(4)]])
    (use transport_moveI(3) [of n "c\<lparr>outgoingPackets := qs, delivered := delivered c @ [q]\<rparr>"] in simp_all)

lemmas session_step_defs = listener_step_def reader_step_def websocket_listener_def webtransport_listener_def
  websocket_reader_def webtransport_reader_def

lemma listener_moves:
  assumes "listener_step k chosen (s, c) = Some (s', c')"
  shows "(transport_move n)\<^sup>*\<^sup>* c c'"
  using assms
  by (cases k; cases chosen)
    (auto simp: session_step_defs Let_def split: if_splits list.splits
      intro: take_close_moves [simplified] failed_write_moves r_into_rtranclp [of "transport_move n", OF transport_moveI(4)])

lemma reader_moves:
  assumes "reader_step k n e (s, c) = Some (s', c')"
  shows "(transport_move n)\<^sup>*\<^sup>* c c'"
  using assms
  by (cases k; cases e)
    (auto simp: session_step_defs split: if_splits intro: transport_moveI r_into_rtranclp [of "transport_move n"])

lemma moves_are_router_steps:
  assumes "(transport_move (IncomingMessageQueueLength (rt_params r)))\<^sup>*\<^sup>* c c'" and "routes r i = Some c"
  shows "(router_step B R deformed)\<^sup>*\<^sup>* r (r\<lparr>routes := (routes r)(i \<mapsto> c')\<rparr>)"
  using assms(1)
proof (induction rule: rtranclp_induct)
  case base
  have "r\<lparr>routes := (routes r)(i \<mapsto> c)\<rparr> = r" using assms(2) by (simp add: fun_upd_idem)
  then show ?case by (simp only: rtranclp.rtrancl_refl)
next
  case (step d d')
  from step(2) obtain e where e: "transport_step e (IncomingMessageQueueLength (rt_params r)) d = Some d'"
    unfolding transport_move_def by blast
  have "router_step B R deformed (r\<lparr>routes := (routes r)(i \<mapsto> d)\<rparr>) (r\<lparr>routes := (routes r)(i \<mapsto> d')\<rparr>)"
    using router_step.transport [of "r\<lparr>routes := (routes r)(i \<mapsto> d)\<rparr>" i d e d' B R deformed] e by simp
  with step(3) show ?case by (rule rtranclp.rtrancl_into_rtrancl)
qed

lemma put_session_router [simp]:
  "fe_router (put_session i (s, c) fe) = (fe_router fe)\<lparr>routes := (routes (fe_router fe))(i \<mapsto> c)\<rparr>"
  "fe_sessions (put_session i (s, c) fe) = (fe_sessions fe)(i \<mapsto> s)"
  by (simp_all add: put_session_def)

lemma finish_sessionE:
  assumes "finish_session i fe = Some fe'"
  obtains s c where "fe_sessions fe i = Some s" "routes (fe_router fe) i = Some c" "\<not> ses_listener s"
    "ses_reader s = Signalled" "\<not> ses_finished s"
    "fe' = put_session i (s\<lparr>ses_finished := True, ses_open := False\<rparr>, c\<lparr>route_ctxDone := True\<rparr>)
       (fe\<lparr>fe_router := Remove i (fe_router fe)\<rparr>)"
  using assms by (auto simp: finish_session_def Let_def split: option.splits if_splits)

lemma run_listenerE:
  assumes "run_listener k chosen i fe = Some fe'"
  obtains s c s' c' where "fe_sessions fe i = Some s" "routes (fe_router fe) i = Some c"
    "listener_step k chosen (s, c) = Some (s', c')" "fe' = put_session i (s', c') fe"
  using assms by (auto simp: run_listener_def split: option.splits)

lemma run_readerE:
  assumes "run_reader k e i fe = Some fe'"
  obtains s c s' c' where "fe_sessions fe i = Some s" "routes (fe_router fe) i = Some c"
    "reader_step k (IncomingMessageQueueLength (rt_params (fe_router fe))) e (s, c) = Some (s', c')"
    "fe' = put_session i (s', c') fe"
  using assms by (auto simp: run_reader_def split: option.splits)

lemma front_step_refines:
  assumes "front_step k B R deformed fe fe'"
  shows "(router_step B R deformed)\<^sup>*\<^sup>* (fe_router fe) (fe_router fe')"
  using assms
proof (cases rule: front_step.cases)
  case (request nextId upgraded)
  show ?thesis
  proof (cases "upgraded \<and> (\<exists>i. nextId = Inr i)")
    case True
    then obtain i where i: "upgraded" "nextId = Inr i" by blast
    then have "router_step B R deformed (fe_router fe) (snd (OpenConnection (Inr i) (fe_router fe)))"
      using request(2) by (blast intro: router_step.open_connection)
    moreover have "fe_router fe' = snd (OpenConnection (Inr i) (fe_router fe))"
      using i by (simp add: request(1) onRequest_def split: prod.split sum.split)
    ultimately show ?thesis by auto
  next
    case False
    then have "fe_router fe' = fe_router fe"
      by (cases nextId) (auto simp: request(1) onRequest_def OpenConnection_def)
    then show ?thesis by simp
  qed
next
  case (listener chosen i)
  then show ?thesis by (elim run_listenerE) (auto intro: moves_are_router_steps listener_moves)
next
  case (reader e i)
  then show ?thesis by (elim run_readerE) (auto intro: moves_are_router_steps reader_moves)
next
  case (client_closes i s)
  then show ?thesis by simp
next
  case (shutdown i s c)
  then show ?thesis by (auto intro!: moves_are_router_steps r_into_rtranclp [of "transport_move n" for n] transport_moveI(3))
next
  case (finished i)
  from finished obtain s c where sc: "routes (fe_router fe) i = Some c"
    "fe_router fe' = (Remove i (fe_router fe))\<lparr>routes := (routes (Remove i (fe_router fe)))(i \<mapsto> c\<lparr>route_ctxDone := True\<rparr>)\<rparr>"
    by (auto elim: finish_sessionE)
  have "(router_step B R deformed)\<^sup>*\<^sup>* (Remove i (fe_router fe)) (fe_router fe')"
    unfolding sc(2) using sc(1)
    by (intro moves_are_router_steps [where c = c] r_into_rtranclp [of "transport_move n" for n] transport_moveI(3)) (simp add: Remove_def)
  then show ?thesis using router_step.removal [of B R deformed "fe_router fe" i] by (rule converse_rtranclp_into_rtranclp [rotated])
qed (auto intro: router_step.intros)

lemma front_steps_refine:
  "(front_step k B R deformed)\<^sup>*\<^sup>* fe fe' \<Longrightarrow> (router_step B R deformed)\<^sup>*\<^sup>* (fe_router fe) (fe_router fe')"
  by (induction rule: rtranclp_induct) (auto dest: front_step_refines)

lemma front_initial_router [simp]: "fe_router (front_initial r) = r" "fe_sessions (front_initial r) = Map.empty"
  by (simp_all add: front_initial_def)

section \<open>The lifecycle of a session\<close>

text \<open>What neither the hub nor the goroutines of the router change of a route.\<close>

definition out_stopped :: "client_route \<Rightarrow> bool" where
  "out_stopped c = (case route_phase c of Routing a b \<Rightarrow> \<not> a | Ended \<Rightarrow> True | _ \<Rightarrow> False)"

definition route_kept :: "client_route \<Rightarrow> client_route \<Rightarrow> bool" where
  "route_kept c c' \<longleftrightarrow> route_ctxDone c' = route_ctxDone c \<and> delivered c' = delivered c \<and>
     clientCloseChannel c' \<le> clientCloseChannel c \<and>
     (route_phase c' = WaitAuth \<longrightarrow> route_phase c = WaitAuth) \<and>
     (out_stopped c \<longrightarrow> out_stopped c') \<and>
     (proxyCloseChannel c < proxyCloseChannel c' \<longrightarrow> out_stopped c')"

definition router_kept :: "clientConnectionRouter \<Rightarrow> clientConnectionRouter \<Rightarrow> bool" where
  "router_kept r r' \<longleftrightarrow> dom (connections r') = dom (connections r) \<and> (\<forall>i. rel_option route_kept (routes r i) (routes r' i))"

lemma route_kept_refl [simp]: "route_kept c c"
  by (simp add: route_kept_def)

lemma router_kept_refl [simp]: "router_kept r r"
  by (simp add: router_kept_def option.rel_refl)

lemma router_kept_upd:
  "routes r i = Some c \<Longrightarrow> route_kept c c' \<Longrightarrow> routes r' = (routes r)(i \<mapsto> c') \<Longrightarrow>
   dom (connections r') = dom (connections r) \<Longrightarrow> router_kept r r'"
  by (auto simp: router_kept_def option.rel_refl)

lemma hub_kept:
  "handleProxyCloseRequest q r = Some r' \<Longrightarrow> router_kept r r'"
  "handleOutgoingMessageRequest m r = Some r' \<Longrightarrow> router_kept r r'"
  "handleIncomingVerdict v r = Some r' \<Longrightarrow> router_kept r r'"
  by (auto simp: handleProxyCloseRequest_def handleOutgoingMessageRequest_def handleIncomingVerdict_def
      router_kept_def route_kept_def out_stopped_def option.rel_refl split: option.splits if_splits)

lemma goroutines_keep:
  "await_auth R deformed now chosen i c = Some (c', opens, closes) \<Longrightarrow> route_phase c = WaitAuth \<Longrightarrow> route_kept c c'"
  "await_verdict B n chosen c = Some c' \<Longrightarrow> route_phase c = WaitVerdict \<Longrightarrow> route_kept c c'"
  "route_out n chosen b c = Some c' \<Longrightarrow> route_phase c = Routing a b \<Longrightarrow> route_kept c c'"
  "route_in now chosen a i c = Some (c', msgs, closes) \<Longrightarrow> route_phase c = Routing a b \<Longrightarrow> route_kept c c'"
     apply (auto simp: await_auth_def route_kept_def out_stopped_def split: select_case.splits if_splits list.splits option.splits) [1]
    apply (auto simp: await_verdict_def route_kept_def out_stopped_def Let_def split: select_case.splits if_splits list.splits option.splits) [1]
   apply (auto simp: route_out_def route_kept_def out_stopped_def split: select_case.splits if_splits list.splits) [1]
  apply (auto simp: route_in_def route_kept_def out_stopped_def split: select_case.splits if_splits list.splits) [1]
  done

lemma run_kept:
  assumes "run_route B R deformed now g chosen i r = Some r'"
  shows "router_kept r r'"
proof -
  obtain c where c: "routes r i = Some c" using assms by (cases "routes r i") (simp_all add: run_route_def)
  note upd = router_kept_upd [OF c]
  show ?thesis
    using assms c
    by (auto simp: run_route_def dom_def split: route_phase.splits goroutine.splits bool.splits if_splits
        intro!: upd intro: goroutines_keep)
qed

text \<open>
  A session and its route: once either goroutine has returned the context is cancelled; the close
  signal is sent at most once and there is always room for it; what the client was written is
  part of what the router handed over, in its order; before the client's first packet the
  listener runs, and it is told to close only after the outgoing goroutine has returned.
\<close>

definition session_ok :: "session \<Rightarrow> client_route \<Rightarrow> bool" where
  "session_ok s c \<longleftrightarrow>
     (\<not> ses_listener s \<or> ses_reader s \<noteq> Reading \<longrightarrow> route_ctxDone c) \<and>
     (ses_reader s \<noteq> Signalled \<longrightarrow> clientCloseChannel c = 0) \<and>
     (ses_finished s \<longrightarrow> \<not> ses_listener s \<and> ses_reader s = Signalled \<and> \<not> ses_open s) \<and>
     subseq (ses_written s) (delivered c) \<and>
     (route_phase c = WaitAuth \<longrightarrow> ses_listener s) \<and>
     (0 < proxyCloseChannel c \<longrightarrow> out_stopped c)"

definition front_inv :: "front_end \<Rightarrow> bool" where
  "front_inv fe \<longleftrightarrow> dom (fe_sessions fe) = dom (routes (fe_router fe)) \<and>
     (\<forall>i s c. fe_sessions fe i = Some s \<longrightarrow> routes (fe_router fe) i = Some c \<longrightarrow>
        session_ok s c \<and> (ses_finished s \<longleftrightarrow> connections (fe_router fe) i = None))"

lemma front_invD:
  "front_inv fe \<Longrightarrow> fe_sessions fe i = Some s \<Longrightarrow> routes (fe_router fe) i = Some c \<Longrightarrow>
   session_ok s c \<and> (ses_finished s \<longleftrightarrow> connections (fe_router fe) i = None)"
  by (simp add: front_inv_def)

lemma session_ok_kept: "session_ok s c \<Longrightarrow> route_kept c c' \<Longrightarrow> session_ok s c'"
  unfolding session_ok_def route_kept_def by fastforce

lemma front_inv_kept:
  assumes "front_inv fe" and "router_kept (fe_router fe) r"
  shows "front_inv (fe\<lparr>fe_router := r\<rparr>)"
proof -
  have dom: "dom (routes r) = dom (routes (fe_router fe))" "dom (connections r) = dom (connections (fe_router fe))"
    using assms(2) by (auto simp: router_kept_def dom_def option.rel_sel)
  have conn: "connections r i = None \<longleftrightarrow> connections (fe_router fe) i = None" for i using dom(2) by blast
  have "session_ok s c \<and> (ses_finished s \<longleftrightarrow> connections r i = None)"
    if s: "fe_sessions fe i = Some s" and c: "routes r i = Some c" for i s c
  proof -
    obtain c0 where c0: "routes (fe_router fe) i = Some c0" "route_kept c0 c"
      using assms(2) c by (auto simp: router_kept_def option.rel_sel dest!: spec [of _ i])
    with assms(1) s have "session_ok s c0" "ses_finished s \<longleftrightarrow> connections (fe_router fe) i = None"
      unfolding front_inv_def by blast+
    with c0(2) show ?thesis by (auto intro: session_ok_kept simp: conn)
  qed
  then show ?thesis using assms(1) dom(1) by (simp add: front_inv_def)
qed

lemma front_inv_put:
  assumes "front_inv fe" and "fe_sessions fe i = Some s" and "routes (fe_router fe) i = Some c"
    and "session_ok s' c'" and "ses_finished s' = ses_finished s"
  shows "front_inv (put_session i (s', c') fe)"
  using assms by (auto simp: front_inv_def)

lemma router_inv_waiting:
  assumes "router_inv B r" and "routes r i = Some c" and "route_phase c = WaitAuth"
  shows "outgoingPackets c = [] \<and> delivered c = [] \<and> proxyCloseChannel c = 0"
  using assms unfolding router_inv_def by (fastforce simp: channels_ok_def packets_ok_def)

lemma listener_session_ok:
  assumes "listener_step k chosen (s, c) = Some (s', c')" and "session_ok s c"
    and "route_phase c = WaitAuth \<longrightarrow> outgoingPackets c = [] \<and> proxyCloseChannel c = 0"
  shows "session_ok s' c' \<and> ses_finished s' = ses_finished s"
  using assms
  by (cases k; cases chosen)
    (auto simp: session_step_defs session_ok_def out_stopped_def Let_def split: if_splits list.splits)

lemma reader_session_ok:
  assumes "reader_step k n e (s, c) = Some (s', c')" and "session_ok s c"
  shows "session_ok s' c' \<and> ses_finished s' = ses_finished s"
  using assms by (cases k; cases e) (auto simp: session_step_defs session_ok_def out_stopped_def split: if_splits)

lemma front_inv_request:
  assumes "front_inv fe" and "\<And>i. nextId = Inr i \<Longrightarrow> routes (fe_router fe) i = None"
  shows "front_inv (onRequest upgraded nextId fe)"
proof (cases "upgraded \<and> (\<exists>i. nextId = Inr i \<and> connections (fe_router fe) i = None)")
  case True
  then obtain i where i: "upgraded" "nextId = Inr i" "connections (fe_router fe) i = None" by blast
  have "session_ok new_session new_route" by (simp add: session_ok_def new_session_def new_route_def)
  then show ?thesis using assms(1) i
    by (auto simp: onRequest_def OpenConnection_def front_inv_def new_session_def)
next
  case False
  then have "onRequest upgraded nextId fe = fe"
    by (cases nextId) (auto simp: onRequest_def OpenConnection_def)
  then show ?thesis using assms(1) by simp
qed

lemma front_inv_step:
  assumes "front_step k B R deformed fe fe'" and "front_inv fe" and "router_inv B (fe_router fe)"
  shows "front_inv fe'"
  using assms(1)
proof (cases rule: front_step.cases)
  case (request nextId upgraded)
  then show ?thesis using assms(2) front_inv_request by simp
next
  case (listener chosen i)
  then obtain s c s' c' where x: "fe_sessions fe i = Some s" "routes (fe_router fe) i = Some c"
    "listener_step k chosen (s, c) = Some (s', c')" "fe' = put_session i (s', c') fe" by (rule run_listenerE)
  have "session_ok s c" using assms(2) x(1,2) unfolding front_inv_def by blast
  with listener_session_ok [OF x(3)] router_inv_waiting [OF assms(3) x(2)]
  have "session_ok s' c' \<and> ses_finished s' = ses_finished s" by blast
  then show ?thesis using front_inv_put [OF assms(2) x(1,2)] by (simp add: x(4))
next
  case (reader e i)
  then obtain s c s' c' where x: "fe_sessions fe i = Some s" "routes (fe_router fe) i = Some c"
    "reader_step k (IncomingMessageQueueLength (rt_params (fe_router fe))) e (s, c) = Some (s', c')"
    "fe' = put_session i (s', c') fe" by (rule run_readerE)
  have "session_ok s c" using assms(2) x(1,2) unfolding front_inv_def by blast
  from reader_session_ok [OF x(3) this] show ?thesis using front_inv_put [OF assms(2) x(1,2)] by (simp add: x(4))
next
  case (client_closes i s)
  then obtain c where c: "routes (fe_router fe) i = Some c" using assms(2) unfolding front_inv_def by blast
  then have "(routes (fe_router fe))(i \<mapsto> c) = routes (fe_router fe)" by (rule fun_upd_idem)
  then have fe': "fe' = put_session i (s\<lparr>ses_open := False\<rparr>, c) fe" by (simp add: client_closes(1) put_session_def)
  have "session_ok s c" using assms(2) client_closes(2) c unfolding front_inv_def by blast
  then have "session_ok (s\<lparr>ses_open := False\<rparr>) c" by (simp add: session_ok_def out_stopped_def)
  then show ?thesis using front_inv_put [OF assms(2) client_closes(2) c] by (simp add: fe')
next
  case (shutdown i s c)
  have "session_ok s c" using assms(2) shutdown(2,3) unfolding front_inv_def by blast
  then have "session_ok (s\<lparr>ses_shutdown := True\<rparr>) (c\<lparr>route_ctxDone := True\<rparr>)" by (simp add: session_ok_def out_stopped_def)
  then show ?thesis using front_inv_put [OF assms(2) shutdown(2,3)] by (simp add: shutdown(1))
next
  case (finished i)
  then obtain s c where fin: "fe_sessions fe i = Some s" "routes (fe_router fe) i = Some c" "\<not> ses_listener s"
    "ses_reader s = Signalled" "\<not> ses_finished s"
    "fe' = put_session i (s\<lparr>ses_finished := True, ses_open := False\<rparr>, c\<lparr>route_ctxDone := True\<rparr>)
       (fe\<lparr>fe_router := Remove i (fe_router fe)\<rparr>)" by (rule finish_sessionE)
  have "session_ok s c" using assms(2) fin(1,2) unfolding front_inv_def by blast
  then have "session_ok (s\<lparr>ses_finished := True, ses_open := False\<rparr>) (c\<lparr>route_ctxDone := True\<rparr>)"
    using fin(3-5) by (simp add: session_ok_def out_stopped_def)
  then show ?thesis using assms(2) fin(1,2) by (auto simp: fin(6) front_inv_def Remove_def)
qed (use assms(2) in \<open>auto intro: front_inv_kept hub_kept run_kept\<close>)

lemma front_reachable:
  assumes "(front_step k B R deformed)\<^sup>*\<^sup>* (front_initial (CreateClientConnectionRouter params)) fe"
  shows "front_inv fe \<and> router_inv B (fe_router fe)"
  using assms
proof (induction rule: rtranclp_induct)
  case base
  show ?case using router_reachable_inv [of B R deformed params]
    by (simp add: front_inv_def CreateClientConnectionRouter_def)
next
  case (step fe fe')
  have "router_inv B (fe_router fe')"
    using front_step_refines [OF step(2)] step(3)
    by (induction rule: rtranclp_induct) (auto intro: router_inv_step)
  then show ?case using step front_inv_step by blast
qed

text \<open>
  C8. The WebSocket and the WebTransport front end refine the router's environment: whatever
  clients, hub and goroutines do, a front end's router goes only through states that the router
  reaches with an unconstrained transport, and its sessions are in step with it. Every client with
  channels has a session, a session is finished exactly when its client is no longer registered,
  and what the client was written is a subsequence of what the router handed over.
\<close>

theorem front_end_refines:
  assumes "(front_step k B R deformed)\<^sup>*\<^sup>* (front_initial (CreateClientConnectionRouter params)) fe"
  shows "(router_step B R deformed)\<^sup>*\<^sup>* (CreateClientConnectionRouter params) (fe_router fe) \<and>
    dom (fe_sessions fe) = dom (routes (fe_router fe)) \<and>
    (\<forall>i s c. fe_sessions fe i = Some s \<longrightarrow> routes (fe_router fe) i = Some c \<longrightarrow>
       (ses_finished s \<longleftrightarrow> connections (fe_router fe) i = None) \<and> subseq (ses_written s) (delivered c))"
proof -
  have "(router_step B R deformed)\<^sup>*\<^sup>* (CreateClientConnectionRouter params) (fe_router fe)"
    using front_steps_refine [OF assms] by simp
  moreover have "front_inv fe" using front_reachable [OF assms] by blast
  ultimately show ?thesis unfolding front_inv_def session_ok_def by blast
qed

text \<open>A front end with one client, for the concrete instances below.\<close>

definition with_session :: "clientConnectionRouter \<Rightarrow> session \<Rightarrow> client_route \<Rightarrow> front_end" where
  "with_session r s c = \<lparr>fe_router = r\<lparr>routes := [1 \<mapsto> c]\<rparr>, fe_sessions = [1 \<mapsto> s]\<rparr>"

definition sample_front :: front_end where
  "sample_front = front_initial sample_router"

definition new_front :: front_end where
  "new_front = with_session (with_route new_route) new_session new_route"

lemma with_session_sel [simp]:
  "fe_sessions (with_session r s c) = [1 \<mapsto> s]"
  "routes (fe_router (with_session r s c)) = [1 \<mapsto> c]"
  "connections (fe_router (with_session r s c)) = connections r"
  "rt_params (fe_router (with_session r s c)) = rt_params r"
  "put_session 1 (s', c') (with_session r s c) = with_session r s' c'"
  by (simp_all add: with_session_def put_session_def)

lemma sample_params [simp]:
  "IncomingMessageQueueLength (rt_params (with_route c)) = 16" "OutgoingMessageQueueLength (rt_params (with_route c)) = 16"
  "connections (with_route c) = [1 \<mapsto> False]"
  by (simp_all add: with_route_def sample_router_def CreateClientConnectionRouter_def)

lemma with_new_session: "(front_step k B R deformed)\<^sup>*\<^sup>* sample_front new_front"
proof -
  have "onRequest True (Inr 1) sample_front = new_front"
    by (simp add: onRequest_def OpenConnection_def sample_front_def new_front_def with_session_def with_route_def front_initial_def
      sample_router_def CreateClientConnectionRouter_def)
  moreover have "front_step k B R deformed sample_front (onRequest True (Inr 1) sample_front)"
    by (rule front_step.request) (simp add: sample_front_def front_initial_def sample_router_def CreateClientConnectionRouter_def)
  ultimately show ?thesis by auto
qed

lemma with_listener:
  assumes "(front_step k B R deformed)\<^sup>*\<^sup>* fe (with_session r s c)" and "listener_step k chosen (s, c) = Some (s', c')"
  shows "(front_step k B R deformed)\<^sup>*\<^sup>* fe (with_session r s' c')"
  using assms(1)
proof (rule rtranclp.rtrancl_into_rtrancl)
  show "front_step k B R deformed (with_session r s c) (with_session r s' c')"
    using assms(2) by (intro front_step.listener [where chosen = chosen and i = 1]) (simp add: run_listener_def)
qed

lemma with_reader:
  assumes "(front_step k B R deformed)\<^sup>*\<^sup>* fe (with_session r s c)"
    and "reader_step k (IncomingMessageQueueLength (rt_params r)) e (s, c) = Some (s', c')"
  shows "(front_step k B R deformed)\<^sup>*\<^sup>* fe (with_session r s' c')"
  using assms(1)
proof (rule rtranclp.rtrancl_into_rtrancl)
  show "front_step k B R deformed (with_session r s c) (with_session r s' c')"
    using assms(2) by (intro front_step.reader [where e = e and i = 1]) (simp add: run_reader_def)
qed

lemma with_client_closes:
  assumes "(front_step k B R deformed)\<^sup>*\<^sup>* fe (with_session r s c)"
  shows "(front_step k B R deformed)\<^sup>*\<^sup>* fe (with_session r (s\<lparr>ses_open := False\<rparr>) c)"
  using assms(1)
proof (rule rtranclp.rtrancl_into_rtrancl)
  show "front_step k B R deformed (with_session r s c) (with_session r (s\<lparr>ses_open := False\<rparr>) c)"
    using front_step.client_closes [of "with_session r s c" 1 s k B R deformed] by (simp add: with_session_def)
qed

lemma with_shutdown:
  assumes "(front_step k B R deformed)\<^sup>*\<^sup>* fe (with_session r s c)"
  shows "(front_step k B R deformed)\<^sup>*\<^sup>* fe (with_session r (s\<lparr>ses_shutdown := True\<rparr>) (c\<lparr>route_ctxDone := True\<rparr>))"
  using assms(1)
proof (rule rtranclp.rtrancl_into_rtrancl)
  show "front_step k B R deformed (with_session r s c) (with_session r (s\<lparr>ses_shutdown := True\<rparr>) (c\<lparr>route_ctxDone := True\<rparr>))"
    using front_step.shutdown [of "with_session r s c" 1 s c k B R deformed] by simp
qed

lemma with_goroutine:
  assumes "(front_step k B R deformed)\<^sup>*\<^sup>* fe (with_session r s c)"
    and "run_route B R deformed now g chosen 1 (r\<lparr>routes := [1 \<mapsto> c]\<rparr>) = Some (r'\<lparr>routes := [1 \<mapsto> c']\<rparr>)"
  shows "(front_step k B R deformed)\<^sup>*\<^sup>* fe (with_session r' s c')"
  using assms(1)
proof (rule rtranclp.rtrancl_into_rtrancl)
  show "front_step k B R deformed (with_session r s c) (with_session r' s c')"
    using front_step.goroutine [of B R deformed now g chosen 1 "with_session r s c" "r'\<lparr>routes := [1 \<mapsto> c']\<rparr>" k] assms(2)
    by (simp add: with_session_def)
qed

text \<open>The Go class reads what the client's payload says.\<close>

lemma go_app_data: "go_ConnectClientMessage_AppDataBytes R t =
    (case ConnectClientMessage_appDataArray R t of Inl e \<Rightarrow> None | Inr d \<Rightarrow> Some d)"
  by (simp add: go_ConnectClientMessage_AppDataBytes_def ConnectClientMessage_appDataArray_def Let_def split: sum.split)

lemma parsed_request:
  assumes "flatbuffers B R valid mode nodes addr views fround feq"
    and "length (connect_payload B dest userName) < 2 ^ 31" and "\<not> deformed (connect_payload B dest userName)"
  shows "safeParseConnectClientMessage R deformed (connect_payload B dest userName) =
    Some (dest, Some (connect_app_data B userName))"
proof -
  let ?t = "getRootAsConnectClientMessage R (newByteBuffer R (connect_payload B dest userName))"
  note r = flatbuffers.connect_payload_read [OF assms(1,2) refl]
  have t: "go_GetRootAsConnectClientMessage R (connect_payload B dest userName) = ?t"
    by (simp add: go_GetRootAsConnectClientMessage_def getRootAsConnectClientMessage_def ConnectClientMessage_init_def Let_def)
  have "go_ConnectClientMessage_ConnectionString R ?t = dest"
    using r(1) by (simp add: go_ConnectClientMessage_ConnectionString_def ConnectClientMessage_connectionString_def Let_def split: if_splits)
  moreover have "go_ConnectClientMessage_AppDataBytes R ?t = Some (Some (connect_app_data B userName))"
    by (simp add: go_app_data r(2))
  ultimately show ?thesis using assms(3) by (simp add: safeParseConnectClientMessage_def t)
qed

text \<open>Its client has sent its request and waits for the verdict.\<close>

definition waiting_base :: clientConnectionRouter where
  "waiting_base = (with_route new_route)\<lparr>rt_opens := [\<lparr>open_ClientId = 1, open_RecvTimestamp = 6, open_RouteTimestamp = 0,
     open_ConnectionString = ''udp:x'', open_AppData = Some (connect_app_data wire_builder ''Ann'')\<rparr>]\<rparr>"

lemma waiting_session:
  "(front_step k wire_builder wire_reader (\<lambda>d. False))\<^sup>*\<^sup>* sample_front
     (with_session waiting_base new_session (new_route\<lparr>route_phase := WaitVerdict\<rparr>))"
proof -
  let ?payload = "connect_payload wire_builder ''udp:x'' ''Ann''"
  let ?c = "new_route\<lparr>incomingPackets := [?payload]\<rparr>"
  have "reader_step k 16 (ReadBinary ?payload) (new_session, new_route) = Some (new_session, ?c)"
    by (cases k) (simp_all add: session_step_defs new_session_def new_route_def)
  then have reach: "(front_step k wire_builder wire_reader (\<lambda>d. False))\<^sup>*\<^sup>* sample_front (with_session (with_route new_route) new_session ?c)"
    using with_reader [OF with_new_session [unfolded new_front_def], of k _ new_session ?c] by simp
  have parsed: "safeParseConnectClientMessage wire_reader (\<lambda>d. False) ?payload = Some (''udp:x'', Some (connect_app_data wire_builder ''Ann''))"
    by (rule parsed_request [OF wire.flatbuffers_axioms]) (simp_all add: wire_connect_lengths)
  show ?thesis
    by (rule with_goroutine [OF reach, where now = 6 and g = MainLoop and chosen = PacketIn])
      (simp add: run_route_def await_auth_def parsed waiting_base_def with_route_def new_route_def
        sample_router_def CreateClientConnectionRouter_def)
qed

text \<open>The context is cancelled while it waits, so that the router asks the transport to close.\<close>

definition refused_route :: client_route where
  "refused_route = new_route\<lparr>route_ctxDone := True, route_phase := Ended, proxyCloseChannel := 1,
     outgoingPackets := [Some (createVerdictMsg wire_builder False ''Proxy shutdown'' None)]\<rparr>"

lemma refused_session:
  "(front_step k wire_builder wire_reader (\<lambda>d. False))\<^sup>*\<^sup>* sample_front
     (with_session waiting_base (new_session\<lparr>ses_shutdown := True\<rparr>) refused_route)"
  by (rule with_goroutine [OF with_shutdown [OF waiting_session], where now = 7 and g = MainLoop and chosen = CtxDone])
    (simp add: run_route_def await_verdict_def waiting_base_def refused_route_def with_route_def new_route_def
      sample_router_def CreateClientConnectionRouter_def)

theorem front_end_refines_witness:
  "subseq (ses_written new_session) (delivered new_route) \<and>
   (router_step wire_builder wire_reader (\<lambda>d. False))\<^sup>*\<^sup>* sample_router (fe_router new_front)"
proof -
  have reach: "(front_step OverWebSocket wire_builder wire_reader (\<lambda>d. False))\<^sup>*\<^sup>* sample_front new_front"
    by (rule with_new_session)
  from front_end_refines [OF reach [unfolded sample_front_def sample_router_def]] show ?thesis
    by (simp add: sample_router_def new_front_def)
qed

section \<open>How sessions end\<close>



text \<open>The WebSocket's listener returns only after the outgoing goroutine of the router.\<close>

definition listener_last :: "front_end \<Rightarrow> bool" where
  "listener_last fe \<longleftrightarrow> (\<forall>i s c. fe_sessions fe i = Some s \<longrightarrow> routes (fe_router fe) i = Some c \<longrightarrow>
     \<not> ses_listener s \<longrightarrow> out_stopped c)"

lemma listener_last_kept:
  assumes "listener_last fe" and "router_kept (fe_router fe) r"
  shows "listener_last (fe\<lparr>fe_router := r\<rparr>)"
proof -
  have "out_stopped c" if s: "fe_sessions fe i = Some s" and c: "routes r i = Some c" and l: "\<not> ses_listener s" for i s c
  proof -
    obtain c0 where "routes (fe_router fe) i = Some c0" "route_kept c0 c"
      using assms(2) c by (auto simp: router_kept_def option.rel_sel dest!: spec [of _ i])
    then show ?thesis using assms(1) s l unfolding listener_last_def route_kept_def by blast
  qed
  then show ?thesis by (simp add: listener_last_def)
qed

lemma listener_last_put:
  "listener_last fe \<Longrightarrow> (\<not> ses_listener s \<Longrightarrow> out_stopped c) \<Longrightarrow> listener_last (put_session i (s, c) fe)"
  by (auto simp: listener_last_def)

lemma websocket_listener_last:
  assumes "websocket_listener chosen (s, c) = Some (s', c')" and "session_ok s c" and "\<not> ses_listener s'"
  shows "out_stopped c'"
  using assms by (cases chosen) (auto simp: websocket_listener_def session_ok_def out_stopped_def split: if_splits list.splits)

lemma reader_keeps:
  assumes "reader_step k n e (s, c) = Some (s', c')"
  shows "ses_listener s' = ses_listener s \<and> route_phase c' = route_phase c \<and> route_CloseRequest c' = route_CloseRequest c"
  using assms by (cases k; cases e) (auto simp: session_step_defs split: if_splits)

lemma listener_last_step:
  assumes "front_step OverWebSocket B R deformed fe fe'" and "front_inv fe" and last: "listener_last fe"
  shows "listener_last fe'"
  using assms(1)
proof (cases rule: front_step.cases)
  case (request nextId upgraded)
  have "ses_listener new_session" by (simp add: new_session_def)
  then show ?thesis using last unfolding request(1)
    by (cases nextId) (auto simp: listener_last_def onRequest_def OpenConnection_def)
next
  case (listener chosen i)
  then obtain s c s' c' where x: "fe_sessions fe i = Some s" "routes (fe_router fe) i = Some c"
    "listener_step OverWebSocket chosen (s, c) = Some (s', c')" "fe' = put_session i (s', c') fe" by (rule run_listenerE)
  have "session_ok s c" using assms(2) x(1,2) unfolding front_inv_def by blast
  with x(3) show ?thesis unfolding x(4)
    by (intro listener_last_put [OF last] websocket_listener_last) (simp_all add: listener_step_def)
next
  case (reader e i)
  then obtain s c s' c' where x: "fe_sessions fe i = Some s" "routes (fe_router fe) i = Some c"
    "reader_step OverWebSocket (IncomingMessageQueueLength (rt_params (fe_router fe))) e (s, c) = Some (s', c')"
    "fe' = put_session i (s', c') fe" by (rule run_readerE)
  from reader_keeps [OF x(3)] last x(1,2) show ?thesis unfolding x(4)
    by (intro listener_last_put [OF last]) (auto simp: listener_last_def out_stopped_def)
next
  case (client_closes i s)
  then show ?thesis using last by (simp add: listener_last_def)
next
  case (shutdown i s c)
  then show ?thesis using last
    by (simp only: shutdown(1), intro listener_last_put [OF last]) (auto simp: listener_last_def out_stopped_def)
next
  case (finished i)
  then obtain s c where fin: "fe_sessions fe i = Some s" "routes (fe_router fe) i = Some c" "\<not> ses_listener s"
    "fe' = put_session i (s\<lparr>ses_finished := True, ses_open := False\<rparr>, c\<lparr>route_ctxDone := True\<rparr>)
       (fe\<lparr>fe_router := Remove i (fe_router fe)\<rparr>)" by (auto elim: finish_sessionE)
  have "out_stopped c" using last fin(1-3) unfolding listener_last_def by blast
  moreover have "listener_last (fe\<lparr>fe_router := Remove i (fe_router fe)\<rparr>)" using last by (simp add: listener_last_def Remove_def)
  ultimately show ?thesis unfolding fin(4) by (intro listener_last_put) (simp_all add: out_stopped_def)
qed (use last in \<open>auto intro: listener_last_kept hub_kept run_kept\<close>)

lemma listener_last_reachable:
  assumes "(front_step OverWebSocket B R deformed)\<^sup>*\<^sup>* (front_initial (CreateClientConnectionRouter params)) fe"
  shows "listener_last fe"
  using assms
proof (induction rule: rtranclp_induct)
  case (step fe fe')
  then show ?case using front_reachable listener_last_step by blast
qed (simp add: listener_last_def)

text \<open>
  C15. A finished WebSocket session leaves nothing behind: its client is no longer registered, the
  router's outgoing goroutine has returned, and if the incoming one is still running its context
  is cancelled, so that it can return at once.
\<close>

theorem websocket_leaves_nothing:
  assumes "(front_step OverWebSocket B R deformed)\<^sup>*\<^sup>* (front_initial (CreateClientConnectionRouter params)) fe"
    and "fe_sessions fe i = Some s" and "ses_finished s"
  shows "connections (fe_router fe) i = None \<and> (\<exists>c. routes (fe_router fe) i = Some c \<and>
    (route_phase c = Ended \<or> route_phase c = Routing False False \<or>
     route_phase c = Routing False True \<and> (\<exists>r' c'. run_route B R deformed now InLoop CtxDone i (fe_router fe) = Some r' \<and>
       routes r' i = Some c' \<and> route_phase c' = Routing False False)))"
proof -
  have inv: "front_inv fe" using front_reachable [OF assms(1)] by blast
  then obtain c where c: "routes (fe_router fe) i = Some c" using assms(2) unfolding front_inv_def by blast
  have ok: "session_ok s c" "connections (fe_router fe) i = None" using inv assms(2,3) c unfolding front_inv_def by blast+
  then have cancelled: "route_ctxDone c" "\<not> ses_listener s" using assms(3) by (auto simp: session_ok_def)
  then have "out_stopped c" using listener_last_reachable [OF assms(1)] assms(2) c unfolding listener_last_def by blast
  then show ?thesis using ok(2) c cancelled(1)
    by (auto simp: out_stopped_def run_route_def route_in_def split: route_phase.splits)
qed

theorem websocket_leaves_nothing_witness:
  "\<exists>fe s c. (front_step OverWebSocket wire_builder wire_reader (\<lambda>d. False))\<^sup>*\<^sup>* sample_front fe \<and>
     fe_sessions fe 1 = Some s \<and> ses_finished s \<and> connections (fe_router fe) 1 = None \<and>
     routes (fe_router fe) 1 = Some c \<and> route_phase c \<noteq> Routing True True"
proof -
  let ?fe = "with_session waiting_base (new_session\<lparr>ses_shutdown := True\<rparr>) refused_route"
  have "\<exists>fe1 fe2 fe3 fe4 s4. run_listener OverWebSocket CloseSeen 1 ?fe = Some fe1 \<and>
      run_reader OverWebSocket ReadError 1 fe1 = Some fe2 \<and> run_reader OverWebSocket SignalClose 1 fe2 = Some fe3 \<and>
      finish_session 1 fe3 = Some fe4 \<and> fe_sessions fe4 1 = Some s4 \<and> ses_finished s4"
    by (simp add: run_listener_def run_reader_def session_step_defs finish_session_def Remove_def Let_def
      new_session_def refused_route_def new_route_def)
  then obtain fe1 fe2 fe3 fe4 s4 where run: "run_listener OverWebSocket CloseSeen 1 ?fe = Some fe1"
      "run_reader OverWebSocket ReadError 1 fe1 = Some fe2" "run_reader OverWebSocket SignalClose 1 fe2 = Some fe3"
      "finish_session 1 fe3 = Some fe4" "fe_sessions fe4 1 = Some s4" "ses_finished s4" by blast
  have reach: "(front_step OverWebSocket wire_builder wire_reader (\<lambda>d. False))\<^sup>*\<^sup>* sample_front fe4"
    using refused_session run(1-4) by (meson front_step.finished front_step.listener front_step.reader rtranclp.rtrancl_into_rtrancl)
  from websocket_leaves_nothing [OF reach [unfolded sample_front_def sample_router_def] run(5,6), of 0]
  obtain c where "connections (fe_router fe4) 1 = None" "routes (fe_router fe4) 1 = Some c" "route_phase c \<noteq> Routing True True"
    by auto
  with reach run(5,6) show ?thesis by blast
qed

section \<open>Sessions that do not end\<close>

text \<open>A client that is never told anything: its listener waits for good.\<close>

definition stuck :: "client_id \<Rightarrow> front_end \<Rightarrow> bool" where
  "stuck i fe \<longleftrightarrow> silent i (fe_router fe) \<and> connections (fe_router fe) i \<noteq> None \<and>
     (\<exists>s. fe_sessions fe i = Some s \<and> ses_listener s)"

lemma silent_steps: "(router_step B R deformed)\<^sup>*\<^sup>* r r' \<Longrightarrow> silent i r \<Longrightarrow> silent i r'"
  by (induction rule: rtranclp_induct) (auto intro: silent_step)

lemma silent_listener:
  assumes "listener_step k chosen (s, c) = Some (s', c')" and "outgoingPackets c = []" and "proxyCloseChannel c = 0"
  shows "ses_listener s' = ses_listener s"
  using assms by (cases k; cases chosen) (auto simp: session_step_defs split: if_splits)

lemma stuck_step:
  assumes "front_step k B R deformed fe fe'" and "stuck i fe"
  shows "stuck i fe'"
proof -
  have silent: "silent i (fe_router fe')"
    using silent_steps [OF front_step_refines [OF assms(1)]] assms(2) by (simp add: stuck_def)
  obtain s where s: "fe_sessions fe i = Some s" "ses_listener s" "connections (fe_router fe) i \<noteq> None"
    using assms(2) unfolding stuck_def by blast
  have kept: ?thesis if "router_kept (fe_router fe) r" "fe' = fe\<lparr>fe_router := r\<rparr>" for r
    using that s silent by (auto simp: stuck_def router_kept_def)
  from assms(1) show ?thesis
  proof (cases rule: front_step.cases)
    case (request nextId upgraded)
    have "ses_listener new_session" by (simp add: new_session_def)
    then show ?thesis using s silent unfolding request(1)
      by (cases nextId) (auto simp: stuck_def onRequest_def OpenConnection_def)
  next
    case (listener chosen j)
    then obtain t c t' c' where x: "fe_sessions fe j = Some t" "routes (fe_router fe) j = Some c"
      "listener_step k chosen (t, c) = Some (t', c')" "fe' = put_session j (t', c') fe" by (rule run_listenerE)
    have "ses_listener t'" if "j = i"
      using silent_listener [OF x(3)] assms(2) x(1,2) that s by (auto simp: stuck_def silent_def)
    then show ?thesis using s silent by (auto simp: stuck_def x(4))
  next
    case (reader e j)
    then obtain t c t' c' where x: "fe_sessions fe j = Some t" "routes (fe_router fe) j = Some c"
      "reader_step k (IncomingMessageQueueLength (rt_params (fe_router fe))) e (t, c) = Some (t', c')"
      "fe' = put_session j (t', c') fe" by (rule run_readerE)
    then show ?thesis using s silent reader_keeps [OF x(3)] by (auto simp: stuck_def)
  next
    case (client_closes j t)
    then show ?thesis using s silent by (auto simp: stuck_def)
  next
    case (shutdown j t c)
    then show ?thesis using s silent by (auto simp: stuck_def)
  next
    case (finished j)
    then obtain t c where "fe_sessions fe j = Some t" "\<not> ses_listener t"
      "fe' = put_session j (t\<lparr>ses_finished := True, ses_open := False\<rparr>, c\<lparr>route_ctxDone := True\<rparr>)
         (fe\<lparr>fe_router := Remove j (fe_router fe)\<rparr>)" by (auto elim: finish_sessionE)
    then show ?thesis using s silent by (auto simp: stuck_def Remove_def)
  qed (metis kept hub_kept run_kept)+
qed

lemma stuck_steps: "(front_step k B R deformed)\<^sup>*\<^sup>* fe fe' \<Longrightarrow> stuck i fe \<Longrightarrow> stuck i fe'"
  by (induction rule: rtranclp_induct) (auto intro: stuck_step)

text \<open>
  C40. When the first packet of a client is not a connection request, or the hub closes the client
  before that packet, its session never ends: whatever happens afterwards, also when the client
  leaves or the proxy shuts down, the client is sent nothing, its listener keeps running and the
  client stays registered with the router.
\<close>

theorem auth_failure_session_stuck:
  assumes "(front_step k B R deformed)\<^sup>*\<^sup>* (front_initial (CreateClientConnectionRouter params)) fe"
    and "fe_sessions fe i = Some s" and "\<not> ses_finished s"
    and "routes (fe_router fe) i = Some c" and "route_phase c = WaitAuth"
    and "run_route B R deformed now MainLoop chosen i (fe_router fe) = Some r1" and "rt_opens r1 = rt_opens (fe_router fe)"
    and "(front_step k B R deformed)\<^sup>*\<^sup>* (fe\<lparr>fe_router := r1\<rparr>) fe2"
  shows "\<exists>s2 c2. fe_sessions fe2 i = Some s2 \<and> ses_listener s2 \<and> ses_written s2 = [] \<and> \<not> ses_finished s2 \<and>
    connections (fe_router fe2) i \<noteq> None \<and> routes (fe_router fe2) i = Some c2 \<and> outgoingPackets c2 = [] \<and> proxyCloseChannel c2 = 0"
proof -
  have inv: "front_inv fe" "router_inv B (fe_router fe)" using front_reachable [OF assms(1)] by auto
  have "silent i r1"
    using router_inv_waiting [OF inv(2) assms(4,5)] assms(4-7) unfolding silent_def
    by (auto simp: run_route_def await_auth_def split: select_case.splits if_splits list.splits option.splits)
  moreover have "ses_listener s" "connections (fe_router fe) i \<noteq> None"
    using inv(1) assms(2-5) unfolding front_inv_def session_ok_def by blast+
  moreover have "dom (connections r1) = dom (connections (fe_router fe))" using run_kept [OF assms(6)] by (simp add: router_kept_def)
  ultimately have "stuck i (fe\<lparr>fe_router := r1\<rparr>)" using assms(2) by (auto simp: stuck_def)
  with assms(8) have "stuck i fe2" by (rule stuck_steps)
  then obtain s2 c2 where s2: "fe_sessions fe2 i = Some s2" "ses_listener s2" "connections (fe_router fe2) i \<noteq> None"
    "routes (fe_router fe2) i = Some c2" "delivered c2 = []" "outgoingPackets c2 = []" "proxyCloseChannel c2 = 0"
    unfolding stuck_def silent_def by blast
  have "(front_step k B R deformed)\<^sup>*\<^sup>* (front_initial (CreateClientConnectionRouter params)) fe2"
    using assms(1) front_step.goroutine [OF assms(6)] assms(8) by (meson converse_rtranclp_into_rtranclp rtranclp_trans)
  from front_invD [OF conjunct1 [OF front_reachable [OF this]] s2(1,4)] s2(3)
  have ok: "session_ok s2 c2" "\<not> ses_finished s2" by simp_all
  then have "ses_written s2 = []" using s2(5) by (simp add: session_ok_def) (metis list_emb_Nil2)
  with ok(2) s2 show ?thesis by blast
qed

theorem auth_failure_session_stuck_witness:
  "\<exists>r1 fe2 s2. run_route wire_builder wire_reader (\<lambda>d. True) 0 MainLoop PacketIn 1
      (fe_router (with_session (with_route new_route) new_session (new_route\<lparr>incomingPackets := [[1]]\<rparr>))) = Some r1 \<and>
    (front_step OverWebSocket wire_builder wire_reader (\<lambda>d. True))\<^sup>*\<^sup>*
      (with_session (with_route new_route) new_session (new_route\<lparr>incomingPackets := [[1]]\<rparr>)\<lparr>fe_router := r1\<rparr>) fe2 \<and>
    fe_sessions fe2 1 = Some s2 \<and> ses_listener s2 \<and> \<not> ses_finished s2"
proof -
  let ?c = "new_route\<lparr>incomingPackets := [[1]]\<rparr>"
  let ?fe = "with_session (with_route new_route) new_session ?c"
  have "reader_step OverWebSocket 16 (ReadBinary [1]) (new_session, new_route) = Some (new_session, ?c)"
    by (simp add: session_step_defs new_session_def new_route_def)
  then have reach: "(front_step OverWebSocket wire_builder wire_reader (\<lambda>d. True))\<^sup>*\<^sup>* sample_front ?fe"
    using with_reader [OF with_new_session [unfolded new_front_def], of OverWebSocket _ new_session ?c] by simp
  obtain r1 where run: "run_route wire_builder wire_reader (\<lambda>d. True) 0 MainLoop PacketIn 1 (fe_router ?fe) = Some r1"
      "rt_opens r1 = rt_opens (fe_router ?fe)"
    by (simp add: run_route_def await_auth_def safeParseConnectClientMessage_def new_route_def)
  have s: "fe_sessions ?fe 1 = Some new_session" "\<not> ses_finished new_session"
    "routes (fe_router ?fe) 1 = Some ?c" "route_phase ?c = WaitAuth" by (simp_all add: new_session_def new_route_def)
  from auth_failure_session_stuck [OF reach [unfolded sample_front_def sample_router_def] s run rtranclp.rtrancl_refl] run(1)
  show ?thesis by blast
qed

text \<open>The outgoing goroutine of a client that has been removed.\<close>

lemma orphaned_steps: "(router_step B R deformed)\<^sup>*\<^sup>* r r' \<Longrightarrow> orphaned i r \<Longrightarrow> orphaned i r'"
  by (induction rule: rtranclp_induct) (auto intro: orphaned_step)

text \<open>
  A WebTransport client that disappears while a packet waits for it, with no close request of
  the hub on its way, leaves a goroutine behind: the listener fails to write the packet and
  returns, the reader fails and signals, the handler removes the client, and from then on the
  router's outgoing goroutine runs on every continuation, its context cancelled. A finished
  WebSocket session never leaves one.
\<close>

theorem write_failure_leaks:
  assumes "(front_step OverWebTransport B R deformed)\<^sup>*\<^sup>* (front_initial (CreateClientConnectionRouter params)) fe"
    and "fe_sessions fe i = Some s" and "ses_listener s" and "ses_reader s = Reading" and "\<not> ses_open s"
    and "routes (fe_router fe) i = Some c" and "route_phase c = Routing True b" and "route_CloseRequest c = []"
    and "outgoingPackets c \<noteq> []"
  shows "\<exists>fe1 fe2 fe3 fe4. run_listener OverWebTransport (MessageSeen False) i fe = Some fe1 \<and>
    run_reader OverWebTransport ReadError i fe1 = Some fe2 \<and> run_reader OverWebTransport SignalClose i fe2 = Some fe3 \<and>
    finish_session i fe3 = Some fe4 \<and> connections (fe_router fe4) i = None \<and>
    (\<forall>fe5. (front_step OverWebTransport B R deformed)\<^sup>*\<^sup>* fe4 fe5 \<longrightarrow>
       (\<exists>c5 b5. routes (fe_router fe5) i = Some c5 \<and> route_phase c5 = Routing True b5))"
proof -
  have "session_ok s c" "\<not> ses_finished s"
    using front_reachable [OF assms(1)] assms(2,3,6) unfolding front_inv_def session_ok_def by blast+
  then have "clientCloseChannel c = 0" using assms(4) by (simp add: session_ok_def)
  with assms(2-9) \<open>\<not> ses_finished s\<close>
  have "\<exists>fe1 fe2 fe3 fe4. run_listener OverWebTransport (MessageSeen False) i fe = Some fe1 \<and>
    run_reader OverWebTransport ReadError i fe1 = Some fe2 \<and> run_reader OverWebTransport SignalClose i fe2 = Some fe3 \<and>
    finish_session i fe3 = Some fe4 \<and> orphaned i (fe_router fe4)"
    by (simp add: run_listener_def run_reader_def session_step_defs finish_session_def Remove_def Let_def orphaned_def
        split: list.split)
  then obtain fe1 fe2 fe3 fe4 where run: "run_listener OverWebTransport (MessageSeen False) i fe = Some fe1"
    "run_reader OverWebTransport ReadError i fe1 = Some fe2" "run_reader OverWebTransport SignalClose i fe2 = Some fe3"
    "finish_session i fe3 = Some fe4" and orphan: "orphaned i (fe_router fe4)" by blast
  have "\<exists>c5 b5. routes (fe_router fe5) i = Some c5 \<and> route_phase c5 = Routing True b5"
    if "(front_step OverWebTransport B R deformed)\<^sup>*\<^sup>* fe4 fe5" for fe5
    using orphaned_steps [OF front_steps_refine [OF that] orphan] unfolding orphaned_def by blast
  moreover have "connections (fe_router fe4) i = None" using orphan by (simp add: orphaned_def)
  ultimately show ?thesis using run by blast
qed

text \<open>A client that was let in and disappears before it was sent its verdict.\<close>

definition sample_verdict :: OpenClientConnectionVerdict where
  "sample_verdict = \<lparr>verdict_ClientId = 1, verdict_Verdict = True, verdict_Error = None, verdict_AppData = None\<rparr>"

definition let_in_route :: client_route where
  "let_in_route = new_route\<lparr>route_phase := Routing True True,
     outgoingPackets := [Some (createVerdictMsg wire_builder True [] None)]\<rparr>"

lemma let_in_session:
  "(front_step k wire_builder wire_reader (\<lambda>d. False))\<^sup>*\<^sup>* sample_front
     (with_session (waiting_base\<lparr>connections := [1 \<mapsto> True]\<rparr>) new_session let_in_route)"
proof -
  let ?c = "new_route\<lparr>route_phase := WaitVerdict\<rparr>"
  let ?fe = "with_session waiting_base new_session ?c"
  have "handleIncomingVerdict sample_verdict (fe_router ?fe) =
      Some (waiting_base\<lparr>routes := [1 \<mapsto> ?c\<lparr>route_Verdict := [sample_verdict]\<rparr>]\<rparr>)"
    by (simp add: handleIncomingVerdict_def sample_verdict_def waiting_base_def with_session_def new_route_def)
  from front_step.hub_verdict [OF this]
  have "front_step k wire_builder wire_reader (\<lambda>d. False) ?fe (with_session waiting_base new_session (?c\<lparr>route_Verdict := [sample_verdict]\<rparr>))"
    by (simp add: with_session_def)
  with waiting_session have reach: "(front_step k wire_builder wire_reader (\<lambda>d. False))\<^sup>*\<^sup>* sample_front
      (with_session waiting_base new_session (?c\<lparr>route_Verdict := [sample_verdict]\<rparr>))" by (rule rtranclp.rtrancl_into_rtrancl)
  show ?thesis
    by (rule with_goroutine [OF reach, where now = 7 and g = MainLoop and chosen = VerdictIn])
      (simp add: run_route_def await_verdict_def waiting_base_def let_in_route_def sample_verdict_def new_route_def)
qed

theorem write_failure_leaks_witness:
  "\<exists>fe1 fe2 fe3 fe4 c4 b4. run_listener OverWebTransport (MessageSeen False) 1
      (with_session (waiting_base\<lparr>connections := [1 \<mapsto> True]\<rparr>) (new_session\<lparr>ses_open := False\<rparr>) let_in_route) = Some fe1 \<and>
    run_reader OverWebTransport ReadError 1 fe1 = Some fe2 \<and> run_reader OverWebTransport SignalClose 1 fe2 = Some fe3 \<and>
    finish_session 1 fe3 = Some fe4 \<and> routes (fe_router fe4) 1 = Some c4 \<and> route_phase c4 = Routing True b4"
proof -
  note reach = with_client_closes [OF let_in_session [of OverWebTransport], unfolded sample_front_def sample_router_def]
  let ?s = "new_session\<lparr>ses_open := False\<rparr>"
  have "ses_listener ?s" "ses_reader ?s = Reading" "\<not> ses_open ?s"
    "route_phase let_in_route = Routing True True" "route_CloseRequest let_in_route = []" "outgoingPackets let_in_route \<noteq> []"
    by (simp_all add: new_session_def let_in_route_def new_route_def)
  from write_failure_leaks [OF reach _ this(1-3) _ this(4-6), of 1] show ?thesis by simp blast
qed

end
