(* ===== verification/Demo_Server.thy ===== *)
theory Demo_Server
  imports Udp_Destination Server_Messages Connection
begin

text \<open>
  \<open>examples/hello-spanreed/server/main.cc\<close>: the demo game server behind the proxy. Its state is the
  map of connected clients, the queue of their messages, the dots of the world and what it has
  sent. \<open>'a\<close> are socket addresses, \<open>'f\<close> floating-point numbers. The server's C++ message classes
  have the fields and slots of the library's TypeScript ones, whose definitions are used here in
  the order in which the C++ code calls its own. The verifiers of the \<open>flatbuffers\<close> package are
  parameters. Following a null pointer is undefined behaviour and the result \<open>None\<close>. Times are
  unsigned 64-bit numbers and wrap around, as in \<open>this_frame_time - last_send_time\<close>.
\<close>

section \<open>State\<close>

record 'a ConnectedClient =
  spanreed_client_addr :: 'a
  spanreed_client_id :: client_id
  last_send_time :: "64 word"
  last_rotate_colors_time :: "64 word"
  client_name :: string
  dot_color :: Color

record 'f DrawnDot =
  dd_x :: 'f
  dd_y :: 'f
  dd_t :: 'f
  dd_radius :: 'f
  dd_color :: Color

record ('a, 'f) demo_server =
  gConnectedClients :: "client_id \<Rightarrow> 'a ConnectedClient option"
  gClientMessageQueue :: "(client_id \<times> bytes) list"
  next_color :: nat
  world_dots :: "'f DrawnDot list"
  server_sent :: "('a \<times> bytes) list"

definition demo_server_initial :: "('a, 'f) demo_server" where
  "demo_server_initial = \<lparr>gConnectedClients = Map.empty, gClientMessageQueue = [], next_color = 0,
     world_dots = [], server_sent = []\<rparr>"

text \<open>The static counter is advanced first.\<close>

definition get_client_color :: "('a, 'f) demo_server \<Rightarrow> Color \<times> ('a, 'f) demo_server" where
  "get_client_color st =
     (let n = next_color st + 1;
          color = (if n mod 5 = 0 then Color_Blue
                   else if n mod 5 = 1 then Color_FireOrange
                   else if n mod 5 = 2 then Color_Green
                   else if n mod 5 = 3 then Color_Indigo
                   else Color_Red)
      in (color, st\<lparr>next_color := n\<rparr>))"

definition sendto :: "'a \<Rightarrow> bytes \<Rightarrow> ('a, 'f) demo_server \<Rightarrow> ('a, 'f) demo_server" where
  "sendto addr data st = st\<lparr>server_sent := server_sent st @ [(addr, data)]\<rparr>"

section \<open>Datagrams for the proxy\<close>

definition server_verdict_datagram :: "('s, 'f) fb_builder \<Rightarrow> bool \<Rightarrow> client_id \<Rightarrow> bytes" where
  "server_verdict_datagram B accepted clientId = asUint8Array B (snd (run_state
     (do { lib_startConnectionVerdict B;
           lib_ConnectionVerdict_addAccepted B accepted;
           lib_ConnectionVerdict_addClientId B (uint clientId);
           cv_offset \<leftarrow> lib_endConnectionVerdict B;
           lib_startDestinationMessage B;
           lib_DestinationMessage_addMsgType B lib_InnerMsg_ConnectionVerdict;
           lib_DestinationMessage_addMsg B cv_offset;
           msg \<leftarrow> lib_endDestinationMessage B;
           finish B msg False }) (newBuilder B 1024)))"

definition server_message_datagram :: "('s, 'f) fb_builder \<Rightarrow> client_id \<Rightarrow> bytes \<Rightarrow> bytes" where
  "server_message_datagram B clientId data = asUint8Array B (snd (run_state
     (do { proxy_msg \<leftarrow> lib_createProxyMessage B (uint clientId);
           app_data \<leftarrow> createByteVector B data;
           lib_startDestinationMessage B;
           lib_DestinationMessage_addAppData B app_data;
           lib_DestinationMessage_addMsg B proxy_msg;
           lib_DestinationMessage_addMsgType B lib_InnerMsg_ProxyMessage;
           dest_msg \<leftarrow> lib_endDestinationMessage B;
           finish B dest_msg False }) (newBuilder B 1024)))"

section \<open>Datagrams of the proxy\<close>

definition user_message_as_UserConnectMessage :: "('bb, 'f) fb_reader \<Rightarrow> 'bb fb_table \<Rightarrow> 'bb fb_table option" where
  "user_message_as_UserConnectMessage R t =
     (if ClientMessage_userMessageType R t = UserMessage_num UserMessage_UserConnectMessage
      then ClientMessage_userMessage R t else None)"

definition user_message_as_UserClickMessage :: "('bb, 'f) fb_reader \<Rightarrow> 'bb fb_table \<Rightarrow> 'bb fb_table option" where
  "user_message_as_UserClickMessage R t =
     (if ClientMessage_userMessageType R t = UserMessage_num UserMessage_UserClickMessage
      then ClientMessage_userMessage R t else None)"

definition user_message_as_UserChatMessage :: "('bb, 'f) fb_reader \<Rightarrow> 'bb fb_table \<Rightarrow> 'bb fb_table option" where
  "user_message_as_UserChatMessage R t =
     (if ClientMessage_userMessageType R t = UserMessage_num UserMessage_UserChatMessage
      then ClientMessage_userMessage R t else None)"

definition connection_request ::
  "('s, 'f) fb_builder \<Rightarrow> ('bb, 'f) fb_reader \<Rightarrow> (bytes \<Rightarrow> bool) \<Rightarrow> 64 word \<Rightarrow> client_id \<Rightarrow> bytes \<Rightarrow> 'a \<Rightarrow>
   ('a, 'f) demo_server \<Rightarrow> ('a, 'f) demo_server option" where
  "connection_request B R verifyClient now clientId app_data src st =
     (if \<not> verifyClient app_data then Some st
      else case user_message_as_UserConnectMessage R (getRootAsClientMessage R (newByteBuffer R app_data)) of
        None \<Rightarrow> Some st
      | Some client_message \<Rightarrow>
         (case UserConnectMessage_name R client_message of
            None \<Rightarrow> None
          | Some name \<Rightarrow>
             (if gConnectedClients st clientId \<noteq> None \<or> card (dom (gConnectedClients st)) > 20
              then Some (sendto src (server_verdict_datagram B False clientId) st)
              else
                let (color, st1) = get_client_color st;
                    client_data = \<lparr>spanreed_client_addr = src, spanreed_client_id = clientId, last_send_time = now,
                      last_rotate_colors_time = 0, client_name = name, dot_color = color\<rparr>
                in Some (sendto src (server_verdict_datagram B True clientId)
                  (st1\<lparr>gConnectedClients := (gConnectedClients st1)(clientId \<mapsto> client_data)\<rparr>)))))"

definition close_connection_request :: "client_id \<Rightarrow> 'a \<Rightarrow> ('a, 'f) demo_server \<Rightarrow> ('a, 'f) demo_server" where
  "close_connection_request clientId src st =
     (case gConnectedClients st clientId of
        None \<Rightarrow> st
      | Some client \<Rightarrow>
         (if src \<noteq> spanreed_client_addr client then st
          else st\<lparr>gConnectedClients := (gConnectedClients st)(clientId := None)\<rparr>))"

definition handle_client_message ::
  "(bytes \<Rightarrow> bool) \<Rightarrow> client_id \<Rightarrow> bytes \<Rightarrow> ('a, 'f) demo_server \<Rightarrow> ('a, 'f) demo_server" where
  "handle_client_message verifyClient clientId app_data st =
     (case gConnectedClients st clientId of
        None \<Rightarrow> st
      | Some client \<Rightarrow>
         (if \<not> verifyClient app_data then st
          else st\<lparr>gClientMessageQueue := gClientMessageQueue st @ [(clientId, app_data)]\<rparr>))"

definition handle_recv_message ::
  "('s, 'f) fb_builder \<Rightarrow> ('bb, 'f) fb_reader \<Rightarrow> (bytes \<Rightarrow> bool) \<Rightarrow> (bytes \<Rightarrow> bool) \<Rightarrow> 64 word \<Rightarrow> bytes \<Rightarrow> 'a \<Rightarrow>
   ('a, 'f) demo_server \<Rightarrow> ('a, 'f) demo_server option" where
  "handle_recv_message B R verifyProxy verifyClient now msg src st =
     (if \<not> verifyProxy msg then Some st
      else
        let t = lib_getRootAsProxyDestinationMessage R (newByteBuffer R msg);
            kind = lib_ProxyDestInnerMsg_at (lib_ProxyDestinationMessage_innerMessageType R t);
            inner = lib_ProxyDestinationMessage_innerMessage R t;
            app_data = lib_ProxyDestinationMessage_appDataArray R t
        in if kind = Some lib_ProxyDestInnerMsg_ProxyDestConnectionRequest
           then (case (inner, app_data) of
               (Some req, Inr (Some app)) \<Rightarrow> connection_request B R verifyClient now
                 (word_of_int (lib_ProxyDestConnectionRequest_clientId R req)) app src st
             | _ \<Rightarrow> None)
           else if kind = Some lib_ProxyDestInnerMsg_ProxyDestCloseConnection
           then (case inner of
               Some req \<Rightarrow> Some (close_connection_request (word_of_int (lib_ProxyDestCloseConnection_clientId R req)) src st)
             | None \<Rightarrow> None)
           else if kind = Some lib_ProxyDestInnerMsg_ProxyDestClientMessage
           then (case (inner, app_data) of
               (Some req, Inr (Some app)) \<Rightarrow> Some (handle_client_message verifyClient
                 (word_of_int (lib_ProxyDestClientMessage_clientId R req)) app st)
             | _ \<Rightarrow> None)
           else Some st)"

section \<open>The game loop\<close>

definition age_dots :: "'f::{zero, minus, ord} \<Rightarrow> 'f DrawnDot list \<Rightarrow> 'f DrawnDot list" where
  "age_dots dt_s dots = filter (\<lambda>d. \<not> dd_t d \<le> 0) (map (\<lambda>d. d\<lparr>dd_t := dd_t d - dt_s\<rparr>) dots)"

text \<open>
  One queued message. \<open>order\<close> is the order in which the unordered map is visited, \<open>radius\<close> the next
  value of the random distribution.
\<close>

definition process_message ::
  "('s, 'f) fb_builder \<Rightarrow> ('bb, 'f) fb_reader \<Rightarrow> client_id list \<Rightarrow> 'f \<Rightarrow> client_id \<times> bytes \<Rightarrow>
   ('a, 'f::{zero, numeral}) demo_server \<Rightarrow> ('a, 'f) demo_server option" where
  "process_message B R order radius queued st =
     (case gConnectedClients st (fst queued) of
        None \<Rightarrow> Some st
      | Some client \<Rightarrow>
         (let msg = getRootAsClientMessage R (newByteBuffer R (snd queued))
          in case user_message_as_UserClickMessage R msg of
            Some click_msg \<Rightarrow> Some (st\<lparr>world_dots := world_dots st @
              [\<lparr>dd_x = UserClickMessage_x R click_msg, dd_y = UserClickMessage_y R click_msg, dd_t = 5,
                dd_radius = radius, dd_color = dot_color client\<rparr>]\<rparr>)
          | None \<Rightarrow>
             (case user_message_as_UserChatMessage R msg of
                None \<Rightarrow> Some st
              | Some broadcast_msg \<Rightarrow>
                 (case UserChatMessage_text R broadcast_msg of
                    None \<Rightarrow> None
                  | Some text \<Rightarrow>
                     (let inner_msg_data = server_chat_message B (client_name client) text;
                          broadcast_targets = List.map_filter (gConnectedClients st) order
                      in Some (fold (\<lambda>target. sendto (spanreed_client_addr target)
                           (server_message_datagram B (spanreed_client_id target) inner_msg_data)) broadcast_targets st))))))"

text \<open>At most 25 messages in one frame.\<close>

function process_queue ::
  "('s, 'f) fb_builder \<Rightarrow> ('bb, 'f) fb_reader \<Rightarrow> client_id list \<Rightarrow> (nat \<Rightarrow> 'f) \<Rightarrow> nat \<Rightarrow>
   ('a, 'f::{zero, numeral}) demo_server \<Rightarrow> ('a, 'f) demo_server option" where
  "process_queue B R order radius i st =
     (if i < 25
      then (case gClientMessageQueue st of
          [] \<Rightarrow> Some st
        | queued # rest \<Rightarrow>
            (case process_message B R order (radius i) queued (st\<lparr>gClientMessageQueue := rest\<rparr>) of
               None \<Rightarrow> None
             | Some st' \<Rightarrow> process_queue B R order radius (Suc i) st'))
      else Some st)"
  by pat_completeness auto
termination by (relation "measure (\<lambda>(B, R, order, radius, i, st). 25 - i)") auto

declare process_queue.simps [simp del]

text \<open>The part of the loop that serves one client; differences of times wrap around.\<close>

definition kClientSendFrequencyUs :: "64 word" where
  "kClientSendFrequencyUs = 50000"

definition kClientRotateColorFrequencyUs :: "64 word" where
  "kClientRotateColorFrequencyUs = 8000000"

definition serve_client ::
  "('s, 'f) fb_builder \<Rightarrow> 64 word \<Rightarrow> bytes \<Rightarrow> client_id \<Rightarrow> ('a, 'f) demo_server \<Rightarrow> ('a, 'f) demo_server" where
  "serve_client B this_frame_time app_data clientId st =
     (case gConnectedClients st clientId of
        None \<Rightarrow> st
      | Some client \<Rightarrow>
         (let (client1, st1) =
                (if this_frame_time - last_rotate_colors_time client \<ge> kClientRotateColorFrequencyUs
                 then (let (color, st') = get_client_color st
                       in (client\<lparr>last_rotate_colors_time := this_frame_time, dot_color := color\<rparr>, st'))
                 else (client, st))
          in if this_frame_time - last_send_time client1 \<ge> kClientSendFrequencyUs
             then sendto (spanreed_client_addr client1) (server_message_datagram B (spanreed_client_id client1) app_data)
               (st1\<lparr>gConnectedClients := (gConnectedClients st1)(clientId \<mapsto> client1\<lparr>last_send_time := this_frame_time\<rparr>)\<rparr>)
             else st1\<lparr>gConnectedClients := (gConnectedClients st1)(clientId \<mapsto> client1)\<rparr>))"

definition msg_dot :: "'f DrawnDot \<Rightarrow> 'f world_dot" where
  "msg_dot logical_dot = \<lparr>wdot_x = dd_x logical_dot, wdot_y = dd_y logical_dot, wdot_radius = dd_radius logical_dot,
     wdot_color = dd_color logical_dot\<rparr>"

definition server_frame ::
  "('s, 'f) fb_builder \<Rightarrow> ('bb, 'f) fb_reader \<Rightarrow> client_id list \<Rightarrow> (nat \<Rightarrow> 'f) \<Rightarrow> 'f \<Rightarrow> 64 word \<Rightarrow>
   ('a, 'f::{zero, numeral, minus, ord}) demo_server \<Rightarrow> ('a, 'f) demo_server option" where
  "server_frame B R order radius dt_s this_frame_time st =
     (case process_queue B R order radius 0 (st\<lparr>world_dots := age_dots dt_s (world_dots st)\<rparr>) of
        None \<Rightarrow> None
      | Some st1 \<Rightarrow>
         (let app_data = server_game_state_message B (map msg_dot (world_dots st1))
          in Some (fold (serve_client B this_frame_time app_data) order st1)))"

section \<open>What the proxy reads from the server's datagrams\<close>

lemma go_DestinationMessage_AppDataBytes_alt:
  "go_DestinationMessage_AppDataBytes R t =
     (case (let offset = fb_offset R (bb t) (bb_pos t) 8
        in if offset \<noteq> 0
           then map_sum id Some (uint8_view (fb_buffer R (bb t))
             (fb_byteOffset R (bb t) + fb_vector R (bb t) (bb_pos t + offset)) (fb_vector_len R (bb t) (bb_pos t + offset)))
           else Inr None) of Inl outside \<Rightarrow> None | Inr d \<Rightarrow> Some d)"
  by (simp add: go_DestinationMessage_AppDataBytes_def Let_def split: sum.split)

context flatbuffers
begin

text \<open>A wrapped table as the Go classes read it.\<close>

lemma wrapped_go_read:
  assumes "adds_table I (newBuilder B n) (FTable k fs)" and "wraps W kind app" and "0 < kind" and "kind < 256"
    and "data = asUint8Array B (snd (run_state (do { m \<leftarrow> I;
           loc \<leftarrow> (case app of None \<Rightarrow> State_Monad.return 0 | Some d \<Rightarrow> createByteVector B d);
           c \<leftarrow> W m loc; finish B c False }) (newBuilder B n)))"
    and "length data < 2 ^ 31" and "t = go_GetRootAsDestinationMessage R data"
  obtains s m where "views s (newByteBuffer R data)" and "nodes s m = Some (FTable k fs)"
    and "go_DestinationMessage_Msg R t = Some \<lparr>bb = newByteBuffer R data, bb_pos = addr s m\<rparr>"
    and "go_DestinationMessage_MsgType R t = kind" and "go_DestinationMessage_AppDataBytes R t = Some app"
proof -
  have t: "t = \<lparr>bb = newByteBuffer R data, bb_pos = readInt32 R (newByteBuffer R data) (position R (newByteBuffer R data)) +
      position R (newByteBuffer R data)\<rparr>"
    by (simp add: assms(7) go_GetRootAsDestinationMessage_def Let_def)
  obtain s m where r: "views s (newByteBuffer R data)" "nodes s m = Some (FTable k fs)"
      "go_DestinationMessage_Msg R t = Some \<lparr>bb = newByteBuffer R data, bb_pos = addr s m\<rparr>"
      "go_DestinationMessage_MsgType R t = kind"
    and app: "(let offset = fb_offset R (bb t) (bb_pos t) 8
          in if offset \<noteq> 0
             then map_sum id Some (uint8_view (fb_buffer R (bb t))
               (fb_byteOffset R (bb t) + fb_vector R (bb t) (bb_pos t + offset)) (fb_vector_len R (bb t) (bb_pos t + offset)))
             else Inr None) = Inr app"
    using wrapped_read [OF assms(1-6) refl t] unfolding go_DestinationMessage_Msg_def go_DestinationMessage_MsgType_def by metis
  show thesis by (rule that [OF r]) (simp add: go_DestinationMessage_AppDataBytes_alt app)
qed

lemma verdict_inner_adds:
  assumes "valid s" and "mode s = Idle"
  shows "adds_table (do { startObject B 2; addFieldInt8 B 1 (of_bool acc) 0; addFieldInt32 B 0 v 0; endObject B }) s
    (FTable 2 (Map.empty(0 := if v = 0 then None else Some (FInt32 v), 1 := if acc then Some (FInt8 1) else None)))"
  using assms by (cases acc) (simp_all add: fun_eq_iff)

lemma bare_envelope_wraps:
  assumes "kind \<noteq> 0"
  shows "wraps (\<lambda>m loc. do { startObject B 3; addFieldInt8 B 0 kind 0; addFieldOffset B 1 m 0; endObject B }) kind None"
proof -
  have "adds_table (do { startObject B 3; addFieldInt8 B 0 kind 0; addFieldOffset B 1 m 0; endObject B }) s (envelope kind m None)"
    if "valid s" "mode s = Idle" "nodes s m = Some nd" for s m nd
    using that assms nodes_nonzero [OF that(1,3)] by (simp add: envelope_def fun_eq_iff)
  then show ?thesis unfolding wraps_def by auto
qed

lemma full_envelope_wraps:
  assumes "kind \<noteq> 0"
  shows "wraps (\<lambda>m loc. do { startObject B 3; addFieldOffset B 2 loc 0; addFieldOffset B 1 m 0; addFieldInt8 B 0 kind 0; endObject B })
    kind (Some d)"
proof -
  have "adds_table (do { startObject B 3; addFieldOffset B 2 loc 0; addFieldOffset B 1 m 0; addFieldInt8 B 0 kind 0; endObject B }) s
      (envelope kind m (Some loc))"
    if "valid s" "mode s = Idle" "nodes s m = Some nd" "nodes s loc = Some nd'" for s m loc nd nd'
    using that assms nodes_nonzero [OF that(1,3)] nodes_nonzero [OF that(1,4)] by (simp add: envelope_def fun_eq_iff)
  then show ?thesis unfolding wraps_def by auto
qed

lemma verdict_datagram_received:
  assumes "fault (server_verdict_datagram B acc i) = NoFault" and "length (server_verdict_datagram B acc i) < 2 ^ 31"
  shows "udp_onDatagram R fault now (server_verdict_datagram B acc i) s = Some (udp_onReceiveVerdict i acc None s)"
proof -
  let ?d = "server_verdict_datagram B acc i"
  have data: "?d = asUint8Array B (snd (run_state (do { m \<leftarrow> (do { startObject B 2; addFieldInt8 B 1 (of_bool acc) 0;
        addFieldInt32 B 0 (uint i) 0; endObject B });
      loc \<leftarrow> (case None of None \<Rightarrow> State_Monad.return 0 | Some d \<Rightarrow> createByteVector B d);
      c \<leftarrow> (do { startObject B 3; addFieldInt8 B 0 2 0; addFieldOffset B 1 m 0; endObject B });
      finish B c False }) (newBuilder B 1024)))"
    by (simp add: server_verdict_datagram_def lib_same msg_defs lib_DestinationMessage_addMsgType_def)
  obtain st m where r: "views st (newByteBuffer R ?d)"
      "nodes st m = Some (FTable 2 (Map.empty(0 := if uint i = 0 then None else Some (FInt32 (uint i)),
        1 := if acc then Some (FInt8 1) else None)))"
      "go_DestinationMessage_Msg R (go_GetRootAsDestinationMessage R ?d) = Some \<lparr>bb = newByteBuffer R ?d, bb_pos = addr st m\<rparr>"
      "go_DestinationMessage_MsgType R (go_GetRootAsDestinationMessage R ?d) = 2"
      "go_DestinationMessage_AppDataBytes R (go_GetRootAsDestinationMessage R ?d) = Some None"
    using wrapped_go_read [OF verdict_inner_adds bare_envelope_wraps _ _ data assms(2) refl] by auto
  have "go_ConnectionVerdict_ClientId R \<lparr>bb = newByteBuffer R ?d, bb_pos = addr st m\<rparr> = i"
    using client_id_field [OF refl r(1,2)] uint_lt2p [of i]
    by (simp add: go_ConnectionVerdict_ClientId_def Let_def uint_0_iff split: if_splits)
  moreover have "go_ConnectionVerdict_Accepted R \<lparr>bb = newByteBuffer R ?d, bb_pos = addr st m\<rparr> = acc"
    unfolding go_ConnectionVerdict_Accepted_def by (rule bool_field [OF refl r(1,2), of 1]) simp_all
  ultimately show ?thesis
    using assms(1) r(3-5) by (simp add: udp_onDatagram_def go_InnerMsgConnectionVerdict_def)
qed

lemma message_datagram_received:
  assumes "fault (server_message_datagram B i data) = NoFault" and "length (server_message_datagram B i data) < 2 ^ 31"
  shows "udp_onDatagram R fault now (server_message_datagram B i data) s =
    Some (udp_onReceiveProxyMessage now i (Some data) s)"
proof -
  let ?d = "server_message_datagram B i data"
  have data: "?d = asUint8Array B (snd (run_state (do { m \<leftarrow> (do { startObject B 1; addFieldInt32 B 0 (uint i) 0; endObject B });
      loc \<leftarrow> (case Some data of None \<Rightarrow> State_Monad.return 0 | Some d \<Rightarrow> createByteVector B d);
      c \<leftarrow> (do { startObject B 3; addFieldOffset B 2 loc 0; addFieldOffset B 1 m 0; addFieldInt8 B 0 1 0; endObject B });
      finish B c False }) (newBuilder B 1024)))"
    by (simp add: server_message_datagram_def lib_same msg_defs lib_DestinationMessage_addMsgType_def)
  have inner: "adds_table (do { startObject B 1; addFieldInt32 B 0 (uint i) 0; endObject B }) (newBuilder B 1024)
      (FTable 1 (Map.empty(0 := if uint i = 0 then None else Some (FInt32 (uint i)), 1 := None)))"
    using client_id_table_adds [of "newBuilder B 1024"] by simp
  obtain st m where r: "views st (newByteBuffer R ?d)"
      "nodes st m = Some (FTable 1 (Map.empty(0 := if uint i = 0 then None else Some (FInt32 (uint i)), 1 := None)))"
      "go_DestinationMessage_Msg R (go_GetRootAsDestinationMessage R ?d) = Some \<lparr>bb = newByteBuffer R ?d, bb_pos = addr st m\<rparr>"
      "go_DestinationMessage_MsgType R (go_GetRootAsDestinationMessage R ?d) = 1"
      "go_DestinationMessage_AppDataBytes R (go_GetRootAsDestinationMessage R ?d) = Some (Some data)"
    using wrapped_go_read [OF inner full_envelope_wraps _ _ data assms(2) refl] by auto
  have "go_ProxyMessage_ClientId R \<lparr>bb = newByteBuffer R ?d, bb_pos = addr st m\<rparr> = i"
    using client_id_field [OF refl r(1,2)] uint_lt2p [of i]
    by (simp add: go_ProxyMessage_ClientId_def Let_def uint_0_iff split: if_splits)
  then show ?thesis
    using assms(1) r(3-5) by (simp add: udp_onDatagram_def go_InnerMsgConnectionVerdict_def go_InnerMsgProxyMessage_def)
qed

end

section \<open>The server's invariant\<close>

lemma sendto_keeps [simp]:
  "gConnectedClients (sendto a d st) = gConnectedClients st" "gClientMessageQueue (sendto a d st) = gClientMessageQueue st"
  "world_dots (sendto a d st) = world_dots st"
  by (simp_all add: sendto_def)

lemma color_keeps [simp]:
  "gConnectedClients (snd (get_client_color st)) = gConnectedClients st"
  "gClientMessageQueue (snd (get_client_color st)) = gClientMessageQueue st"
  "world_dots (snd (get_client_color st)) = world_dots st" "server_sent (snd (get_client_color st)) = server_sent st"
  by (simp_all add: get_client_color_def Let_def)

lemma fold_sendto_keeps [simp]:
  "gConnectedClients (fold (\<lambda>t. sendto (f t) (g t)) ts st) = gConnectedClients st"
  "gClientMessageQueue (fold (\<lambda>t. sendto (f t) (g t)) ts st) = gClientMessageQueue st"
  by (induction ts arbitrary: st) simp_all

lemma process_message_keeps:
  assumes "process_message B R order radius queued st = Some st'"
  shows "gConnectedClients st' = gConnectedClients st \<and> gClientMessageQueue st' = gClientMessageQueue st"
  using assms by (auto simp: process_message_def Let_def split: option.splits)

lemma process_queue_keeps:
  "process_queue B R order radius i st = Some st' \<Longrightarrow> gConnectedClients st' = gConnectedClients st"
proof (induction B R order radius i st rule: process_queue.induct)
  case (1 B R order radius i st)
  show ?case
  proof (cases "i < 25 \<and> gClientMessageQueue st \<noteq> []")
    case True
    then obtain q rest where q: "gClientMessageQueue st = q # rest" by (auto simp: neq_Nil_conv)
    with True "1.prems" obtain st1 where st1: "process_message B R order (radius i) q (st\<lparr>gClientMessageQueue := rest\<rparr>) = Some st1"
      "process_queue B R order radius (Suc i) st1 = Some st'"
      by (auto simp: process_queue.simps [of B R order radius i st] split: option.splits)
    have "gConnectedClients st' = gConnectedClients st1" using "1.IH" True q st1 by blast
    with process_message_keeps [OF st1(1)] show ?thesis by simp
  next
    case False
    then consider "\<not> i < 25" | "i < 25" "gClientMessageQueue st = []" by blast
    then show ?thesis using "1.prems" by cases (simp_all add: process_queue.simps [of B R order radius i st])
  qed
qed

definition server_inv :: "('a, 'f) demo_server \<Rightarrow> bool" where
  "server_inv st \<longleftrightarrow> finite (dom (gConnectedClients st)) \<and> card (dom (gConnectedClients st)) \<le> 21 \<and>
     (\<forall>i c. gConnectedClients st i = Some c \<longrightarrow> spanreed_client_id c = i)"

lemma server_inv_cong: "server_inv st \<Longrightarrow> gConnectedClients st' = gConnectedClients st \<Longrightarrow> server_inv st'"
  unfolding server_inv_def by simp

lemma serve_client_clients:
  "\<exists>c'. gConnectedClients (serve_client B now app i st) = (case gConnectedClients st i of
     None \<Rightarrow> gConnectedClients st | Some c \<Rightarrow> (gConnectedClients st)(i \<mapsto> c')) \<and>
   (\<forall>c. gConnectedClients st i = Some c \<longrightarrow> spanreed_client_id c' = spanreed_client_id c \<and>
     spanreed_client_addr c' = spanreed_client_addr c \<and> client_name c' = client_name c)"
proof (cases "gConnectedClients st i")
  case (Some c)
  let ?p = "if now - last_rotate_colors_time c \<ge> kClientRotateColorFrequencyUs
    then (let (color, st') = get_client_color st in (c\<lparr>last_rotate_colors_time := now, dot_color := color\<rparr>, st'))
    else (c, st)"
  obtain c1 st1 where p: "?p = (c1, st1)" by fastforce
  then have c1: "gConnectedClients st1 = gConnectedClients st" "spanreed_client_id c1 = spanreed_client_id c"
    "spanreed_client_addr c1 = spanreed_client_addr c" "client_name c1 = client_name c"
    by (auto simp: get_client_color_def Let_def split: if_splits)
  have run: "serve_client B now app i st = (if now - last_send_time c1 \<ge> kClientSendFrequencyUs
      then sendto (spanreed_client_addr c1) (server_message_datagram B (spanreed_client_id c1) app)
        (st1\<lparr>gConnectedClients := (gConnectedClients st1)(i \<mapsto> c1\<lparr>last_send_time := now\<rparr>)\<rparr>)
      else st1\<lparr>gConnectedClients := (gConnectedClients st1)(i \<mapsto> c1)\<rparr>)"
    unfolding serve_client_def Some option.case p by simp
  show ?thesis
    by (cases "now - last_send_time c1 \<ge> kClientSendFrequencyUs") (auto simp: run Some c1)
qed (simp add: serve_client_def)

lemma server_inv_serve: "server_inv st \<Longrightarrow> server_inv (serve_client B now app i st)"
  using serve_client_clients [of B now app i st]
  by (cases "gConnectedClients st i") (auto simp: server_inv_def insert_absorb domI split: if_splits)

lemma server_inv_serves: "server_inv st \<Longrightarrow> server_inv (fold (serve_client B now app) order st)"
  by (induction order arbitrary: st) (simp_all add: server_inv_serve)

lemma server_inv_request:
  assumes "server_inv st" and "connection_request B R verifyClient now i app src st = Some st'"
  shows "server_inv st'"
proof -
  have "gConnectedClients st' = gConnectedClients st \<or>
    (\<exists>c. gConnectedClients st' = (gConnectedClients st)(i \<mapsto> c) \<and> spanreed_client_id c = i \<and>
      gConnectedClients st i = None \<and> card (dom (gConnectedClients st)) \<le> 20)"
  proof -
    obtain k s1 where "get_client_color st = (k, s1)" by fastforce
    moreover from this have "gConnectedClients s1 = gConnectedClients st" using color_keeps(1) [of st] by simp
    ultimately show ?thesis using assms(2)
      by (auto simp: connection_request_def Let_def split: if_splits option.splits)
  qed
  with assms(1) show ?thesis by (auto simp: server_inv_def domIff card_insert_if split: if_splits)
qed

lemma server_inv_recv:
  assumes "server_inv st" and "handle_recv_message B R verifyProxy verifyClient now msg src st = Some st'"
  shows "server_inv st'"
proof -
  have outcome: "st' = st \<or> (\<exists>i app. connection_request B R verifyClient now i app src st = Some st') \<or>
      (\<exists>i. st' = close_connection_request i src st) \<or> (\<exists>i app. st' = handle_client_message verifyClient i app st)"
  proof (cases "verifyProxy msg")
    case True
    define t where "t = lib_getRootAsProxyDestinationMessage R (newByteBuffer R msg)"
    define kind where "kind = lib_ProxyDestInnerMsg_at (lib_ProxyDestinationMessage_innerMessageType R t)"
    define inner where "inner = lib_ProxyDestinationMessage_innerMessage R t"
    define app_data where "app_data = lib_ProxyDestinationMessage_appDataArray R t"
    note run = assms(2) [unfolded handle_recv_message_def Let_def, folded t_def, folded kind_def inner_def app_data_def]
    consider "inner = None" | req e where "inner = Some req" "app_data = Inl e"
      | req where "inner = Some req" "app_data = Inr None" | req a where "inner = Some req" "app_data = Inr (Some a)"
      by (metis option.exhaust sum.exhaust)
    then show ?thesis using run True by cases (auto split: if_splits)
  next
    case False
    then show ?thesis using assms(2) by (simp add: handle_recv_message_def)
  qed
  have close: "server_inv (close_connection_request i src st)" for i
    using assms(1) card_Diff1_le [of "dom (gConnectedClients st)" i]
    by (auto simp: close_connection_request_def server_inv_def split: option.splits)
  have msg: "server_inv (handle_client_message verifyClient i app st)" for i app
    by (rule server_inv_cong [OF assms(1)]) (simp add: handle_client_message_def split: option.split)
  from outcome show ?thesis
    by (elim disjE exE) (simp_all add: assms(1) close msg server_inv_request [OF assms(1)])
qed

text \<open>One step: the receiving thread handles a datagram, or the main thread runs a frame.\<close>

inductive server_step ::
  "('s, 'f) fb_builder \<Rightarrow> ('bb, 'f) fb_reader \<Rightarrow> (bytes \<Rightarrow> bool) \<Rightarrow> (bytes \<Rightarrow> bool) \<Rightarrow>
   ('a, 'f::{zero, numeral, minus, ord}) demo_server \<Rightarrow> ('a, 'f) demo_server \<Rightarrow> bool"
  for B R verifyProxy verifyClient where
  recv: "handle_recv_message B R verifyProxy verifyClient now msg src st = Some st' \<Longrightarrow>
    server_step B R verifyProxy verifyClient st st'"
| frame: "server_frame B R order radius dt_s now st = Some st' \<Longrightarrow> server_step B R verifyProxy verifyClient st st'"

lemma server_inv_step: "server_step B R verifyProxy verifyClient st st' \<Longrightarrow> server_inv st \<Longrightarrow> server_inv st'"
proof (induction rule: server_step.induct)
  case (recv now msg src st st')
  then show ?case by (blast intro: server_inv_recv)
next
  case (frame order radius dt_s now st st')
  then obtain st1 where st1: "process_queue B R order radius 0 (st\<lparr>world_dots := age_dots dt_s (world_dots st)\<rparr>) = Some st1"
    and st': "st' = fold (serve_client B now (server_game_state_message B (map msg_dot (world_dots st1)))) order st1"
    by (auto simp: server_frame_def Let_def split: option.splits)
  have "server_inv st1" by (rule server_inv_cong [OF frame(2)]) (simp add: process_queue_keeps [OF st1])
  then show ?case unfolding st' by (rule server_inv_serves)
qed



section \<open>Frames end and empty the queue\<close>

definition chat_has_text :: "('bb, 'f) fb_reader \<Rightarrow> bytes \<Rightarrow> bool" where
  "chat_has_text R d = (case user_message_as_UserChatMessage R (getRootAsClientMessage R (newByteBuffer R d)) of
     None \<Rightarrow> True | Some t \<Rightarrow> UserChatMessage_text R t \<noteq> None)"

lemma process_message_total:
  "chat_has_text R (snd q) \<Longrightarrow> \<exists>st'. process_message B R order radius q st = Some st'"
  by (auto simp: process_message_def chat_has_text_def Let_def split: option.splits)

lemma process_queue_total:
  "(\<forall>m \<in> set (take (25 - i) (gClientMessageQueue st)). chat_has_text R (snd m)) \<Longrightarrow>
   \<exists>st'. process_queue B R order radius i st = Some st' \<and> gClientMessageQueue st' = drop (25 - i) (gClientMessageQueue st)"
proof (induction B R order radius i st rule: process_queue.induct)
  case (1 B R order radius i st)
  note step = process_queue.simps [of B R order radius i st]
  show ?case
  proof (cases "i < 25 \<and> gClientMessageQueue st \<noteq> []")
    case True
    then obtain q rest where q: "gClientMessageQueue st = q # rest" by (auto simp: neq_Nil_conv)
    have i: "25 - i = Suc (25 - Suc i)" using True by arith
    have ok: "chat_has_text R (snd q)" "\<forall>m \<in> set (take (25 - Suc i) rest). chat_has_text R (snd m)"
      using "1.prems" unfolding i q by simp_all
    obtain st1 where st1: "process_message B R order (radius i) q (st\<lparr>gClientMessageQueue := rest\<rparr>) = Some st1"
      using process_message_total [OF ok(1)] by blast
    then have "gClientMessageQueue st1 = rest" using process_message_keeps by fastforce
    then obtain st' where "process_queue B R order radius (Suc i) st1 = Some st'"
        "gClientMessageQueue st' = drop (25 - Suc i) rest"
      using "1.IH" [OF _ q st1] True ok(2) by auto
    then show ?thesis using True q st1 i by (simp add: step)
  next
    case False
    then consider "\<not> i < 25" | "i < 25" "gClientMessageQueue st = []" by blast
    then show ?thesis by cases (simp_all add: step)
  qed
qed

lemma serve_client_queue: "gClientMessageQueue (serve_client B now app i st) = gClientMessageQueue st"
  by (cases "gConnectedClients st i") (simp_all add: serve_client_def get_client_color_def Let_def)

lemma fold_serve_queue: "gClientMessageQueue (fold (serve_client B now app) order st) = gClientMessageQueue st"
  by (induction order arbitrary: st) (simp_all add: serve_client_queue)

lemma frame_drains:
  assumes "\<forall>m \<in> set (take 25 (gClientMessageQueue st)). chat_has_text R (snd m)"
  shows "\<exists>st'. server_frame B R order radius dt_s now st = Some st' \<and>
    gClientMessageQueue st' = drop 25 (gClientMessageQueue st)"
  using process_queue_total [of 0 "st\<lparr>world_dots := age_dots dt_s (world_dots st)\<rparr>" R B order radius] assms
  by (auto simp: server_frame_def Let_def fold_serve_queue)

text \<open>Frames one after the other, each with its own clock readings and random radii.\<close>

fun server_frames ::
  "('s, 'f) fb_builder \<Rightarrow> ('bb, 'f) fb_reader \<Rightarrow> (client_id list \<times> (nat \<Rightarrow> 'f) \<times> 'f \<times> 64 word) list \<Rightarrow>
   ('a, 'f::{zero, numeral, minus, ord}) demo_server \<Rightarrow> ('a, 'f) demo_server option" where
  "server_frames B R [] st = Some st"
| "server_frames B R ((order, radius, dt_s, now) # frames) st =
     (case server_frame B R order radius dt_s now st of None \<Rightarrow> None | Some st' \<Rightarrow> server_frames B R frames st')"



section \<open>Requests\<close>

text \<open>
  A connection request or client message that the proxy forwards without application data makes
  the server follow a null pointer, although the datagram is well-formed: only the close request
  is safe without them.
\<close>

theorem missing_app_data_crashes:
  assumes "flatbuffers B R valid mode nodes addr views fround feq"
    and "d = connection_request_datagram B i None \<or> d = client_message_datagram B i None"
    and "length d < 2 ^ 31" and "verifyProxy d"
  shows "handle_recv_message B R verifyProxy verifyClient now d src st = None"
proof -
  obtain kind where k: "kind = lib_ProxyDestInnerMsg_ProxyDestConnectionRequest \<and> d = connection_request_datagram B i None \<or>
      kind = lib_ProxyDestInnerMsg_ProxyDestClientMessage \<and> d = client_message_datagram B i None"
    using assms(2) by blast
  then obtain n where d: "d = flatbuffers.proxy_datagram B (lib_ProxyDestInnerMsg_num kind) i None n"
    by (auto simp: flatbuffers.datagrams_as_proxy_datagram [OF assms(1)])
  have num: "0 < lib_ProxyDestInnerMsg_num kind" "lib_ProxyDestInnerMsg_num kind < 256" using k by auto
  note r = flatbuffers.proxy_datagram_read [OF assms(1) num assms(3) [unfolded d] refl, folded d]
  from r(2) k show ?thesis
    by (auto simp: handle_recv_message_def assms(4) Let_def r(1,3))
qed

theorem missing_app_data_crashes_witness:
  "handle_recv_message wire_builder wire_reader (\<lambda>d. True) (\<lambda>d. True) 0 (connection_request_datagram wire_builder 5 None)
     (1 :: nat) demo_server_initial = None"
  by (rule missing_app_data_crashes [OF wire.flatbuffers_axioms disjI1 [OF refl] wire_datagram_length(2)]) simp

lemma server_answers:
  assumes "flatbuffers B R valid mode nodes addr views fround feq"
    and "d = connection_request_datagram B i (Some (connect_app_data B userName))"
    and "length d < 2 ^ 31" and "length (connect_app_data B userName) < 2 ^ 31"
    and "verifyProxy d" and "verifyClient (connect_app_data B userName)"
    and "room = (gConnectedClients st i = None \<and> card (dom (gConnectedClients st)) \<le> 20)"
  shows "\<exists>st'. handle_recv_message B R verifyProxy verifyClient now d src st = Some st' \<and>
    server_sent st' = server_sent st @ [(src, server_verdict_datagram B room i)] \<and>
    (if room then (\<exists>c. gConnectedClients st' = (gConnectedClients st)(i \<mapsto> c) \<and> client_name c = userName \<and>
         spanreed_client_addr c = src \<and> spanreed_client_id c = i \<and> last_send_time c = now)
     else gConnectedClients st' = gConnectedClients st)"
proof -
  let ?app = "connect_app_data B userName"
  obtain n where dd: "d = flatbuffers.proxy_datagram B 1 i (Some ?app) n"
    using assms(2) by (auto simp: flatbuffers.datagrams_as_proxy_datagram [OF assms(1)])
  note r = flatbuffers.proxy_datagram_read [OF assms(1) _ _ assms(3) [unfolded dd] refl, folded dd, simplified]
  obtain req where req: "lib_ProxyDestinationMessage_innerMessage R (lib_getRootAsProxyDestinationMessage R (newByteBuffer R d)) = Some req"
      "lib_ProxyDestConnectionRequest_clientId R req = uint i" using r(2) by blast
  have "lib_ProxyDestInnerMsg_at 1 = Some lib_ProxyDestInnerMsg_ProxyDestConnectionRequest" by (simp add: lib_ProxyDestInnerMsg_at_def)
  then have run: "handle_recv_message B R verifyProxy verifyClient now d src st =
      connection_request B R verifyClient now i ?app src st"
    by (simp add: handle_recv_message_def assms(5) Let_def r(1,3) req)
  note c = flatbuffers.connect_app_data_read [OF assms(1,4) refl]
  obtain t where t: "user_message_as_UserConnectMessage R (getRootAsClientMessage R (newByteBuffer R ?app)) = Some t"
      "UserConnectMessage_name R t = Some userName"
    using c by (auto simp: user_message_as_UserConnectMessage_def)
  obtain k s1 where color: "get_client_color st = (k, s1)" by fastforce
  have s1: "gConnectedClients s1 = gConnectedClients st" "server_sent s1 = server_sent st"
    using color_keeps(1,4) [of st] color by simp_all
  show ?thesis unfolding run
    by (cases room) (auto simp: connection_request_def assms(6,7) t color s1 Let_def sendto_def)
qed

lemma server_queues:
  assumes "flatbuffers B R valid mode nodes addr views fround feq"
    and "d = client_message_datagram B i (Some app)" and "length d < 2 ^ 31" and "verifyProxy d" and "verifyClient app"
    and "gConnectedClients st i = Some client"
  shows "handle_recv_message B R verifyProxy verifyClient now d src st =
    Some (st\<lparr>gClientMessageQueue := gClientMessageQueue st @ [(i, app)]\<rparr>)"
proof -
  obtain n where dd: "d = flatbuffers.proxy_datagram B 2 i (Some app) n"
    using assms(2) by (auto simp: flatbuffers.datagrams_as_proxy_datagram [OF assms(1)])
  note r = flatbuffers.proxy_datagram_read [OF assms(1) _ _ assms(3) [unfolded dd] refl, folded dd, simplified]
  obtain req where req: "lib_ProxyDestinationMessage_innerMessage R (lib_getRootAsProxyDestinationMessage R (newByteBuffer R d)) = Some req"
      "lib_ProxyDestClientMessage_clientId R req = uint i" using r(2) by blast
  have "lib_ProxyDestInnerMsg_at 2 = Some lib_ProxyDestInnerMsg_ProxyDestClientMessage" by (simp add: lib_ProxyDestInnerMsg_at_def)
  then show ?thesis
    by (simp add: handle_recv_message_def handle_client_message_def assms(4-6) Let_def r(1,3) req)
qed

lemma server_forgets:
  assumes "flatbuffers B R valid mode nodes addr views fround feq"
    and "d = close_connection_datagram B i" and "length d < 2 ^ 31" and "verifyProxy d"
    and "gConnectedClients st i = Some client" and "spanreed_client_addr client = src"
  shows "handle_recv_message B R verifyProxy verifyClient now d src st =
    Some (st\<lparr>gConnectedClients := (gConnectedClients st)(i := None)\<rparr>)"
proof -
  obtain n where dd: "d = flatbuffers.proxy_datagram B 3 i None n"
    using assms(2) by (auto simp: flatbuffers.datagrams_as_proxy_datagram [OF assms(1)])
  note r = flatbuffers.proxy_datagram_read [OF assms(1) _ _ assms(3) [unfolded dd] refl, folded dd, simplified]
  obtain req where req: "lib_ProxyDestinationMessage_innerMessage R (lib_getRootAsProxyDestinationMessage R (newByteBuffer R d)) = Some req"
      "lib_ProxyDestCloseConnection_clientId R req = uint i" using r(2) by blast
  have "lib_ProxyDestInnerMsg_at 3 = Some lib_ProxyDestInnerMsg_ProxyDestCloseConnection" by (simp add: lib_ProxyDestInnerMsg_at_def)
  then show ?thesis
    by (simp add: handle_recv_message_def close_connection_request_def assms(4-6) Let_def r(1) req)
qed

text \<open>
  The server's answer to a connection request of the demo client, forwarded by the proxy: when
  the identifier is new and there is room, the client is registered under it with the address
  the datagram came from and the name the user typed, and a positive verdict goes back to that
  address; otherwise the clients stay as they are and a negative verdict goes back.
\<close>

theorem server_answers_request:
  assumes "flatbuffers B R valid mode nodes addr views fround feq"
    and "d = connection_request_datagram B i (Some (connect_app_data B userName))"
    and "length d < 2 ^ 31" and "length (connect_app_data B userName) < 2 ^ 31"
    and "verifyProxy d" and "verifyClient (connect_app_data B userName)"
    and "room = (gConnectedClients st i = None \<and> card (dom (gConnectedClients st)) \<le> 20)"
  shows "\<exists>st'. handle_recv_message B R verifyProxy verifyClient now d src st = Some st' \<and>
    server_sent st' = server_sent st @ [(src, server_verdict_datagram B room i)] \<and>
    (if room then (\<exists>c. gConnectedClients st' = (gConnectedClients st)(i \<mapsto> c) \<and> client_name c = userName \<and>
         spanreed_client_addr c = src \<and> spanreed_client_id c = i \<and> last_send_time c = now)
     else gConnectedClients st' = gConnectedClients st)"
  using assms by (rule server_answers)

lemma wire_request_datagram_length: "length (connection_request_datagram wire_builder i (Some bs)) < 100 + length bs"
  by (simp add: connection_request_datagram_def Let_def msg_defs wire_lengths del: node_bytes.simps)

lemma wire_close_datagram_length: "length (close_connection_datagram wire_builder i) < 100"
  by (simp add: close_connection_datagram_def Let_def msg_defs wire_lengths del: node_bytes.simps)

lemma wire_message_datagram_lengths:
  "length (client_message_datagram wire_builder i (Some bs)) < 100 + length bs"
  "length (server_message_datagram wire_builder i bs) < 100 + length bs"
  by (simp_all add: client_message_datagram_def server_message_datagram_def lib_same Let_def msg_defs wire_lengths
      lib_DestinationMessage_addMsgType_def del: node_bytes.simps)

theorem server_answers_request_witness:
  "\<exists>st'. handle_recv_message wire_builder wire_reader (\<lambda>d. True) (\<lambda>d. True) 9
       (connection_request_datagram wire_builder 5 (Some (connect_app_data wire_builder ''Ann''))) (1 :: nat) demo_server_initial = Some st' \<and>
     server_sent st' = [(1, server_verdict_datagram wire_builder True 5)]"
proof -
  have "length (connection_request_datagram wire_builder 5 (Some (connect_app_data wire_builder ''Ann''))) < 2 ^ 31"
    using wire_request_datagram_length [of 5 "connect_app_data wire_builder ''Ann''"] by (simp add: wire_connect_lengths)
  from server_answers_request [OF wire.flatbuffers_axioms refl this _ _ _ refl, where verifyProxy = "\<lambda>d. True" and verifyClient = "\<lambda>d. True" and st = demo_server_initial and now = 9 and src = "1 :: nat"]
  show ?thesis by (auto simp: demo_server_initial_def wire_connect_lengths)
qed

end
