(* ===== verification/Leaving.thy ===== *)
theory Leaving
  imports Front_Ends Demo_Server
begin

text \<open>
  How a client leaves: the read of its session fails, the session tells the hub through the
  router, and \<open>kickClient\<close> of the hub tells the client's front end and its destination. The steps are
  those of the theories \<open>Front_Ends\<close>, \<open>Router\<close>, \<open>Proxy\<close>, \<open>Udp_Destination\<close> and \<open>Demo_Server\<close>, in the
  order in which one causes the next.
\<close>

section \<open>The client leaves\<close>

text \<open>The session's side of it: the read fails, the context is cancelled and the incoming goroutine tells the hub.\<close>

lemma session_tells_hub:
  assumes "(front_step k B R deformed)\<^sup>*\<^sup>* (front_initial (CreateClientConnectionRouter params)) fe"
    and "fe_sessions fe i = Some s" "ses_listener s" "ses_reader s = Reading"
    and "routes (fe_router fe) i = Some c" "route_phase c = Routing True True" "route_CloseRequest c = []"
  shows "\<exists>fe1 fe2 r3 s3 c3. run_reader k ReadError i fe = Some fe1 \<and> run_reader k SignalClose i fe1 = Some fe2 \<and>
    run_route B R deformed now InLoop CtxDone i (fe_router fe2) = Some r3 \<and>
    rt_closes r3 = rt_closes (fe_router fe) @ [close_command i ''Proxy shutdown request''] \<and>
    connections r3 i \<noteq> None \<and> routes r3 i = Some c3 \<and> route_phase c3 = Routing True False \<and>
    route_CloseRequest c3 = [] \<and> proxyCloseChannel c3 = 0 \<and>
    fe_sessions fe2 i = Some s3 \<and> ses_listener s3 \<and> ses_reader s3 = Signalled \<and> \<not> ses_finished s3"
proof -
  from front_invD [OF conjunct1 [OF front_reachable [OF assms(1)]] assms(2,5)]
  have ok: "session_ok s c" "ses_finished s \<longleftrightarrow> connections (fe_router fe) i = None" by simp_all
  then have quiet: "clientCloseChannel c = 0" "proxyCloseChannel c = 0" "\<not> ses_finished s"
    using assms(3,4,6) by (auto simp: session_ok_def out_stopped_def)
  then show ?thesis using assms(2-7) ok(2)
    by (cases k) (simp_all add: run_reader_def session_step_defs run_route_def route_in_def)
qed

text \<open>And what follows when the hub answers: the outgoing goroutine returns, then the listener, then the handler.\<close>

lemma hub_ends_session:
  assumes "connections r i \<noteq> None" "routes r i = Some c" "route_phase c = Routing True False" "route_CloseRequest c = []"
    "proxyCloseChannel c = 0" and "close_ClientId q = i"
    and "fe_sessions fe i = Some s" "ses_listener s" "ses_reader s = Signalled" "\<not> ses_finished s"
  shows "\<exists>r1 r2 fe3 fe4 c4. handleProxyCloseRequest q r = Some r1 \<and>
    run_route B R deformed now OutLoop CloseRequested i r1 = Some r2 \<and>
    run_listener k CloseSeen i (fe\<lparr>fe_router := r2\<rparr>) = Some fe3 \<and> finish_session i fe3 = Some fe4 \<and>
    connections (fe_router fe4) i = None \<and> routes (fe_router fe4) i = Some c4 \<and> route_phase c4 = Routing False False"
proof -
  obtain flag where "connections r i = Some flag" using assms(1) by blast
  with assms(2-10) show ?thesis
    by (cases k) (simp_all add: handleProxyCloseRequest_def run_route_def route_out_def run_listener_def session_step_defs
      finish_session_def Remove_def Let_def)
qed



end
