(* ===== verification/Hub_Threads.thy ===== *)
theory Hub_Threads
  imports Proxy
begin

text \<open>
  Several goroutines of the hub may kick clients at the same time: those that receive close requests
  from the client side and from the destination side, the one that checks for timeouts, and the
  one that opens connections. Theory \<open>Proxy\<close> has \<open>kickClient\<close> as one step. Here it is a program of
  five turns, each of which is one access to the store or to a handler's channel under its lock,
  and any number of such programs are interleaved.
\<close>

section \<open>A kick in turns\<close>

datatype kick_pc =
    KickStart
  | KickNamed string         \<comment> \<open>has read the client handler's name\<close>
  | KickReady string string  \<comment> \<open>has read the destination handler's name as well\<close>
  | KickTold string          \<comment> \<open>has told the client handler\<close>
  | KickSent                 \<comment> \<open>has told the destination handler\<close>
  | KickDone

record kick_thread =
  kt_client :: client_id
  kt_reason :: "go_error option"
  kt_pc :: kick_pc

definition kick_turn :: "kick_thread \<Rightarrow> proxy \<Rightarrow> kick_thread \<times> proxy" where
  "kick_turn t p = (case kt_pc t of
     KickStart \<Rightarrow>
       (t\<lparr>kt_pc := KickNamed (case GetClientHandlerName (kt_client t) (px_clientStore p) of Inl e \<Rightarrow> [] | Inr n \<Rightarrow> n)\<rparr>, p)
   | KickNamed n \<Rightarrow>
       (t\<lparr>kt_pc := KickReady n (case GetDestinationHandlerName (kt_client t) (px_clientStore p) of Inl e \<Rightarrow> [] | Inr d \<Rightarrow> d)\<rparr>, p)
   | KickReady n d \<Rightarrow> (t\<lparr>kt_pc := KickTold d\<rparr>, sendClientDisconnect (kt_client t) n (kt_reason t) p)
   | KickTold d \<Rightarrow> (t\<lparr>kt_pc := KickSent\<rparr>, sendDestinationDisconnect (kt_client t) d (kt_reason t) p)
   | KickSent \<Rightarrow> (t\<lparr>kt_pc := KickDone\<rparr>, p\<lparr>px_clientStore := RemoveClient (kt_client t) (px_clientStore p)\<rparr>)
   | KickDone \<Rightarrow> (t, p))"

inductive kicks_step :: "kick_thread list \<times> proxy \<Rightarrow> kick_thread list \<times> proxy \<Rightarrow> bool" where
  turn: "j < length ts \<Longrightarrow> kt_pc (ts ! j) \<noteq> KickDone \<Longrightarrow> kick_turn (ts ! j) p = (t, p') \<Longrightarrow>
    kicks_step (ts, p) (ts[j := t], p')"

text \<open>
  A goroutine that kicks a client with nobody in between does what \<open>kickClient\<close> does as one step,
  in five turns.
\<close>

theorem kick_turns_sequential:
  "((\<lambda>(t, p). kick_turn t p) ^^ 5) (\<lparr>kt_client = i, kt_reason = reason, kt_pc = KickStart\<rparr>, p) =
   (\<lparr>kt_client = i, kt_reason = reason, kt_pc = KickDone\<rparr>, kickClient i reason p)"
  by (simp add: numeral_eq_Suc kick_turn_def kickClient_def Let_def)

section \<open>Kicks that interleave\<close>

text \<open>How often a handler has been told to close a client.\<close>

definition close_count :: "client_id \<Rightarrow> ClientCloseCommand list \<Rightarrow> nat" where
  "close_count i qs = length (filter (\<lambda>q. close_ClientId q = i) qs)"

definition client_told :: "client_id \<Rightarrow> string \<Rightarrow> proxy \<Rightarrow> nat" where
  "client_told i n p = (case px_clientChannels p n of None \<Rightarrow> 0 | Some cc \<Rightarrow> close_count i (cc_closeRequests cc))"

definition dest_told :: "client_id \<Rightarrow> string \<Rightarrow> proxy \<Rightarrow> nat" where
  "dest_told i n p = (case px_destChannels p n of None \<Rightarrow> 0 | Some dc \<Rightarrow> close_count i (dc_closeRequests dc))"

lemma close_count_snoc [simp]:
  "close_count i (qs @ [q]) = close_count i qs + (if close_ClientId q = i then 1 else 0)"
  by (simp add: close_count_def)

lemma sendClientDisconnect_told:
  "px_clientChannels p n \<noteq> None \<Longrightarrow> n \<noteq> [] \<Longrightarrow>
   client_told i n (sendClientDisconnect j n' r p) = client_told i n p + (if j = i \<and> n' = n then 1 else 0)"
  "dest_told i d (sendClientDisconnect j n' r p) = dest_told i d p"
  "px_clientStore (sendClientDisconnect j n' r p) = px_clientStore p"
  by (auto simp: client_told_def dest_told_def sendClientDisconnect_def send_client_def split: option.splits)

lemma sendDestinationDisconnect_told:
  "px_destChannels p d \<noteq> None \<Longrightarrow> d \<noteq> [] \<Longrightarrow>
   dest_told i d (sendDestinationDisconnect j d' r p) = dest_told i d p + (if j = i \<and> d' = d then 1 else 0)"
  "client_told i n (sendDestinationDisconnect j d' r p) = client_told i n p"
  "px_clientStore (sendDestinationDisconnect j d' r p) = px_clientStore p"
  by (auto simp: client_told_def dest_told_def sendDestinationDisconnect_def send_dest_def split: option.splits)

text \<open>Counting the threads that satisfy a condition, when one of them changes.\<close>

lemma filter_update_length:
  "j < length ts \<Longrightarrow>
   length (filter P (ts[j := t])) + (if P (ts ! j) then 1 else 0) = length (filter P ts) + (if P t then 1 else 0)"
proof (induction ts arbitrary: j)
  case (Cons u ts)
  then show ?case by (cases j) auto
qed simp

text \<open>
  The invariant for one client that was registered with the record \<open>m\<close>, with the counts \<open>c0\<close> and \<open>d0\<close> at the
  beginning: it is gone only after both sides were told, and a goroutine that found no name came
  too late.
\<close>

definition gone :: "client_id \<Rightarrow> proxy \<Rightarrow> bool" where
  "gone i p \<longleftrightarrow> store_view (px_clientStore p) i = None"

definition both_told :: "client_id \<Rightarrow> ClientConnectionMetadata \<Rightarrow> nat \<Rightarrow> nat \<Rightarrow> proxy \<Rightarrow> bool" where
  "both_told i m c0 d0 p \<longleftrightarrow> c0 < client_told i (ClientHandlerName m) p \<and>
     (DestinationHandlerName m \<noteq> [] \<longrightarrow> d0 < dest_told i (DestinationHandlerName m) p)"

fun pc_ok :: "client_id \<Rightarrow> ClientConnectionMetadata \<Rightarrow> nat \<Rightarrow> nat \<Rightarrow> kick_pc \<Rightarrow> proxy \<Rightarrow> bool" where
  "pc_ok i m c0 d0 KickStart p = True"
| "pc_ok i m c0 d0 (KickNamed n) p = (n = ClientHandlerName m \<or> n = [] \<and> gone i p)"
| "pc_ok i m c0 d0 (KickReady n d) p =
     ((n = ClientHandlerName m \<or> n = [] \<and> gone i p) \<and> (d = DestinationHandlerName m \<or> d = [] \<and> gone i p))"
| "pc_ok i m c0 d0 (KickTold d) p =
     (c0 < client_told i (ClientHandlerName m) p \<and> (d = DestinationHandlerName m \<or> d = [] \<and> gone i p))"
| "pc_ok i m c0 d0 KickSent p = both_told i m c0 d0 p"
| "pc_ok i m c0 d0 KickDone p = gone i p"

fun before_told :: "kick_pc \<Rightarrow> bool" where
  "before_told (KickTold d) = False"
| "before_told KickSent = False"
| "before_told KickDone = False"
| "before_told pc = True"

fun before_sent :: "kick_pc \<Rightarrow> bool" where
  "before_sent KickSent = False"
| "before_sent KickDone = False"
| "before_sent pc = True"

definition kicking :: "client_id \<Rightarrow> kick_thread list \<Rightarrow> nat" where
  "kicking i ts = length (filter (\<lambda>t. kt_client t = i) ts)"

definition kicks_inv ::
  "client_id \<Rightarrow> ClientConnectionMetadata \<Rightarrow> nat \<Rightarrow> nat \<Rightarrow> nat \<Rightarrow> kick_thread list \<Rightarrow> proxy \<Rightarrow> bool" where
  "kicks_inv i m c0 d0 n ts p \<longleftrightarrow> store_inv (px_clientStore p) \<and>
     px_clientChannels p (ClientHandlerName m) \<noteq> None \<and>
     (DestinationHandlerName m \<noteq> [] \<longrightarrow> px_destChannels p (DestinationHandlerName m) \<noteq> None) \<and>
     (store_view (px_clientStore p) i = Some m \<or> gone i p \<and> both_told i m c0 d0 p) \<and>
     (\<forall>t \<in> set ts. kt_client t = i \<longrightarrow> pc_ok i m c0 d0 (kt_pc t) p) \<and>
     c0 \<le> client_told i (ClientHandlerName m) p \<and>
     (DestinationHandlerName m \<noteq> [] \<longrightarrow> d0 \<le> dest_told i (DestinationHandlerName m) p) \<and>
     client_told i (ClientHandlerName m) p + length (filter (\<lambda>t. kt_client t = i \<and> before_told (kt_pc t)) ts) \<le> c0 + n \<and>
     (DestinationHandlerName m \<noteq> [] \<longrightarrow>
        dest_told i (DestinationHandlerName m) p + length (filter (\<lambda>t. kt_client t = i \<and> before_sent (kt_pc t)) ts) \<le> d0 + n)"

text \<open>What other goroutines did before stays done.\<close>

lemma pc_ok_mono:
  assumes "pc_ok i m c0 d0 pc p" and "gone i p \<Longrightarrow> gone i p'"
    and "client_told i (ClientHandlerName m) p \<le> client_told i (ClientHandlerName m) p'"
    and "DestinationHandlerName m \<noteq> [] \<Longrightarrow> dest_told i (DestinationHandlerName m) p \<le> dest_told i (DestinationHandlerName m) p'"
  shows "pc_ok i m c0 d0 pc p'"
  using assms by (cases pc) (auto simp: both_told_def)

lemma kick_turn_keeps:
  assumes "kick_turn t p = (t', p')"
  shows "kt_client t' = kt_client t"
    and "px_clientChannels p' n = None \<longleftrightarrow> px_clientChannels p n = None"
    and "px_destChannels p' n = None \<longleftrightarrow> px_destChannels p n = None"
    and "px_clientStore p' = (if kt_pc t = KickSent then RemoveClient (kt_client t) (px_clientStore p) else px_clientStore p)"
  using assms
  by (auto simp: kick_turn_def sendClientDisconnect_def sendDestinationDisconnect_def send_client_def send_dest_def
      split: kick_pc.splits option.splits if_splits)

text \<open>One turn, as far as the counts for a client are concerned.\<close>

lemma kick_turn_told:
  assumes "kick_turn t p = (t', p')" and "px_clientChannels p n \<noteq> None" and "n \<noteq> []"
  shows "client_told i n p' = client_told i n p + (if kt_client t = i \<and> (\<exists>d. kt_pc t = KickReady n d) then 1 else 0)"
proof (cases "kt_pc t")
  case (KickReady n' d)
  then show ?thesis using assms by (auto simp: kick_turn_def sendClientDisconnect_told)
next
  case (KickTold d)
  then show ?thesis using assms(1) by (auto simp: kick_turn_def sendDestinationDisconnect_told)
qed (use assms(1) in \<open>auto simp: kick_turn_def client_told_def\<close>)

lemma kick_turn_sent:
  assumes "kick_turn t p = (t', p')" and "px_destChannels p d \<noteq> None" and "d \<noteq> []"
  shows "dest_told i d p' = dest_told i d p + (if kt_client t = i \<and> kt_pc t = KickTold d then 1 else 0)"
proof (cases "kt_pc t")
  case (KickReady n' d')
  then show ?thesis using assms by (auto simp: kick_turn_def sendClientDisconnect_told)
next
  case (KickTold d')
  then show ?thesis using assms by (auto simp: kick_turn_def sendDestinationDisconnect_told)
qed (use assms(1) in \<open>auto simp: kick_turn_def dest_told_def\<close>)

lemma kick_turn_view:
  assumes "kick_turn t p = (t', p')" and "store_inv (px_clientStore p)"
  shows "store_inv (px_clientStore p')" and "store_view (px_clientStore p') =
    (if kt_pc t = KickSent then (store_view (px_clientStore p))(kt_client t := None) else store_view (px_clientStore p))"
  using store.remove_view [OF assms(2)] assms(2) by (simp_all add: kick_turn_keeps(4) [OF assms(1)])

text \<open>The goroutine that takes the turn.\<close>

lemma kick_turn_pc:
  assumes turn: "kick_turn t p = (t', p')" and inv: "kicks_inv i m c0 d0 n ts p" and t: "t \<in> set ts" "kt_client t = i"
    and m: "ClientHandlerName m \<noteq> []"
  shows "pc_ok i m c0 d0 (kt_pc t') p'"
    and "before_told (kt_pc t') \<longrightarrow> before_told (kt_pc t) \<and> (\<forall>d. kt_pc t \<noteq> KickReady (ClientHandlerName m) d)"
    and "before_sent (kt_pc t') \<longrightarrow> before_sent (kt_pc t) \<and> kt_pc t \<noteq> KickTold (DestinationHandlerName m)"
proof -
  have store: "store_inv (px_clientStore p)" and view: "store_view (px_clientStore p) i = Some m \<or> gone i p \<and> both_told i m c0 d0 p"
    and chan: "px_clientChannels p (ClientHandlerName m) \<noteq> None"
      "DestinationHandlerName m \<noteq> [] \<Longrightarrow> px_destChannels p (DestinationHandlerName m) \<noteq> None"
    and pc: "pc_ok i m c0 d0 (kt_pc t) p"
    and start: "c0 \<le> client_told i (ClientHandlerName m) p" "DestinationHandlerName m \<noteq> [] \<Longrightarrow> d0 \<le> dest_told i (DestinationHandlerName m) p"
    using inv t unfolding kicks_inv_def by auto
  note told = kick_turn_told [OF turn chan(1) m, of i] kick_turn_sent [OF turn chan(2), of i]
  note view' = kick_turn_view [OF turn store]
  show "before_told (kt_pc t') \<longrightarrow> before_told (kt_pc t) \<and> (\<forall>d. kt_pc t \<noteq> KickReady (ClientHandlerName m) d)"
    "before_sent (kt_pc t') \<longrightarrow> before_sent (kt_pc t) \<and> kt_pc t \<noteq> KickTold (DestinationHandlerName m)"
    using turn by (auto simp: kick_turn_def split: kick_pc.splits)
  show "pc_ok i m c0 d0 (kt_pc t') p'"
  proof (cases "kt_pc t")
    case KickStart
    then have t': "t' = t\<lparr>kt_pc := KickNamed (case GetClientHandlerName i (px_clientStore p) of Inl e \<Rightarrow> [] | Inr n \<Rightarrow> n)\<rparr>" "p' = p"
      using turn t(2) by (auto simp: kick_turn_def)
    show ?thesis using view store.get_client_view [OF store, of i] by (auto simp: t' gone_def)
  next
    case (KickNamed n')
    then have t': "t' = t\<lparr>kt_pc := KickReady n' (case GetDestinationHandlerName i (px_clientStore p) of Inl e \<Rightarrow> [] | Inr d \<Rightarrow> d)\<rparr>" "p' = p"
      using turn t(2) by (auto simp: kick_turn_def)
    show ?thesis using view pc KickNamed store.get_dest_view [OF store, of i] by (auto simp: t' gone_def)
  next
    case (KickReady n' d')
    then have t': "kt_pc t' = KickTold d'" using turn by (auto simp: kick_turn_def)
    have "gone i p' = gone i p" using view'(2) KickReady by (simp add: gone_def)
    moreover have "c0 < client_told i (ClientHandlerName m) p'"
    proof (cases "n' = ClientHandlerName m")
      case True
      then show ?thesis using start(1) told(1) KickReady t(2) by auto
    next
      case False
      then have "gone i p" using pc KickReady by simp
      then have "c0 < client_told i (ClientHandlerName m) p" using view by (auto simp: gone_def both_told_def)
      then show ?thesis using told(1) by simp
    qed
    ultimately show ?thesis using pc KickReady by (simp add: t')
  next
    case (KickTold d')
    then have t': "kt_pc t' = KickSent" using turn by (auto simp: kick_turn_def)
    have "d0 < dest_told i (DestinationHandlerName m) p'" if d: "DestinationHandlerName m \<noteq> []"
    proof (cases "d' = DestinationHandlerName m")
      case True
      then show ?thesis using start(2) [OF d] told(2) [OF d d] KickTold t(2) by auto
    next
      case False
      then have "gone i p" using pc KickTold by simp
      then have "d0 < dest_told i (DestinationHandlerName m) p" using view d by (auto simp: gone_def both_told_def)
      then show ?thesis using told(2) [OF d d] by simp
    qed
    then show ?thesis using pc KickTold told(1) by (auto simp: t' both_told_def)
  next
    case KickSent
    then show ?thesis using turn view'(2) t(2) by (auto simp: kick_turn_def gone_def)
  next
    case KickDone
    then show ?thesis using turn pc by (auto simp: kick_turn_def)
  qed
qed

lemma kicks_inv_step:
  assumes step: "kicks_step (ts, p) (ts', p')" and inv: "kicks_inv i m c0 d0 n ts p" and m: "ClientHandlerName m \<noteq> []"
  shows "kicks_inv i m c0 d0 n ts' p'"
  using step
proof cases
  case (turn j t')
  let ?t = "ts ! j"
  have mem: "?t \<in> set ts" using turn(2) by simp
  note turn_pc = kick_turn_pc [OF turn(4) inv mem _ m]
  have store: "store_inv (px_clientStore p)" and view: "store_view (px_clientStore p) i = Some m \<or> gone i p \<and> both_told i m c0 d0 p"
    and chan: "px_clientChannels p (ClientHandlerName m) \<noteq> None"
      "DestinationHandlerName m \<noteq> [] \<Longrightarrow> px_destChannels p (DestinationHandlerName m) \<noteq> None"
    and pcs: "\<forall>t \<in> set ts. kt_client t = i \<longrightarrow> pc_ok i m c0 d0 (kt_pc t) p"
    and start: "c0 \<le> client_told i (ClientHandlerName m) p" "DestinationHandlerName m \<noteq> [] \<Longrightarrow> d0 \<le> dest_told i (DestinationHandlerName m) p"
    and bound: "client_told i (ClientHandlerName m) p + length (filter (\<lambda>t. kt_client t = i \<and> before_told (kt_pc t)) ts) \<le> c0 + n"
      "DestinationHandlerName m \<noteq> [] \<Longrightarrow>
        dest_told i (DestinationHandlerName m) p + length (filter (\<lambda>t. kt_client t = i \<and> before_sent (kt_pc t)) ts) \<le> d0 + n"
    using inv unfolding kicks_inv_def by auto
  note told = kick_turn_told [OF turn(4) chan(1) m, of i] kick_turn_sent [OF turn(4) chan(2), of i]
  note keeps = kick_turn_keeps [OF turn(4)] and view' = kick_turn_view [OF turn(4) store]
  have gone: "gone i p \<Longrightarrow> gone i p'" using view'(2) by (auto simp: gone_def)
  have mono: "client_told i (ClientHandlerName m) p \<le> client_told i (ClientHandlerName m) p'"
    "DestinationHandlerName m \<noteq> [] \<Longrightarrow> dest_told i (DestinationHandlerName m) p \<le> dest_told i (DestinationHandlerName m) p'"
    using told by auto
  have others: "pc_ok i m c0 d0 (kt_pc t) p'" if "t \<in> set ts" "kt_client t = i" for t
    using pcs that pc_ok_mono [OF _ gone mono] by blast
  have pcs': "\<forall>t \<in> set ts'. kt_client t = i \<longrightarrow> pc_ok i m c0 d0 (kt_pc t) p'"
  proof (intro ballI impI)
    fix t assume "t \<in> set ts'" "kt_client t = i"
    then have "t = t' \<or> t \<in> set ts" using set_update_subset_insert [of ts j t'] turn(1) by blast
    then show "pc_ok i m c0 d0 (kt_pc t) p'" using turn_pc(1) others keeps(1) \<open>kt_client t = i\<close> by auto
  qed
  have view'': "store_view (px_clientStore p') i = Some m \<or> gone i p' \<and> both_told i m c0 d0 p'"
  proof (cases "kt_pc ?t = KickSent \<and> kt_client ?t = i")
    case True
    then have "both_told i m c0 d0 p" using pcs mem by fastforce
    then show ?thesis using True view'(2) mono by (auto simp: gone_def both_told_def)
  next
    case False
    then have "store_view (px_clientStore p') i = store_view (px_clientStore p) i" using view'(2) by auto
    then show ?thesis using view mono by (auto simp: gone_def both_told_def)
  qed
  have ts': "ts' = ts[j := t']" by (rule turn(1))
  have "client_told i (ClientHandlerName m) p' + length (filter (\<lambda>t. kt_client t = i \<and> before_told (kt_pc t)) ts') \<le> c0 + n"
    using told(1) bound(1) turn_pc(2) keeps(1) filter_update_length [OF turn(2), of "\<lambda>t. kt_client t = i \<and> before_told (kt_pc t)" t']
    unfolding ts' by (auto split: if_splits)
  moreover have "dest_told i (DestinationHandlerName m) p' + length (filter (\<lambda>t. kt_client t = i \<and> before_sent (kt_pc t)) ts') \<le> d0 + n"
    if d: "DestinationHandlerName m \<noteq> []"
    using told(2) [OF d d] bound(2) [OF d] turn_pc(3) keeps(1) filter_update_length [OF turn(2), of "\<lambda>t. kt_client t = i \<and> before_sent (kt_pc t)" t']
    unfolding ts' by (auto split: if_splits)
  moreover have "d0 \<le> dest_told i (DestinationHandlerName m) p'" if d: "DestinationHandlerName m \<noteq> []"
    using mono(2) [OF d] start(2) [OF d] by simp
  ultimately show ?thesis using view'(1) keeps(2,3) chan pcs' view'' mono(1) start(1) unfolding kicks_inv_def by auto
qed

lemma kicks_inv_steps:
  assumes "kicks_step\<^sup>*\<^sup>* (ts, p) (ts', p')" and "kicks_inv i m c0 d0 n ts p" and "ClientHandlerName m \<noteq> []"
  shows "kicks_inv i m c0 d0 n ts' p'"
  using assms(1)
proof (induction rule: rtranclp_induct2)
  case (step ts1 p1 ts2 p2)
  then show ?case using kicks_inv_step assms(3) by blast
qed (rule assms(2))

lemma kicks_clients:
  assumes "kicks_step\<^sup>*\<^sup>* (ts, p) (ts', p')"
  shows "map kt_client ts' = map kt_client ts"
  using assms
proof (induction rule: rtranclp_induct2)
  case (step ts1 p1 ts2 p2)
  from step(2) have "map kt_client ts2 = map kt_client ts1"
    by cases (simp add: map_update kick_turn_keeps(1) list_update_same_conv)
  then show ?case using step(3) by simp
qed simp

text \<open>The other clients.\<close>

lemma kicks_other:
  assumes "kicks_step\<^sup>*\<^sup>* (ts, p) (ts', p')" and "store_inv (px_clientStore p)" and "i \<notin> kt_client ` set ts"
  shows "store_inv (px_clientStore p') \<and> store_view (px_clientStore p') i = store_view (px_clientStore p) i"
  using assms(1)
proof (induction rule: rtranclp_induct2)
  case (step ts1 p1 ts2 p2)
  from step(2) show ?case
  proof cases
    case (turn j t')
    have "kt_client (ts1 ! j) \<in> kt_client ` set ts1" using turn(2) by simp
    also have "kt_client ` set ts1 = kt_client ` set ts" using kicks_clients [OF step(1)] by (metis set_map)
    finally have "kt_client (ts1 ! j) \<noteq> i" using assms(3) by blast
    then show ?thesis using kick_turn_view [OF turn(4)] step(3) by auto
  qed
qed (simp add: assms(2))

text \<open>
  C10. Any number of goroutines may kick clients at the same time. When they are done, under every
  interleaving, every client that one of them kicked is forgotten and every other client is as
  before; the handler of a kicked client, and its destination handler if it has one, were told at
  least once and at most once per goroutine. With two goroutines it does happen that both tell
  them.
\<close>

theorem concurrent_kicks:
  assumes "hub_reaches config p" and "\<forall>t \<in> set ts. kt_pc t = KickStart"
    and "kicks_step\<^sup>*\<^sup>* (ts, p) (ts', p')" and "\<forall>t \<in> set ts'. kt_pc t = KickDone"
  shows "(i \<notin> kt_client ` set ts \<longrightarrow> store_view (px_clientStore p') i = store_view (px_clientStore p) i) \<and>
    (i \<in> kt_client ` set ts \<longrightarrow> store_view (px_clientStore p) i = Some m \<longrightarrow> ClientHandlerName m \<noteq> [] \<longrightarrow>
      store_view (px_clientStore p') i = None \<and>
      client_told i (ClientHandlerName m) p < client_told i (ClientHandlerName m) p' \<and>
      client_told i (ClientHandlerName m) p' \<le> client_told i (ClientHandlerName m) p + kicking i ts \<and>
      (DestinationHandlerName m \<noteq> [] \<longrightarrow>
        dest_told i (DestinationHandlerName m) p < dest_told i (DestinationHandlerName m) p' \<and>
        dest_told i (DestinationHandlerName m) p' \<le> dest_told i (DestinationHandlerName m) p + kicking i ts))"
proof -
  have store: "store_inv (px_clientStore p)" "routes_ok p" using hub_inv [OF assms(1)] by simp_all
  have kicked: "store_view (px_clientStore p') i = None \<and> both_told i m (client_told i (ClientHandlerName m) p) (dest_told i (DestinationHandlerName m) p) p' \<and>
      kicks_inv i m (client_told i (ClientHandlerName m) p) (dest_told i (DestinationHandlerName m) p) (kicking i ts) ts' p'"
    if i: "i \<in> kt_client ` set ts" "store_view (px_clientStore p) i = Some m" "ClientHandlerName m \<noteq> []"
  proof -
    have start: "filter (\<lambda>t. kt_client t = i \<and> before_told (kt_pc t)) ts = filter (\<lambda>t. kt_client t = i) ts"
      "filter (\<lambda>t. kt_client t = i \<and> before_sent (kt_pc t)) ts = filter (\<lambda>t. kt_client t = i) ts"
      using assms(2) by (auto intro: filter_cong)
    have "kicks_inv i m (client_told i (ClientHandlerName m) p) (dest_told i (DestinationHandlerName m) p) (kicking i ts) ts p"
      using store routes_okD [OF store(2) i(2)] i(2) assms(2) unfolding kicks_inv_def kicking_def start by auto
    from kicks_inv_steps [OF assms(3) this i(3)]
    have inv: "kicks_inv i m (client_told i (ClientHandlerName m) p) (dest_told i (DestinationHandlerName m) p) (kicking i ts) ts' p'" .
    obtain t where t: "t \<in> set ts'" "kt_client t = i" using i(1) kicks_clients [OF assms(3)] by (metis image_iff set_map)
    then have "gone i p'" using inv assms(4) unfolding kicks_inv_def by fastforce
    then show ?thesis using inv unfolding kicks_inv_def gone_def by auto
  qed
  have "filter (\<lambda>t. kt_client t = i \<and> before_told (kt_pc t)) ts' = []" "filter (\<lambda>t. kt_client t = i \<and> before_sent (kt_pc t)) ts' = []"
    using assms(4) by (auto simp: filter_empty_conv)
  then show ?thesis using kicked kicks_other [OF assms(3) store(1)] unfolding kicks_inv_def both_told_def by auto
qed

text \<open>The turns of a given schedule.\<close>

fun run_kicks :: "nat list \<Rightarrow> kick_thread list \<times> proxy \<Rightarrow> kick_thread list \<times> proxy" where
  "run_kicks [] x = x"
| "run_kicks (j # js) (ts, p) = (if j < length ts
     then (let (t, p') = kick_turn (ts ! j) p in run_kicks js (ts[j := t], p')) else (ts, p))"

lemma run_kicks_steps: "kicks_step\<^sup>*\<^sup>* x (run_kicks js x)"
proof (induction js x rule: run_kicks.induct)
  case (2 j js ts p)
  obtain t p' where turn: "kick_turn (ts ! j) p = (t, p')" by (cases "kick_turn (ts ! j) p")
  show ?case
  proof (cases "j < length ts \<and> kt_pc (ts ! j) \<noteq> KickDone")
    case True
    then have "kicks_step (ts, p) (ts[j := t], p')" using turn by (blast intro: kicks_step.turn)
    then show ?thesis using 2 [OF _ turn [symmetric]] True turn by (simp add: converse_rtranclp_into_rtranclp)
  next
    case False
    then have "j < length ts \<Longrightarrow> ts[j := t] = ts \<and> p' = p" using turn by (auto simp: kick_turn_def)
    then show ?thesis using 2 [OF _ turn [symmetric]] turn by auto
  qed
qed simp

definition two_kicks :: "kick_thread list" where
  "two_kicks = [\<lparr>kt_client = 1, kt_reason = None, kt_pc = KickStart\<rparr>, \<lparr>kt_client = 1, kt_reason = Some ConnectionTimeout, kt_pc = KickStart\<rparr>]"

lemma two_kicks_race:
  "\<exists>ts' p'. run_kicks [0, 1, 0, 1, 0, 1, 0, 1, 0, 1] (two_kicks, sample_hub) = (ts', p') \<and>
     (\<forall>t \<in> set ts'. kt_pc t = KickDone) \<and> client_told 1 ''ws'' p' = 2 \<and> dest_told 1 ''udp'' p' = 2"
proof -
  have names: "GetClientHandlerName 1 (px_clientStore sample_hub) = Inr ''ws''"
    "GetDestinationHandlerName 1 (px_clientStore sample_hub) = Inr ''udp''"
    using store.get_client_view [of "px_clientStore sample_hub" 1] store.get_dest_view [of "px_clientStore sample_hub" 1]
      hub_inv [OF sample_reached(2)] sample_view(2) by (simp_all add: new_client_def)
  obtain cc dc where chan: "px_clientChannels sample_hub ''ws'' = Some cc" "px_destChannels sample_hub ''udp'' = Some dc"
      "cc_closeRequests cc = []" "dc_closeRequests dc = []"
    by (simp add: sample_defs)
  show ?thesis
    by (simp add: two_kicks_def kick_turn_def names Let_def sendClientDisconnect_def sendDestinationDisconnect_def
        send_client_def send_dest_def chan client_told_def dest_told_def close_count_def)
qed

theorem concurrent_kicks_witness:
  "\<exists>ts' p'. kicks_step\<^sup>*\<^sup>* (two_kicks, sample_hub) (ts', p') \<and> store_view (px_clientStore p') 1 = None \<and>
     client_told 1 ''ws'' p' = 2 \<and> client_told 1 ''ws'' sample_hub < client_told 1 ''ws'' p'"
proof -
  obtain ts' p' where run: "run_kicks [0, 1, 0, 1, 0, 1, 0, 1, 0, 1] (two_kicks, sample_hub) = (ts', p')"
      "\<forall>t \<in> set ts'. kt_pc t = KickDone" "client_told 1 ''ws'' p' = 2" using two_kicks_race by blast
  have steps: "kicks_step\<^sup>*\<^sup>* (two_kicks, sample_hub) (ts', p')" using run_kicks_steps [of "(two_kicks, sample_hub)"] run(1) by metis
  have start: "\<forall>t \<in> set two_kicks. kt_pc t = KickStart" "1 \<in> kt_client ` set two_kicks" by (auto simp: two_kicks_def)
  from concurrent_kicks [OF sample_reached(2) start(1) steps run(2), of 1 "(new_client ''ws'' 5)\<lparr>DestinationHandlerName := ''udp''\<rparr>"]
    start(2) sample_view(2)
  have "store_view (px_clientStore p') 1 = None" "client_told 1 ''ws'' sample_hub < client_told 1 ''ws'' p'"
    by (simp_all add: new_client_def)
  with steps run(3) show ?thesis by blast
qed

end
