(* ===== verification/Router_Lock.thy ===== *)
theory Router_Lock
  imports Front_Ends
begin

text \<open>
  The lock of the router in \<open>client_connection_router.go\<close>. One goroutine of \<open>Start\<close> handles what the
  hub sends; each handler holds \<open>mut_connections\<close> for reading until the client's channel has taken
  the value, so that a handler which waits for room keeps \<open>OpenConnection\<close> and \<open>Remove\<close>, which
  need the lock for writing, waiting as well. Here taking a message of the hub and handling it are
  two steps; without the lock they are the steps of theory \<open>Front_Ends\<close>.
\<close>

section \<open>The goroutine of Start\<close>

datatype hub_event =
    HubClose ClientCloseCommand
  | HubMessage RoutedMessage
  | HubVerdict OpenClientConnectionVerdict

definition handle_hub_event :: "hub_event \<Rightarrow> clientConnectionRouter \<Rightarrow> clientConnectionRouter option" where
  "handle_hub_event e = (case e of
     HubClose closeRequest \<Rightarrow> handleProxyCloseRequest closeRequest
   | HubMessage msgRequest \<Rightarrow> handleOutgoingMessageRequest msgRequest
   | HubVerdict incomingVerdict \<Rightarrow> handleIncomingVerdict incomingVerdict)"

text \<open>\<open>lf_busy\<close> is what the goroutine has taken and not handled yet; it then holds the lock.\<close>

record locked_front_end =
  lf_front :: front_end
  lf_busy :: "hub_event option"

text \<open>
  The goroutines of a route and of a session go on while the lock is held; marking a client as
  connected is part of such a step and not held up, which only adds behaviours.
\<close>

inductive locked_step ::
  "transport_kind \<Rightarrow> ('s, 'f) fb_builder \<Rightarrow> ('bb, 'f) fb_reader \<Rightarrow> (bytes \<Rightarrow> bool) \<Rightarrow> locked_front_end \<Rightarrow> locked_front_end \<Rightarrow> bool"
  for k B R deformed where
  take_event: "lf_busy l = None \<Longrightarrow> locked_step k B R deformed l (l\<lparr>lf_busy := Some e\<rparr>)"
| handle_event: "lf_busy l = Some e \<Longrightarrow> handle_hub_event e (fe_router (lf_front l)) = Some r \<Longrightarrow>
    locked_step k B R deformed l \<lparr>lf_front = (lf_front l)\<lparr>fe_router := r\<rparr>, lf_busy = None\<rparr>"
| request: "lf_busy l = None \<Longrightarrow> (\<And>i. nextId = Inr i \<Longrightarrow> routes (fe_router (lf_front l)) i = None) \<Longrightarrow>
    locked_step k B R deformed l (l\<lparr>lf_front := onRequest upgraded nextId (lf_front l)\<rparr>)"
| finished: "lf_busy l = None \<Longrightarrow> finish_session i (lf_front l) = Some fe \<Longrightarrow>
    locked_step k B R deformed l (l\<lparr>lf_front := fe\<rparr>)"
| listener: "run_listener k chosen i (lf_front l) = Some fe \<Longrightarrow> locked_step k B R deformed l (l\<lparr>lf_front := fe\<rparr>)"
| reader: "run_reader k e i (lf_front l) = Some fe \<Longrightarrow> locked_step k B R deformed l (l\<lparr>lf_front := fe\<rparr>)"
| client_closes: "fe_sessions (lf_front l) i = Some s \<Longrightarrow>
    locked_step k B R deformed l (l\<lparr>lf_front := (lf_front l)\<lparr>fe_sessions := (fe_sessions (lf_front l))(i \<mapsto> s\<lparr>ses_open := False\<rparr>)\<rparr>\<rparr>)"
| shutdown: "fe_sessions (lf_front l) i = Some s \<Longrightarrow> routes (fe_router (lf_front l)) i = Some c \<Longrightarrow>
    locked_step k B R deformed l (l\<lparr>lf_front := put_session i (s\<lparr>ses_shutdown := True\<rparr>, c\<lparr>route_ctxDone := True\<rparr>) (lf_front l)\<rparr>)"
| goroutine: "run_route B R deformed now g chosen i (fe_router (lf_front l)) = Some r \<Longrightarrow>
    locked_step k B R deformed l (l\<lparr>lf_front := (lf_front l)\<lparr>fe_router := r\<rparr>\<rparr>)"

section \<open>The lock only removes behaviours\<close>

lemma locked_step_front:
  assumes "locked_step k B R deformed l l'"
  shows "(front_step k B R deformed)\<^sup>*\<^sup>* (lf_front l) (lf_front l')"
  using assms
proof cases
  case (handle_event e r)
  then show ?thesis by (cases e) (auto simp: handle_hub_event_def intro: front_step.intros)
next
  case (request nextId upgraded)
  then show ?thesis using front_step.request [of nextId "lf_front l" k B R deformed upgraded] by auto
qed (auto intro: front_step.intros)

lemma locked_steps_front:
  "(locked_step k B R deformed)\<^sup>*\<^sup>* l l' \<Longrightarrow> (front_step k B R deformed)\<^sup>*\<^sup>* (lf_front l) (lf_front l')"
  by (induction rule: rtranclp_induct) (auto dest: locked_step_front)

lemma locked_event:
  assumes "handle_hub_event e (fe_router fe) = Some r"
  shows "(locked_step k B R deformed)\<^sup>*\<^sup>* \<lparr>lf_front = fe, lf_busy = None\<rparr> \<lparr>lf_front = fe\<lparr>fe_router := r\<rparr>, lf_busy = None\<rparr>"
proof -
  let ?l = "\<lparr>lf_front = fe, lf_busy = None\<rparr>" and ?b = "\<lparr>lf_front = fe, lf_busy = Some e\<rparr>"
  have "locked_step k B R deformed ?l ?b" using locked_step.take_event [of ?l k B R deformed e] by simp
  moreover have "locked_step k B R deformed ?b \<lparr>lf_front = fe\<lparr>fe_router := r\<rparr>, lf_busy = None\<rparr>"
    using locked_step.handle_event [of ?b e r k B R deformed] assms by simp
  ultimately show ?thesis by (meson r_into_rtranclp rtranclp_trans)
qed

lemma front_step_locked:
  assumes "front_step k B R deformed fe fe'"
  shows "(locked_step k B R deformed)\<^sup>*\<^sup>* \<lparr>lf_front = fe, lf_busy = None\<rparr> \<lparr>lf_front = fe', lf_busy = None\<rparr>"
proof -
  let ?l = "\<lparr>lf_front = fe, lf_busy = None\<rparr>"
  have one: ?thesis if "locked_step k B R deformed ?l (?l\<lparr>lf_front := fe'\<rparr>)" using that by auto
  from assms show ?thesis
  proof cases
    case (request nextId upgraded)
    then show ?thesis using locked_step.request [of ?l nextId k B R deformed upgraded] by (intro one) simp
  next
    case (listener chosen i)
    then show ?thesis using locked_step.listener [of k chosen i ?l fe' B R deformed] by (intro one) simp
  next
    case (reader e i)
    then show ?thesis using locked_step.reader [of k e i ?l fe' B R deformed] by (intro one) simp
  next
    case (client_closes i s)
    then show ?thesis using locked_step.client_closes [of ?l i s k B R deformed] by (intro one) simp
  next
    case (shutdown i s c)
    then show ?thesis using locked_step.shutdown [of ?l i s c k B R deformed] by (intro one) simp
  next
    case (finished i)
    then show ?thesis using locked_step.finished [of ?l i fe' k B R deformed] by (intro one) simp
  next
    case (hub_close q r)
    then show ?thesis using locked_event [of "HubClose q" fe r] by (simp add: handle_hub_event_def)
  next
    case (hub_message m r)
    then show ?thesis using locked_event [of "HubMessage m" fe r] by (simp add: handle_hub_event_def)
  next
    case (hub_verdict v r)
    then show ?thesis using locked_event [of "HubVerdict v" fe r] by (simp add: handle_hub_event_def)
  next
    case (goroutine now g chosen i r)
    then show ?thesis using locked_step.goroutine [of B R deformed now g chosen i ?l r k] by (intro one) simp
  qed
qed

lemma front_steps_locked:
  "(front_step k B R deformed)\<^sup>*\<^sup>* fe fe' \<Longrightarrow>
   (locked_step k B R deformed)\<^sup>*\<^sup>* \<lparr>lf_front = fe, lf_busy = None\<rparr> \<lparr>lf_front = fe', lf_busy = None\<rparr>"
proof (induction rule: rtranclp_induct)
  case (step fe1 fe2)
  then show ?case using front_step_locked by (meson rtranclp_trans)
qed simp

text \<open>
  Between two messages of the hub the lock changes nothing: a front end reaches a state with the
  lock free exactly when it reaches it in the transition system without the lock.
\<close>

theorem lock_transparent:
  "(locked_step k B R deformed)\<^sup>*\<^sup>* \<lparr>lf_front = fe, lf_busy = None\<rparr> \<lparr>lf_front = fe', lf_busy = None\<rparr> =
   (front_step k B R deformed)\<^sup>*\<^sup>* fe fe'"
  using locked_steps_front [of k B R deformed "\<lparr>lf_front = fe, lf_busy = None\<rparr>" "\<lparr>lf_front = fe', lf_busy = None\<rparr>"]
    front_steps_locked [of k B R deformed fe fe'] by auto

section \<open>A router that stops for good\<close>

text \<open>The goroutine holds the lock and waits for room in the channel of a client whose outgoing goroutine has returned.\<close>

definition jammed :: "client_id \<Rightarrow> RoutedMessage \<Rightarrow> locked_front_end \<Rightarrow> bool" where
  "jammed i m l \<longleftrightarrow> lf_busy l = Some (HubMessage m) \<and> msg_ClientId m = i \<and> connections (fe_router (lf_front l)) i \<noteq> None \<and>
     (\<exists>c. routes (fe_router (lf_front l)) i = Some c \<and> out_stopped c \<and>
        OutgoingMessageQueueLength (rt_params (fe_router (lf_front l))) \<le> length (route_OutgoingMessages c))"

text \<open>A session's steps leave the channels between hub and outgoing goroutine alone.\<close>

lemma listener_hub_side:
  assumes "listener_step k chosen (s, c) = Some (s', c')"
  shows "route_phase c' = route_phase c \<and> route_OutgoingMessages c' = route_OutgoingMessages c"
  using assms by (cases k; cases chosen) (auto simp: session_step_defs Let_def split: if_splits list.splits)

lemma reader_hub_side:
  assumes "reader_step k n e (s, c) = Some (s', c')"
  shows "route_phase c' = route_phase c \<and> route_OutgoingMessages c' = route_OutgoingMessages c"
  using assms by (cases k; cases e) (auto simp: session_step_defs split: if_splits)

lemma stopped_run:
  assumes "run_route B R deformed now g chosen i r = Some r'" and "routes r i = Some c" and "out_stopped c"
  shows "\<exists>c'. routes r' i = Some c' \<and> out_stopped c' \<and> route_OutgoingMessages c' = route_OutgoingMessages c \<and>
    connections r' i = connections r i"
  using assms
  by (cases g; cases "route_phase c")
    (auto simp: run_route_def out_stopped_def route_in_def split: select_case.splits if_splits list.splits bool.splits)

lemma run_route_params: "run_route B R deformed now g chosen i r = Some r' \<Longrightarrow> rt_params r' = rt_params r"
  by (auto simp: run_route_def split: option.splits route_phase.splits goroutine.splits bool.splits prod.splits)

lemma jammed_put:
  assumes "jammed i m l" and "routes (fe_router (lf_front l)) j = Some c"
    and "route_phase c' = route_phase c \<and> route_OutgoingMessages c' = route_OutgoingMessages c"
  shows "jammed i m (l\<lparr>lf_front := put_session j (s, c') (lf_front l)\<rparr>)"
  using assms by (cases "j = i") (auto simp: jammed_def out_stopped_def)

lemma jammed_step:
  assumes "locked_step k B R deformed l l'" and jam: "jammed i m l"
  shows "jammed i m l' \<and> dom (connections (fe_router (lf_front l'))) = dom (connections (fe_router (lf_front l)))"
  using assms(1)
proof cases
  case (handle_event e r)
  then show ?thesis using jam by (auto simp: jammed_def handle_hub_event_def handleOutgoingMessageRequest_def)
next
  case (listener chosen j fe)
  from listener(2) obtain s c s' c' where x: "routes (fe_router (lf_front l)) j = Some c"
    "listener_step k chosen (s, c) = Some (s', c')" "fe = put_session j (s', c') (lf_front l)" by (rule run_listenerE) blast
  from jammed_put [OF jam x(1) listener_hub_side [OF x(2)]] show ?thesis by (simp add: listener(1) x(3))
next
  case (reader e j fe)
  from reader(2) obtain s c s' c' where x: "routes (fe_router (lf_front l)) j = Some c"
    "reader_step k (IncomingMessageQueueLength (rt_params (fe_router (lf_front l)))) e (s, c) = Some (s', c')"
    "fe = put_session j (s', c') (lf_front l)" by (rule run_readerE) blast
  from jammed_put [OF jam x(1) reader_hub_side [OF x(2)]] show ?thesis by (simp add: reader(1) x(3))
next
  case (client_closes j s)
  then show ?thesis using jam by (simp add: jammed_def)
next
  case (shutdown j s c)
  have "route_phase (c\<lparr>route_ctxDone := True\<rparr>) = route_phase c \<and> route_OutgoingMessages (c\<lparr>route_ctxDone := True\<rparr>) = route_OutgoingMessages c"
    by simp
  from jammed_put [OF jam shutdown(3) this] show ?thesis by (simp add: shutdown(1))
next
  case (goroutine now g chosen j r)
  have dom: "dom (connections r) = dom (connections (fe_router (lf_front l)))"
    using run_kept [OF goroutine(2)] by (simp add: router_kept_def)
  obtain c where c: "routes (fe_router (lf_front l)) i = Some c" "out_stopped c"
    "OutgoingMessageQueueLength (rt_params (fe_router (lf_front l))) \<le> length (route_OutgoingMessages c)"
    using jam unfolding jammed_def by blast
  have "\<exists>c'. routes r i = Some c' \<and> out_stopped c' \<and> route_OutgoingMessages c' = route_OutgoingMessages c"
  proof (cases "j = i")
    case True
    then show ?thesis using stopped_run [OF goroutine(2) [unfolded True] c(1,2)] by blast
  next
    case False
    then show ?thesis using run_route_other(1) [OF goroutine(2), of i] c by simp
  qed
  moreover have "connections r i \<noteq> None" using dom jam by (auto simp: jammed_def)
  ultimately show ?thesis using jam c(3) dom run_route_params [OF goroutine(2)] by (auto simp: jammed_def goroutine(1))
qed (use jam in \<open>simp_all add: jammed_def\<close>)

text \<open>
  C9. One client can stop its front end. When the outgoing goroutine of a client has returned, its
  message channel is full and the hub's next message for it is taken before the session has
  removed the client, the router waits for good with the lock in its hands: on every continuation
  it handles nothing any more, for no client, no session is opened and none is removed. This
  can happen in both front ends.
\<close>

theorem full_channel_stops_router:
  assumes "lf_busy l = Some (HubMessage m)" and "connections (fe_router (lf_front l)) (msg_ClientId m) \<noteq> None"
    and "routes (fe_router (lf_front l)) (msg_ClientId m) = Some c"
    and "route_phase c = Ended \<or> route_phase c = Routing False b"
    and "length (route_OutgoingMessages c) = OutgoingMessageQueueLength (rt_params (fe_router (lf_front l)))"
    and "(locked_step k B R deformed)\<^sup>*\<^sup>* l l'"
  shows "lf_busy l' = Some (HubMessage m) \<and> handle_hub_event (HubMessage m) (fe_router (lf_front l')) = None \<and>
    dom (connections (fe_router (lf_front l'))) = dom (connections (fe_router (lf_front l)))"
proof -
  have "jammed (msg_ClientId m) m l" using assms(1-5) by (auto simp: jammed_def out_stopped_def)
  with assms(6) have "jammed (msg_ClientId m) m l' \<and>
      dom (connections (fe_router (lf_front l'))) = dom (connections (fe_router (lf_front l)))"
  proof (induction rule: rtranclp_induct)
    case (step l1 l2)
    then show ?case by (metis jammed_step)
  qed simp
  then show ?thesis by (auto simp: jammed_def handle_hub_event_def handleOutgoingMessageRequest_def)
qed

text \<open>A client that the hub has closed, with messages of its destination still on their way.\<close>

definition closed_route :: "nat \<Rightarrow> client_route" where
  "closed_route n = let_in_route\<lparr>route_phase := Routing False True, proxyCloseChannel := 1,
     route_OutgoingMessages := replicate n \<lparr>msg_ClientId = 1, msg_RecvTimestamp = 0, msg_RouteTimestamp = 0, msg_Data = None\<rparr>\<rparr>"

definition closed_front :: "nat \<Rightarrow> front_end" where
  "closed_front n = with_session (waiting_base\<lparr>connections := [1 \<mapsto> True]\<rparr>) new_session (closed_route n)"

lemma closed_front_reached:
  "n \<le> 16 \<Longrightarrow> (front_step k wire_builder wire_reader (\<lambda>d. False))\<^sup>*\<^sup>* sample_front (closed_front n)"
proof (induction n)
  case 0
  let ?r = "waiting_base\<lparr>connections := [1 \<mapsto> True]\<rparr>"
  let ?q = "close_command 1 []"
  let ?c = "let_in_route\<lparr>route_CloseRequest := [?q]\<rparr>"
  have "handleProxyCloseRequest ?q (fe_router (with_session ?r new_session let_in_route)) = Some (?r\<lparr>routes := [1 \<mapsto> ?c]\<rparr>)"
    by (simp add: handleProxyCloseRequest_def close_command_def let_in_route_def new_route_def with_session_def)
  from front_step.hub_close [OF this]
  have "front_step k wire_builder wire_reader (\<lambda>d. False) (with_session ?r new_session let_in_route) (with_session ?r new_session ?c)"
    by (simp add: with_session_def)
  with let_in_session have reach: "(front_step k wire_builder wire_reader (\<lambda>d. False))\<^sup>*\<^sup>* sample_front (with_session ?r new_session ?c)"
    by (rule rtranclp.rtrancl_into_rtrancl)
  show ?case unfolding closed_front_def
    by (rule with_goroutine [OF reach, where now = 7 and g = OutLoop and chosen = CloseRequested])
      (simp add: run_route_def route_out_def closed_route_def let_in_route_def new_route_def)
next
  case (Suc n)
  let ?m = "\<lparr>msg_ClientId = 1, msg_RecvTimestamp = 0, msg_RouteTimestamp = 0, msg_Data = None\<rparr>"
  have "handleOutgoingMessageRequest ?m (fe_router (closed_front n)) = Some (fe_router (closed_front (Suc n)))"
    using Suc.prems
    by (simp add: handleOutgoingMessageRequest_def closed_front_def with_session_def waiting_base_def closed_route_def replicate_append_same)
  from front_step.hub_message [OF this]
  have "front_step k wire_builder wire_reader (\<lambda>d. False) (closed_front n) (closed_front (Suc n))"
    by (simp add: closed_front_def with_session_def)
  with Suc show ?case by (meson Suc_leD rtranclp.rtrancl_into_rtrancl)
qed

theorem full_channel_stops_router_witness:
  "\<exists>l m. (locked_step OverWebSocket wire_builder wire_reader (\<lambda>d. False))\<^sup>*\<^sup>* \<lparr>lf_front = sample_front, lf_busy = None\<rparr> l \<and>
     (\<forall>l'. (locked_step OverWebSocket wire_builder wire_reader (\<lambda>d. False))\<^sup>*\<^sup>* l l' \<longrightarrow> lf_busy l' = Some (HubMessage m))"
proof -
  let ?m = "\<lparr>msg_ClientId = 1, msg_RecvTimestamp = 0, msg_RouteTimestamp = 0, msg_Data = None\<rparr>"
  let ?l = "\<lparr>lf_front = closed_front 16, lf_busy = Some (HubMessage ?m)\<rparr>"
  have "locked_step OverWebSocket wire_builder wire_reader (\<lambda>d. False) \<lparr>lf_front = closed_front 16, lf_busy = None\<rparr> ?l"
    using locked_step.take_event [of "\<lparr>lf_front = closed_front 16, lf_busy = None\<rparr>"] by simp
  with front_steps_locked [OF closed_front_reached [of 16 OverWebSocket]]
  have reach: "(locked_step OverWebSocket wire_builder wire_reader (\<lambda>d. False))\<^sup>*\<^sup>* \<lparr>lf_front = sample_front, lf_busy = None\<rparr> ?l"
    by (simp add: rtranclp.rtrancl_into_rtrancl)
  have l: "lf_busy ?l = Some (HubMessage ?m)" "connections (fe_router (lf_front ?l)) (msg_ClientId ?m) \<noteq> None"
    "routes (fe_router (lf_front ?l)) (msg_ClientId ?m) = Some (closed_route 16)"
    "route_phase (closed_route 16) = Ended \<or> route_phase (closed_route 16) = Routing False True"
    "length (route_OutgoingMessages (closed_route 16)) = OutgoingMessageQueueLength (rt_params (fe_router (lf_front ?l)))"
    by (simp_all add: closed_front_def closed_route_def) (simp add: waiting_base_def)
  have "\<forall>l'. (locked_step OverWebSocket wire_builder wire_reader (\<lambda>d. False))\<^sup>*\<^sup>* ?l l' \<longrightarrow> lf_busy l' = Some (HubMessage ?m)"
    using full_channel_stops_router [OF l] by blast
  with reach show ?thesis by blast
qed

end
