(* ===== verification/Hub_Main.thy ===== *)
theory Hub_Main
  imports Front_Ends
begin

text \<open>
  \<open>cmd/spanreed-hub/main.go\<close>: the executable reads its configuration from the environment, checks it
  and builds the hub with its front ends and the UDP handler. The parts of the Go library it uses
  are modelled: \<open>strconv.ParseBool\<close>, \<open>strconv.ParseUint\<close> with base 0, \<open>strings.Split\<close> at a comma. The
  environment, after the file \<open>.env\<close> was loaded, is a parameter; running the servers is left to the
  transition systems of the other theories.
\<close>

section \<open>Numbers, truth values and lists in strings\<close>

datatype num_error = ErrSyntax | ErrRange

definition ParseBool :: "string \<Rightarrow> num_error + bool" where
  "ParseBool str =
     (if str \<in> {''1'', ''t'', ''T'', ''true'', ''TRUE'', ''True''} then Inr True
      else if str \<in> {''0'', ''f'', ''F'', ''false'', ''FALSE'', ''False''} then Inr False
      else Inl ErrSyntax)"

text \<open>The value of a digit or letter, as in the loop of \<open>ParseUint\<close>.\<close>

definition digit_value :: "char \<Rightarrow> nat option" where
  "digit_value c =
     (let n = of_char c in
      if 48 \<le> n \<and> n \<le> 57 then Some (n - 48)
      else if 97 \<le> n \<and> n \<le> 122 then Some (n - 97 + 10)
      else if 65 \<le> n \<and> n \<le> 90 then Some (n - 65 + 10)
      else None)"

text \<open>The base and the digits of a number written with base 0.\<close>

definition base_prefix :: "string \<Rightarrow> nat \<times> string" where
  "base_prefix s = (case s of
     CHR ''0'' # rest \<Rightarrow>
       (case rest of
          c # d # ds \<Rightarrow>
            (if c \<in> {CHR ''b'', CHR ''B''} then (2, d # ds)
             else if c \<in> {CHR ''o'', CHR ''O''} then (8, d # ds)
             else if c \<in> {CHR ''x'', CHR ''X''} then (16, d # ds)
             else (8, rest))
        | _ \<Rightarrow> (8, rest))
   | _ \<Rightarrow> (10, s))"

text \<open>The loop over the digits, with the 64-bit accumulator. The flag is whether there were underscores.\<close>

fun parse_digits :: "nat \<Rightarrow> 64 word \<Rightarrow> string \<Rightarrow> 64 word \<Rightarrow> bool \<Rightarrow> num_error + 64 word \<times> bool" where
  "parse_digits base maxVal [] n underscores = Inr (n, underscores)"
| "parse_digits base maxVal (c # cs) n underscores =
     (if c = CHR ''_'' then parse_digits base maxVal cs n True
      else case digit_value c of
        None \<Rightarrow> Inl ErrSyntax
      | Some d \<Rightarrow>
          (if base \<le> d then Inl ErrSyntax
           else if n \<ge> (- 1) div of_nat base + 1 then Inl ErrRange
           else
             let n0 = n * of_nat base; n1 = n0 + of_nat d
             in if n1 < n0 \<or> n1 > maxVal then Inl ErrRange
                else parse_digits base maxVal cs n1 underscores))"

datatype seen = SeenStart | SeenDigit | SeenUnderscore | SeenOther

fun underscores_loop :: "bool \<Rightarrow> seen \<Rightarrow> string \<Rightarrow> bool" where
  "underscores_loop hex saw [] = (saw \<noteq> SeenUnderscore)"
| "underscores_loop hex saw (c # cs) =
     (if (case digit_value c of None \<Rightarrow> False | Some d \<Rightarrow> d < 10 \<or> hex \<and> d < 16) then underscores_loop hex SeenDigit cs
      else if c = CHR ''_'' then saw = SeenDigit \<and> underscores_loop hex SeenUnderscore cs
      else saw \<noteq> SeenUnderscore \<and> underscores_loop hex SeenOther cs)"

definition underscoreOK :: "string \<Rightarrow> bool" where
  "underscoreOK s0 =
     (let s = (case s0 of c # cs \<Rightarrow> if c \<in> {CHR ''-'', CHR ''+''} then cs else s0 | [] \<Rightarrow> s0)
      in case s of
        CHR ''0'' # c # cs \<Rightarrow>
          (if c \<in> {CHR ''b'', CHR ''B'', CHR ''o'', CHR ''O'', CHR ''x'', CHR ''X''}
           then underscores_loop (c \<in> {CHR ''x'', CHR ''X''}) SeenDigit cs
           else underscores_loop False SeenStart s)
      | _ \<Rightarrow> underscores_loop False SeenStart s)"

definition ParseUint :: "string \<Rightarrow> nat \<Rightarrow> num_error + 64 word" where
  "ParseUint s bitSize =
     (if s = [] then Inl ErrSyntax
      else
        let (base, ds) = base_prefix s
        in case parse_digits base (2 ^ bitSize - 1) ds 0 False of
          Inl err \<Rightarrow> Inl err
        | Inr (n, underscores) \<Rightarrow> if underscores \<and> \<not> underscoreOK s then Inl ErrSyntax else Inr n)"

text \<open>\<open>strings.Split\<close> with the separator \<open>,\<close>.\<close>

fun SplitComma :: "string \<Rightarrow> string list" where
  "SplitComma [] = [[]]"
| "SplitComma (c # cs) =
     (if c = CHR '','' then [] # SplitComma cs
      else case SplitComma cs of [] \<Rightarrow> [[c]] | x # xs \<Rightarrow> (c # x) # xs)"

section \<open>Configuration\<close>

record hub_flags =
  certPath :: string
  keyPath :: string
  useWebsockets :: bool
  wsPort :: "64 word"
  wsEndpoint :: string
  wsReadBufferSize :: "64 word"
  wsWriteBufferSize :: "64 word"
  wsHandshakeTimeoutMs :: "64 word"
  useWebtransport :: bool
  wtPort :: "64 word"
  wtEndpoint :: string
  allowAllHosts :: bool
  forbiddenHosts :: string
  allowedHosts :: string
  clientIncomingMessageQueueLength :: "64 word"
  clientOutgoingMessageQueueLength :: "64 word"
  allowAllDestinations :: bool
  allowedDestinations :: string
  forbiddenDestinations :: string
  useUdp :: bool
  udpPort :: "64 word"

definition Getenv :: "(string \<Rightarrow> string option) \<Rightarrow> string \<Rightarrow> string" where
  "Getenv env key = (case env key of None \<Rightarrow> [] | Some v \<Rightarrow> v)"

text \<open>What \<open>main\<close> does with a flag or number it cannot read.\<close>

definition bool_flag :: "(string \<Rightarrow> string option) \<Rightarrow> string \<Rightarrow> bool" where
  "bool_flag env key = (case ParseBool (Getenv env key) of Inl e \<Rightarrow> False | Inr b \<Rightarrow> b)"

definition uint_flag :: "(string \<Rightarrow> string option) \<Rightarrow> string \<Rightarrow> nat \<Rightarrow> 64 word \<Rightarrow> 64 word" where
  "uint_flag env key bitSize fallback = (case ParseUint (Getenv env key) bitSize of Inl e \<Rightarrow> fallback | Inr n \<Rightarrow> n)"

definition endpoint_flag :: "(string \<Rightarrow> string option) \<Rightarrow> string \<Rightarrow> string" where
  "endpoint_flag env key = (if Getenv env key = [] then ''/'' else Getenv env key)"

definition main_flags :: "(string \<Rightarrow> string option) \<Rightarrow> hub_flags" where
  "main_flags env =
     \<lparr>certPath = Getenv env ''SPANREED_TLS_CERT_PATH'',
      keyPath = Getenv env ''SPANREED_TLS_KEY_PATH'',
      useWebsockets = bool_flag env ''SPANREED_WEBSOCKET'',
      wsPort = uint_flag env ''SPANREED_WEBSOCKET_PORT'' 16 3000,
      wsEndpoint = endpoint_flag env ''SPANREED_WEBSOCKET_ENDPOINT'',
      wsReadBufferSize = uint_flag env ''SPANREED_WEBSOCKET_READ_BUFFER_SIZE'' 32 10240,
      wsWriteBufferSize = uint_flag env ''SPANREED_WEBSOCKET_WRITE_BUFFER_SIZE'' 32 10240,
      wsHandshakeTimeoutMs = uint_flag env ''SPANREED_WEBSOCKET_HANDSHAKE_TIMEOUT_MS'' 32 1500,
      useWebtransport = bool_flag env ''SPANREED_WEBTRANSPORT'',
      wtPort = uint_flag env ''SPANREED_WEBTRANSPORT_PORT'' 32 3000,
      wtEndpoint = endpoint_flag env ''SPANREED_WEBTRANSPORT_ENDPOINT'',
      allowAllHosts = bool_flag env ''SPANREED_ALLOW_ALL_HOSTS'',
      forbiddenHosts = Getenv env ''SPANREED_DENY_HOSTS'',
      allowedHosts = Getenv env ''SPANREED_ALLOW_HOSTS'',
      clientIncomingMessageQueueLength = uint_flag env ''SPANREED_CLIENT_INCOMING_MESSAGE_QUEUE_LENGTH'' 32 16,
      clientOutgoingMessageQueueLength = uint_flag env ''SPANREED_CLIENT_OUTGOING_MESSAGE_QUEUE_LENGTH'' 32 16,
      allowAllDestinations = bool_flag env ''SPANREED_ALLOW_ALL_DESTINATIONS'',
      allowedDestinations = Getenv env ''SPANREED_ALLOW_DESTINATIONS'',
      forbiddenDestinations = Getenv env ''SPANREED_DENY_DESTINATIONS'',
      useUdp = bool_flag env ''SPANREED_UDP'',
      udpPort = uint_flag env ''SPANREED_UDP_PORT'' 16 30321\<rparr>"

section \<open>Building the hub\<close>

definition websocket_params :: "hub_flags \<Rightarrow> WebsocketSpanreedClientParams" where
  "websocket_params f =
     \<lparr>wsp_ListenAddress = '':'' @ js_nat_string (unat (wsPort f)),
      wsp_ListenEndpoint = wsEndpoint f,
      wsp_AllowAllHosts = allowAllHosts f,
      wsp_AllowlistedHosts = SplitComma (allowedHosts f),
      wsp_DenylistedHosts = SplitComma (forbiddenHosts f),
      wsp_CertPath = certPath f,
      wsp_KeyPath = keyPath f,
      wsp_IncomingMessageQueueLength = ucast (clientIncomingMessageQueueLength f),
      wsp_OutgoingMessageQueueLength = ucast (clientOutgoingMessageQueueLength f),
      wsp_IncomingMessageReadLimit = ucast (wsReadBufferSize f),
      wsp_OutgoingMessageWriteLimit = ucast (wsWriteBufferSize f),
      wsp_HandshakeTimeoutMilliseconds = ucast (wsHandshakeTimeoutMs f)\<rparr>"

definition webtransport_params :: "hub_flags \<Rightarrow> WebtransportSpanreedClientParams" where
  "webtransport_params f =
     \<lparr>wtp_ListenAddress = '':'' @ js_nat_string (unat (wtPort f)),
      wtp_ListenEndpoint = wtEndpoint f,
      wtp_CertPath = certPath f,
      wtp_KeyPath = keyPath f,
      wtp_AllowAllHosts = allowAllHosts f,
      wtp_AllowlistedHosts = SplitComma (allowedHosts f),
      wtp_DenylistedHosts = SplitComma (forbiddenHosts f),
      wtp_IncomingMessageQueueLength = ucast (clientIncomingMessageQueueLength f),
      wtp_OutgoingMessageQueueLength = ucast (clientOutgoingMessageQueueLength f)\<rparr>"

definition udp_params :: "32 word \<times> 8 word \<Rightarrow> hub_flags \<Rightarrow> UdpSpanreedDestinationParams" where
  "udp_params = (\<lambda>(magicNumber, version) f.
     \<lparr>UdpServerPort = sint (udpPort f),
      AllowAllDestinations = allowAllDestinations f,
      AllowlistedDestinations = SplitComma (allowedDestinations f),
      DenylistedDestinations = SplitComma (forbiddenDestinations f),
      ud_MagicNumber = magicNumber,
      ud_Version = version,
      MaxReadMessageSize = 0,
      MaxWriteMessageSize = 0,
      ResolveUdpHost = None\<rparr>)"

record 'a hub_setup =
  hub_proxy :: proxy
  hub_websocket :: "websocketSpanreedClient option"
  hub_webtransport :: "webtransportSpanreedClient option"
  hub_udp :: "'a udpSpanreedDestination option"

definition default_config :: ProxyConfig where
  "default_config = \<lparr>cfg_MagicNumber = 0, cfg_Version = 0, cfg_MaxConcurrentConnections = 0,
     cfg_ClientMessageTimeoutMilliseconds = 0, cfg_ClientAuthTimeoutMilliseconds = 0,
     cfg_DestinationMessageTimeoutMilliseconds = 0, cfg_MaxConnectionLengthMilliseconds = 0,
     cfg_ConnectionKickLoopMilliseconds = 0\<rparr>"

text \<open>
  The flags are checked, then each transport that is switched on registers its handler and is
  created; \<open>None\<close> is an early return. On a string of fewer than four bytes the match function of the
  UDP handler panics; the hub's list of handlers has such a string as one that does not match.
\<close>

definition setup_websocket :: "hub_flags \<Rightarrow> 'a hub_setup \<Rightarrow> 'a hub_setup option" where
  "setup_websocket f h =
     (if \<not> useWebsockets f then Some h
      else case CreateClientMessageHandler ''WebSocket'' (hub_proxy h) of
        (Some err, p) \<Rightarrow> None
      | (None, p) \<Rightarrow> Some (h\<lparr>hub_proxy := p, hub_websocket := Some (CreateWebsocketHandler (websocket_params f))\<rparr>))"

definition setup_webtransport :: "hub_flags \<Rightarrow> 'a hub_setup \<Rightarrow> 'a hub_setup option" where
  "setup_webtransport f h =
     (if \<not> (useWebtransport f \<and> keyPath f \<noteq> '''' \<and> certPath f \<noteq> '''') then Some h
      else case CreateClientMessageHandler ''WebTransport'' (hub_proxy h) of
        (Some err, p) \<Rightarrow> None
      | (None, p) \<Rightarrow> Some (h\<lparr>hub_proxy := p, hub_webtransport := Some (CreateWebtransportHandler (webtransport_params f))\<rparr>))"

definition setup_udp :: "32 word \<times> 8 word \<Rightarrow> hub_flags \<Rightarrow> 'a hub_setup \<Rightarrow> 'a hub_setup option" where
  "setup_udp mv f h =
     (if \<not> useUdp f then Some h
      else case CreateDestinationMessageHandler ''UdpDestination''
          (\<lambda>s. DefaultUdpDestinationHandlerMatchConnectionStringFn s = Some True) (hub_proxy h) of
        (Some err, p) \<Rightarrow> None
      | (None, p) \<Rightarrow> Some (h\<lparr>hub_proxy := p, hub_udp := Some (CreateUdpDestinationHandler (udp_params mv f))\<rparr>))"

definition main_setup :: "(string \<Rightarrow> string option) \<Rightarrow> 'a hub_setup option" where
  "main_setup env =
     (let f = main_flags env
      in if (keyPath f = '''') \<noteq> (certPath f = '''') then None
         else
           let p = CreateProxy default_config;
               h0 = \<lparr>hub_proxy = p, hub_websocket = None, hub_webtransport = None, hub_udp = None\<rparr>
           in do { h1 \<leftarrow> setup_websocket f h0; h2 \<leftarrow> setup_webtransport f h1; setup_udp (GetMagicNumberAndVersion p) f h2 })"

section \<open>Reading numbers\<close>

lemma parse_digits_append:
  "parse_digits base maxVal (xs @ ys) n u = (case parse_digits base maxVal xs n u of
     Inl e \<Rightarrow> Inl e | Inr (n', u') \<Rightarrow> parse_digits base maxVal ys n' u')"
  by (induction xs arbitrary: n u) (auto simp: Let_def split: option.split)

lemma parse_digits_bounded:
  "parse_digits base maxVal ds n u = Inr (n', u') \<Longrightarrow> n \<le> maxVal \<Longrightarrow> n' \<le> maxVal"
  by (induction ds arbitrary: n u) (auto simp: Let_def not_less split: if_splits option.splits)

text \<open>The program reads numbers of 16 and of 32 bits.\<close>

lemma ParseUint_bounded:
  assumes "ParseUint s bitSize = Inr n" and "bitSize = 16 \<or> bitSize = 32"
  shows "unat n < 2 ^ bitSize"
proof -
  have "n \<le> 2 ^ bitSize - 1"
    using assms(1) parse_digits_bounded [of _ "2 ^ bitSize - 1" _ 0 False n]
    by (auto simp: ParseUint_def split: if_splits prod.splits sum.splits)
  then show ?thesis using assms(2) by (auto simp: word_le_nat_alt)
qed

lemma digit_value_js:
  assumes "d < 10"
  shows "digit_value (js_digit d) = Some d" and "js_digit d \<noteq> CHR ''_''"
proof -
  have n: "of_char (js_digit d) = 48 + d" using assms by (simp add: js_digit_def)
  then show "digit_value (js_digit d) = Some d" using assms by (simp add: digit_value_def)
  have "of_char CHR ''_'' = (95 :: nat)" by simp
  then show "js_digit d \<noteq> CHR ''_''" using n assms by auto
qed

lemma parse_digits_step:
  assumes "m < 2 ^ bitSize" and "bitSize = 16 \<or> bitSize = 32"
  shows "parse_digits 10 (2 ^ bitSize - 1) [js_digit (m mod 10)] (of_nat (m div 10)) False = Inr (of_nat m, False)"
proof -
  have m: "m < 2 ^ 32" using assms by auto
  have fits: "unat (of_nat k :: 64 word) = k" if "k \<le> m" for k using m that by (simp add: unat_of_nat)
  note small = fits [of "m div 10"] fits [of m] fits [of "m div 10 * 10"]
  have n1: "of_nat (m div 10) * 10 + of_nat (m mod 10) = (of_nat m :: 64 word)"
    by (metis div_mult_mod_eq of_nat_add of_nat_mult of_nat_numeral)
  have n0: "of_nat (m div 10) * 10 = (of_nat (m div 10 * 10) :: 64 word)" by simp
  have "\<not> (- 1) div 10 + 1 \<le> (of_nat (m div 10) :: 64 word)"
    using m small(1) by (simp add: word_le_nat_alt)
  moreover have "\<not> (of_nat m :: 64 word) < of_nat (m div 10) * 10" unfolding n0 word_less_nat_alt by (subst small(2), simp, subst small(3), simp_all)
  moreover have "\<not> 2 ^ bitSize - 1 < (of_nat m :: 64 word)" using assms small(2) by (auto simp: word_less_nat_alt)
  ultimately show ?thesis using digit_value_js [of "m mod 10"] n1 by (simp add: Let_def)
qed

lemma parse_digits_print:
  "m < 2 ^ bitSize \<Longrightarrow> bitSize = 16 \<or> bitSize = 32 \<Longrightarrow>
   parse_digits 10 (2 ^ bitSize - 1) (js_nat_string m) 0 False = Inr (of_nat m, False)"
proof (induction m rule: js_nat_string.induct)
  case (1 m)
  show ?case
  proof (cases "m < 10")
    case True
    have "js_nat_string m = [js_digit (m mod 10)]" using True by (subst js_nat_string.simps) simp
    then show ?thesis using parse_digits_step [OF 1(2,3)] True by simp
  next
    case False
    then have "js_nat_string m = js_nat_string (m div 10) @ [js_digit (m mod 10)]" by (subst js_nat_string.simps) simp
    moreover have "parse_digits 10 (2 ^ bitSize - 1) (js_nat_string (m div 10)) 0 False = Inr (of_nat (m div 10), False)"
      by (rule 1(1) [OF False _ 1(3)]) (use 1(2) in linarith)
    ultimately show ?thesis
      using parse_digits_step [OF 1(2,3)] by (simp only: parse_digits_append sum.case prod.case)
  qed
qed

lemma js_nat_string_first:
  "0 < m \<Longrightarrow> \<exists>c cs. js_nat_string m = c # cs \<and> c \<noteq> CHR ''0''"
proof (induction m rule: js_nat_string.induct)
  case (1 m)
  show ?case
  proof (cases "m < 10")
    case True
    have "of_char (js_digit m) = 48 + m" using True by (simp add: js_digit_def)
    moreover have "of_char CHR ''0'' = (48 :: nat)" by simp
    ultimately have "js_digit m \<noteq> CHR ''0''" using 1(2) by auto
    then show ?thesis using True by (subst js_nat_string.simps) simp
  next
    case False
    then have "js_nat_string m = js_nat_string (m div 10) @ [js_digit (m mod 10)]" by (subst js_nat_string.simps) simp
    moreover obtain c cs where "js_nat_string (m div 10) = c # cs" "c \<noteq> CHR ''0''" using 1(1) [OF False] False by (metis div_greater_zero_iff not_less zero_less_numeral)
    ultimately show ?thesis by simp
  qed
qed

lemma ParseUint_print:
  assumes "m < 2 ^ bitSize" and "bitSize = 16 \<or> bitSize = 32"
  shows "ParseUint (js_nat_string m) bitSize = Inr (of_nat m)"
proof (cases "m = 0")
  case True
  have "js_nat_string 0 = ''0''" by (subst js_nat_string.simps) (simp add: js_digit_def char_of_def bit_0)
  then show ?thesis using True by (simp add: ParseUint_def base_prefix_def)
next
  case False
  then obtain c cs where c: "js_nat_string m = c # cs" "c \<noteq> CHR ''0''" using js_nat_string_first by blast
  have "base_prefix (js_nat_string m) = (10, js_nat_string m)" using c(2) unfolding c(1) base_prefix_def
    by (cases c) (auto split: bool.split)
  then show ?thesis using parse_digits_print [OF assms] c(1) by (simp add: ParseUint_def)
qed

section \<open>Lists of hosts\<close>

fun join_comma :: "string list \<Rightarrow> string" where
  "join_comma [] = []"
| "join_comma [x] = x"
| "join_comma (x # y # xs) = x @ CHR '','' # join_comma (y # xs)"

lemma SplitComma_nonempty: "SplitComma s \<noteq> []"
  by (cases s) (auto split: list.split)

lemma SplitComma_plain: "CHR '','' \<notin> set x \<Longrightarrow> SplitComma x = [x]"
  by (induction x) auto

lemma SplitComma_first: "CHR '','' \<notin> set x \<Longrightarrow> SplitComma (x @ CHR '','' # s) = x # SplitComma s"
  by (induction x) auto

lemma SplitComma_join: "xs \<noteq> [] \<Longrightarrow> \<forall>x \<in> set xs. CHR '','' \<notin> set x \<Longrightarrow> SplitComma (join_comma xs) = xs"
  by (induction xs rule: join_comma.induct) (simp_all add: SplitComma_plain SplitComma_first)

section \<open>The configuration\<close>

lemma uint_flag_bounded:
  assumes "bitSize = 16 \<or> bitSize = 32" and "unat fallback < 2 ^ bitSize"
  shows "unat (uint_flag env key bitSize fallback) < 2 ^ bitSize"
  using assms ParseUint_bounded [OF _ assms(1)] by (auto simp: uint_flag_def split: sum.splits)

lemma uint_flag_set:
  assumes "env key = Some (js_nat_string m)" and "m < 2 ^ bitSize" and "bitSize = 16 \<or> bitSize = 32"
  shows "uint_flag env key bitSize fallback = of_nat m"
  using ParseUint_print [OF assms(2,3)] by (simp add: uint_flag_def Getenv_def assms(1))

lemma ucast_fits: "unat (x :: 64 word) < 2 ^ 32 \<Longrightarrow> unat (ucast x :: 32 word) = unat x"
  by (simp add: unsigned_ucast_eq take_bit_nat_eq_self_iff)

lemma sint_port:
  assumes "unat (x :: 64 word) < 2 ^ 16"
  shows "sint x = uint x" and "uint x < 65536"
proof -
  have "unat x < 65536" using assms by simp
  then have "int (unat x) < 65536" by linarith
  then show less: "uint x < 65536" by simp
  have "signed_take_bit 63 (uint x) = uint x" 
    by (rule signed_take_bit_int_eq_self, rule order_trans [OF _ uint_ge_0]) (use less in simp_all)
  then show "sint x = uint x" by (simp add: sint_uint)
qed

lemmas main_flags_ports = uint_flag_bounded [of 16 "3000 :: 64 word"] uint_flag_bounded [of 16 "30321 :: 64 word"]
  uint_flag_bounded [of 32 "3000 :: 64 word"] uint_flag_bounded [of 32 "16 :: 64 word"]
  uint_flag_bounded [of 32 "1500 :: 64 word"] uint_flag_bounded [of 32 "10240 :: 64 word"]



lemma udp_prefix:
  "DefaultUdpDestinationHandlerMatchConnectionStringFn s = Some True \<longleftrightarrow> (\<exists>host. s = ''udp:'' @ host)"
proof
  assume "DefaultUdpDestinationHandlerMatchConnectionStringFn s = Some True"
  then have "take 4 s = ''udp:''" by (simp add: DefaultUdpDestinationHandlerMatchConnectionStringFn_def split: if_splits)
  then have "s = ''udp:'' @ drop 4 s" by (metis append_take_drop_id)
  then show "\<exists>host. s = ''udp:'' @ host" by blast
qed (auto simp: DefaultUdpDestinationHandlerMatchConnectionStringFn_def)

lemma main_setup_starts:
  assumes "f = main_flags env" and "(keyPath f = []) = (certPath f = [])"
  shows "\<exists>h. main_setup env = Some h \<and> hub_reaches default_config (hub_proxy h) \<and>
      hub_websocket h = (if useWebsockets f then Some (CreateWebsocketHandler (websocket_params f)) else None) \<and>
      hub_webtransport h = (if useWebtransport f \<and> keyPath f \<noteq> [] then Some (CreateWebtransportHandler (webtransport_params f)) else None) \<and>
      hub_udp h = (if useUdp f then Some (CreateUdpDestinationHandler (udp_params (0x52554259, 0) f)) else None) \<and>
      (\<forall>n. px_clientChannels (hub_proxy h) n \<noteq> None \<longleftrightarrow>
         n = ''WebSocket'' \<and> hub_websocket h \<noteq> None \<or> n = ''WebTransport'' \<and> hub_webtransport h \<noteq> None) \<and>
      (if useUdp f then \<exists>matches. px_destHandlers (hub_proxy h) = [(''UdpDestination'', matches)] \<and>
           (\<forall>s. matches s \<longleftrightarrow> (\<exists>host. s = ''udp:'' @ host))
       else px_destHandlers (hub_proxy h) = [])"
proof -
  let ?p0 = "CreateProxy default_config"
  let ?p1 = "if useWebsockets f then snd (CreateClientMessageHandler ''WebSocket'' ?p0) else ?p0"
  let ?p2 = "if useWebtransport f \<and> keyPath f \<noteq> [] then snd (CreateClientMessageHandler ''WebTransport'' ?p1) else ?p1"
  let ?p3 = "if useUdp f then snd (CreateDestinationMessageHandler ''UdpDestination''
      (\<lambda>s. DefaultUdpDestinationHandlerMatchConnectionStringFn s = Some True) ?p2) else ?p2"
  have p1: "hub_reaches default_config ?p1" using proxy_step.client_handler by auto
  then have p2: "hub_reaches default_config ?p2" using proxy_step.client_handler by (auto intro: rtranclp.rtrancl_into_rtrancl)
  then have "hub_reaches default_config ?p3" using proxy_step.dest_handler by (auto intro: rtranclp.rtrancl_into_rtrancl)
  then show ?thesis
    using assms(2)
    by (cases "useWebsockets f"; cases "useWebtransport f"; cases "useUdp f"; cases "keyPath f = []")
      (simp_all add: main_setup_def assms(1) [symmetric] setup_websocket_def setup_webtransport_def setup_udp_def Let_def
        CreateClientMessageHandler_def CreateDestinationMessageHandler_def GetMagicNumberAndVersion_def
        CreateProxy_def default_config_def udp_prefix)
qed



section \<open>Which origins are accepted\<close>

lemma handler_origins:
  "up_CheckOrigin (wsc_upgrader (CreateWebsocketHandler (websocket_params f))) origin =
     (origin \<notin> set (SplitComma (forbiddenHosts f)) \<and> (allowAllHosts f \<or> origin \<in> set (SplitComma (allowedHosts f))))"
  "webtransport_CheckOrigin (wtc_params (CreateWebtransportHandler (webtransport_params f))) origin =
     (origin \<notin> set (SplitComma (forbiddenHosts f)) \<and> (allowAllHosts f \<or> origin \<in> set (SplitComma (allowedHosts f))))"
  by (simp_all add: CreateWebsocketHandler_def CreateWebtransportHandler_def websocket_params_def webtransport_params_def
      websocket_CheckOrigin_def webtransport_CheckOrigin_def Let_def)

lemma setup_front_ends:
  assumes "main_setup env = Some h"
  shows "hub_websocket h = Some wsServer \<Longrightarrow> wsServer = CreateWebsocketHandler (websocket_params (main_flags env))"
    and "hub_webtransport h = Some wtServer \<Longrightarrow> wtServer = CreateWebtransportHandler (webtransport_params (main_flags env))"
    and "hub_udp h = Some u \<Longrightarrow> \<exists>mv. u = CreateUdpDestinationHandler (udp_params mv (main_flags env))"
proof -
  let ?f = "main_flags env"
  have "(keyPath ?f = []) = (certPath ?f = [])" using assms by (simp add: main_setup_def Let_def split: if_splits)
  from main_setup_starts [OF refl this] assms
  have h: "hub_websocket h = (if useWebsockets ?f then Some (CreateWebsocketHandler (websocket_params ?f)) else None)"
    "hub_webtransport h = (if useWebtransport ?f \<and> keyPath ?f \<noteq> [] then Some (CreateWebtransportHandler (webtransport_params ?f)) else None)"
    "hub_udp h = (if useUdp ?f then Some (CreateUdpDestinationHandler (udp_params (0x52554259, 0) ?f)) else None)"
    by (metis option.inject)+
  show "wsServer = CreateWebsocketHandler (websocket_params ?f)" if "hub_websocket h = Some wsServer"
    using that unfolding h(1) by (simp split: if_splits)
  show "wtServer = CreateWebtransportHandler (webtransport_params ?f)" if "hub_webtransport h = Some wtServer"
    using that unfolding h(2) by (simp split: if_splits)
  show "\<exists>mv. u = CreateUdpDestinationHandler (udp_params mv ?f)" if "hub_udp h = Some u"
    using that unfolding h(3) by (auto split: if_splits)
qed

text \<open>
  C26. The lists of the environment are obeyed. When they are hosts joined by commas, both front ends
  accept an origin exactly when it is not on the deny list and either all hosts are allowed or it
  is on the allow list, and the UDP handler decides about a destination in the same way. A list
  that is not set is read as the list of the empty string: with no deny list a client that sends
  no \<open>Origin\<close> header is refused, also when all hosts are allowed.
\<close>

theorem lists_obeyed:
  assumes "main_setup env = Some h" and "hub_websocket h = Some wsServer" and "hub_webtransport h = Some wtServer" and "hub_udp h = Some u"
    and "Getenv env ''SPANREED_ALLOW_HOSTS'' = join_comma allowed" and "Getenv env ''SPANREED_DENY_HOSTS'' = join_comma denied"
    and "Getenv env ''SPANREED_ALLOW_DESTINATIONS'' = join_comma allowedDests" and "Getenv env ''SPANREED_DENY_DESTINATIONS'' = join_comma deniedDests"
    and "\<forall>hosts \<in> {allowed, denied, allowedDests, deniedDests}. hosts \<noteq> [] \<and> (\<forall>host \<in> set hosts. CHR '','' \<notin> set host)"
  shows "up_CheckOrigin (wsc_upgrader wsServer) origin =
      (origin \<notin> set denied \<and> (bool_flag env ''SPANREED_ALLOW_ALL_HOSTS'' \<or> origin \<in> set allowed)) \<and>
    webtransport_CheckOrigin (wtc_params wtServer) origin = up_CheckOrigin (wsc_upgrader wsServer) origin \<and>
    isDestinationAllowed (AllowAllDestinations (ud_params u)) (AllowlistedDestinations (ud_params u)) (DenylistedDestinations (ud_params u)) dest =
      (dest \<notin> set deniedDests \<and> (bool_flag env ''SPANREED_ALLOW_ALL_DESTINATIONS'' \<or> dest \<in> set allowedDests)) \<and>
    (env ''SPANREED_DENY_HOSTS'' = None \<longrightarrow> \<not> up_CheckOrigin (wsc_upgrader wsServer) [])"
proof -
  let ?f = "main_flags env"
  have split: "SplitComma (join_comma hosts) = hosts" if "hosts \<in> {allowed, denied, allowedDests, deniedDests}" for hosts
    using SplitComma_join assms(9) that by blast
  have lists: "SplitComma (allowedHosts ?f) = allowed" "SplitComma (forbiddenHosts ?f) = denied"
    "SplitComma (allowedDestinations ?f) = allowedDests" "SplitComma (forbiddenDestinations ?f) = deniedDests"
    using split by (simp_all add: main_flags_def assms(5-8))
  have flags: "allowAllHosts ?f = bool_flag env ''SPANREED_ALLOW_ALL_HOSTS''"
    "allowAllDestinations ?f = bool_flag env ''SPANREED_ALLOW_ALL_DESTINATIONS''" by (simp_all add: main_flags_def)
  obtain mv where u: "u = CreateUdpDestinationHandler (udp_params mv ?f)" using setup_front_ends(3) [OF assms(1,4)] by blast
  have "denied = [[]]" if "env ''SPANREED_DENY_HOSTS'' = None"
    using split [of denied] that assms(6) by (simp add: Getenv_def)
  then have "env ''SPANREED_DENY_HOSTS'' = None \<longrightarrow> \<not> up_CheckOrigin (wsc_upgrader wsServer) []"
    using setup_front_ends(1) [OF assms(1,2)] by (simp add: handler_origins lists)
  then show ?thesis
    using setup_front_ends(1) [OF assms(1,2)] setup_front_ends(2) [OF assms(1,3)]
    by (auto simp: handler_origins lists flags u isDestinationAllowed_def CreateUdpDestinationHandler_def udp_params_def split: prod.split)
qed

definition sample_environment :: "string \<Rightarrow> string option" where
  "sample_environment = [''SPANREED_WEBSOCKET'' \<mapsto> ''true'', ''SPANREED_WEBTRANSPORT'' \<mapsto> ''true'', ''SPANREED_UDP'' \<mapsto> ''true'',
     ''SPANREED_TLS_CERT_PATH'' \<mapsto> ''c'', ''SPANREED_TLS_KEY_PATH'' \<mapsto> ''k'', ''SPANREED_ALLOW_HOSTS'' \<mapsto> ''a,b'']"

theorem lists_obeyed_witness:
  "\<exists>(h :: nat hub_setup) wsServer. main_setup sample_environment = Some h \<and> hub_websocket h = Some wsServer \<and> up_CheckOrigin (wsc_upgrader wsServer) ''b'' \<and>
     \<not> up_CheckOrigin (wsc_upgrader wsServer) ''c'' \<and> \<not> up_CheckOrigin (wsc_upgrader wsServer) []"
proof -
  have flags: "keyPath (main_flags sample_environment) = ''k''" "certPath (main_flags sample_environment) = ''c''" "useWebsockets (main_flags sample_environment)"
    "useWebtransport (main_flags sample_environment)" "useUdp (main_flags sample_environment)" "bool_flag sample_environment ''SPANREED_ALLOW_ALL_HOSTS'' = False"
    by (simp_all add: main_flags_def sample_environment_def Getenv_def bool_flag_def ParseBool_def)
  have "\<exists>h wsServer wtServer u. main_setup sample_environment = Some h \<and> hub_websocket h = Some wsServer \<and> hub_webtransport h = Some wtServer \<and> hub_udp h = Some u"
    by (simp add: main_setup_def Let_def flags setup_websocket_def setup_webtransport_def setup_udp_def CreateClientMessageHandler_def
        CreateDestinationMessageHandler_def CreateProxy_def)
  then obtain h wsServer wtServer and u :: "nat udpSpanreedDestination"
    where h: "main_setup sample_environment = Some h" "hub_websocket h = Some wsServer" "hub_webtransport h = Some wtServer" "hub_udp h = Some u" by blast
  have env: "Getenv sample_environment ''SPANREED_ALLOW_HOSTS'' = join_comma [''a'', ''b'']" "Getenv sample_environment ''SPANREED_DENY_HOSTS'' = join_comma [[]]"
    "Getenv sample_environment ''SPANREED_ALLOW_DESTINATIONS'' = join_comma [[]]" "Getenv sample_environment ''SPANREED_DENY_DESTINATIONS'' = join_comma [[]]"
    "sample_environment ''SPANREED_DENY_HOSTS'' = None"
    by (simp_all add: sample_environment_def Getenv_def)
  have "\<forall>hosts \<in> {[''a'', ''b''], [[]], [[]], [[]]}. hosts \<noteq> [] \<and> (\<forall>host \<in> set hosts. CHR '','' \<notin> set host)" by simp
  note policy = lists_obeyed [OF h env(1-4) this]
  from policy [of "''b''" "[]"] policy [of "''c''" "[]"] env(5) flags(6) h(1,2) show ?thesis by auto
qed

end
