(* ===== verification/Go_Support.thy ===== *)
theory Go_Support
  imports Prelude
begin

text \<open>
  The small Go packages the proxy uses: the error values of \<open>pkg/errors\<close> with their texts, and the
  random strings of \<open>pkg/util\<close> that name connections in the log.
\<close>

section \<open>Errors\<close>

datatype proxy_error =
    Underflow string int int
  | InvalidEnumValue string "8 word"
  | InvalidHeaderVersion "32 word" "32 word" "8 word" "8 word"
  | MissingFieldError string string
  | NameCollisionError string string
  | ConnectionRefusedByDestination
  | AuthTimeoutError
  | ConnectionTimeoutError

text \<open>\<open>%d\<close>\<close>

definition go_int_string :: "int \<Rightarrow> string" where
  "go_int_string i = (if i < 0 then CHR ''-'' # js_nat_string (nat (- i)) else js_nat_string (nat i))"

fun proxy_error_text :: "proxy_error \<Rightarrow> string" where
  "proxy_error_text (Underflow messageName msgSize minimumSize) =
     ''Message parsing underflowed (type='' @ messageName @ ''), provided '' @ go_int_string msgSize @
     '' bytes, needed at least '' @ go_int_string minimumSize"
| "proxy_error_text (InvalidEnumValue enumName intValue) =
     ''Invalid enum value='' @ js_nat_string (unat intValue) @ '' (enum: '' @ enumName @ '')''"
| "proxy_error_text (InvalidHeaderVersion expectedMagicNumber actualMagicNumber expectedVersion actualVersion) =
     ''Invalid header: expected MagicNumber='' @ js_nat_string (unat expectedMagicNumber) @
     '', got MagicNumber='' @ js_nat_string (unat actualMagicNumber) @
     ''. Expected version '' @ js_nat_string (unat expectedVersion) @ '', got '' @ js_nat_string (unat actualVersion)"
| "proxy_error_text (MissingFieldError messageName fieldName) =
     ''Missing field '' @ fieldName @ '' in message type '' @ messageName"
| "proxy_error_text (NameCollisionError collisionContext name) =
     ''Name collision for name '' @ [CHR 0x27] @ name @ [CHR 0x27] @ '' in context '' @ [CHR 0x27] @ collisionContext @ [CHR 0x27]"
| "proxy_error_text ConnectionRefusedByDestination = ''Connection refused by server''"
| "proxy_error_text AuthTimeoutError = ''Auth timeout''"
| "proxy_error_text ConnectionTimeoutError = ''Connection timed out''"

section \<open>Random strings\<close>

definition letters :: string where
  "letters = ''123456789abcdefghijkmnopqrstuvwxyzABCDEFGHJKLMNPQRSTUVWXYZ''"

text \<open>\<open>intn\<close> stands for the calls of \<open>rand.Intn\<close>, one per letter.\<close>

definition GetRandomString :: "(nat \<Rightarrow> nat \<Rightarrow> nat) \<Rightarrow> nat \<Rightarrow> string" where
  "GetRandomString intn n = map (\<lambda>i. letters ! intn i (length letters)) [0..<n]"

text \<open>
  A random string has the length that was asked for, and none of the characters that are mistaken
  for one another: no zero, no lower-case \<open>l\<close>, no upper-case \<open>I\<close> or \<open>O\<close>. There are 58 to the power of
  its length such strings, and different choices give different strings.
\<close>

lemma letters_length: "length letters = 58" and letters_distinct: "distinct letters"
  by (simp_all add: letters_def)

theorem GetRandomString_readable:
  assumes "\<And>i k. 0 < k \<Longrightarrow> intn i k < k"
  shows "length (GetRandomString intn n) = n \<and> set (GetRandomString intn n) \<subseteq> set letters \<and>
    set (GetRandomString intn n) \<inter> {CHR ''0'', CHR ''l'', CHR ''I'', CHR ''O''} = {} \<and>
    (GetRandomString intn n = GetRandomString intn' n \<longrightarrow> (\<forall>k < n. intn' k 58 < 58) \<longrightarrow> (\<forall>k < n. intn k 58 = intn' k 58))"
proof -
  have "intn i 58 < length letters" for i using assms by (simp add: letters_length)
  then have sub: "set (GetRandomString intn n) \<subseteq> set letters" by (auto simp: GetRandomString_def letters_length)
  moreover have "set letters \<inter> {CHR ''0'', CHR ''l'', CHR ''I'', CHR ''O''} = {}" by (simp add: letters_def)
  moreover have "intn k 58 = intn' k 58" if eq: "GetRandomString intn n = GetRandomString intn' n" and "\<forall>k < n. intn' k 58 < 58" "k < n" for k
  proof -
    have "letters ! intn k 58 = letters ! intn' k 58"
      using eq that(3) by (simp add: GetRandomString_def letters_length)
    then show ?thesis using letters_distinct assms that(2,3) by (simp add: nth_eq_iff_index_eq letters_length)
  qed
  ultimately show ?thesis by (auto simp: GetRandomString_def)
qed

theorem GetRandomString_readable_witness: "length (GetRandomString (\<lambda>i k. i mod k) 6) = 6"
  using GetRandomString_readable [of "\<lambda>i k. i mod k" 6 "\<lambda>i k. 0"] by simp

end
