(* ===== verification/Spec2Isabelle.thy ===== *)
theory Spec2Isabelle
  imports Page_View Canvas Leaving Hub_Threads Router_Lock Hub_Main Go_Support
begin

text \<open>
  Spanreed is a proxy that connects browser games to UDP servers. The repository has three
  programs: the proxy hub in Go (\<open>src/pkg\<close>, \<open>src/internal\<close>, \<open>src/cmd\<close>), a demo game
  server in C++ (\<open>src/examples/hello-spanreed/server\<close>) and a demo browser client in TypeScript
  (\<open>src/examples/hello-spanreed/client/src\<close>), and generated message classes for the three
  languages. A client opens a WebSocket or a WebTransport session to the hub, sends a connection
  request with a destination address and an application message, waits for the verdict, and
  from then on exchanges application messages with the server through the hub. All messages are
  FlatBuffers. In the hub a router connects each client session to the proxy, and a UDP handler
  connects the proxy to the servers.

  \<^bold>\<open>Theories.\<close>

  \<^item> \<open>Prelude\<close>: byte and identifier types, runtime errors, collections of rewrite rules,
    state-monad and list lemmas.
  \<^item> \<open>Flatbuffers\<close>: the \<open>flatbuffers\<close> package is not in the repository, so its \<open>ByteBuffer\<close>
    and \<open>Builder\<close> are records of operations that every definition takes as parameters. The
    locale \<open>flatbuffers\<close> states the documented behaviour the code relies on, on an abstract
    view of what a builder holds.
  \<^item> \<open>Wire_Format\<close>: a byte-level implementation of that contract, and the interpretation
    \<open>wire\<close> of the locale on it; the concrete instances of the round trips run on it.
  \<^item> \<open>Game_Messages\<close>, \<open>Spanreed_Messages\<close>: the generated classes under \<open>gen/\<close>, one definition
    per method (\<open>Class_method\<close>), enumeration or static function.
  \<^item> \<open>Message_Codecs\<close>: what these classes write and read back, proved in the locale.
  \<^item> \<open>Library_Messages\<close>: the classes under \<open>src/flatbuffers/generated/ts\<close>, with the prefix \<open>lib_\<close>,
    and their object interface (\<open>pack\<close>, \<open>unpack\<close>, \<open>unpackTo\<close>).
  \<^item> \<open>Go_Messages\<close>: the readers and builders of \<open>pkg/transport/SpanreedMessage\<close> that the hub calls.
  \<^item> \<open>Server_Messages\<close>: chat and game state as \<open>server/main.cc\<close> composes them, and
    \<open>createVerdictMsg\<close> of \<open>pkg/transport/client_connection_router.go\<close>.
  \<^item> \<open>Log\<close>: \<open>log.ts\<close> and the rows of \<open>Console.tsx\<close>. A log callback is a function on the state it
    logs to.
  \<^item> \<open>Connection\<close>: \<open>Connection.ts\<close>. \<open>connectWebsocket\<close> is a state machine over the events of
    the socket, cut where the source awaits; \<open>connectWebtransport\<close> a function of how its
    promises settle.
  \<^item> \<open>Connection_State\<close>: state and handlers of \<open>ConnectionStateComponent.tsx\<close>, \<open>ChatBox.tsx\<close>,
    \<open>Button.tsx\<close>; the setup form with its pending attempts is the step relation \<open>setup_step\<close>.
  \<^item> \<open>Elements\<close>: element trees with handlers, delivery of events, and the locale \<open>state_part\<close> for
    components that work on a part of the state.
  \<^item> \<open>Widgets\<close>: the trees that the components of \<open>Connection_State\<close> render.
  \<^item> \<open>Demo_Page\<close>: \<open>DemoPage.tsx\<close>. The page is a record of its React state and of the calls it
    made on browser objects; \<open>page_step\<close> lets user, timer and network act in any order, and
    \<open>protocol_run\<close> is the specification of those calls as an automaton.
  \<^item> \<open>Scene\<close>, \<open>WebGL\<close>, \<open>Renderer\<close>: \<open>colors.ts\<close>, \<open>geomtry.ts\<close>, \<open>glutils.ts\<close>,
    \<open>solid.shader.ts\<close>, \<open>DemoRenderer.ts\<close>, \<open>DemoCanvas.tsx\<close>. GL calls are recorded, answers
    come from an environment, and a small machine says what the recorded calls mean for buffer
    contents and vertex attributes.
  \<^item> \<open>Canvas\<close>: the effects of \<open>DemoCanvas.tsx\<close> with their cleanups, and the animation frames
    that run in between.
  \<^item> \<open>Page_View\<close>: the whole rendered page (\<open>DemoPage.tsx\<close>, \<open>Console.tsx\<close>, \<open>DemoCanvas.tsx\<close>,
    \<open>App.tsx\<close>) with the state of its components; \<open>ui_step\<close> is an event on any element, the
    settling of an attempt, or a step of timer and network.
  \<^item> \<open>Client_Store\<close>: \<open>internal/client_store.go\<close>. The locale \<open>client_registry\<close> is what the hub
    relies on, interpreted as \<open>store\<close> on the store's methods.
  \<^item> \<open>Proxy\<close>: \<open>pkg/proxy/proxy.go\<close>, whose proofs use the store through that interpretation;
    \<open>proxy_step\<close> is one handled message, registration or tick of the hub.
  \<^item> \<open>Router\<close>: \<open>pkg/transport/client_connection_router.go\<close>. A route is the phase of a client's
    goroutines and the contents of their channels, with the capacities of the source;
    \<open>router_step\<close> is one \<open>select\<close> with the body of its case, a message of the hub, or an
    action of the transport (\<open>websocket_client.go\<close>).
  \<^item> \<open>Udp_Destination\<close>: \<open>pkg/transport/udp_destination.go\<close>: the address lists, the connections
    by client, the datagrams, and \<open>udp_step\<close> for what the goroutines of \<open>Start\<close> handle.
  \<^item> \<open>Demo_Server\<close>: \<open>server/main.cc\<close>: the handlers of a datagram and the frame of the game loop;
    \<open>server_step\<close> is one of either.
  \<^item> \<open>Front_Ends\<close>: \<open>websocket_client.go\<close> and \<open>webtransport_client.go\<close>: their parameters and
    origin checks, and the two goroutines of a session as the step relation \<open>front_step\<close>, which
    contains the steps of the router.
  \<^item> \<open>Router_Lock\<close>: the router's goroutine with the lock \<open>mut_connections\<close> it holds while a
    handler waits for room in a channel.
  \<^item> \<open>Hub_Threads\<close>: \<open>kickClient\<close> of the hub as a program of single store and channel accesses,
    any number of which are interleaved.
  \<^item> \<open>Leaving\<close>: a client that leaves, from the failed read of its session through router, hub
    and UDP handler to the demo server.
  \<^item> \<open>Hub_Main\<close>: \<open>cmd/spanreed-hub/main.go\<close>: the flags read from the environment, their checks,
    and the hub that is built from them.
  \<^item> \<open>Go_Support\<close>: the error texts of \<open>pkg/errors\<close> and the random strings of \<open>pkg/util\<close>.
  \<^item> this theory: the properties that join components.

  \<^bold>\<open>What is shown.\<close> Round trips: the connection request, clicks, chat lines, the verdict, the
  proxy's datagrams, server chat and game state are read back as what was written. Through the proxy: a
  request of the demo client reaches the demo server through router, hub and UDP handler, the
  server's verdict comes back to the client's handshake, a click becomes a dot of the server's
  world, and the dots of the world come back to the page. The WebSocket handshake returns a
  connection exactly when it is accepted, sends its request at most once and closes the socket
  exactly when it fails after that; both transports agree. Every event on the rendered form is
  one of its handlers, and the rendered page implements the transition system of the page, which
  follows its protocol on every interleaving. The dots of a game state reach the GPU
  byte for byte. The client store stays within its limit, identifiers are fresh for a whole turn
  of the counter, and the hub routes every message of a connected client to its own handlers,
  tells both sides once when a client is kicked and removes exactly the overdue clients. The
  router keeps its channels within their capacities, sends every client the verdict first, and
  never blocks a cancelled wait. The sessions of the front ends use the router only in ways its
  transition system has, a session that is told to close ends, and nothing of a WebSocket
  session stays behind. A client that leaves is forgotten by router, hub, UDP handler and server.
  Kicks of the same client that run at the same time remove it and tell each side at least once.
  The executable starts exactly the handlers its environment asks for, reads numbers within
  their widths, and its lists decide which origins and destinations are accepted. The UDP
  handler sends to allowed addresses only. The canvas has at most one animation frame pending
  and none after it is removed. The frames of the server end and empty its queue, and its
  clients stay bounded. Some theorems record defects: a client whose channel is full stops the
  whole router, the session of a malformed first packet never ends, more than 200 dots throw, a
  late close event drops the next connection, a refused client counts as connected, a short
  connection string panics the proxy, a malformed first packet is never answered, the goroutine of a removed client never stops, a request without
  application data crashes the server.

  \<^bold>\<open>Bounds.\<close> Round trips assume finished buffers below two gigabytes, the limit of the format's
  offsets. No definition uses fuel: every loop of the source is a recursion over the
  list or counter it runs through, the queue loop of the server by the measure of its counter. Client
  identifiers are 32-bit words, the server's clock readings 64-bit words that wrap; timestamps of
  the hub are integers, since microseconds in 64 bits do not overflow. JavaScript numbers are an
  arbitrary type with the rounding of the package, and real numbers in the geometry.

  \<^bold>\<open>What is not modelled.\<close> The second run of effects that \<open>React.StrictMode\<close> adds, and
  scrolling; rendering and running the effects of a new connection is one step, so that events
  which arrive in between do not occur. The hub's own channels have no bound in the model, and of its
  handlers only \<open>kickClient\<close> is interleaved with itself; log output of the hub. The HTTP upgrade,
  the sockets and the name resolution of the Go libraries, and the loading of \<open>.env\<close>: what they
  return is a parameter or a choice of the environment. The sockets, threads and clock of the C++
  server, whose FlatBuffers verifiers are parameters. What the Go runtime and C++ do on bytes that
  are no FlatBuffer is a parameter as well. The generated Go functions that nothing calls, the
  build configuration \<open>webpack.config.js\<close> and the files that only re-export others have no
  definitions.
\<close>

section \<open>From the button to the page\<close>

text \<open>What an accepted WebSocket handshake makes of the click on Connect.\<close>

lemma accepted_click:
  assumes "form_leftSelected s" and "urlError (form_spanUrl s) = None" and "opened_and_accepted_by R events"
  shows "\<exists>l. onClickConnect B R urlError k logCb onOpen events race resp (s, p) =
      (s\<lparr>form_loading := False\<rparr>, onOpen (Some (WebsocketConnection k (form_userName s))) l) \<and>
    ((\<forall>x lv q. h (logCb x lv q) = h q) \<longrightarrow> h l = h p)"
proof -
  define l1 where "l1 = snd (onClickConnect_begin logCb (s, p))"
  define r where "r = connectWebsocket B R urlError k (form_spanUrl s) (form_destUrl s) (form_userName s) logCb l1 events"
  have start: "ws_phase (connectWebsocket_start urlError (form_spanUrl s) (form_userName s) logCb l1) = AwaitOpen"
    "handshake_inv (connect_payload B (form_destUrl s) (form_userName s)) (WebsocketConnection k (form_userName s))
      (connectWebsocket_start urlError (form_spanUrl s) (form_userName s) logCb l1)"
    using assms(2) by (simp_all add: connectWebsocket_start_def handshake_inv_def new_WebSocket_def)
  have phase: "ws_phase r = Returned (WebsocketConnection k (form_userName s))"
    using opening_foldl [OF start(2,1), of R logCb events] assms(3) by (simp add: r_def connectWebsocket_def)
  have result: "attempt_result B R urlError k logCb (captured s) events race resp l1 =
      (Some (Inr (WebsocketConnection k (form_userName s))), ws_logs r)"
    using assms(1) phase by (simp add: attempt_result_def captured_def r_def Let_def)
  have started: "onClickConnect_begin logCb (s, p) = (s\<lparr>form_loading := True\<rparr>, l1)"
    by (simp add: onClickConnect_begin_def l1_def)
  have run: "onClickConnect B R urlError k logCb onOpen events race resp (s, p) =
      (s\<lparr>form_loading := False\<rparr>, onOpen (Some (WebsocketConnection k (form_userName s))) (ws_logs r))"
    unfolding onClickConnect_def using assms(1) by (simp add: started result) (simp add: captured_def)
  have "h (ws_logs r) = h p" if h: "\<forall>x lv q. h (logCb x lv q) = h q"
  proof -
    have "h l1 = h p" using h by (simp add: l1_def onClickConnect_begin_def WrapLogFn_def Let_def)
    then show ?thesis
      using attempt_only_logs [of h logCb B R urlError k "captured s" events race resp l1] h result by simp
  qed
  with run show ?thesis by blast
qed

text \<open>
  C11. The whole path of a connection: on a page without a connection, a click on Connect whose
  WebSocket handshake is accepted makes that socket, under the typed name, the page's
  connection, attaches the page to it and starts its ping timer, in this order and with no
  other call; the page then shows its status and a chat box for that name.
\<close>

theorem connect_click_end_to_end:
  assumes "form_leftSelected s" and "urlError (form_spanUrl s) = None" and "opened_and_accepted_by R events"
    and "page_connection p = None"
    and "onClickConnect B R urlError k LogFn setConnection events race resp (s, p) = (s', p')"
  shows "let c = WebsocketConnection k (form_userName s)
    in page_connection p' = Some c \<and> page_timer p' = Some c \<and>
       page_calls p' = page_calls p @ [CallAttach c, CallSetInterval c 3000] \<and> \<not> form_loading s' \<and>
       DemoPage p' = [DemoCanvasElement (page_dots p),
         ConnectionStateElement (StatusView ''Websocket connection status: open''),
         ChatBoxElement (''Send chat as: '' @ form_userName s), ConsoleElement (Console (page_lines p'))]"
proof -
  let ?c = "WebsocketConnection k (form_userName s)"
  let ?keep = "\<lambda>q. (page_connection q, page_calls q, page_dots q)"
  obtain l where run: "onClickConnect B R urlError k LogFn setConnection events race resp (s, p) =
      (s\<lparr>form_loading := False\<rparr>, setConnection (Some ?c) l)"
    and logs: "?keep l = ?keep p"
    using accepted_click [of s urlError R events B k LogFn setConnection race resp p ?keep, OF assms(1-3)] by auto
  have kept: "page_connection l = None" "page_calls l = page_calls p" "page_dots l = page_dots p"
    using assms(4) logs by simp_all
  have p': "s' = s\<lparr>form_loading := False\<rparr>" "p' = setConnection (Some ?c) l" using assms(5) run by simp_all
  have "page_timer p' = Some ?c" "page_calls p' = page_calls p @ [CallAttach ?c, CallSetInterval ?c 3000]"
    "page_dots p' = page_dots p"
    using kept by (simp_all add: p'(2) setConnection_def page_handler_defs)
  moreover have "page_connection p' = Some ?c" by (simp add: p'(2))
  ultimately show ?thesis
    using p'(1) by (simp add: Let_def DemoPage_def ConnectionStateComponent_def ChatBox_title_def)
qed

theorem connect_click_end_to_end_witness:
  "page_calls (snd (onClickConnect wire_builder wire_reader (\<lambda>_. None) 3 LogFn setConnection
     [WsOpen, WsMessage (createVerdictMsg wire_builder True [] None)] ReadyResolved ReadOther
     (SetupConnection_initial, DemoPage_initial :: f32 page))) =
   [CallAttach (WebsocketConnection 3 ''Sessamekesh''), CallSetInterval (WebsocketConnection 3 ''Sessamekesh'') 3000]"
proof -
  let ?ev = "[WsOpen, WsMessage (createVerdictMsg wire_builder True [] None)]"
  have "opened_and_accepted_by wire_reader ?ev"
    using wire.verdict_read(1) [OF _ refl, of True "[]" None]
    by (simp add: opened_and_accepted_by_def accepted_by_def verdict_of_def wire_verdict_length)
  from connect_click_end_to_end [OF _ _ this _ surjective_pairing, where s = SetupConnection_initial and
      urlError = "\<lambda>_. None" and p = "DemoPage_initial :: f32 page" and B = wire_builder and k = 3 and race = ReadyResolved and resp = ReadOther]
  show ?thesis by (auto simp: SetupConnection_initial_def DemoPage_initial_def Let_def)
qed

text \<open>
  C21. A chat line goes around: the text a server decodes from a client's chat message, composed
  into a server message under that client's name, is shown on every page that receives it as
  one chat line with the name and exactly the text that was typed.
\<close>

theorem chat_goes_around:
  assumes "flatbuffers B R valid mode nodes addr views fround feq"
    and "length (chat_payload B chat) < 2 ^ 31" and "length (server_chat_message B name chat) < 2 ^ 31"
    and "ClientMessage_userMessage R (getRootAsClientMessage R (newByteBuffer R (chat_payload B chat))) = Some t"
    and "UserChatMessage_text R t = Some received"
  shows "page_onmessage R (Some (server_chat_message B name received)) p =
    LogFn (''['' @ name @ '']: '' @ chat) (Some LogUserChat) p"
proof -
  have "received = chat"
    using flatbuffers.chat_payload_read(2) [OF assms(1,2) refl] assms(4,5) by auto
  then show ?thesis
    using flatbuffers.server_chat_read [OF assms(1,3) refl]
    by (auto simp: page_onmessage_def websocket_serverMessage_def Let_def js_nullable_def)
qed

theorem chat_goes_around_witness:
  "\<exists>t received. ClientMessage_userMessage wire_reader (getRootAsClientMessage wire_reader
       (newByteBuffer wire_reader (chat_payload wire_builder ''hi''))) = Some t \<and>
     UserChatMessage_text wire_reader t = Some received \<and>
     page_lines (page_onmessage wire_reader (Some (server_chat_message wire_builder ''Ann'' received)) DemoPage_initial) =
       [\<lparr>line_msg = ''[Ann]: hi'', line_level = LogUserChat\<rparr>]"
proof -
  have "length (server_chat_message wire_builder ''Ann'' ''hi'') < 2 ^ 31"
    by (simp add: server_chat_message_def Let_def msg_defs wire_lengths del: node_bytes.simps)
  moreover obtain t where t: "ClientMessage_userMessage wire_reader (getRootAsClientMessage wire_reader
       (newByteBuffer wire_reader (chat_payload wire_builder ''hi''))) = Some t"
    "UserChatMessage_text wire_reader t = Some ''hi''"
    using wire.chat_payload_read(2) [OF _ refl, of "''hi''"] by (auto simp: wire_payload_lengths)
  ultimately have "page_onmessage wire_reader (Some (server_chat_message wire_builder ''Ann'' ''hi'')) DemoPage_initial =
      LogFn (''['' @ ''Ann'' @ '']: '' @ ''hi'') (Some LogUserChat) DemoPage_initial"
    by (intro chat_goes_around [OF wire.flatbuffers_axioms _ _ t]) (simp_all add: wire_payload_lengths)
  then show ?thesis using t by (intro exI [of _ t] exI [of _ "''hi''"]) (simp add: LogFn_def DemoPage_initial_def)
qed

text \<open>
  The client's handshake with the proxy's own verdict: when the socket opens and the proxy
  answers with the message it composes for a verdict, the client returns the connection if the
  verdict is positive, and otherwise rejects with the proxy's reason, or with a placeholder when
  the proxy gave none.
\<close>

theorem handshake_with_proxy:
  assumes "flatbuffers B R valid mode nodes addr views fround feq"
    and "length (createVerdictMsg B ok reason appData) < 2 ^ 31" and "urlError url = None"
  shows "ws_phase (connectWebsocket B' R urlError k url dest userName logCb l
      [WsOpen, WsMessage (createVerdictMsg B ok reason appData)]) =
    (if ok then Returned (WebsocketConnection k userName)
     else Threw (JsString (''destination rejected connection: '' @ (if reason = [] then ''<unknown reason>'' else reason))))"
  using assms(3) flatbuffers.verdict_read(1,2) [OF assms(1,2) refl]
  by (cases ok; cases "reason = []") (simp_all add: connectWebsocket_def connectWebsocket_start_def new_WebSocket_def
      handshake_defs verdict_of_def rejection_reason_def)

theorem handshake_with_proxy_witness:
  "ws_phase (connectWebsocket wire_builder wire_reader (\<lambda>_. None) 3 ''ws:p'' ''udp:x'' ''Ann'' (\<lambda>m lv l. l) ()
     [WsOpen, WsMessage (createVerdictMsg wire_builder False ''full'' None)]) =
   Threw (JsString ''destination rejected connection: full'')"
  using handshake_with_proxy [OF wire.flatbuffers_axioms, of False "''full''" None "\<lambda>_. None"]
  by (simp add: wire_verdict_length)

section \<open>Through the proxy\<close>



text \<open>
  C3. The way of the verdict back: the datagram of the demo server with its verdict on a client,
  when it arrives for a registered client that waits for its verdict, goes through the UDP
  handler, the hub and the router to the client's session as one packet, and the client that
  reads this packet returns the connection if the server accepted and throws otherwise.
\<close>

theorem verdict_reaches_client:
  assumes fb: "flatbuffers B R valid mode nodes addr views fround feq"
    and datagram: "d = server_verdict_datagram B accepted i" "fault d = NoFault" "length d < 2 ^ 31"
    and udp: "destinationConnections u i = Some a"
    and hub: "hub_reaches config p" "store_view (px_clientStore p) i = Some m"
    and router: "(router_step B R deformed)\<^sup>*\<^sup>* (CreateClientConnectionRouter params) r"
      "connections r i \<noteq> None" "routes r i = Some c" "route_phase c = WaitVerdict" "route_Verdict c = []"
    and client: "urlError url = None" "length (createVerdictMsg B accepted [] None) < 2 ^ 31"
  shows "\<exists>u1 v p1 cc r1 r2 c2 packet.
    udp_onDatagram R fault now1 d u = Some u1 \<and> ud_verdicts u1 = ud_verdicts u @ [v] \<and>
    forwardDestinationVerdict v p = (None, p1) \<and> px_clientChannels p1 (ClientHandlerName m) = Some cc \<and>
    handleIncomingVerdict (last (cc_connectionVerdicts cc)) r = Some r1 \<and>
    run_route B R deformed now2 MainLoop VerdictIn i r1 = Some r2 \<and>
    routes r2 i = Some c2 \<and> outgoingPackets c2 = [Some packet] \<and>
    ws_phase (connectWebsocket B' R urlError k url dest userName logCb l [WsOpen, WsMessage packet]) =
      (if accepted then Returned (WebsocketConnection k userName)
       else Threw (JsString ''destination rejected connection: <unknown reason>''))"
proof -
  define v where "v = \<lparr>verdict_ClientId = i, verdict_Verdict = accepted, verdict_Error = None, verdict_AppData = None\<rparr>"
  let ?packet = "createVerdictMsg B accepted [] None"
  have u1: "udp_onDatagram R fault now1 d u = Some (u\<lparr>ud_verdicts := ud_verdicts u @ [v]\<rparr>)"
    using flatbuffers.verdict_datagram_received [OF fb, of fault accepted i now1 u] datagram udp
    by (simp add: udp_onReceiveVerdict_def v_def)
  have "store_view (px_clientStore p) (verdict_ClientId v) = Some m" using hub(2) by (simp add: v_def)
  from verdict_forwarded [OF hub(1) this] obtain cc p1 where p1: "forwardDestinationVerdict v p = (None, p1)"
      "px_clientChannels p1 (ClientHandlerName m) = Some cc" "last (cc_connectionVerdicts cc) = v" by auto
  have inv: "0 < OutgoingMessageQueueLength (rt_params r)" "channels_ok (rt_params r) c" "packets_ok B c"
    using router_reachable_inv [OF router(1)] router(3) unfolding router_inv_def by auto
  then have free: "outgoingPackets c = []" "proxyCloseChannel c = 0"
    using router(4) by (auto simp: channels_ok_def packets_ok_def)
  have r1: "handleIncomingVerdict v r = Some (r\<lparr>routes := (routes r)(i \<mapsto> c\<lparr>route_Verdict := [v]\<rparr>)\<rparr>)" (is "_ = Some ?r1")
    using router(2,3,5) by (auto simp: handleIncomingVerdict_def v_def)
  have "\<exists>r2 c2. run_route B R deformed now2 MainLoop VerdictIn i ?r1 = Some r2 \<and> routes r2 i = Some c2 \<and>
      outgoingPackets c2 = [Some ?packet]"
    using router(4) inv(1) free by (cases accepted) (simp_all add: run_route_def await_verdict_def v_def Let_def)
  moreover have "ws_phase (connectWebsocket B' R urlError k url dest userName logCb l [WsOpen, WsMessage ?packet]) =
      (if accepted then Returned (WebsocketConnection k userName)
       else Threw (JsString ''destination rejected connection: <unknown reason>''))"
    using client(1) flatbuffers.verdict_read(1,2) [OF fb client(2) refl]
    by (cases accepted) (simp_all add: connectWebsocket_def connectWebsocket_start_def new_WebSocket_def
      handshake_defs verdict_of_def rejection_reason_def)
  ultimately show ?thesis using u1 p1 r1 by fastforce
qed

text \<open>A router whose only client has sent its request and waits for the verdict.\<close>

lemma waiting_router:
  "\<exists>r c. (router_step wire_builder wire_reader (\<lambda>d. False))\<^sup>*\<^sup>* sample_router r \<and> connections r 1 = Some False \<and>
     routes r 1 = Some c \<and> route_phase c = WaitVerdict \<and> route_Verdict c = []"
proof -
  let ?payload = "connect_payload wire_builder ''udp:x'' ''Ann''"
  let ?c = "new_route\<lparr>incomingPackets := [?payload]\<rparr>"
  have "transport_step (TransportPacket ?payload) 16 new_route = Some ?c" by (simp add: transport_step_def new_route_def)
  from with_transport [OF with_new_route this]
  have reach: "(router_step wire_builder wire_reader (\<lambda>d. False))\<^sup>*\<^sup>* sample_router (with_route ?c)" .
  have "safeParseConnectClientMessage wire_reader (\<lambda>d. False) ?payload = Some (''udp:x'', Some (connect_app_data wire_builder ''Ann''))"
    by (rule parsed_request [OF wire.flatbuffers_axioms]) (simp_all add: wire_connect_lengths)
  moreover have "route_phase ?c = WaitAuth" by (simp add: new_route_def)
  ultimately have "\<exists>r. run_route wire_builder wire_reader (\<lambda>d. False) 6 MainLoop PacketIn 1 (with_route ?c) = Some r \<and>
      connections r 1 = Some False \<and> routes r 1 = Some (?c\<lparr>incomingPackets := [], route_phase := WaitVerdict\<rparr>)"
    by (simp add: run_route_def await_auth_def with_route_def)
  then obtain r where r: "run_route wire_builder wire_reader (\<lambda>d. False) 6 MainLoop PacketIn 1 (with_route ?c) = Some r"
      "connections r 1 = Some False" "routes r 1 = Some (?c\<lparr>incomingPackets := [], route_phase := WaitVerdict\<rparr>)"
    by blast
  have "(router_step wire_builder wire_reader (\<lambda>d. False))\<^sup>*\<^sup>* sample_router r"
    using reach router_step.goroutine [OF r(1)] by (rule rtranclp.rtrancl_into_rtrancl)
  then show ?thesis using r(2,3) by (auto simp: new_route_def)
qed

theorem verdict_reaches_client_witness:
  "\<exists>r. (router_step wire_builder wire_reader (\<lambda>d. False))\<^sup>*\<^sup>* sample_router r \<and>
    (\<exists>u1 v p1 cc r1 r2 c2 packet.
      udp_onDatagram wire_reader (\<lambda>d. NoFault) 8 (server_verdict_datagram wire_builder False 1)
        ((CreateUdpDestinationHandler udp_sample_params)\<lparr>destinationConnections := [1 \<mapsto> ''h:1'']\<rparr>) = Some u1 \<and>
      ud_verdicts u1 = [v] \<and> forwardDestinationVerdict v sample_hub = (None, p1) \<and>
      px_clientChannels p1 ''ws'' = Some cc \<and> handleIncomingVerdict (last (cc_connectionVerdicts cc)) r = Some r1 \<and>
      run_route wire_builder wire_reader (\<lambda>d. False) 9 MainLoop VerdictIn 1 r1 = Some r2 \<and>
      routes r2 1 = Some c2 \<and> outgoingPackets c2 = [Some packet] \<and>
      ws_phase (connectWebsocket wire_builder wire_reader (\<lambda>_. None) 3 ''ws:p'' ''udp:x'' ''Ann'' (\<lambda>m lv l. l) ()
        [WsOpen, WsMessage packet]) = Threw (JsString ''destination rejected connection: <unknown reason>''))"
proof -
  obtain r c where r: "(router_step wire_builder wire_reader (\<lambda>d. False))\<^sup>*\<^sup>* sample_router r" "connections r 1 = Some False"
      "routes r 1 = Some c" "route_phase c = WaitVerdict" "route_Verdict c = []" using waiting_router by blast
  then have registered: "connections r 1 \<noteq> None" by simp
  let ?u = "(CreateUdpDestinationHandler udp_sample_params)\<lparr>destinationConnections := [1 \<mapsto> ''h:1'']\<rparr>"
  have u: "destinationConnections ?u 1 = Some ''h:1''" "ud_verdicts ?u = []" by (simp_all add: CreateUdpDestinationHandler_def)
  have small: "length (server_verdict_datagram wire_builder False 1) < 2 ^ 31"
    by (simp add: server_verdict_datagram_def lib_same msg_defs wire_lengths
        lib_DestinationMessage_addMsgType_def del: node_bytes.simps)
  have packet: "length (createVerdictMsg wire_builder False [] None) < 2 ^ 31" by (simp add: wire_verdict_length)
  from verdict_reaches_client [OF wire.flatbuffers_axioms refl _ small u(1) sample_reached(2) sample_view(2)
      r(1) [unfolded sample_router_def] registered r(3-5) _ packet, where fault = "\<lambda>d. NoFault" and ?now1.0 = 8 and ?now2.0 = 9
      and urlError = "\<lambda>_. None" and B' = wire_builder and k = 3 and url = "''ws:p''" and dest = "''udp:x''" and userName = "''Ann''"
      and logCb = "\<lambda>m lv l. l" and l = "()"]
  show ?thesis using r(1) u(2) by (simp add: new_client_def) blast
qed

text \<open>
  C4. A click goes through the proxy: when the packet that the page sends for a click of a connected
  client arrives, the router passes it to the hub, the hub queues it for the client's destination,
  the UDP handler sends one datagram to the address of that destination, the demo server queues the
  message, and its next frame adds one dot at the clicked place, in the colour of that client.
\<close>

theorem click_reaches_world:
  assumes fb: "flatbuffers B R valid mode nodes addr views fround feq" and payload: "payload = click_payload B x y"
    and route: "routes r i = Some c" "route_phase c = Routing outRuns True" "incomingPackets c = payload # rest"
    and hub: "hub_reaches config p" "store_view (px_clientStore p) i = Some m" "DestinationHandlerName m \<noteq> []"
    and udp: "destinationConnections u i = Some a"
    and datagram: "d = client_message_datagram B i (Some payload)" "length d < 2 ^ 31" "length payload < 2 ^ 31"
    and server: "verifyProxy d" "verifyClient payload" "gConnectedClients st i = Some client" "gClientMessageQueue st = []"
  shows "\<exists>r1 msg dc u1 st1 st2.
    run_route B R deformed now1 InLoop PacketIn i r = Some r1 \<and> rt_incoming r1 = rt_incoming r @ [msg] \<and>
    px_destChannels (onClientMessage now2 now3 msg p) (DestinationHandlerName m) = Some dc \<and>
    udp_onClientMessage B (last (dc_outgoingMessages dc)) u = u1 \<and> outgoingMessages u1 = outgoingMessages u @ [(a, d)] \<and>
    handle_recv_message B R verifyProxy verifyClient now4 d src st = Some st1 \<and>
    process_queue B R order radius 0 st1 = Some st2 \<and> gClientMessageQueue st2 = [] \<and>
    world_dots st2 = world_dots st @ [\<lparr>dd_x = (if feq x 0 then 0 else fround x), dd_y = (if feq y 0 then 0 else fround y),
      dd_t = 5, dd_radius = radius 0, dd_color = dot_color client\<rparr>]"
proof -
  define msg where "msg = \<lparr>msg_ClientId = i, msg_RecvTimestamp = now1, msg_RouteTimestamp = 0, msg_Data = Some payload\<rparr>"
  have r1: "\<exists>r1. run_route B R deformed now1 InLoop PacketIn i r = Some r1 \<and> rt_incoming r1 = rt_incoming r @ [msg]"
    using route by (cases outRuns) (simp_all add: run_route_def route_in_def msg_def)
  have view: "store_view (px_clientStore p) (msg_ClientId msg) = Some m" using hub(2) by (simp add: msg_def)
  from messages_forwarded [OF hub(1) view hub(3), of now2]
  obtain dc where dc: "px_destChannels (onClientMessage now2 now3 msg p) (DestinationHandlerName m) = Some dc"
      "last (dc_outgoingMessages dc) = msg\<lparr>msg_RouteTimestamp := now2\<rparr>"
    by (auto simp: onClientMessage_def msg_def)
  have u1: "outgoingMessages (udp_onClientMessage B (last (dc_outgoingMessages dc)) u) = outgoingMessages u @ [(a, d)]"
    using udp by (simp add: dc(2) udp_onClientMessage_def msg_def datagram(1))
  let ?st = "st\<lparr>gClientMessageQueue := [(i, payload)]\<rparr>"
  have st1: "handle_recv_message B R verifyProxy verifyClient now4 d src st = Some ?st"
    using server_queues [where verifyProxy = verifyProxy and verifyClient = verifyClient, OF fb datagram(1,2) server(1-3)] server(4) by simp
  obtain t where t: "user_message_as_UserClickMessage R (getRootAsClientMessage R (newByteBuffer R payload)) = Some t"
      "UserClickMessage_x R t = (if feq x 0 then 0 else fround x)" "UserClickMessage_y R t = (if feq y 0 then 0 else fround y)"
    using flatbuffers.click_payload_read [OF fb _ refl, of x y] datagram(3) payload by (auto simp: user_message_as_UserClickMessage_def)
  let ?dot = "\<lparr>dd_x = (if feq x 0 then 0 else fround x), dd_y = (if feq y 0 then 0 else fround y),
      dd_t = 5, dd_radius = radius 0, dd_color = dot_color client\<rparr>"
  have "process_message B R order (radius 0) (i, payload) (?st\<lparr>gClientMessageQueue := []\<rparr>) =
      Some (st\<lparr>gClientMessageQueue := [], world_dots := world_dots st @ [?dot]\<rparr>)"
    using server(3) by (simp add: process_message_def t)
  then have "process_queue B R order radius 0 ?st = Some (st\<lparr>gClientMessageQueue := [], world_dots := world_dots st @ [?dot]\<rparr>)"
    by (simp add: process_queue.simps [of B R order radius 0] process_queue.simps [of B R order radius "Suc 0"])
  with r1 dc(1) u1 st1 show ?thesis by auto
qed

theorem click_reaches_world_witness:
  "\<exists>r1 msg dc st1 st2.
    run_route wire_builder wire_reader (\<lambda>d. False) 8 InLoop PacketIn 1 (with_route (new_route\<lparr>route_phase := Routing True True,
      incomingPackets := [click_payload wire_builder 7 0]\<rparr>)) = Some r1 \<and> rt_incoming r1 = [msg] \<and>
    px_destChannels (onClientMessage 9 9 msg sample_hub) ''udp'' = Some dc \<and>
    outgoingMessages (udp_onClientMessage wire_builder (last (dc_outgoingMessages dc))
      ((CreateUdpDestinationHandler udp_sample_params)\<lparr>destinationConnections := [1 \<mapsto> ''h:1'']\<rparr>)) =
      [(''h:1'', client_message_datagram wire_builder 1 (Some (click_payload wire_builder 7 0)))] \<and>
    handle_recv_message wire_builder wire_reader (\<lambda>d. True) (\<lambda>d. True) 9
      (client_message_datagram wire_builder 1 (Some (click_payload wire_builder 7 0))) (3 :: nat)
      (demo_server_initial\<lparr>gConnectedClients := [1 \<mapsto> \<lparr>spanreed_client_addr = 3, spanreed_client_id = 1, last_send_time = 0,
        last_rotate_colors_time = 0, client_name = ''Ann'', dot_color = Color_Green\<rparr>]\<rparr>) = Some st1 \<and>
    process_queue wire_builder wire_reader [1] (\<lambda>n. 20) 0 st1 = Some st2 \<and>
    world_dots st2 = [\<lparr>dd_x = 7, dd_y = 0, dd_t = 5, dd_radius = 20, dd_color = Color_Green\<rparr>]"
proof -
  let ?payload = "click_payload wire_builder (7 :: f32) 0"
  let ?c = "new_route\<lparr>route_phase := Routing True True, incomingPackets := [?payload]\<rparr>"
  let ?u = "(CreateUdpDestinationHandler udp_sample_params)\<lparr>destinationConnections := [1 \<mapsto> ''h:1'']\<rparr>"
  let ?client = "\<lparr>spanreed_client_addr = 3 :: nat, spanreed_client_id = 1, last_send_time = 0, last_rotate_colors_time = 0,
    client_name = ''Ann'', dot_color = Color_Green\<rparr>"
  let ?st = "(demo_server_initial :: (nat, f32) demo_server)\<lparr>gConnectedClients := [1 \<mapsto> ?client]\<rparr>"
  have route: "routes (with_route ?c) 1 = Some ?c" "route_phase ?c = Routing True True" "incomingPackets ?c = ?payload # []"
    "rt_incoming (with_route ?c) = []"
    by (simp_all add: with_route_def sample_router_def CreateClientConnectionRouter_def)
  have hub: "DestinationHandlerName ((new_client ''ws'' 5)\<lparr>DestinationHandlerName := ''udp''\<rparr>) \<noteq> []" by simp
  have u: "destinationConnections ?u 1 = Some ''h:1''" "outgoingMessages ?u = []" by (simp_all add: CreateUdpDestinationHandler_def)
  have small: "length (client_message_datagram wire_builder 1 (Some ?payload)) < 2 ^ 31" "length ?payload < 2 ^ 31"
    using wire_message_datagram_lengths(1) [of 1 ?payload] by (simp_all add: wire_payload_lengths)
  have st: "gConnectedClients ?st 1 = Some ?client" "gClientMessageQueue ?st = []" "world_dots ?st = []"
    by (simp_all add: demo_server_initial_def)
  from click_reaches_world [where verifyProxy = "\<lambda>d. True" and verifyClient = "\<lambda>d. True", OF wire.flatbuffers_axioms refl route(1-3)
      sample_reached(2) sample_view(2) hub u(1) refl small _ _ st(1,2), of "\<lambda>d. False" 8 9 9 9 3 "[1]" "\<lambda>n. 20"]
  show ?thesis using route(4) u(2) st(3) by (simp add: new_client_def) blast
qed



end
